(* ===== verification/GoStrings.thy ===== *)
theory GoStrings imports
  Prelude
begin

text \<open>
  The routines of Go's packages \<open>strings\<close>, \<open>strconv\<close> and \<open>unicode\<close> that the program calls, on
  byte strings: \<open>Split\<close>, \<open>Cut\<close>, \<open>TrimSpace\<close>, \<open>TrimRight\<close>, \<open>ToLower\<close>, \<open>Itoa\<close>, \<open>ParseBool\<close>,
  \<open>ParseInt\<close>; byte classes; and the lemmas on splitting a string at a separator.
\<close>

section \<open>Byte classes\<close>

definition is_digit :: "char \<Rightarrow> bool" where
  "is_digit c \<longleftrightarrow> CHR ''0'' \<le> c \<and> c \<le> CHR ''9''"

definition is_upper :: "char \<Rightarrow> bool" where
  "is_upper c \<longleftrightarrow> CHR ''A'' \<le> c \<and> c \<le> CHR ''Z''"

definition is_lower :: "char \<Rightarrow> bool" where
  "is_lower c \<longleftrightarrow> CHR ''a'' \<le> c \<and> c \<le> CHR ''z''"

definition is_alnum :: "char \<Rightarrow> bool" where
  "is_alnum c \<longleftrightarrow> is_digit c \<or> is_upper c \<or> is_lower c"

abbreviation byte :: "char \<Rightarrow> nat" where "byte c \<equiv> of_char c"
abbreviation chr :: "nat \<Rightarrow> char" where "chr n \<equiv> char_of n"

lemma byte_chr: "n < 256 \<Longrightarrow> byte (chr n) = n"
  by simp

lemma chr_eq_iff: "n < 256 \<Longrightarrow> chr n = c \<longleftrightarrow> n = byte c"
  by (metis byte_chr char_of_char)

lemma is_digit_byte: "is_digit c \<longleftrightarrow> 48 \<le> byte c \<and> byte c \<le> 57"
  by (simp add: is_digit_def less_eq_char_def)

lemma is_upper_byte: "is_upper c \<longleftrightarrow> 65 \<le> byte c \<and> byte c \<le> 90"
  by (simp add: is_upper_def less_eq_char_def)

lemma is_lower_byte: "is_lower c \<longleftrightarrow> 97 \<le> byte c \<and> byte c \<le> 122"
  by (simp add: is_lower_def less_eq_char_def)

lemmas byte_class = is_digit_byte is_upper_byte is_lower_byte is_alnum_def

definition lower_byte :: "char \<Rightarrow> char" where
  "lower_byte c = (if is_upper c then chr (byte c + 32) else c)"

definition to_lower :: "string \<Rightarrow> string" where
  "to_lower s = map lower_byte s"

section \<open>Splitting at a separator\<close>

text \<open>\<open>strings.Split(s, sep)\<close> for a one-byte separator; the result is never empty.\<close>

fun split_on :: "char \<Rightarrow> string \<Rightarrow> string list" where
  "split_on c [] = [[]]"
| "split_on c (x # xs) =
     (if x = c then [] # split_on c xs
      else (case split_on c xs of [] \<Rightarrow> [[x]] | y # ys \<Rightarrow> (x # y) # ys))"

fun join_with :: "char \<Rightarrow> string list \<Rightarrow> string" where
  "join_with c [] = []"
| "join_with c [x] = x"
| "join_with c (x # y # ys) = x @ c # join_with c (y # ys)"

lemma split_on_not_Nil [simp]: "split_on c s \<noteq> []"
  by (induction s) (auto split: list.splits)

lemma split_on_absent: "c \<notin> set s \<Longrightarrow> split_on c s = [s]"
  by (induction s) auto

lemma split_on_append: "c \<notin> set a \<Longrightarrow> split_on c (a @ c # b) = a # split_on c b"
  by (induction a) auto

lemma join_split: "join_with c (split_on c s) = s"
proof (induction s)
  case (Cons x s)
  then show ?case
    by (cases "split_on c s"; cases "tl (split_on c s)") (auto split: list.splits)
qed simp

lemma split_join:
  "xs \<noteq> [] \<Longrightarrow> (\<And>x. x \<in> set xs \<Longrightarrow> c \<notin> set x) \<Longrightarrow> split_on c (join_with c xs) = xs"
  by (induction xs rule: join_with.induct) (auto simp: split_on_absent split_on_append)

lemma split_on_pieces: "p \<in> set (split_on c s) \<Longrightarrow> c \<notin> set p"
  by (induction s arbitrary: p) (auto split: list.splits if_splits)

lemma length_split_on: "length (split_on c s) = Suc (count_list s c)"
  by (induction s) (auto split: list.splits simp: neq_Nil_conv)

text \<open>\<open>strings.Cut(s, sep)\<close>: the parts around the first separator, and whether there is one.\<close>

definition cut :: "char \<Rightarrow> string \<Rightarrow> string \<times> string \<times> bool" where
  "cut c s = (takeWhile (\<lambda>x. x \<noteq> c) s, drop 1 (dropWhile (\<lambda>x. x \<noteq> c) s), c \<in> set s)"

lemma cut_absent:
  assumes "c \<notin> set s"
  shows "cut c s = (s, [], False)"
proof -
  from assms have "takeWhile (\<lambda>x. x \<noteq> c) s = s" "dropWhile (\<lambda>x. x \<noteq> c) s = []"
    by (auto intro: takeWhile_all dropWhile_none)
  then show ?thesis
    unfolding cut_def using assms by (simp only:) simp
qed

lemma cut_append: "c \<notin> set a \<Longrightarrow> cut c (a @ c # b) = (a, b, True)"
  by (simp add: cut_def takeWhile_neq_append dropWhile_neq_append)

lemma cut_parts:
  "cut c s = (a, b, True) \<Longrightarrow> s = a @ c # b \<and> c \<notin> set a"
  "cut c s = (a, b, False) \<Longrightarrow> s = a \<and> b = [] \<and> c \<notin> set s"
proof -
  assume "cut c s = (a, b, True)"
  then have "c \<in> set s" "a = takeWhile (\<lambda>x. x \<noteq> c) s" "b = drop 1 (dropWhile (\<lambda>x. x \<noteq> c) s)"
    by (auto simp: cut_def)
  then show "s = a @ c # b \<and> c \<notin> set a"
    by (induction s arbitrary: a) (auto dest: set_takeWhileD)
next
  assume "cut c s = (a, b, False)"
  then show "s = a \<and> b = [] \<and> c \<notin> set s"
    using cut_absent [of c s] by (auto simp: cut_def)
qed

lemma cut_length: "cut c s = (a, b, f) \<Longrightarrow> length b \<le> length s - (if f then 1 else 0)"
  by (cases f) (auto dest: cut_parts)

section \<open>Trimming\<close>

text \<open>
  \<open>strings.TrimSpace\<close> removes every rune that \<open>unicode.IsSpace\<close> accepts from both ends. Their
  UTF-8 encodings are listed; a string starts (ends) with such a rune exactly when it starts
  (ends) with its encoding, since valid encodings are self-delimiting.
\<close>

definition space_runes :: "string list" where
  "space_runes =
     [[CHR 0x09], [CHR 0x0A], [CHR 0x0B], [CHR 0x0C], [CHR 0x0D], [CHR 0x20],
      [CHR 0xC2, CHR 0x85], [CHR 0xC2, CHR 0xA0], [CHR 0xE1, CHR 0x9A, CHR 0x80],
      [CHR 0xE2, CHR 0x80, CHR 0x80], [CHR 0xE2, CHR 0x80, CHR 0x81],
      [CHR 0xE2, CHR 0x80, CHR 0x82], [CHR 0xE2, CHR 0x80, CHR 0x83],
      [CHR 0xE2, CHR 0x80, CHR 0x84], [CHR 0xE2, CHR 0x80, CHR 0x85],
      [CHR 0xE2, CHR 0x80, CHR 0x86], [CHR 0xE2, CHR 0x80, CHR 0x87],
      [CHR 0xE2, CHR 0x80, CHR 0x88], [CHR 0xE2, CHR 0x80, CHR 0x89],
      [CHR 0xE2, CHR 0x80, CHR 0x8A], [CHR 0xE2, CHR 0x80, CHR 0xA8],
      [CHR 0xE2, CHR 0x80, CHR 0xA9], [CHR 0xE2, CHR 0x80, CHR 0xAF],
      [CHR 0xE2, CHR 0x81, CHR 0x9F], [CHR 0xE3, CHR 0x80, CHR 0x80]]"

text \<open>\<open>strip_front ps s\<close> drops members of \<open>ps\<close> from the front as long as one is a prefix.\<close>

definition strip_one :: "string list \<Rightarrow> string \<Rightarrow> string option" where
  "strip_one ps s = (case find (\<lambda>p. p \<noteq> [] \<and> prefix p s) ps of
     None \<Rightarrow> None | Some p \<Rightarrow> Some (drop (length p) s))"

lemma strip_one_shorter: "strip_one ps s = Some t \<Longrightarrow> length t < length s"
  by (auto simp: strip_one_def find_Some_iff prefix_def split: option.splits)

function strip_front :: "string list \<Rightarrow> string \<Rightarrow> string" where
  "strip_front ps s = (case strip_one ps s of None \<Rightarrow> s | Some t \<Rightarrow> strip_front ps t)"
  by pat_completeness auto
termination
  by (relation "measure (\<lambda>(ps, s). length s)") (auto dest: strip_one_shorter)

declare strip_front.simps [simp del]

definition trim_space :: "string \<Rightarrow> string" where
  "trim_space s =
     rev (strip_front (map rev space_runes) (rev (strip_front space_runes s)))"

text \<open>\<open>strings.TrimRight(s, c)\<close> for one ASCII byte.\<close>

definition trim_right :: "char \<Rightarrow> string \<Rightarrow> string" where
  "trim_right c s = rev (dropWhile (\<lambda>x. x = c) (rev s))"

lemma strip_front_stuck: "strip_one ps (strip_front ps s) = None"
  by (induction ps s rule: strip_front.induct)
     (subst strip_front.simps, auto split: option.splits)

lemma strip_front_none: "strip_one ps s = None \<Longrightarrow> strip_front ps s = s"
  by (subst strip_front.simps) simp

lemma strip_front_suffix: "suffix (strip_front ps s) s"
proof (induction ps s rule: strip_front.induct)
  case (1 ps s)
  show ?case
  proof (cases "strip_one ps s")
    case None
    then show ?thesis by (simp add: strip_front_none)
  next
    case (Some t)
    then have "suffix t s"
      by (auto simp: strip_one_def suffix_drop split: option.splits)
    with Some 1 show ?thesis
      by (subst strip_front.simps) (auto intro: suffix_order.trans)
  qed
qed

lemma set_strip_front: "set (strip_front ps s) \<subseteq> set s"
  by (rule set_mono_suffix [OF strip_front_suffix])

lemma set_trim_space: "set (trim_space s) \<subseteq> set s"
  using set_strip_front [of space_runes s]
    set_strip_front [of "map rev space_runes" "rev (strip_front space_runes s)"]
  by (auto simp: trim_space_def)

lemma trim_space_Nil [simp]: "trim_space [] = []"
  using set_trim_space [of "[]"] by simp

lemma trim_right_last: "trim_right c s \<noteq> [] \<Longrightarrow> last (trim_right c s) \<noteq> c"
  by (metis (mono_tags, lifting) hd_dropWhile last_rev rev_is_Nil_conv trim_right_def)

section \<open>Numbers\<close>

text \<open>Numbers are integers, not naturals, so that large values stay cheap to evaluate.\<close>

definition digit_char :: "int \<Rightarrow> char" where
  "digit_char d = char_of (48 + d)"

definition digit_value :: "char \<Rightarrow> int" where
  "digit_value c = of_char c - 48"

lemma byte_char_of_int: "byte (char_of (i :: int)) = nat (i mod 256)"
proof -
  have "int (byte (char_of i)) = of_char (char_of i)"
    by (simp add: of_nat_of_char)
  also have "\<dots> = i mod 256" by simp
  finally show ?thesis by simp
qed

lemma digit_char_digit: "0 \<le> d \<Longrightarrow> d < 10 \<Longrightarrow> is_digit (digit_char d)"
  by (auto simp: digit_char_def is_digit_byte byte_char_of_int)

lemma digit_value_char [simp]: "0 \<le> d \<Longrightarrow> d < 10 \<Longrightarrow> digit_value (digit_char d) = d"
  by (simp add: digit_char_def digit_value_def)

text \<open>\<open>itoa\<close> prints a natural number; \<open>itoa_int\<close> is \<open>strconv.Itoa\<close>, with the sign in front.\<close>

function itoa :: "int \<Rightarrow> string" where
  "itoa n = (if n < 10 then [digit_char n] else itoa (n div 10) @ [digit_char (n mod 10)])"
  by pat_completeness auto
termination
  by (relation "measure nat") auto

declare itoa.simps [simp del]

definition itoa_int :: "int \<Rightarrow> string" where
  "itoa_int i = (if i < 0 then CHR ''-'' # itoa (- i) else itoa i)"

definition digits_value :: "string \<Rightarrow> int" where
  "digits_value s = foldl (\<lambda>n c. 10 * n + digit_value c) 0 s"

lemma digits_value_itoa [simp, roundtrip]: "0 \<le> n \<Longrightarrow> digits_value (itoa n) = n"
proof (induction n rule: itoa.induct)
  case (1 n)
  then show ?case
    by (subst itoa.simps) (auto simp: digits_value_def)
qed

lemma itoa_digits [charset]: "0 \<le> n \<Longrightarrow> list_all is_digit (itoa n)"
proof (induction n rule: itoa.induct)
  case (1 n)
  then show ?case
    by (subst itoa.simps) (auto simp: digit_char_digit)
qed

lemma itoa_not_Nil [simp]: "itoa n \<noteq> []"
  by (subst itoa.simps) simp

lemma itoa_hd: "0 < n \<Longrightarrow> hd (itoa n) \<noteq> CHR ''0''"
proof (induction n rule: itoa.induct)
  case (1 n)
  have "digit_char n \<noteq> CHR ''0''" if "n < 10" "0 < n" for n
    using that digit_value_char [of n] by (auto simp: digit_value_def)
  with 1 show ?case
    by (subst itoa.simps) (auto simp: hd_append)
qed

lemma length_itoa: "0 \<le> n \<Longrightarrow> n < 10 ^ Suc k \<Longrightarrow> length (itoa n) \<le> Suc k"
proof (induction k arbitrary: n)
  case 0
  then show ?case by (subst itoa.simps) simp
next
  case (Suc k)
  have "n div 10 < 10 ^ Suc k"
    using Suc.prems by (simp add: int_div_less_self div_less_iff_less_mult)
  with Suc.prems Suc.IH [of "n div 10"] show ?case
    by (subst itoa.simps) simp
qed

abbreviation int64_ok :: "int \<Rightarrow> bool" where
  "int64_ok i \<equiv> - (2 ^ 63) \<le> i \<and> i < 2 ^ 63"

text \<open>\<open>strconv.ParseInt(s, 10, 64)\<close>: optional sign, at least one digit, in range.\<close>

definition parse_int64 :: "string \<Rightarrow> int option" where
  "parse_int64 s =
     (let neg = (s \<noteq> [] \<and> hd s = CHR ''-'');
          ds = (if s \<noteq> [] \<and> (hd s = CHR ''-'' \<or> hd s = CHR ''+'') then tl s else s);
          v = (if neg then - digits_value ds else digits_value ds)
      in if ds \<noteq> [] \<and> list_all is_digit ds \<and> int64_ok v then Some v else None)"

lemma not_digit_sign: "\<not> is_digit CHR ''-''" "\<not> is_digit CHR ''+''"
  by (simp_all add: is_digit_byte)

lemma parse_int64_itoa [roundtrip]: "int64_ok i \<Longrightarrow> parse_int64 (itoa_int i) = Some i"
proof -
  assume i: "int64_ok i"
  have "hd (itoa n) \<noteq> CHR ''-'' \<and> hd (itoa n) \<noteq> CHR ''+''" if "0 \<le> n" for n
    using itoa_digits [OF that] not_digit_sign
    by (cases "itoa n") (auto simp: list_all_iff)
  with i show ?thesis
    by (auto simp: parse_int64_def itoa_int_def itoa_digits Let_def)
qed

text \<open>\<open>strconv.ParseBool\<close>.\<close>

definition parse_bool :: "string \<Rightarrow> bool option" where
  "parse_bool s =
     (if s \<in> {''1'', ''t'', ''T'', ''TRUE'', ''true'', ''True''} then Some True
      else if s \<in> {''0'', ''f'', ''F'', ''FALSE'', ''false'', ''False''} then Some False
      else None)"

end
