(* ===== verification/Encoding.thy ===== *)
theory Encoding imports
  GoStrings
begin

text \<open>
  The byte-to-text encodings of the program: \<open>encoding/base64\<close> (the raw URL-safe and the padded
  standard alphabet) and \<open>encoding/hex\<close>. Both decoders are Go's: base64 skips carriage returns
  and line feeds anywhere and ignores the unused low bits of the last digit, hex accepts both
  cases. The interface \<open>text_codec\<close> states what the envelope format relies on.
\<close>

section \<open>The interface of a text encoding\<close>

text \<open>
  A text codec decodes what it encodes, and its output stays inside an alphabet. The envelope
  format splits at a separator outside the alphabet, so encoded fields can be joined and split
  again.
\<close>

locale text_codec =
  fixes enc :: "string \<Rightarrow> string"
    and dec :: "string \<Rightarrow> string option"
    and alphabet :: "char \<Rightarrow> bool"
  assumes dec_enc: "dec (enc s) = Some s"
    and enc_alphabet: "list_all alphabet (enc s)"
begin

lemma enc_inject: "enc s = enc t \<longleftrightarrow> s = t"
  using dec_enc by (metis option.inject)

lemma enc_avoids: "\<not> alphabet c \<Longrightarrow> c \<notin> set (enc s)"
  using enc_alphabet by (rule list_all_charset)

lemma split_encoded:
  "\<not> alphabet c \<Longrightarrow> c \<notin> set k \<Longrightarrow>
   split_on c (k @ c # enc s @ c # enc t) = [k, enc s, enc t]"
  by (simp add: split_on_append split_on_absent enc_avoids)

end

section \<open>Base64\<close>

definition b64_char :: "char \<Rightarrow> char \<Rightarrow> nat \<Rightarrow> char" where
  "b64_char c62 c63 v =
     (if v < 26 then chr (65 + v) else if v < 52 then chr (71 + v)
      else if v < 62 then chr (v - 4) else if v = 62 then c62 else c63)"

definition b64_value :: "char \<Rightarrow> char \<Rightarrow> char \<Rightarrow> nat option" where
  "b64_value c62 c63 c =
     (if is_upper c then Some (byte c - 65) else if is_lower c then Some (byte c - 71)
      else if is_digit c then Some (byte c + 4)
      else if c = c62 then Some 62 else if c = c63 then Some 63 else None)"

fun b64_digits :: "nat list \<Rightarrow> nat list" where
  "b64_digits [] = []"
| "b64_digits [a] = [a div 4, (a mod 4) * 16]"
| "b64_digits [a, b] = [a div 4, (a mod 4) * 16 + b div 16, (b mod 16) * 4]"
| "b64_digits (a # b # c # r) =
     a div 4 # ((a mod 4) * 16 + b div 16) # ((b mod 16) * 4 + c div 64) # c mod 64 # b64_digits r"

fun b64_bytes :: "nat list \<Rightarrow> nat list option" where
  "b64_bytes [] = Some []"
| "b64_bytes [u] = None"
| "b64_bytes [u, v] = Some [u * 4 + v div 16]"
| "b64_bytes [u, v, w] = Some [u * 4 + v div 16, (v mod 16) * 16 + w div 4]"
| "b64_bytes (u # v # w # x # r) =
     (case b64_bytes r of None \<Rightarrow> None
      | Some bs \<Rightarrow> Some ((u * 4 + v div 16) # ((v mod 16) * 16 + w div 4) # ((w mod 4) * 64 + x) # bs))"

text \<open>\<open>mapM\<close> of the option monad: all elements or nothing.\<close>

fun those_map :: "('a \<Rightarrow> 'b option) \<Rightarrow> 'a list \<Rightarrow> 'b list option" where
  "those_map f [] = Some []"
| "those_map f (x # xs) =
     (case f x of None \<Rightarrow> None | Some y \<Rightarrow> map_option ((#) y) (those_map f xs))"

lemma those_map_map: "(\<And>x. x \<in> set xs \<Longrightarrow> f (g x) = Some x) \<Longrightarrow> those_map f (map g xs) = Some xs"
  by (induction xs) auto

definition b64_encode :: "char \<Rightarrow> char \<Rightarrow> string \<Rightarrow> string" where
  "b64_encode c62 c63 s = map (b64_char c62 c63) (b64_digits (map byte s))"

definition b64_decode :: "char \<Rightarrow> char \<Rightarrow> string \<Rightarrow> string option" where
  "b64_decode c62 c63 s =
     (case those_map (b64_value c62 c63) s of None \<Rightarrow> None
      | Some ds \<Rightarrow> map_option (map chr) (b64_bytes ds))"

definition strip_newlines :: "string \<Rightarrow> string" where
  "strip_newlines s = filter (\<lambda>c. c \<noteq> CHR 0x0D \<and> c \<noteq> CHR 0x0A) s"

text \<open>\<open>base64.RawURLEncoding\<close>.\<close>

definition rawurl_encode :: "string \<Rightarrow> string" where
  "rawurl_encode = b64_encode CHR ''-'' CHR ''_''"

definition rawurl_decode :: "string \<Rightarrow> string option" where
  "rawurl_decode s = b64_decode CHR ''-'' CHR ''_'' (strip_newlines s)"

text \<open>\<open>base64.StdEncoding\<close>: padded with \<open>=\<close> to a multiple of four digits.\<close>

definition b64_pad :: "string \<Rightarrow> string" where
  "b64_pad s = s @ replicate ((4 - length s mod 4) mod 4) CHR ''=''"

definition std_encode :: "string \<Rightarrow> string" where
  "std_encode s = b64_pad (b64_encode CHR ''+'' CHR ''/'' s)"

definition std_unpad :: "string \<Rightarrow> string option" where
  "std_unpad s =
     (if length s mod 4 \<noteq> 0 then None
      else if suffix ''=='' s then Some (take (length s - 2) s)
      else if suffix ''='' s then Some (take (length s - 1) s)
      else Some s)"

definition std_decode :: "string \<Rightarrow> string option" where
  "std_decode s =
     (case std_unpad (strip_newlines s) of None \<Rightarrow> None
      | Some t \<Rightarrow> b64_decode CHR ''+'' CHR ''/'' t)"

subsection \<open>Digits\<close>

lemma b64_bytes_digits: "list_all (\<lambda>b. b < 256) bs \<Longrightarrow> b64_bytes (b64_digits bs) = Some bs"
  by (induction bs rule: b64_digits.induct) auto

lemma b64_digits_bound: "list_all (\<lambda>b. b < 256) bs \<Longrightarrow> list_all (\<lambda>d. d < 64) (b64_digits bs)"
  by (induction bs rule: b64_digits.induct) auto

lemma length_b64_digits: "length (b64_digits bs) = (length bs * 4 + 2) div 3"
  by (induction bs rule: b64_digits.induct) auto

definition b64_alphabet :: "char \<Rightarrow> char \<Rightarrow> char \<Rightarrow> bool" where
  "b64_alphabet c62 c63 c \<longleftrightarrow> is_alnum c \<or> c = c62 \<or> c = c63"

lemma b64_char_alphabet: "b64_alphabet c62 c63 (b64_char c62 c63 v)"
  by (auto simp: b64_alphabet_def b64_char_def byte_class)

lemma b64_value_char:
  "v < 64 \<Longrightarrow> \<not> is_alnum c62 \<Longrightarrow> \<not> is_alnum c63 \<Longrightarrow> c62 \<noteq> c63 \<Longrightarrow>
   b64_value c62 c63 (b64_char c62 c63 v) = Some v"
  by (auto simp: b64_value_def b64_char_def byte_class)

lemma bytes_bound: "list_all (\<lambda>b. b < 256) (map byte s)"
  by (simp add: list_all_iff)

lemma b64_decode_encode:
  assumes "\<not> is_alnum c62" "\<not> is_alnum c63" "c62 \<noteq> c63"
  shows "b64_decode c62 c63 (b64_encode c62 c63 s) = Some s"
proof -
  have "those_map (b64_value c62 c63) (b64_encode c62 c63 s) = Some (b64_digits (map byte s))"
    using b64_digits_bound [OF bytes_bound, of s] assms
    by (auto simp: b64_encode_def list_all_iff intro!: those_map_map b64_value_char)
  then show ?thesis
    by (simp add: b64_decode_def b64_bytes_digits [OF bytes_bound] comp_def)
qed

lemma b64_encode_alphabet: "list_all (b64_alphabet c62 c63) (b64_encode c62 c63 s)"
  by (simp add: b64_encode_def list_all_iff b64_char_alphabet)

lemma strip_newlines_id:
  "list_all (b64_alphabet c62 c63) s \<Longrightarrow> byte c62 > 13 \<Longrightarrow> byte c63 > 13 \<Longrightarrow> strip_newlines s = s"
  by (induction s) (auto simp: strip_newlines_def b64_alphabet_def byte_class)

subsection \<open>The two alphabets are codecs\<close>

abbreviation rawurl_alphabet :: "char \<Rightarrow> bool" where
  "rawurl_alphabet \<equiv> b64_alphabet CHR ''-'' CHR ''_''"

interpretation rawurl: text_codec rawurl_encode rawurl_decode rawurl_alphabet
proof
  fix s
  have "list_all rawurl_alphabet (rawurl_encode s)"
    by (simp add: rawurl_encode_def b64_encode_alphabet)
  then show "list_all rawurl_alphabet (rawurl_encode s)"
    "rawurl_decode (rawurl_encode s) = Some s"
    using strip_newlines_id [of "CHR ''-''" "CHR ''_''" "rawurl_encode s"]
    by (simp_all add: rawurl_decode_def rawurl_encode_def b64_decode_encode byte_class)
qed

lemma length_rawurl: "length (rawurl_encode s) = (length s * 4 + 2) div 3"
  by (simp add: rawurl_encode_def b64_encode_def length_b64_digits)

definition std_alphabet :: "char \<Rightarrow> bool" where
  "std_alphabet c \<longleftrightarrow> b64_alphabet CHR ''+'' CHR ''/'' c \<or> c = CHR ''=''"

lemma suffix_eq_char: "suffix [c] s \<longleftrightarrow> s \<noteq> [] \<and> last s = c"
  by (auto simp: suffix_def) (metis append_butlast_last_id)

lemma std_unpad_pad:
  assumes "CHR ''='' \<notin> set s" "length s mod 4 \<noteq> 1"
  shows "std_unpad (b64_pad s) = Some s"
proof -
  have "length s mod 4 = 0 \<or> length s mod 4 = 2 \<or> length s mod 4 = 3"
    using assms(2) by presburger
  moreover have "\<not> suffix ''='' s" "\<not> suffix ''=='' s"
    using assms(1) by (auto simp: suffix_def)
  moreover have "\<not> suffix ''=='' (s @ ''='')"
    using assms(1) by (auto simp: suffix_def append_eq_append_conv2 Cons_eq_append_conv)
  moreover have "Suc (length s) mod 4 = 0" if "length s mod 4 = 3"
    using that by presburger
  moreover have "Suc (Suc (length s)) mod 4 = 0" if "length s mod 4 = 2"
    using that by presburger
  ultimately show ?thesis
    by (auto simp: std_unpad_def b64_pad_def suffix_def numeral_2_eq_2)
qed

lemma length_b64_mod: "length (b64_encode c62 c63 s) mod 4 \<noteq> 1"
  unfolding b64_encode_def by (simp add: length_b64_digits) presburger

interpretation std64: text_codec std_encode std_decode std_alphabet
proof
  fix s
  let ?e = "b64_encode CHR ''+'' CHR ''/'' s"
  have e: "list_all (b64_alphabet CHR ''+'' CHR ''/'') ?e"
    by (rule b64_encode_alphabet)
  then show "list_all std_alphabet (std_encode s)"
    by (auto simp: std_encode_def b64_pad_def std_alphabet_def list_all_iff)
  have "CHR ''='' \<notin> set ?e"
    by (rule list_all_charset [OF e]) (simp add: b64_alphabet_def byte_class)
  then have "std_unpad (std_encode s) = Some ?e"
    using length_b64_mod by (simp add: std_encode_def std_unpad_pad)
  moreover have "strip_newlines (std_encode s) = std_encode s"
    using strip_newlines_id [OF e]
    by (simp add: std_encode_def b64_pad_def strip_newlines_def)
  ultimately show "std_decode (std_encode s) = Some s"
    by (simp add: std_decode_def b64_decode_encode byte_class)
qed

section \<open>Hexadecimal\<close>

definition hex_digit :: "nat \<Rightarrow> char" where
  "hex_digit v = (if v < 10 then chr (48 + v) else chr (87 + v))"

definition upper_hex_digit :: "nat \<Rightarrow> char" where
  "upper_hex_digit v = (if v < 10 then chr (48 + v) else chr (55 + v))"

definition unhex :: "char \<Rightarrow> nat option" where
  "unhex c =
     (if is_digit c then Some (byte c - 48)
      else if CHR ''a'' \<le> c \<and> c \<le> CHR ''f'' then Some (byte c - 87)
      else if CHR ''A'' \<le> c \<and> c \<le> CHR ''F'' then Some (byte c - 55)
      else None)"

lemma unhex_hex_digit [simp]:
  "v < 16 \<Longrightarrow> unhex (hex_digit v) = Some v"
  "v < 16 \<Longrightarrow> unhex (upper_hex_digit v) = Some v"
  by (auto simp: unhex_def hex_digit_def upper_hex_digit_def is_digit_byte less_eq_char_def)

lemma unhex_bound: "unhex c = Some v \<Longrightarrow> v < 16"
  by (auto simp: unhex_def is_digit_byte less_eq_char_def split: if_splits)

fun hex_encode :: "string \<Rightarrow> string" where
  "hex_encode [] = []"
| "hex_encode (c # s) = hex_digit (byte c div 16) # hex_digit (byte c mod 16) # hex_encode s"

text \<open>\<open>hex.DecodeString\<close>.\<close>

fun hex_decode :: "string \<Rightarrow> string option" where
  "hex_decode [] = Some []"
| "hex_decode [_] = None"
| "hex_decode (a # b # s) =
     (case (unhex a, unhex b) of
        (Some u, Some v) \<Rightarrow> map_option ((#) (chr (u * 16 + v))) (hex_decode s)
      | _ \<Rightarrow> None)"

definition hex_alphabet :: "char \<Rightarrow> bool" where
  "hex_alphabet c \<longleftrightarrow> is_digit c \<or> is_lower c"

lemma hex_digit_alphabet: "v < 16 \<Longrightarrow> hex_alphabet (hex_digit v)"
  by (auto simp: hex_alphabet_def hex_digit_def byte_class)

lemma byte_div_16: "byte c div 16 < 16"
  using nat_of_char_less_256 [of c] by (simp add: less_mult_imp_div_less)

interpretation hex: text_codec hex_encode hex_decode hex_alphabet
proof
  fix s
  show "hex_decode (hex_encode s) = Some s"
    by (induction s) (auto simp: byte_div_16)
  show "list_all hex_alphabet (hex_encode s)"
    by (induction s) (auto simp: byte_div_16 hex_digit_alphabet)
qed

lemma length_hex_decode: "hex_decode s = Some b \<Longrightarrow> length s = 2 * length b"
  by (induction s arbitrary: b rule: hex_decode.induct) (auto split: option.splits)

end
