(* ===== verification/Utf8.thy ===== *)
theory Utf8 imports
  GoStrings
begin

text \<open>
  UTF-8 as Go's \<open>unicode/utf8\<close> decodes it: the width of the valid rune at the head of a byte
  string (0 when there is none, where Go yields \<open>RuneError\<close> of width 1), the encoding of a code
  point, and \<open>to_valid\<close>, which replaces every invalid byte by the encoding of U+FFFD.
\<close>

section \<open>Runes\<close>

text \<open>Lead byte: the width it announces and the range of the second byte.\<close>

definition lead_byte :: "nat \<Rightarrow> nat \<times> nat \<times> nat" where
  "lead_byte b =
     (if b < 0x80 then (1, 0, 0)
      else if b < 0xC2 then (0, 0, 0)
      else if b < 0xE0 then (2, 0x80, 0xBF)
      else if b = 0xE0 then (3, 0xA0, 0xBF)
      else if b = 0xED then (3, 0x80, 0x9F)
      else if b < 0xF0 then (3, 0x80, 0xBF)
      else if b = 0xF0 then (4, 0x90, 0xBF)
      else if b < 0xF4 then (4, 0x80, 0xBF)
      else if b = 0xF4 then (4, 0x80, 0x8F)
      else (0, 0, 0))"

definition utf8_width :: "string \<Rightarrow> nat" where
  "utf8_width s =
     (case s of [] \<Rightarrow> 0
      | a # r \<Rightarrow>
          (case lead_byte (byte a) of (n, lo, hi) \<Rightarrow>
             if n \<le> 1 then n
             else if n \<le> length s \<and> lo \<le> byte (r ! 0) \<and> byte (r ! 0) \<le> hi \<and>
                     list_all (\<lambda>c. 0x80 \<le> byte c \<and> byte c \<le> 0xBF) (take (n - 2) (drop 1 r))
             then n else 0))"

definition replacement :: string where
  "replacement = [CHR 0xEF, CHR 0xBF, CHR 0xBD]"

definition utf8_encode :: "nat \<Rightarrow> string" where
  "utf8_encode r =
     (if r < 0x80 then [chr r]
      else if r < 0x800 then [chr (0xC0 + r div 64), chr (0x80 + r mod 64)]
      else if r > 0x10FFFF \<or> (0xD800 \<le> r \<and> r < 0xE000) then replacement
      else if r < 0x10000 then
        [chr (0xE0 + r div 4096), chr (0x80 + r div 64 mod 64), chr (0x80 + r mod 64)]
      else
        [chr (0xF0 + r div 262144), chr (0x80 + r div 4096 mod 64),
         chr (0x80 + r div 64 mod 64), chr (0x80 + r mod 64)])"

lemma lead_byte_bound: "fst (lead_byte b) \<le> 4"
  by (auto simp: lead_byte_def)

lemma utf8_width_le: "utf8_width s \<le> length s"
  by (auto simp: utf8_width_def lead_byte_def split: list.splits prod.splits if_splits)

lemma utf8_width_Nil [simp]: "utf8_width [] = 0"
  by (simp add: utf8_width_def)

lemma utf8_width_ascii: "byte a < 128 \<Longrightarrow> utf8_width (a # r) = 1"
  by (simp add: utf8_width_def lead_byte_def)

lemma utf8_width_1: "utf8_width (a # r) = 1 \<longleftrightarrow> byte a < 128"
  by (auto simp: utf8_width_def lead_byte_def split: if_splits prod.splits)

lemma utf8_width_take:
  assumes "utf8_width s = w" "w \<noteq> 0"
  shows "utf8_width (take w s @ t) = w"
proof -
  obtain a r where s: "s = a # r"
    using assms by (cases s) auto
  obtain n lo hi where l: "lead_byte (byte a) = (n, lo, hi)"
    using prod_cases3 by blast
  show ?thesis
  proof (cases "n \<le> 1")
    case True
    with assms l s have "w = 1" "n = 1" by (auto simp: utf8_width_def)
    with l s show ?thesis by (simp add: utf8_width_def)
  next
    case False
    with assms l s have w: "w = n" "n \<le> length s" "lo \<le> byte (r ! 0)" "byte (r ! 0) \<le> hi"
      "list_all (\<lambda>c. 0x80 \<le> byte c \<and> byte c \<le> 0xBF) (take (n - 2) (drop 1 r))"
      by (auto simp: utf8_width_def split: if_splits)
    have "(take (n - 1) r @ t) ! 0 = r ! 0"
      using False w s by (simp add: nth_append)
    moreover have "take (n - 2) (drop 1 (take (n - 1) r @ t)) = take (n - 2) (drop 1 r)"
      using False w s by (simp add: drop_take)
    moreover have "take w s = a # take (n - 1) r"
      using False w s by (cases n) auto
    moreover have "n \<le> length (take w s @ t)"
      using w by simp
    ultimately show ?thesis
      using False w s l by (auto simp: utf8_width_def)
  qed
qed

section \<open>Replacing invalid bytes\<close>

function to_valid :: "string \<Rightarrow> string" where
  "to_valid s =
     (if s = [] then []
      else if utf8_width s = 0 then replacement @ to_valid (tl s)
      else take (utf8_width s) s @ to_valid (drop (utf8_width s) s))"
  by pat_completeness auto
termination
  by (relation "measure length") (auto simp: neq_Nil_conv)

declare to_valid.simps [simp del]

function valid_utf8 :: "string \<Rightarrow> bool" where
  "valid_utf8 s =
     (if s = [] then True
      else if utf8_width s = 0 then False
      else valid_utf8 (drop (utf8_width s) s))"
  by pat_completeness auto
termination
  by (relation "measure length") auto

declare valid_utf8.simps [simp del]

lemma to_valid_Nil [simp]: "to_valid [] = []"
  by (subst to_valid.simps) simp

lemma valid_utf8_Nil [simp]: "valid_utf8 []"
  by (subst valid_utf8.simps) simp

lemma to_valid_invalid: "s \<noteq> [] \<Longrightarrow> utf8_width s = 0 \<Longrightarrow> to_valid s = replacement @ to_valid (tl s)"
  by (subst to_valid.simps) simp

lemma to_valid_rune:
  "utf8_width s \<noteq> 0 \<Longrightarrow> to_valid s = take (utf8_width s) s @ to_valid (drop (utf8_width s) s)"
  by (subst to_valid.simps) auto

lemma to_valid_id [simp]: "valid_utf8 s \<Longrightarrow> to_valid s = s"
proof (induction s rule: valid_utf8.induct)
  case (1 s)
  show ?case
  proof (cases "s = []")
    case False
    with "1.prems" have w: "utf8_width s \<noteq> 0" "valid_utf8 (drop (utf8_width s) s)"
      by (simp_all add: valid_utf8.simps [of s] split: if_splits)
    with False "1.IH" show ?thesis
      by (subst to_valid.simps) simp
  qed simp
qed

lemma valid_utf8_ascii: "list_all (\<lambda>c. byte c < 128) s \<Longrightarrow> valid_utf8 s"
  by (induction s) (auto simp: utf8_width_ascii valid_utf8.simps [of "_ # _"])

lemma valid_utf8_append_rune:
  assumes "utf8_width s = w" "w \<noteq> 0" "valid_utf8 t"
  shows "valid_utf8 (take w s @ t)"
proof -
  have "length (take w s) = w"
    using assms utf8_width_le [of s] by simp
  with utf8_width_take [OF assms(1,2), of t] assms show ?thesis
    by (subst valid_utf8.simps) simp
qed

lemma utf8_width_replacement: "utf8_width (replacement @ t) = 3"
  by (simp add: replacement_def utf8_width_def lead_byte_def)

lemma valid_to_valid: "valid_utf8 (to_valid s)"
proof (induction s rule: to_valid.induct)
  case (1 s)
  consider "s = []" | "s \<noteq> []" "utf8_width s = 0" | "s \<noteq> []" "utf8_width s \<noteq> 0" by blast
  then show ?case
  proof cases
    case 2
    with 1 have "valid_utf8 (to_valid (tl s))" by simp
    with valid_utf8_append_rune [of replacement 3 "to_valid (tl s)"] utf8_width_replacement [of "[]"]
    show ?thesis using 2 by (simp add: to_valid_invalid replacement_def)
  next
    case 3
    with 1 show ?thesis
      by (simp add: to_valid_rune valid_utf8_append_rune)
  qed simp
qed

text \<open>Validity is exactly being unchanged by \<open>to_valid\<close>: Go's \<open>utf8.Valid\<close>.\<close>

lemma to_valid_eq_iff: "to_valid s = s \<longleftrightarrow> valid_utf8 s"
  using valid_to_valid [of s] by auto

end
