(* ===== verification/Json.thy ===== *)
theory Json imports
  Encoding Utf8
begin

text \<open>
  The fragment of \<open>encoding/json\<close> the program uses. Strings are quoted as \<open>json.Marshal\<close> does
  (HTML-safe, invalid UTF-8 replaced) and unquoted as \<open>json.Unmarshal\<close> does; documents are
  lexed, parsed by a stack machine with Go's nesting limit, and read into struct fields by
  case-insensitive names. Printing a token list and lexing it again gives the tokens with their
  strings made valid UTF-8.
\<close>

section \<open>Quoting\<close>

abbreviation backslash :: char where "backslash \<equiv> CHR 0x5C"
abbreviation dquote :: char where "dquote \<equiv> CHR 0x22"

definition u_escape :: "nat \<Rightarrow> string" where
  "u_escape b = [backslash, CHR ''u'', CHR ''0'', CHR ''0'', hex_digit (b div 16), hex_digit (b mod 16)]"

definition escape_byte :: "char \<Rightarrow> string" where
  "escape_byte c =
     (if c = dquote \<or> c = backslash then [backslash, c]
      else if c = CHR 0x08 then [backslash, CHR ''b'']
      else if c = CHR 0x0C then [backslash, CHR ''f'']
      else if c = CHR 0x0A then [backslash, CHR ''n'']
      else if c = CHR 0x0D then [backslash, CHR ''r'']
      else if c = CHR 0x09 then [backslash, CHR ''t'']
      else if byte c < 0x20 \<or> c = CHR ''<'' \<or> c = CHR ''>'' \<or> c = CHR ''&'' then u_escape (byte c)
      else [c])"

definition line_separators :: "string list" where
  "line_separators = [[CHR 0xE2, CHR 0x80, CHR 0xA8], [CHR 0xE2, CHR 0x80, CHR 0xA9]]"

definition escape_rune :: "string \<Rightarrow> string" where
  "escape_rune u =
     (if u \<in> set line_separators
      then [backslash, CHR ''u'', CHR ''2'', CHR ''0'', CHR ''2'', hex_digit (byte (u ! 2) mod 16)]
      else u)"

definition escaped_replacement :: string where
  "escaped_replacement = [backslash, CHR ''u'', CHR ''f'', CHR ''f'', CHR ''f'', CHR ''d'']"

function json_escape :: "string \<Rightarrow> string" where
  "json_escape s =
     (if s = [] then []
      else if utf8_width s = 0 then escaped_replacement @ json_escape (tl s)
      else if utf8_width s = 1 then escape_byte (hd s) @ json_escape (tl s)
      else escape_rune (take (utf8_width s) s) @ json_escape (drop (utf8_width s) s))"
  by pat_completeness auto
termination
  by (relation "measure length") (auto simp: neq_Nil_conv)

declare json_escape.simps [simp del]

section \<open>Unquoting\<close>

definition getu4 :: "string \<Rightarrow> nat option" where
  "getu4 s =
     (case s of
        bs # u # a # b # c # d # _ \<Rightarrow>
          if bs = backslash \<and> u = CHR ''u'' then
            (case those_map unhex [a, b, c, d] of
               Some [v, w, x, y] \<Rightarrow> Some (((v * 16 + w) * 16 + x) * 16 + y)
             | _ \<Rightarrow> None)
          else None
      | _ \<Rightarrow> None)"

definition is_surrogate :: "nat \<Rightarrow> bool" where
  "is_surrogate r \<longleftrightarrow> 0xD800 \<le> r \<and> r < 0xE000"

text \<open>\<open>utf16.DecodeRune\<close>: a code point for a high and a low surrogate, nothing otherwise.\<close>

definition decode_surrogates :: "nat \<Rightarrow> nat option \<Rightarrow> nat option" where
  "decode_surrogates hi lo =
     (case lo of None \<Rightarrow> None
      | Some l \<Rightarrow>
          if 0xD800 \<le> hi \<and> hi < 0xDC00 \<and> 0xDC00 \<le> l \<and> l < 0xE000
          then Some ((hi - 0xD800) * 1024 + (l - 0xDC00) + 0x10000) else None)"

definition simple_escape :: "char \<Rightarrow> char option" where
  "simple_escape e =
     (if e = dquote \<or> e = backslash \<or> e = CHR ''/'' then Some e
      else if e = CHR ''b'' then Some (CHR 0x08) else if e = CHR ''f'' then Some (CHR 0x0C)
      else if e = CHR ''n'' then Some (CHR 0x0A) else if e = CHR ''r'' then Some (CHR 0x0D)
      else if e = CHR ''t'' then Some (CHR 0x09) else None)"

text \<open>One unit of a string body: the bytes it stands for and the number of bytes it takes.\<close>

definition unquote_step :: "string \<Rightarrow> (string \<times> nat) option" where
  "unquote_step s =
     (case s of [] \<Rightarrow> None
      | c # r \<Rightarrow>
          if c = backslash then
            (case r of [] \<Rightarrow> None
             | e # _ \<Rightarrow>
                 if e = CHR ''u'' then
                   (case getu4 s of None \<Rightarrow> None
                    | Some rr \<Rightarrow>
                        if is_surrogate rr then
                          (case decode_surrogates rr (getu4 (drop 6 s)) of
                             Some d \<Rightarrow> Some (utf8_encode d, 12)
                           | None \<Rightarrow> Some (replacement, 6))
                        else Some (utf8_encode rr, 6))
                 else map_option (\<lambda>x. ([x], 2)) (simple_escape e))
          else if byte c < 0x20 then None
          else if utf8_width s = 0 then Some (replacement, 1)
          else Some (take (utf8_width s) s, utf8_width s))"

lemma unquote_step_pos: "unquote_step s = Some (out, n) \<Longrightarrow> 0 < n \<and> s \<noteq> []"
  by (auto simp: unquote_step_def split: list.splits if_splits option.splits)

text \<open>The body of a string after its opening quote: the value and what follows the closing quote.\<close>

function unquote :: "string \<Rightarrow> (string \<times> string) option" where
  "unquote s =
     (if s \<noteq> [] \<and> hd s = dquote then Some ([], tl s)
      else (case unquote_step s of None \<Rightarrow> None
            | Some (out, n) \<Rightarrow>
                map_option (\<lambda>(v, r). (out @ v, r)) (unquote (drop n s))))"
  by pat_completeness auto
termination
  by (relation "measure length") (auto dest: unquote_step_pos)

declare unquote.simps [simp del]

lemma unquote_shorter: "unquote s = Some (v, r) \<Longrightarrow> length r < length s"
proof (induction s arbitrary: v rule: unquote.induct)
  case (1 s)
  show ?case
  proof (cases "s \<noteq> [] \<and> hd s = dquote")
    case True
    with "1.prems" show ?thesis
      by (subst (asm) unquote.simps) (auto simp: neq_Nil_conv)
  next
    case False
    with "1.prems" obtain out n v' where st: "unquote_step s = Some (out, n)"
      and u: "unquote (drop n s) = Some (v', r)"
      by (subst (asm) unquote.simps) (auto split: option.splits)
    from "1.IH" [OF False st refl u] show ?thesis by simp
  qed
qed

subsection \<open>Unquoting undoes quoting\<close>

lemma unquote_close: "unquote (dquote # r) = Some ([], r)"
  by (subst unquote.simps) simp

lemma unquote_unit:
  assumes "unquote_step (u @ t) = Some (out, length u)" "u \<noteq> []" "hd u \<noteq> dquote"
  shows "unquote (u @ t) = map_option (\<lambda>(v, r). (out @ v, r)) (unquote t)"
  using assms by (subst unquote.simps) simp

lemma getu4_u_escape:
  "v < 16 \<Longrightarrow> w < 16 \<Longrightarrow>
   getu4 (backslash # CHR ''u'' # CHR ''0'' # CHR ''0'' # hex_digit v # hex_digit w # t) = Some (v * 16 + w)"
  by (simp add: getu4_def unhex_def is_digit_byte less_eq_char_def)
     (simp add: hex_digit_def)

lemma unquote_step_byte:
  assumes "byte c < 128"
  shows "unquote_step (escape_byte c @ t) = Some ([c], length (escape_byte c))"
proof -
  have d: "byte c div 16 < 16" "byte c mod 16 < 16"
    using assms by auto
  have u: "unquote_step (u_escape (byte c) @ t) = Some ([c], 6)"
    using d getu4_u_escape [OF d, of t] assms
    by (simp add: u_escape_def unquote_step_def is_surrogate_def utf8_encode_def)
  show ?thesis
  proof (cases "escape_byte c = u_escape (byte c)")
    case True
    with u show ?thesis by (simp add: u_escape_def)
  next
    case False
    with assms utf8_width_ascii [OF assms, of t] show ?thesis
      by (auto simp: escape_byte_def unquote_step_def simple_escape_def)
  qed
qed

lemma escape_byte_hd: "escape_byte c \<noteq> [] \<and> hd (escape_byte c) \<noteq> dquote"
  by (auto simp: escape_byte_def u_escape_def)

lemma unquote_step_replacement:
  "unquote_step (escaped_replacement @ t) = Some (replacement, length escaped_replacement)"
  by (simp add: unquote_step_def escaped_replacement_def getu4_def unhex_def is_digit_byte
      less_eq_char_def is_surrogate_def utf8_encode_def replacement_def chr_eq_iff)

lemma unquote_step_rune:
  assumes "utf8_width s = w" "1 < w"
  shows "unquote_step (escape_rune (take w s) @ t) =
    Some (take w s, length (escape_rune (take w s)))"
proof -
  obtain a r where s: "s = a # r" using assms by (cases s) auto
  have "\<not> byte a < 128"
    using assms s utf8_width_1 [of a r] utf8_width_ascii [of a r] by auto
  then have a: "a \<noteq> backslash" "\<not> byte a < 32" by auto
  have plain: "unquote_step (take w s @ t) = Some (take w s, w)"
    using utf8_width_take [of s w t] utf8_width_le [of s] assms a s
    by (cases w) (auto simp: unquote_step_def)
  have "length (take w s) = w"
    using assms utf8_width_le [of s] by simp
  with plain show ?thesis
    by (auto simp: escape_rune_def line_separators_def unquote_step_def getu4_def unhex_def
        is_digit_byte less_eq_char_def hex_digit_def is_surrogate_def utf8_encode_def chr_eq_iff)
qed

lemma escape_rune_hd:
  assumes "utf8_width s = w" "1 < w"
  shows "escape_rune (take w s) \<noteq> [] \<and> hd (escape_rune (take w s)) \<noteq> dquote"
proof -
  obtain a r where s: "s = a # r" using assms by (cases s) auto
  have "\<not> byte a < 128"
    using assms s utf8_width_1 [of a r] utf8_width_ascii [of a r] by auto
  then have "a \<noteq> dquote" by auto
  with s assms show ?thesis by (cases w) (auto simp: escape_rune_def)
qed

theorem unquote_escape [roundtrip]:
  "unquote (json_escape s @ dquote # r) = Some (to_valid s, r)"
proof (induction s rule: json_escape.induct)
  case (1 s)
  consider "s = []" | "s \<noteq> []" "utf8_width s = 0" | a t where "s = a # t" "utf8_width s = 1"
    | "s \<noteq> []" "1 < utf8_width s"
    by (metis list.exhaust less_one linorder_neqE_nat)
  then show ?case
  proof cases
    case 1
    then show ?thesis by (simp add: json_escape.simps unquote_close)
  next
    case 2
    with "1.IH"(1) unquote_unit [OF unquote_step_replacement] show ?thesis
      by (simp add: json_escape.simps [of s] to_valid_invalid)
        (simp add: escaped_replacement_def)
  next
    case 3
    with utf8_width_1 [of a t] have "byte a < 128" by simp
    from unquote_unit [OF unquote_step_byte [OF this]] 3 "1.IH"(2) escape_byte_hd [of a]
    show ?thesis
      by (simp add: json_escape.simps [of "a # t"] to_valid_rune)
  next
    case 4
    note st = unquote_step_rune [OF refl 4(2)] and hd = escape_rune_hd [OF refl 4(2)]
    from unquote_unit [OF st] 4 "1.IH"(3) hd show ?thesis
      by (simp add: json_escape.simps [of s] to_valid_rune)
  qed
qed

subsection \<open>Size of quoted strings\<close>

lemma length_escape_byte: "length (escape_byte c) \<le> 6"
  by (simp add: escape_byte_def u_escape_def)

lemma length_json_escape: "length (json_escape s) \<le> 6 * length s"
proof (induction s rule: json_escape.induct)
  case (1 s)
  consider "s = []" | "s \<noteq> []" "utf8_width s = 0" | "s \<noteq> []" "utf8_width s = 1"
    | "s \<noteq> []" "1 < utf8_width s"
    by (metis less_one linorder_neqE_nat)
  then show ?case
  proof cases
    case 1
    then show ?thesis by (simp add: json_escape.simps)
  next
    case 2
    with "1.IH"(1) show ?thesis
      by (cases s) (auto simp: json_escape.simps [of "_ # _"] escaped_replacement_def)
  next
    case 3
    with "1.IH"(2) length_escape_byte [of "hd s"] show ?thesis
      by (cases s) (auto simp: json_escape.simps [of "_ # _"])
  next
    case 4
    have "length (take (utf8_width s) s) = utf8_width s"
      using utf8_width_le [of s] by simp
    with 4 have "length (escape_rune (take (utf8_width s) s)) \<le> 6 * utf8_width s"
      by (auto simp: escape_rune_def)
    with 4 "1.IH"(3) utf8_width_le [of s] show ?thesis
      by (simp add: json_escape.simps [of s])
  qed
qed

end
