(* ===== verification/JsonParse.thy ===== *)
theory JsonParse imports
  Json
begin

text \<open>
  JSON documents: lexing, parsing by a stack machine with Go's nesting limit, printing of token
  lists, and the reading of struct fields as \<open>json.Unmarshal\<close> does it (case-insensitive field
  names, later members win, null leaves a field alone, a value of the wrong type is an error).
\<close>

section \<open>Lexing\<close>

datatype jtok =
    LBrace | RBrace | LBrack | RBrack | Colon | Comma
  | TStr string | TNum string | TTrue | TFalse | TNull

definition num_char :: "char \<Rightarrow> bool" where
  "num_char c \<longleftrightarrow> is_digit c \<or> c \<in> {CHR ''-'', CHR ''+'', CHR ''.'', CHR ''e'', CHR ''E''}"

text \<open>The number grammar: \<open>-?(0|[1-9][0-9]*)(.[0-9]+)?([eE][+-]?[0-9]+)?\<close>.\<close>

definition exp_ok :: "string \<Rightarrow> bool" where
  "exp_ok s =
     (case s of [] \<Rightarrow> True
      | c # r \<Rightarrow>
          (c = CHR ''e'' \<or> c = CHR ''E'') \<and>
          (let d = (if r \<noteq> [] \<and> (hd r = CHR ''+'' \<or> hd r = CHR ''-'') then tl r else r)
           in d \<noteq> [] \<and> list_all is_digit d))"

definition frac_ok :: "string \<Rightarrow> bool" where
  "frac_ok s =
     (case s of
        c # r \<Rightarrow> if c = CHR ''.'' then takeWhile is_digit r \<noteq> [] \<and> exp_ok (dropWhile is_digit r)
                  else exp_ok s
      | [] \<Rightarrow> True)"

definition number_ok :: "string \<Rightarrow> bool" where
  "number_ok s =
     (let d = (if s \<noteq> [] \<and> hd s = CHR ''-'' then tl s else s);
          i = takeWhile is_digit d
      in i \<noteq> [] \<and> (hd i = CHR ''0'' \<longrightarrow> length i = 1) \<and> frac_ok (dropWhile is_digit d))"

definition punct :: "char \<Rightarrow> jtok option" where
  "punct c =
     (if c = CHR ''{'' then Some LBrace else if c = CHR ''}'' then Some RBrace
      else if c = CHR ''['' then Some LBrack else if c = CHR '']'' then Some RBrack
      else if c = CHR '':'' then Some Colon else if c = CHR '','' then Some Comma else None)"

definition json_space :: "char \<Rightarrow> bool" where
  "json_space c \<longleftrightarrow> c \<in> {CHR '' '', CHR 0x09, CHR 0x0A, CHR 0x0D}"

text \<open>The next token and the rest, for an input that does not start with white space.\<close>

definition lex_one :: "string \<Rightarrow> (jtok \<times> string) option" where
  "lex_one s =
     (case s of [] \<Rightarrow> None
      | c # r \<Rightarrow>
          (case punct c of Some t \<Rightarrow> Some (t, r)
           | None \<Rightarrow>
               if c = dquote then map_option (\<lambda>(v, q). (TStr v, q)) (unquote r)
               else if num_char c then
                 (if number_ok (takeWhile num_char s)
                  then Some (TNum (takeWhile num_char s), dropWhile num_char s) else None)
               else if prefix ''true'' s then Some (TTrue, drop 4 s)
               else if prefix ''false'' s then Some (TFalse, drop 5 s)
               else if prefix ''null'' s then Some (TNull, drop 4 s)
               else None))"

lemma lex_one_shorter: "lex_one s = Some (t, r) \<Longrightarrow> length r < length s"
  by (auto simp: lex_one_def dest: unquote_shorter split: list.splits option.splits if_splits)
    (auto simp: length_dropWhile_le less_Suc_eq_le)

function json_lex :: "string \<Rightarrow> jtok list option" where
  "json_lex s =
     (if s = [] then Some []
      else if json_space (hd s) then json_lex (tl s)
      else (case lex_one s of None \<Rightarrow> None
            | Some (t, r) \<Rightarrow> map_option ((#) t) (json_lex r)))"
  by pat_completeness auto
termination
  by (relation "measure length") (auto dest: lex_one_shorter simp: neq_Nil_conv)

declare json_lex.simps [simp del]

section \<open>Parsing\<close>

datatype json =
    JNull | JBool bool | JNum string | JStr string
  | JArr "json list" | JObj "(string \<times> json) list"

text \<open>
  The frames of the values being read, innermost first, and what the scanner waits for. Members
  and elements are collected newest first.
\<close>

datatype jframe =
    InArr "json list" | InObj "(string \<times> json) list" | InMember string "(string \<times> json) list"

datatype jstate =
    WantValue | WantValueOrEnd | WantKeyOrEnd | WantKey | WantColon | AfterElem | AfterMember
  | Finished json

type_synonym jconfig = "jframe list \<times> jstate"

definition max_nesting :: nat where "max_nesting = 10000"

fun complete_value :: "json \<Rightarrow> jframe list \<Rightarrow> jconfig option" where
  "complete_value v [] = Some ([], Finished v)"
| "complete_value v (InArr vs # st) = Some (InArr (v # vs) # st, AfterElem)"
| "complete_value v (InMember k kvs # st) = Some (InObj ((k, v) # kvs) # st, AfterMember)"
| "complete_value v (InObj kvs # st) = None"

fun open_frame :: "jframe \<Rightarrow> jstate \<Rightarrow> jframe list \<Rightarrow> jconfig option" where
  "open_frame f s st = (if length st < max_nesting then Some (f # st, s) else None)"

fun value_step :: "jframe list \<Rightarrow> jtok \<Rightarrow> jconfig option" where
  "value_step st LBrace = open_frame (InObj []) WantKeyOrEnd st"
| "value_step st LBrack = open_frame (InArr []) WantValueOrEnd st"
| "value_step st (TStr s) = complete_value (JStr s) st"
| "value_step st (TNum s) = complete_value (JNum s) st"
| "value_step st TTrue = complete_value (JBool True) st"
| "value_step st TFalse = complete_value (JBool False) st"
| "value_step st TNull = complete_value JNull st"
| "value_step st _ = None"

fun json_step :: "jconfig \<Rightarrow> jtok \<Rightarrow> jconfig option" where
  "json_step (st, WantValue) t = value_step st t"
| "json_step (InArr vs # st, WantValueOrEnd) RBrack = complete_value (JArr (rev vs)) st"
| "json_step (st, WantValueOrEnd) t = value_step st t"
| "json_step (InObj kvs # st, WantKeyOrEnd) RBrace = complete_value (JObj (rev kvs)) st"
| "json_step (InObj kvs # st, WantKeyOrEnd) (TStr k) = Some (InMember k kvs # st, WantColon)"
| "json_step (InObj kvs # st, WantKey) (TStr k) = Some (InMember k kvs # st, WantColon)"
| "json_step (st, WantColon) Colon = Some (st, WantValue)"
| "json_step (InArr vs # st, AfterElem) Comma = Some (InArr vs # st, WantValue)"
| "json_step (InArr vs # st, AfterElem) RBrack = complete_value (JArr (rev vs)) st"
| "json_step (InObj kvs # st, AfterMember) Comma = Some (InObj kvs # st, WantKey)"
| "json_step (InObj kvs # st, AfterMember) RBrace = complete_value (JObj (rev kvs)) st"
| "json_step _ _ = None"

fun json_run :: "jconfig \<Rightarrow> jtok list \<Rightarrow> jconfig option" where
  "json_run c [] = Some c"
| "json_run c (t # ts) = (case json_step c t of None \<Rightarrow> None | Some c' \<Rightarrow> json_run c' ts)"

definition json_parse :: "string \<Rightarrow> json option" where
  "json_parse s =
     (case json_lex s of None \<Rightarrow> None
      | Some ts \<Rightarrow>
          (case json_run ([], WantValue) ts of
             Some ([], Finished v) \<Rightarrow> Some v
           | _ \<Rightarrow> None))"

section \<open>Printing token lists\<close>

fun json_render :: "jtok \<Rightarrow> string" where
  "json_render LBrace = ''{''"
| "json_render RBrace = ''}''"
| "json_render LBrack = ''[''"
| "json_render RBrack = '']''"
| "json_render Colon = '':''"
| "json_render Comma = '',''"
| "json_render (TStr s) = dquote # json_escape s @ [dquote]"
| "json_render (TNum s) = s"
| "json_render TTrue = ''true''"
| "json_render TFalse = ''false''"
| "json_render TNull = ''null''"

definition json_print :: "jtok list \<Rightarrow> string" where
  "json_print ts = concat (map json_render ts)"

fun clean_tok :: "jtok \<Rightarrow> jtok" where
  "clean_tok (TStr s) = TStr (to_valid s)"
| "clean_tok t = t"

text \<open>A number is followed by punctuation, as in every struct the program prints.\<close>

fun well_spaced :: "jtok list \<Rightarrow> bool" where
  "well_spaced [] = True"
| "well_spaced (TNum n # ts) =
     (n \<noteq> [] \<and> list_all num_char n \<and> number_ok n \<and> well_spaced ts \<and>
      (ts = [] \<or> hd ts \<in> {RBrace, RBrack, Comma}))"
| "well_spaced (t # ts) = well_spaced ts"

lemma json_print_Nil [simp]: "json_print [] = []"
  by (simp add: json_print_def)

lemma json_print_Cons [simp]: "json_print (t # ts) = json_render t @ json_print ts"
  by (simp add: json_print_def)

lemma json_lex_Nil [simp]: "json_lex [] = Some []"
  by (subst json_lex.simps) simp

lemma json_lex_tok:
  assumes "lex_one s = Some (t, r)" "s \<noteq> []" "\<not> json_space (hd s)"
  shows "json_lex s = map_option ((#) t) (json_lex r)"
  using assms by (subst json_lex.simps) simp

lemma num_char_facts:
  assumes "num_char c"
  shows "punct c = None" "c \<noteq> dquote" "\<not> json_space c"
  using assms by (auto simp: num_char_def punct_def json_space_def is_digit_byte)

lemma lex_render:
  assumes "\<And>n. t = TNum n \<Longrightarrow>
    n \<noteq> [] \<and> list_all num_char n \<and> number_ok n \<and> (s = [] \<or> \<not> num_char (hd s))"
  shows "json_lex (json_render t @ s) = map_option ((#) (clean_tok t)) (json_lex s)"
proof (cases "\<exists>n. t = TNum n")
  case True
  then obtain n where t: "t = TNum n" ..
  from assms [OF this] have n: "n \<noteq> []" "list_all num_char n" "number_ok n"
    and s: "s = [] \<or> \<not> num_char (hd s)" by auto
  then have "takeWhile num_char (n @ s) = n" "dropWhile num_char (n @ s) = s"
    by (cases s, auto simp: list_all_iff takeWhile_append2 dropWhile_append2)+
  moreover obtain c r where c: "n = c # r" "num_char c"
    using n by (cases n) auto
  ultimately have "lex_one (n @ s) = Some (TNum n, s)"
    using n num_char_facts [of c] by (auto simp: lex_one_def)
  from json_lex_tok [OF this] t c num_char_facts [of c] show ?thesis by simp
next
  case False
  have "lex_one (json_render t @ s) = Some (clean_tok t, s)"
    using False unquote_escape
    by (cases t) (auto simp: lex_one_def punct_def num_char_def is_digit_byte)
  then show ?thesis
    using False by (cases t) (auto simp: json_lex_tok json_space_def)
qed

text \<open>Printing and lexing again gives the tokens, their strings made valid UTF-8.\<close>

theorem json_lex_print [roundtrip]:
  "well_spaced ts \<Longrightarrow> json_lex (json_print ts) = Some (map clean_tok ts)"
proof (induction ts)
  case (Cons t ts)
  have "json_print ts = [] \<or> \<not> num_char (hd (json_print ts))" if "t = TNum n" for n
    using Cons.prems that by (cases ts) (auto simp: num_char_def is_digit_byte)
  moreover have "well_spaced ts"
    using Cons.prems by (cases t) auto
  moreover have "n \<noteq> [] \<and> list_all num_char n \<and> number_ok n" if "t = TNum n" for n
    using Cons.prems that by simp
  ultimately show ?case
    using lex_render [of t "json_print ts"] Cons.IH by (simp del: json_render.simps)
qed simp

section \<open>Struct fields\<close>

text \<open>
  Field names match under \<open>foldName\<close>: ASCII letters regardless of case, and the two non-ASCII
  runes whose simple case folding is an ASCII letter (U+017F and U+212A).
\<close>

function fold_name :: "string \<Rightarrow> string" where
  "fold_name s =
     (if s = [] then []
      else if prefix [CHR 0xC5, CHR 0xBF] s then CHR ''S'' # fold_name (drop 2 s)
      else if prefix [CHR 0xE2, CHR 0x84, CHR 0xAA] s then CHR ''K'' # fold_name (drop 3 s)
      else (if is_lower (hd s) then chr (byte (hd s) - 32) else hd s) # fold_name (tl s))"
  by pat_completeness auto
termination
  by (relation "measure length") auto

declare fold_name.simps [simp del]

definition field_is :: "string \<Rightarrow> string \<Rightarrow> bool" where
  "field_is name key \<longleftrightarrow> fold_name key = fold_name name"

fun read_string :: "json \<Rightarrow> string \<Rightarrow> string option" where
  "read_string (JStr s) cur = Some s"
| "read_string JNull cur = Some cur"
| "read_string _ cur = None"

fun read_bool :: "json \<Rightarrow> bool \<Rightarrow> bool option" where
  "read_bool (JBool b) cur = Some b"
| "read_bool JNull cur = Some cur"
| "read_bool _ cur = None"

fun read_int64 :: "json \<Rightarrow> int \<Rightarrow> int option" where
  "read_int64 (JNum n) cur = parse_int64 n"
| "read_int64 JNull cur = Some cur"
| "read_int64 _ cur = None"

text \<open>
  \<open>json.Unmarshal\<close> into a struct: the members in order, each updating the struct. \<open>f key v x\<close>
  assigns one member to \<open>x\<close>; an unknown key leaves \<open>x\<close> alone.
\<close>

fun read_members :: "(string \<Rightarrow> json \<Rightarrow> 'a \<Rightarrow> 'a option) \<Rightarrow> (string \<times> json) list \<Rightarrow> 'a \<Rightarrow> 'a option" where
  "read_members f [] x = Some x"
| "read_members f ((k, v) # kvs) x =
     (case f k v x of None \<Rightarrow> None | Some y \<Rightarrow> read_members f kvs y)"

fun read_struct :: "(string \<Rightarrow> json \<Rightarrow> 'a \<Rightarrow> 'a option) \<Rightarrow> json \<Rightarrow> 'a \<Rightarrow> 'a option" where
  "read_struct f (JObj kvs) x = read_members f kvs x"
| "read_struct f JNull x = Some x"
| "read_struct f _ x = None"

lemma number_ok_itoa: "number_ok (itoa_int i)" "list_all num_char (itoa_int i)" "itoa_int i \<noteq> []"
proof -
  have d: "takeWhile is_digit (itoa n) = itoa n" "dropWhile is_digit (itoa n) = []"
    if "0 \<le> n" for n
    using itoa_digits [OF that] by (auto simp: list_all_iff)
  have m: "hd (itoa n) \<noteq> CHR ''-''" if "0 \<le> n" for n
    using itoa_digits [OF that] not_digit_sign by (cases "itoa n") auto
  have z: "hd (itoa n) = CHR ''0'' \<longrightarrow> length (itoa n) = 1" if "0 \<le> n" for n
    using that itoa_hd [of n] by (cases "n = 0") (auto simp: itoa.simps [of 0])
  show "number_ok (itoa_int i)"
    using z by (auto simp: number_ok_def itoa_int_def d m frac_ok_def Let_def)
  show "list_all num_char (itoa_int i)"
    using itoa_digits [of i] itoa_digits [of "- i"]
    by (auto simp: itoa_int_def num_char_def list_all_iff)
  show "itoa_int i \<noteq> []" by (simp add: itoa_int_def)
qed

end
