(* ===== verification/Sha256.thy ===== *)
theory Sha256 imports
  GoStrings
begin

text \<open>
  \<open>crypto/sha256\<close> and \<open>crypto/hmac\<close>: the compression function of FIPS 180-4 on 32-bit words,
  the padding, the digest of a byte string, and HMAC of RFC 2104 over it. Everything is
  executable; the development relies on no property of the functions beyond the length of their
  output.
\<close>

unbundle bit_operations_syntax

type_synonym word32 = "32 word"
type_synonym sha_state = "word32 list"

section \<open>Constants\<close>

definition sha_init :: sha_state where
  "sha_init =
     [0x6a09e667, 0xbb67ae85, 0x3c6ef372, 0xa54ff53a,
      0x510e527f, 0x9b05688c, 0x1f83d9ab, 0x5be0cd19]"

text \<open>The round constants, two to a number: the first 32 bits of the fractional parts of the cube
  roots of the first 64 primes.\<close>

definition sha_k_pairs :: "int list" where
  "sha_k_pairs =
     [0x428a2f9871374491, 0xb5c0fbcfe9b5dba5, 0x3956c25b59f111f1, 0x923f82a4ab1c5ed5,
      0xd807aa9812835b01, 0x243185be550c7dc3, 0x72be5d7480deb1fe, 0x9bdc06a7c19bf174,
      0xe49b69c1efbe4786, 0x0fc19dc6240ca1cc, 0x2de92c6f4a7484aa, 0x5cb0a9dc76f988da,
      0x983e5152a831c66d, 0xb00327c8bf597fc7, 0xc6e00bf3d5a79147, 0x06ca635114292967,
      0x27b70a852e1b2138, 0x4d2c6dfc53380d13, 0x650a7354766a0abb, 0x81c2c92e92722c85,
      0xa2bfe8a1a81a664b, 0xc24b8b70c76c51a3, 0xd192e819d6990624, 0xf40e3585106aa070,
      0x19a4c1161e376c08, 0x2748774c34b0bcb5, 0x391c0cb34ed8aa4a, 0x5b9cca4f682e6ff3,
      0x748f82ee78a5636f, 0x84c878148cc70208, 0x90befffaa4506ceb, 0xbef9a3f7c67178f2]"

definition sha_k :: "word32 list" where
  "sha_k = concat (map (\<lambda>p. [word_of_int (p div 0x100000000), word_of_int (p mod 0x100000000)]) sha_k_pairs)"

section \<open>Compression\<close>

definition sha_ch :: "word32 \<Rightarrow> word32 \<Rightarrow> word32 \<Rightarrow> word32" where
  "sha_ch x y z = ((x AND y) XOR (NOT x AND z))"

definition sha_maj :: "word32 \<Rightarrow> word32 \<Rightarrow> word32 \<Rightarrow> word32" where
  "sha_maj x y z = ((x AND y) XOR (x AND z) XOR (y AND z))"

definition big_sigma0 :: "word32 \<Rightarrow> word32" where
  "big_sigma0 x = (word_rotr 2 x XOR word_rotr 13 x XOR word_rotr 22 x)"

definition big_sigma1 :: "word32 \<Rightarrow> word32" where
  "big_sigma1 x = (word_rotr 6 x XOR word_rotr 11 x XOR word_rotr 25 x)"

definition small_sigma0 :: "word32 \<Rightarrow> word32" where
  "small_sigma0 x = (word_rotr 7 x XOR word_rotr 18 x XOR drop_bit 3 x)"

definition small_sigma1 :: "word32 \<Rightarrow> word32" where
  "small_sigma1 x = (word_rotr 17 x XOR word_rotr 19 x XOR drop_bit 10 x)"

text \<open>The message schedule, newest word first: 16 words of the block and 48 derived ones.\<close>

fun sha_extend :: "nat \<Rightarrow> word32 list \<Rightarrow> word32 list" where
  "sha_extend 0 w = w"
| "sha_extend (Suc n) w =
     sha_extend n
       ((small_sigma1 (w ! 1) + w ! 6 + small_sigma0 (w ! 14) + w ! 15) # w)"

fun sha_round :: "sha_state \<Rightarrow> word32 \<times> word32 \<Rightarrow> sha_state" where
  "sha_round [a, b, c, d, e, f, g, h] (k, w) =
     (let t1 = h + big_sigma1 e + sha_ch e f g + k + w;
          t2 = big_sigma0 a + sha_maj a b c
      in [t1 + t2, a, b, c, d + t1, e, f, g])"
| "sha_round s _ = s"

definition sha_block :: "sha_state \<Rightarrow> word32 list \<Rightarrow> sha_state" where
  "sha_block s block =
     map2 (+) s (foldl sha_round s (zip sha_k (rev (sha_extend 48 (rev block)))))"

section \<open>Padding and digest\<close>

definition word_of_bytes :: "char \<Rightarrow> char \<Rightarrow> char \<Rightarrow> char \<Rightarrow> word32" where
  "word_of_bytes a b c d =
     push_bit 24 (of_char a) OR push_bit 16 (of_char b) OR push_bit 8 (of_char c) OR of_char d"

fun words_of_bytes :: "string \<Rightarrow> word32 list" where
  "words_of_bytes (a # b # c # d # s) = word_of_bytes a b c d # words_of_bytes s"
| "words_of_bytes _ = []"

definition bytes_of_word :: "word32 \<Rightarrow> string" where
  "bytes_of_word w =
     (let n = uint w in [char_of (drop_bit 24 n), char_of (drop_bit 16 n), char_of (drop_bit 8 n), char_of n])"

fun be_bytes :: "nat \<Rightarrow> int \<Rightarrow> string" where
  "be_bytes 0 n = []"
| "be_bytes (Suc k) n = be_bytes k (n div 256) @ [char_of n]"

definition sha_pad :: "string \<Rightarrow> string" where
  "sha_pad m =
     m @ [CHR 0x80] @ replicate ((119 - length m mod 64) mod 64) (CHR 0x00) @
     be_bytes 8 (8 * int (length m))"

function sha_blocks :: "word32 list \<Rightarrow> word32 list list" where
  "sha_blocks ws = (if ws = [] then [] else take 16 ws # sha_blocks (drop 16 ws))"
  by pat_completeness auto
termination
  by (relation "measure length") auto

declare sha_blocks.simps [simp del]

definition sha256 :: "string \<Rightarrow> string" where
  "sha256 m =
     concat (map bytes_of_word (foldl sha_block sha_init (sha_blocks (words_of_bytes (sha_pad m)))))"

section \<open>HMAC\<close>

definition xor_bytes :: "int \<Rightarrow> string \<Rightarrow> string" where
  "xor_bytes k s = map (\<lambda>c. char_of (of_char c XOR k)) s"

text \<open>\<open>hmac.New(sha256.New, key)\<close>, \<open>Write(msg)\<close>, \<open>Sum(nil)\<close>; the block size is 64 bytes.\<close>

definition hmac_sha256 :: "string \<Rightarrow> string \<Rightarrow> string" where
  "hmac_sha256 key msg =
     (let k0 = (if length key > 64 then sha256 key else key);
          k = k0 @ replicate (64 - length k0) (CHR 0x00)
      in sha256 (xor_bytes 0x5c k @ sha256 (xor_bytes 0x36 k @ msg)))"

section \<open>Output length\<close>

lemma length_sha_round [simp]: "length (sha_round s kw) = length s"
  by (cases "(s, kw)" rule: sha_round.cases) (auto simp: Let_def)

lemma length_foldl_round: "length (foldl sha_round s kws) = length s"
  by (induction kws arbitrary: s) auto

lemma length_foldl_block: "length (foldl sha_block s bs) = length s"
  by (induction bs arbitrary: s) (auto simp: sha_block_def length_foldl_round)

lemma length_bytes_of_word [simp]: "length (bytes_of_word w) = 4"
  by (simp add: bytes_of_word_def Let_def)

lemma length_sha256 [simp]: "length (sha256 m) = 32"
proof -
  have "length (concat (map bytes_of_word ws)) = 4 * length ws" for ws
    by (induction ws) auto
  then show ?thesis
    by (simp add: sha256_def length_foldl_block sha_init_def)
qed

lemma length_hmac_sha256 [simp]: "length (hmac_sha256 k m) = 32"
  by (simp add: hmac_sha256_def Let_def)

end
