(* ===== verification/Flate.thy ===== *)
theory Flate imports
  GoStrings
begin

text \<open>
  The interface to \<open>compress/flate\<close>. The compressor's choice of matches and code tables is not
  modelled: a codec is a pair of functions, the compressor and the bytes a decompressor yields
  with a flag for a clean end of the stream. What the program relies on is that
  decompression undoes compression (\<open>flate_lossless\<close>). The stored-block format of RFC 1951,
  which every decompressor accepts, shows that such codecs exist.
\<close>

record flate_codec =
  fl_deflate :: "string \<Rightarrow> string"
  fl_inflate :: "string \<Rightarrow> string \<times> bool"

definition flate_lossless :: "flate_codec \<Rightarrow> bool" where
  "flate_lossless fl \<longleftrightarrow> (\<forall>s. fl_inflate fl (fl_deflate fl s) = (s, True))"

lemma flate_losslessD: "flate_lossless fl \<Longrightarrow> fl_inflate fl (fl_deflate fl s) = (s, True)"
  by (simp add: flate_lossless_def)

section \<open>Stored blocks\<close>

text \<open>
  A stored block is a header byte (bit 0: final), the length and its complement as two
  little-endian bytes each, and the data; a block holds at most 65535 bytes.
\<close>

definition le16 :: "nat \<Rightarrow> string" where
  "le16 n = [chr (n mod 256), chr (n div 256)]"

definition stored_block :: "bool \<Rightarrow> string \<Rightarrow> string" where
  "stored_block final s =
     (if final then CHR 0x01 else CHR 0x00) # le16 (length s) @ le16 (65535 - length s) @ s"

function stored_deflate :: "string \<Rightarrow> string" where
  "stored_deflate s =
     (if length s \<le> 65535 then stored_block True s
      else stored_block False (take 65535 s) @ stored_deflate (drop 65535 s))"
  by pat_completeness auto
termination
  by (relation "measure length") auto

declare stored_deflate.simps [simp del]

text \<open>One block: is it final, its data, the rest.\<close>

definition stored_head :: "string \<Rightarrow> (bool \<times> string \<times> string) option" where
  "stored_head s =
     (case s of
        h # a # b # c # d # r \<Rightarrow>
          (let n = byte a + 256 * byte b; m = byte c + 256 * byte d
           in if (h = CHR 0x00 \<or> h = CHR 0x01) \<and> n + m = 65535 \<and> n \<le> length r
              then Some (h = CHR 0x01, take n r, drop n r) else None)
      | _ \<Rightarrow> None)"

lemma stored_head_shorter: "stored_head s = Some (f, d, r) \<Longrightarrow> length r < length s"
  by (auto simp: stored_head_def Let_def split: list.splits if_splits)

function stored_inflate :: "string \<Rightarrow> string \<times> bool" where
  "stored_inflate s =
     (case stored_head s of None \<Rightarrow> ([], False)
      | Some (f, d, r) \<Rightarrow>
          if f then (d, True) else (case stored_inflate r of (t, ok) \<Rightarrow> (d @ t, ok)))"
  by pat_completeness auto
termination
  by (relation "measure length") (auto dest: stored_head_shorter)

declare stored_inflate.simps [simp del]

definition stored_codec :: flate_codec where
  "stored_codec = \<lparr>fl_deflate = stored_deflate, fl_inflate = stored_inflate\<rparr>"

lemma le16_bytes: "n < 65536 \<Longrightarrow> byte (chr (n mod 256)) + 256 * byte (chr (n div 256)) = n"
  by (simp add: byte_chr less_mult_imp_div_less)

lemma stored_head_block:
  assumes "length d \<le> 65535"
  shows "stored_head (stored_block f d @ r) = Some (f, d, r)"
proof -
  have "length d < 65536" "65535 - length d < 65536" using assms by auto
  from this [THEN le16_bytes] assms show ?thesis
    by (simp add: stored_head_def stored_block_def le16_def Let_def del: of_char_of)
qed

lemma stored_inflate_deflate: "stored_inflate (stored_deflate s) = (s, True)"
proof (induction s rule: stored_deflate.induct)
  case (1 s)
  show ?case
  proof (cases "length s \<le> 65535")
    case True
    then show ?thesis
      using stored_head_block [of s True "[]"]
      by (simp add: stored_deflate.simps [of s] stored_inflate.simps [of "stored_block True s"])
  next
    case False
    with 1 have IH: "stored_inflate (stored_deflate (drop 65535 s)) = (drop 65535 s, True)" by simp
    have "stored_head (stored_deflate s) =
        Some (False, take 65535 s, stored_deflate (drop 65535 s))"
      using False by (simp add: stored_deflate.simps [of s] stored_head_block)
    with IH show ?thesis
      by (simp add: stored_inflate.simps [of "stored_deflate s"])
  qed
qed

lemma stored_lossless: "flate_lossless stored_codec"
  by (simp add: flate_lossless_def stored_codec_def stored_inflate_deflate)

end
