(* ===== verification/GoTime.thy ===== *)
theory GoTime imports
  GoStrings
begin

text \<open>
  Package \<open>time\<close> as the program uses it. A \<open>Duration\<close> is a signed 64-bit count of nanoseconds,
  kept as an integer in that range; an instant is an integer count of nanoseconds since the Unix
  epoch. \<open>Sub\<close> saturates at the ends of the range, \<open>Unix\<close> wraps at 64 bits as Go's internal
  representation does, and \<open>ParseDuration\<close> rejects what overflows. The fraction of a parsed
  duration is truncated exactly, where Go multiplies in floating point.
\<close>

section \<open>Instants and durations\<close>

type_synonym duration = int
type_synonym instant = int

abbreviation second :: duration where "second \<equiv> 1000000000"
abbreviation minute :: duration where "minute \<equiv> 60 * second"

definition max_duration :: duration where "max_duration = 2 ^ 63 - 1"
definition min_duration :: duration where "min_duration = - (2 ^ 63)"

definition wrap64 :: "int \<Rightarrow> int" where
  "wrap64 i = (i + 2 ^ 63) mod 2 ^ 64 - 2 ^ 63"

text \<open>Seconds from year 1, Go's zero instant, to the Unix epoch.\<close>

definition unix_to_internal :: int where "unix_to_internal = 62135596800"

text \<open>\<open>time.Unix(sec, 0)\<close>: the internal seconds are a 64-bit sum.\<close>

definition time_unix :: "int \<Rightarrow> instant" where
  "time_unix s = (wrap64 (s + unix_to_internal) - unix_to_internal) * second"

text \<open>\<open>t.Unix()\<close>.\<close>

definition unix_seconds :: "instant \<Rightarrow> int" where
  "unix_seconds t = t div second"

text \<open>\<open>t.Sub(u)\<close>.\<close>

definition time_sub :: "instant \<Rightarrow> instant \<Rightarrow> duration" where
  "time_sub t u =
     (if t - u < min_duration then min_duration
      else if t - u > max_duration then max_duration
      else t - u)"

lemma wrap64_id: "int64_ok i \<Longrightarrow> wrap64 i = i"
  by (simp add: wrap64_def)

lemma time_sub_exact: "int64_ok (t - u) \<Longrightarrow> time_sub t u = t - u"
  by (simp add: time_sub_def min_duration_def max_duration_def)

lemma time_sub_le: "time_sub t u \<le> d \<Longrightarrow> d < max_duration \<Longrightarrow> t - u \<le> d"
  by (auto simp: time_sub_def min_duration_def split: if_splits)

lemma time_sub_le_iff: "min_duration \<le> d \<Longrightarrow> d < max_duration \<Longrightarrow> time_sub t u \<le> d \<longleftrightarrow> t - u \<le> d"
  by (auto simp: time_sub_def min_duration_def max_duration_def)

text \<open>Instants between year 1 and the year 292277022656 do not wrap.\<close>

lemma time_unix_exact:
  "- unix_to_internal \<le> s \<Longrightarrow> s < 2 ^ 62 \<Longrightarrow> time_unix s = s * second"
  by (simp add: time_unix_def unix_to_internal_def wrap64_id)

section \<open>ParseDuration\<close>

definition duration_units :: "(string \<times> int) list" where
  "duration_units =
     [(''ns'', 1), (''us'', 1000), ([CHR 0xC2, CHR 0xB5, CHR ''s''], 1000),
      ([CHR 0xCE, CHR 0xBC, CHR ''s''], 1000), (''ms'', 1000000), (''s'', 1000000000),
      (''m'', 60000000000), (''h'', 3600000000000)]"

definition unit_byte :: "char \<Rightarrow> bool" where
  "unit_byte c \<longleftrightarrow> c \<noteq> CHR ''.'' \<and> \<not> is_digit c"

text \<open>One \<open>number unit\<close> group: the nanoseconds it stands for and the rest of the input.\<close>

definition duration_group :: "string \<Rightarrow> (int \<times> string) option" where
  "duration_group s =
     (let ip = takeWhile is_digit s; s1 = dropWhile is_digit s;
          dot = (s1 \<noteq> [] \<and> hd s1 = CHR ''.'');
          fp = (if dot then takeWhile is_digit (tl s1) else []);
          s2 = (if dot then dropWhile is_digit (tl s1) else s1);
          u = takeWhile unit_byte s2; r = dropWhile unit_byte s2
      in if ip = [] \<and> fp = [] \<or> u = [] \<or> digits_value ip > 2 ^ 63 then None
         else (case map_of duration_units u of None \<Rightarrow> None
               | Some unit \<Rightarrow>
                   (if digits_value ip > 2 ^ 63 div unit then None
                    else let v = digits_value ip * unit + digits_value fp * unit div 10 ^ length fp
                         in if v > 2 ^ 63 then None else Some (v, r))))"

lemma dropWhile_shorter: "takeWhile P s \<noteq> [] \<Longrightarrow> length (dropWhile P s) < length s"
  by (cases s) (auto simp: length_dropWhile_le less_Suc_eq_le split: if_splits)

lemma duration_group_shorter: "duration_group s = Some (v, r) \<Longrightarrow> length r < length s"
proof -
  assume g: "duration_group s = Some (v, r)"
  define s1 where "s1 = dropWhile is_digit s"
  define s2 where "s2 = (if s1 \<noteq> [] \<and> hd s1 = CHR ''.'' then dropWhile is_digit (tl s1) else s1)"
  from g have u: "takeWhile unit_byte s2 \<noteq> []" and r: "r = dropWhile unit_byte s2"
    by (auto simp: duration_group_def Let_def s1_def s2_def split: if_splits option.splits)
  have "length s2 \<le> length s1"
    by (auto simp: s2_def intro: order_trans [OF length_dropWhile_le])
  moreover have "length s1 \<le> length s"
    by (simp add: s1_def length_dropWhile_le)
  ultimately show ?thesis
    using dropWhile_shorter [OF u] r by simp
qed

function duration_groups :: "string \<Rightarrow> int \<Rightarrow> int option" where
  "duration_groups s d =
     (if s = [] then Some d
      else (case duration_group s of None \<Rightarrow> None
            | Some (v, r) \<Rightarrow> if d + v > 2 ^ 63 then None else duration_groups r (d + v)))"
  by pat_completeness auto
termination
  by (relation "measure (\<lambda>(s, d). length s)") (auto dest: duration_group_shorter)

declare duration_groups.simps [simp del]

definition parse_duration :: "string \<Rightarrow> duration option" where
  "parse_duration s =
     (let signed = (s \<noteq> [] \<and> (hd s = CHR ''-'' \<or> hd s = CHR ''+''));
          neg = (s \<noteq> [] \<and> hd s = CHR ''-'');
          b = (if signed then tl s else s)
      in if b = ''0'' then Some 0
         else if b = [] then None
         else (case duration_groups b 0 of None \<Rightarrow> None
               | Some d \<Rightarrow>
                   if neg then Some (- d)
                   else if d > max_duration then None else Some d))"

lemma digits_value_nonneg: "list_all is_digit s \<Longrightarrow> 0 \<le> digits_value s"
proof -
  have "0 \<le> foldl (\<lambda>n c. 10 * n + digit_value c) n s" if "list_all is_digit s" "0 \<le> n" for n
    using that
  proof (induction s arbitrary: n)
    case (Cons c s)
    have "int (byte c) = of_char c" by (simp add: of_nat_of_char)
    with Cons.prems have "0 \<le> digit_value c"
      by (auto simp: digit_value_def is_digit_byte)
    with Cons show ?case by simp
  qed simp
  then show "list_all is_digit s \<Longrightarrow> 0 \<le> digits_value s"
    by (simp add: digits_value_def)
qed

lemma duration_group_nonneg: "duration_group s = Some (v, r) \<Longrightarrow> 0 \<le> v"
proof -
  assume g: "duration_group s = Some (v, r)"
  have d: "0 \<le> digits_value (takeWhile is_digit t)" for t
    by (rule digits_value_nonneg) (auto simp: list_all_iff dest: set_takeWhileD)
  have z: "0 \<le> digits_value []" by (simp add: digits_value_def)
  have u: "0 \<le> n" if "map_of duration_units x = Some n" for x n
    using that by (auto simp: duration_units_def split: if_splits)
  from g show ?thesis
    by (auto simp: duration_group_def Let_def d z
        intro!: add_nonneg_nonneg mult_nonneg_nonneg pos_imp_zdiv_nonneg_iff [THEN iffD2]
        dest: u split: if_splits option.splits)
qed

lemma duration_groups_bound:
  "duration_groups s d = Some e \<Longrightarrow> 0 \<le> d \<Longrightarrow> d \<le> 2 ^ 63 \<Longrightarrow> 0 \<le> e \<and> e \<le> 2 ^ 63"
proof (induction s d rule: duration_groups.induct)
  case (1 s d)
  show ?case
  proof (cases "s = []")
    case True
    with "1.prems" show ?thesis by (simp add: duration_groups.simps [of "[]"])
  next
    case False
    with "1.prems"(1) obtain v r where g: "duration_group s = Some (v, r)"
      and d: "\<not> 2 ^ 63 < d + v" and e: "duration_groups r (d + v) = Some e"
      by (subst (asm) duration_groups.simps) (auto split: if_splits option.splits)
    from "1.IH" [OF False g refl d e] d duration_group_nonneg [OF g] "1.prems"(2)
    show ?thesis by simp
  qed
qed

text \<open>Every parsed duration fits in 64 bits.\<close>

lemma parse_duration_int64: "parse_duration s = Some d \<Longrightarrow> int64_ok d"
proof -
  assume p: "parse_duration s = Some d"
  have b: "0 \<le> e \<and> e \<le> 2 ^ 63" if "duration_groups t 0 = Some e" for t e
    using duration_groups_bound [OF that] by simp
  from p show ?thesis
    by (auto simp: parse_duration_def Let_def max_duration_def dest!: b split: if_splits option.splits)
qed

end
