(* ===== verification/Seal.thy ===== *)
theory Seal imports
  JsonParse Sha256 Flate GoTime
begin

text \<open>
  Package \<open>internal/seal\<close> (\<open>seal.go\<close>): the HMAC envelope that carries the flow context through
  the browser. State payloads and code payloads are the two instances of the interface
  \<open>envelope_payload\<close>, for which sealing and opening are proved once. The error values keep what
  the code puts into the message; \<open>errors_is\<close> is \<open>errors.Is\<close> on the sentinels.
\<close>

section \<open>Constants and types\<close>

definition DomainState :: string where "DomainState = ''sapstate.v1''"
definition DomainCode :: string where "DomainCode = ''sapcode.v1''"
definition maxClockSkew :: duration where "maxClockSkew = 60 * second"
definition maxPayloadBytes :: nat where "maxPayloadBytes = 64 * 1024"
definition numParts :: nat where "numParts = 3"
definition maxLoggedKIDLen :: nat where "maxLoggedKIDLen = 64"

datatype seal_sentinel =
  ErrMalformed | ErrUnknownKID | ErrBadMAC | ErrExpired | ErrFuture | ErrEmptyRing

text \<open>The error values of \<open>Seal\<close> and \<open>Open\<close>, one per \<open>return\<close>.\<close>

datatype seal_error =
    EmptyRing
  | UnusableKID string
  | NoKeyMaterial string
  | MarshalFailed
  | WrongParts nat
  | UnknownKID string
  | PayloadNotBase64
  | MacNotBase64
  | BadMAC
  | InflateFailed
  | UnmarshalFailed
  | UnmarshalIATFailed
  | FutureIAT duration
  | StaleIAT duration duration

text \<open>\<open>errors.Is(err, sentinel)\<close>: the sentinels each error wraps.\<close>

fun errors_is :: "seal_error \<Rightarrow> seal_sentinel \<Rightarrow> bool" where
  "errors_is EmptyRing s = (s = ErrEmptyRing)"
| "errors_is (UnusableKID k) s = (s = ErrMalformed)"
| "errors_is (NoKeyMaterial k) s = (s = ErrEmptyRing)"
| "errors_is MarshalFailed s = (s = ErrMalformed)"
| "errors_is (WrongParts n) s = (s = ErrMalformed)"
| "errors_is (UnknownKID k) s = (s = ErrUnknownKID)"
| "errors_is PayloadNotBase64 s = (s = ErrMalformed)"
| "errors_is MacNotBase64 s = (s = ErrMalformed)"
| "errors_is BadMAC s = (s = ErrBadMAC)"
| "errors_is InflateFailed s = (s = ErrMalformed)"
| "errors_is UnmarshalFailed s = (s = ErrMalformed)"
| "errors_is UnmarshalIATFailed s = (s = ErrMalformed)"
| "errors_is (FutureIAT d) s = (s = ErrExpired \<or> s = ErrFuture)"
| "errors_is (StaleIAT a t) s = (s = ErrExpired)"

record Key =
  KID :: string
  KeyBytes :: string

type_synonym Ring = "Key list"

record StatePayload =
  st_CID :: string
  st_RU :: string
  st_ST :: string
  st_HasST :: bool
  st_IAT :: int
  st_Nonce :: string

record CodePayload =
  cp_CID :: string
  cp_SC :: string
  cp_IAT :: int

section \<open>Primitives\<close>

definition seal_truncate :: "string \<Rightarrow> nat \<Rightarrow> string" where
  "seal_truncate s n = (if length s \<le> n then s else take n s @ ''...(truncated)'')"

text \<open>\<open>Ring.key\<close>: the first entry with the key id and some key material.\<close>

definition ring_key :: "Ring \<Rightarrow> string \<Rightarrow> string option" where
  "ring_key r kid = map_option KeyBytes (find (\<lambda>k. KID k = kid \<and> KeyBytes k \<noteq> []) r)"

definition tag :: "string \<Rightarrow> string \<Rightarrow> string \<Rightarrow> string" where
  "tag key domain packed = hmac_sha256 key (domain @ packed)"

definition deflate :: "flate_codec \<Rightarrow> string \<Rightarrow> string" where
  "deflate fl raw = fl_deflate fl raw"

text \<open>
  \<open>inflate\<close> reads at most one byte more than the cap: a stream error beyond the cap is not
  seen, and the length check then rejects.
\<close>

definition inflate :: "flate_codec \<Rightarrow> string \<Rightarrow> string option" where
  "inflate fl packed =
     (case fl_inflate fl packed of (out, clean) \<Rightarrow>
        let raw = take (maxPayloadBytes + 1) out
        in if length out \<le> maxPayloadBytes \<and> \<not> clean then None
           else if length raw > maxPayloadBytes then None
           else Some raw)"

section \<open>Seal and Open\<close>

definition Seal :: "flate_codec \<Rightarrow> Ring \<Rightarrow> string \<Rightarrow> ('p \<Rightarrow> string option) \<Rightarrow> 'p \<Rightarrow>
    (seal_error, string) result" where
  "Seal fl r domain marshal payload =
     (case r of [] \<Rightarrow> Err EmptyRing
      | k # _ \<Rightarrow>
          if KID k = [] \<or> CHR ''.'' \<in> set (KID k) then Err (UnusableKID (KID k))
          else if KeyBytes k = [] then Err (NoKeyMaterial (KID k))
          else (case marshal payload of None \<Rightarrow> Err MarshalFailed
                | Some raw \<Rightarrow>
                    let packed = deflate fl raw
                    in Ok (KID k @ CHR ''.'' # rawurl_encode packed @
                           CHR ''.'' # rawurl_encode (tag (KeyBytes k) domain packed))))"

text \<open>The steps of \<open>Open\<close>: structure and key lookup, authentication, payload, issue time.\<close>

definition open_fields :: "Ring \<Rightarrow> string \<Rightarrow> (seal_error, string \<times> string \<times> string) result" where
  "open_fields r token =
     (let parts = split_on CHR ''.'' token
      in if length parts \<noteq> numParts then Err (WrongParts (length parts))
         else (case ring_key r (parts ! 0) of
                 None \<Rightarrow> Err (UnknownKID (seal_truncate (parts ! 0) maxLoggedKIDLen))
               | Some key \<Rightarrow>
                   (case rawurl_decode (parts ! 1) of None \<Rightarrow> Err PayloadNotBase64
                    | Some packed \<Rightarrow>
                        (case rawurl_decode (parts ! 2) of None \<Rightarrow> Err MacNotBase64
                         | Some got \<Rightarrow> Ok (key, packed, got)))))"

definition iat_window :: "instant \<Rightarrow> duration \<Rightarrow> instant \<Rightarrow> (seal_error, unit) result" where
  "iat_window iat ttl now =
     (if time_sub iat now > maxClockSkew then Err (FutureIAT (time_sub iat now))
      else if ttl > 0 \<and> time_sub now iat > ttl then Err (StaleIAT (time_sub now iat) ttl)
      else Ok ())"

text \<open>The second, type-independent decoding that reads only \<open>iat\<close>.\<close>

definition iat_member :: "string \<Rightarrow> json \<Rightarrow> int \<Rightarrow> int option" where
  "iat_member k v i = (if field_is ''iat'' k then read_int64 v i else Some i)"

definition iatProbe :: "string \<Rightarrow> int option" where
  "iatProbe raw =
     (case json_parse raw of None \<Rightarrow> None | Some j \<Rightarrow> read_struct iat_member j 0)"

definition open_payload :: "flate_codec \<Rightarrow> string \<Rightarrow> (string \<Rightarrow> 'p option) \<Rightarrow> duration \<Rightarrow> instant \<Rightarrow>
    (seal_error, 'p) result" where
  "open_payload fl packed unmarshal ttl now =
     (case inflate fl packed of None \<Rightarrow> Err InflateFailed
      | Some raw \<Rightarrow>
          (case unmarshal raw of None \<Rightarrow> Err UnmarshalFailed
           | Some dst \<Rightarrow>
               (case iatProbe raw of None \<Rightarrow> Err UnmarshalIATFailed
                | Some iat \<Rightarrow> andThen (iat_window (time_unix iat) ttl now) (\<lambda>_. Ok dst))))"

definition Open :: "flate_codec \<Rightarrow> Ring \<Rightarrow> string \<Rightarrow> string \<Rightarrow> (string \<Rightarrow> 'p option) \<Rightarrow>
    duration \<Rightarrow> instant \<Rightarrow> (seal_error, 'p) result" where
  "Open fl r domain token unmarshal ttl now =
     (if r = [] then Err EmptyRing
      else andThen (open_fields r token) (\<lambda>(key, packed, got).
        if got \<noteq> tag key domain packed then Err BadMAC
        else open_payload fl packed unmarshal ttl now))"

section \<open>Payloads as JSON\<close>

definition json_bool :: "bool \<Rightarrow> jtok" where
  "json_bool b = (if b then TTrue else TFalse)"

definition state_tokens :: "StatePayload \<Rightarrow> jtok list" where
  "state_tokens p =
     [LBrace, TStr ''cid'', Colon, TStr (st_CID p), Comma, TStr ''ru'', Colon, TStr (st_RU p), Comma,
      TStr ''st'', Colon, TStr (st_ST p), Comma, TStr ''has_st'', Colon, json_bool (st_HasST p), Comma,
      TStr ''iat'', Colon, TNum (itoa_int (st_IAT p)), Comma, TStr ''nonce'', Colon, TStr (st_Nonce p), RBrace]"

definition code_tokens :: "CodePayload \<Rightarrow> jtok list" where
  "code_tokens p =
     [LBrace, TStr ''cid'', Colon, TStr (cp_CID p), Comma, TStr ''sc'', Colon, TStr (cp_SC p), Comma,
      TStr ''iat'', Colon, TNum (itoa_int (cp_IAT p)), RBrace]"

definition marshal_state :: "StatePayload \<Rightarrow> string option" where
  "marshal_state p = Some (json_print (state_tokens p))"

definition marshal_code :: "CodePayload \<Rightarrow> string option" where
  "marshal_code p = Some (json_print (code_tokens p))"

definition zero_state :: StatePayload where
  "zero_state = \<lparr>st_CID = [], st_RU = [], st_ST = [], st_HasST = False, st_IAT = 0, st_Nonce = []\<rparr>"

definition zero_code :: CodePayload where
  "zero_code = \<lparr>cp_CID = [], cp_SC = [], cp_IAT = 0\<rparr>"

definition state_member :: "string \<Rightarrow> json \<Rightarrow> StatePayload \<Rightarrow> StatePayload option" where
  "state_member k v p =
     (if field_is ''cid'' k then map_option (\<lambda>s. p\<lparr>st_CID := s\<rparr>) (read_string v (st_CID p))
      else if field_is ''ru'' k then map_option (\<lambda>s. p\<lparr>st_RU := s\<rparr>) (read_string v (st_RU p))
      else if field_is ''st'' k then map_option (\<lambda>s. p\<lparr>st_ST := s\<rparr>) (read_string v (st_ST p))
      else if field_is ''has_st'' k then map_option (\<lambda>b. p\<lparr>st_HasST := b\<rparr>) (read_bool v (st_HasST p))
      else if field_is ''iat'' k then map_option (\<lambda>i. p\<lparr>st_IAT := i\<rparr>) (read_int64 v (st_IAT p))
      else if field_is ''nonce'' k then map_option (\<lambda>s. p\<lparr>st_Nonce := s\<rparr>) (read_string v (st_Nonce p))
      else Some p)"

definition code_member :: "string \<Rightarrow> json \<Rightarrow> CodePayload \<Rightarrow> CodePayload option" where
  "code_member k v p =
     (if field_is ''cid'' k then map_option (\<lambda>s. p\<lparr>cp_CID := s\<rparr>) (read_string v (cp_CID p))
      else if field_is ''sc'' k then map_option (\<lambda>s. p\<lparr>cp_SC := s\<rparr>) (read_string v (cp_SC p))
      else if field_is ''iat'' k then map_option (\<lambda>i. p\<lparr>cp_IAT := i\<rparr>) (read_int64 v (cp_IAT p))
      else Some p)"

definition unmarshal_state :: "string \<Rightarrow> StatePayload option" where
  "unmarshal_state raw =
     (case json_parse raw of None \<Rightarrow> None | Some j \<Rightarrow> read_struct state_member j zero_state)"

definition unmarshal_code :: "string \<Rightarrow> CodePayload option" where
  "unmarshal_code raw =
     (case json_parse raw of None \<Rightarrow> None | Some j \<Rightarrow> read_struct code_member j zero_code)"

text \<open>What survives the JSON encoding: strings with their invalid UTF-8 bytes replaced.\<close>

definition clean_state :: "StatePayload \<Rightarrow> StatePayload" where
  "clean_state p =
     p\<lparr>st_CID := to_valid (st_CID p), st_RU := to_valid (st_RU p), st_ST := to_valid (st_ST p),
       st_Nonce := to_valid (st_Nonce p)\<rparr>"

definition clean_code :: "CodePayload \<Rightarrow> CodePayload" where
  "clean_code p = p\<lparr>cp_CID := to_valid (cp_CID p), cp_SC := to_valid (cp_SC p)\<rparr>"

end
