(* ===== verification/SealLaws.thy ===== *)
theory SealLaws imports
  Seal
begin

text \<open>
  Laws of the envelope: the interface \<open>envelope_payload\<close> of a sealable payload type with the
  round trip proved once, its two interpretations, what an accepted envelope proves, and the
  properties of \<open>Seal\<close> and \<open>Open\<close>.
\<close>

section \<open>Shape of sealed tokens\<close>

lemma dot_not_rawurl: "\<not> rawurl_alphabet CHR ''.''"
  by (simp add: b64_alphabet_def byte_class)

lemma ring_key_Some:
  "ring_key r kid = Some key \<Longrightarrow> key \<noteq> [] \<and> (\<exists>k \<in> set r. KID k = kid \<and> KeyBytes k = key)"
  by (auto simp: ring_key_def find_Some_iff intro!: bexI [OF _ nth_mem])

text \<open>A ring that can sign: what \<open>Seal\<close> requires of the newest key.\<close>

definition signable :: "Ring \<Rightarrow> bool" where
  "signable r \<longleftrightarrow>
     r \<noteq> [] \<and> KID (hd r) \<noteq> [] \<and> CHR ''.'' \<notin> set (KID (hd r)) \<and> KeyBytes (hd r) \<noteq> []"

definition sealed_token :: "Key \<Rightarrow> string \<Rightarrow> string \<Rightarrow> string" where
  "sealed_token k domain packed =
     KID k @ CHR ''.'' # rawurl_encode packed @
     CHR ''.'' # rawurl_encode (tag (KeyBytes k) domain packed)"

lemma Seal_signable:
  "signable r \<Longrightarrow> marshal p = Some raw \<Longrightarrow>
   Seal fl r domain marshal p = Ok (sealed_token (hd r) domain (fl_deflate fl raw))"
  by (cases r) (auto simp: Seal_def signable_def sealed_token_def deflate_def Let_def)

lemma Seal_Ok:
  "Seal fl r domain marshal p = Ok tok \<Longrightarrow>
   signable r \<and> (\<exists>raw. marshal p = Some raw \<and> tok = sealed_token (hd r) domain (fl_deflate fl raw))"
  by (auto simp: Seal_def signable_def sealed_token_def deflate_def Let_def
      split: list.splits if_splits option.splits)

lemma ring_key_hd: "signable r \<Longrightarrow> ring_key r (KID (hd r)) = Some (KeyBytes (hd r))"
  by (cases r) (auto simp: ring_key_def signable_def)

lemma split_sealed:
  "CHR ''.'' \<notin> set (KID k) \<Longrightarrow>
   split_on CHR ''.'' (sealed_token k domain packed) =
     [KID k, rawurl_encode packed, rawurl_encode (tag (KeyBytes k) domain packed)]"
  unfolding sealed_token_def by (rule rawurl.split_encoded [OF dot_not_rawurl])

lemma open_fields_sealed:
  "CHR ''.'' \<notin> set (KID k) \<Longrightarrow> ring_key r (KID k) = Some key \<Longrightarrow>
   open_fields r (sealed_token k domain packed) = Ok (key, packed, tag (KeyBytes k) domain packed)"
  by (simp add: open_fields_def split_sealed numParts_def rawurl.dec_enc numeral_2_eq_2)

lemma inflate_deflated:
  "flate_lossless fl \<Longrightarrow> length raw \<le> maxPayloadBytes \<Longrightarrow> inflate fl (fl_deflate fl raw) = Some raw"
  by (simp add: inflate_def flate_losslessD)

lemma inflate_bound: "inflate fl packed = Some raw \<Longrightarrow> length raw \<le> maxPayloadBytes"
  by (auto simp: inflate_def Let_def split: prod.splits if_splits)

section \<open>What an accepted envelope proves\<close>

text \<open>\<open>Open\<close> accepts exactly the tokens whose three fields decode and authenticate under a key of
  the ring and whose payload unpacks, parses and lies in the time window.\<close>

lemma open_fields_Ok:
  "open_fields r token = Ok (key, packed, got) \<longleftrightarrow>
   (\<exists>kid p m. split_on CHR ''.'' token = [kid, p, m] \<and> ring_key r kid = Some key \<and>
      rawurl_decode p = Some packed \<and> rawurl_decode m = Some got)"
proof -
  have "length xs = numParts \<longleftrightarrow> (\<exists>a b c. xs = [a, b, c])" for xs :: "string list"
    by (auto simp: numParts_def numeral_3_eq_3 length_Suc_conv)
  then show ?thesis
    by (auto simp: open_fields_def Let_def numeral_2_eq_2 numParts_def split: option.splits if_splits)
qed

lemma open_payload_Ok:
  "open_payload fl packed u ttl now = Ok p \<longleftrightarrow>
   (\<exists>raw iat. inflate fl packed = Some raw \<and> u raw = Some p \<and> iatProbe raw = Some iat \<and>
      iat_window (time_unix iat) ttl now = Ok ())"
  by (auto simp: open_payload_def split: option.splits)

lemma Open_Ok:
  "Open fl r domain token u ttl now = Ok p \<longleftrightarrow>
   (\<exists>key packed. open_fields r token = Ok (key, packed, tag key domain packed) \<and>
      open_payload fl packed u ttl now = Ok p)"
  by (auto simp: Open_def open_fields_Ok ring_key_def)

lemma iat_window_Ok:
  "iat_window iat ttl now = Ok () \<longleftrightarrow>
   time_sub iat now \<le> maxClockSkew \<and> (ttl > 0 \<longrightarrow> time_sub now iat \<le> ttl)"
  by (auto simp: iat_window_def)

text \<open>The verdict up to authentication: the packed payload if the MAC verifies.\<close>

definition authenticated :: "Ring \<Rightarrow> string \<Rightarrow> string \<Rightarrow> string option" where
  "authenticated r domain token =
     (case open_fields r token of
        Ok (key, packed, got) \<Rightarrow> if got = tag key domain packed then Some packed else None
      | Err e \<Rightarrow> None)"

lemma Open_unauthenticated:
  assumes "authenticated r domain token = None"
  shows "Open fl r domain token u ttl now = Open fl' r domain token u' ttl' now'"
  using assms by (auto simp: authenticated_def Open_def split: sum.splits prod.splits if_splits)

lemma Open_unauthenticated_error:
  assumes "authenticated r domain token = None"
  shows "\<exists>e. Open fl r domain token u ttl now = Err e \<and>
    (errors_is e ErrEmptyRing \<or> errors_is e ErrMalformed \<or> errors_is e ErrUnknownKID \<or> errors_is e ErrBadMAC)"
  using assms
  by (auto simp: authenticated_def Open_def open_fields_def Let_def
      split: sum.splits prod.splits if_splits option.splits)

section \<open>Sealable payload types\<close>

text \<open>
  A payload type is sealable when it has a JSON encoding that decodes to the payload with its
  strings cleaned, and whose \<open>iat\<close> field is the payload's. The client of this interface is the
  envelope; the two payload types of the program provide it.
\<close>

locale envelope_payload =
  fixes marshal :: "'p \<Rightarrow> string option"
    and unmarshal :: "string \<Rightarrow> 'p option"
    and clean :: "'p \<Rightarrow> 'p"
    and iat_of :: "'p \<Rightarrow> int"
  assumes marshal_total: "marshal p \<noteq> None"
    and unmarshal_marshal:
      "int64_ok (iat_of p) \<Longrightarrow> marshal p = Some raw \<Longrightarrow> unmarshal raw = Some (clean p)"
    and probe_marshal:
      "int64_ok (iat_of p) \<Longrightarrow> marshal p = Some raw \<Longrightarrow> iatProbe raw = Some (iat_of p)"
begin

text \<open>
  The round trip, for any ring that still holds the signing key under its key id: rotation is
  the case of a ring that differs from the signing one.
\<close>

lemma open_sealed:
  assumes "flate_lossless fl" "int64_ok (iat_of p)"
    and tok: "Seal fl r domain marshal p = Ok tok"
    and "\<And>raw. marshal p = Some raw \<Longrightarrow> length raw \<le> maxPayloadBytes"
    and key: "ring_key r' (KID (hd r)) = Some (KeyBytes (hd r))"
  shows "Open fl r' domain tok unmarshal ttl now =
    andThen (iat_window (time_unix (iat_of p)) ttl now) (\<lambda>_. Ok (clean p))"
proof -
  from Seal_Ok [OF tok] obtain raw where s: "signable r" and m: "marshal p = Some raw"
    and t: "tok = sealed_token (hd r) domain (fl_deflate fl raw)" by blast
  have "open_fields r' tok =
      Ok (KeyBytes (hd r), fl_deflate fl raw, tag (KeyBytes (hd r)) domain (fl_deflate fl raw))"
    using s key t by (simp add: open_fields_sealed signable_def)
  moreover have "r' \<noteq> []"
    using key by (auto simp: ring_key_def)
  ultimately show ?thesis
    using assms m by (simp add: Open_def open_payload_def inflate_deflated
        unmarshal_marshal probe_marshal)
qed

lemma seal_succeeds: "(\<exists>tok. Seal fl r domain marshal p = Ok tok) \<longleftrightarrow> signable r"
proof
  assume "\<exists>tok. Seal fl r domain marshal p = Ok tok"
  then show "signable r" by (auto dest: Seal_Ok)
next
  obtain raw where "marshal p = Some raw" using marshal_total [of p] by auto
  moreover assume "signable r"
  ultimately show "\<exists>tok. Seal fl r domain marshal p = Ok tok" by (simp add: Seal_signable)
qed

end

section \<open>The two payload types\<close>

lemma fold_name_ascii:
  "list_all (\<lambda>c. byte c < 128) s \<Longrightarrow>
   fold_name s = map (\<lambda>c. if is_lower c then chr (byte c - 32) else c) s"
proof (induction s)
  case Nil
  show ?case by (subst fold_name.simps) simp
next
  case (Cons c s)
  then show ?case
    by (subst fold_name.simps) (auto simp: prefix_def)
qed

lemma field_names [simp]:
  "field_is ''cid'' ''cid''" "\<not> field_is ''cid'' ''ru''" "\<not> field_is ''cid'' ''st''"
  "\<not> field_is ''cid'' ''has_st''" "\<not> field_is ''cid'' ''iat''" "\<not> field_is ''cid'' ''nonce''"
  "\<not> field_is ''cid'' ''sc''"
  "field_is ''ru'' ''ru''" "\<not> field_is ''ru'' ''st''" "\<not> field_is ''ru'' ''has_st''"
  "\<not> field_is ''ru'' ''iat''" "\<not> field_is ''ru'' ''nonce''"
  "field_is ''st'' ''st''" "\<not> field_is ''st'' ''has_st''" "\<not> field_is ''st'' ''iat''"
  "\<not> field_is ''st'' ''nonce''"
  "field_is ''has_st'' ''has_st''" "\<not> field_is ''has_st'' ''iat''" "\<not> field_is ''has_st'' ''nonce''"
  "field_is ''iat'' ''iat''" "\<not> field_is ''iat'' ''nonce''" "field_is ''nonce'' ''nonce''"
  "\<not> field_is ''iat'' ''cid''" "\<not> field_is ''iat'' ''ru''" "\<not> field_is ''iat'' ''st''"
  "\<not> field_is ''iat'' ''has_st''" "\<not> field_is ''iat'' ''sc''"
  "field_is ''sc'' ''sc''" "\<not> field_is ''sc'' ''iat''"
  by (simp_all add: field_is_def fold_name_ascii is_lower_byte)

lemma valid_ascii_names [simp]:
  "to_valid ''cid'' = ''cid''" "to_valid ''ru'' = ''ru''" "to_valid ''st'' = ''st''"
  "to_valid ''has_st'' = ''has_st''" "to_valid ''iat'' = ''iat''" "to_valid ''nonce'' = ''nonce''"
  "to_valid ''sc'' = ''sc''"
  by (rule to_valid_id, rule valid_utf8_ascii, simp)+

lemma parse_tokens:
  "well_spaced ts \<Longrightarrow> json_run ([], WantValue) (map clean_tok ts) = Some ([], Finished v) \<Longrightarrow>
   json_parse (json_print ts) = Some v"
  by (simp add: json_parse_def json_lex_print)

lemma parse_state_json:
  "json_parse (json_print (state_tokens p)) =
     Some (JObj [(''cid'', JStr (to_valid (st_CID p))), (''ru'', JStr (to_valid (st_RU p))),
       (''st'', JStr (to_valid (st_ST p))), (''has_st'', JBool (st_HasST p)),
       (''iat'', JNum (itoa_int (st_IAT p))), (''nonce'', JStr (to_valid (st_Nonce p)))])"
  by (rule parse_tokens)
    (simp_all add: state_tokens_def json_bool_def number_ok_itoa max_nesting_def)

lemma parse_code_json:
  "json_parse (json_print (code_tokens p)) =
     Some (JObj [(''cid'', JStr (to_valid (cp_CID p))), (''sc'', JStr (to_valid (cp_SC p))),
       (''iat'', JNum (itoa_int (cp_IAT p)))])"
  by (rule parse_tokens)
    (simp_all add: code_tokens_def number_ok_itoa max_nesting_def)

interpretation state_payload: envelope_payload marshal_state unmarshal_state clean_state st_IAT
proof
  fix p :: StatePayload and raw
  show "marshal_state p \<noteq> None" by (simp add: marshal_state_def)
  assume i: "int64_ok (st_IAT p)" and m: "marshal_state p = Some raw"
  then have p: "json_parse raw = json_parse (json_print (state_tokens p))"
    by (simp add: marshal_state_def)
  show "unmarshal_state raw = Some (clean_state p)"
    using i by (simp add: unmarshal_state_def p parse_state_json state_member_def zero_state_def
        clean_state_def parse_int64_itoa)
  show "iatProbe raw = Some (st_IAT p)"
    using i by (simp add: iatProbe_def p parse_state_json iat_member_def parse_int64_itoa)
qed

interpretation code_payload: envelope_payload marshal_code unmarshal_code clean_code cp_IAT
proof
  fix p :: CodePayload and raw
  show "marshal_code p \<noteq> None" by (simp add: marshal_code_def)
  assume i: "int64_ok (cp_IAT p)" and m: "marshal_code p = Some raw"
  then have p: "json_parse raw = json_parse (json_print (code_tokens p))"
    by (simp add: marshal_code_def)
  show "unmarshal_code raw = Some (clean_code p)"
    using i by (simp add: unmarshal_code_def p parse_code_json code_member_def zero_code_def
        clean_code_def parse_int64_itoa)
  show "iatProbe raw = Some (cp_IAT p)"
    using i by (simp add: iatProbe_def p parse_code_json iat_member_def parse_int64_itoa)
qed

section \<open>Payload sizes and issue times\<close>

text \<open>The largest payload is one that inflates again: every string grows at most six times.\<close>

definition state_fits :: "StatePayload \<Rightarrow> bool" where
  "state_fits p \<longleftrightarrow>
     6 * (length (st_CID p) + length (st_RU p) + length (st_ST p) + length (st_Nonce p)) + 250
       \<le> maxPayloadBytes"

definition code_fits :: "CodePayload \<Rightarrow> bool" where
  "code_fits p \<longleftrightarrow> 6 * (length (cp_CID p) + length (cp_SC p)) + 250 \<le> maxPayloadBytes"

lemma length_itoa_int: "int64_ok i \<Longrightarrow> length (itoa_int i) \<le> 20"
  using length_itoa [of i 18] length_itoa [of "- i" 18] by (auto simp: itoa_int_def)

lemma marshal_state_length:
  assumes "int64_ok (st_IAT p)" "state_fits p" "marshal_state p = Some raw"
  shows "length raw \<le> maxPayloadBytes"
  using assms length_itoa_int [of "st_IAT p"] length_json_escape [of "st_CID p"]
    length_json_escape [of "st_RU p"] length_json_escape [of "st_ST p"]
    length_json_escape [of "st_Nonce p"] length_json_escape [of "''cid''"]
    length_json_escape [of "''ru''"] length_json_escape [of "''st''"]
    length_json_escape [of "''has_st''"] length_json_escape [of "''iat''"]
    length_json_escape [of "''nonce''"]
  by (auto simp: marshal_state_def state_tokens_def state_fits_def json_bool_def)

lemma marshal_code_length:
  assumes "int64_ok (cp_IAT p)" "code_fits p" "marshal_code p = Some raw"
  shows "length raw \<le> maxPayloadBytes"
  using assms length_itoa_int [of "cp_IAT p"] length_json_escape [of "cp_CID p"]
    length_json_escape [of "cp_SC p"] length_json_escape [of "''cid''"]
    length_json_escape [of "''sc''"] length_json_escape [of "''iat''"]
  by (auto simp: marshal_code_def code_tokens_def code_fits_def)

text \<open>The second decoding of \<open>iat\<close> reads the same value as the payload's own field.\<close>

lemma folded_names:
  "fold_name ''cid'' = ''CID''" "fold_name ''ru'' = ''RU''" "fold_name ''st'' = ''ST''"
  "fold_name ''has_st'' = ''HAS_ST''" "fold_name ''iat'' = ''IAT''"
  "fold_name ''nonce'' = ''NONCE''" "fold_name ''sc'' = ''SC''"
  by (simp_all add: fold_name_ascii is_lower_byte chr_eq_iff)

lemma state_member_iat:
  "state_member k v p = Some q \<Longrightarrow> iat_member k v (st_IAT p) = Some (st_IAT q)"
  by (auto simp: state_member_def iat_member_def field_is_def folded_names split: if_splits)

lemma state_members_iat:
  "read_members state_member kvs p = Some q \<Longrightarrow> read_members iat_member kvs (st_IAT p) = Some (st_IAT q)"
  by (induction state_member kvs p rule: read_members.induct)
    (auto split: option.splits dest: state_member_iat)

lemma probe_state: "unmarshal_state raw = Some p \<Longrightarrow> iatProbe raw = Some (st_IAT p)"
proof -
  assume "unmarshal_state raw = Some p"
  then obtain j where j: "json_parse raw = Some j" "read_struct state_member j zero_state = Some p"
    by (auto simp: unmarshal_state_def split: option.splits)
  then show ?thesis
    by (cases j) (auto simp: iatProbe_def zero_state_def dest: state_members_iat)
qed

lemma code_member_iat:
  "code_member k v p = Some q \<Longrightarrow> iat_member k v (cp_IAT p) = Some (cp_IAT q)"
  by (auto simp: code_member_def iat_member_def field_is_def folded_names split: if_splits)

lemma code_members_iat:
  "read_members code_member kvs p = Some q \<Longrightarrow> read_members iat_member kvs (cp_IAT p) = Some (cp_IAT q)"
  by (induction code_member kvs p rule: read_members.induct)
    (auto split: option.splits dest: code_member_iat)

lemma probe_code: "unmarshal_code raw = Some p \<Longrightarrow> iatProbe raw = Some (cp_IAT p)"
proof -
  assume "unmarshal_code raw = Some p"
  then obtain j where j: "json_parse raw = Some j" "read_struct code_member j zero_code = Some p"
    by (auto simp: unmarshal_code_def split: option.splits)
  then show ?thesis
    by (cases j) (auto simp: iatProbe_def zero_code_def dest: code_members_iat)
qed

section \<open>The round trips\<close>

lemma state_round:
  assumes "flate_lossless fl" "int64_ok (st_IAT p)" "state_fits p"
    and "Seal fl r domain marshal_state p = Ok tok"
    and "ring_key r' (KID (hd r)) = Some (KeyBytes (hd r))"
  shows "Open fl r' domain tok unmarshal_state ttl now =
    andThen (iat_window (time_unix (st_IAT p)) ttl now) (\<lambda>_. Ok (clean_state p))"
  using state_payload.open_sealed assms marshal_state_length by blast

lemma code_round:
  assumes "flate_lossless fl" "int64_ok (cp_IAT p)" "code_fits p"
    and "Seal fl r domain marshal_code p = Ok tok"
    and "ring_key r' (KID (hd r)) = Some (KeyBytes (hd r))"
  shows "Open fl r' domain tok unmarshal_code ttl now =
    andThen (iat_window (time_unix (cp_IAT p)) ttl now) (\<lambda>_. Ok (clean_code p))"
  using code_payload.open_sealed assms marshal_code_length by blast

end
