(* ===== verification/SealProps.thy ===== *)
theory SealProps imports
  SealLaws
begin

text \<open>
  The properties of the envelope that the rest of the program relies on: what sealing and opening
  promise, what an accepted token proves, and how failures are reported.
\<close>

section \<open>A concrete ring and payloads\<close>

definition demo_key :: Key where
  "demo_key = \<lparr>KID = ''k2'', KeyBytes = ''0123456789abcdef0123456789abcdef''\<rparr>"

definition demo_state :: StatePayload where
  "demo_state = \<lparr>st_CID = ''app'', st_RU = ''https://app.example/cb'', st_ST = ''xyz'', st_HasST = True,
     st_IAT = 1000, st_Nonce = []\<rparr>"

definition demo_code :: CodePayload where
  "demo_code = \<lparr>cp_CID = ''app'', cp_SC = ''abc'', cp_IAT = 1000\<rparr>"

lemma demo_signable: "signable (demo_key # r)"
  by (simp add: signable_def demo_key_def)

lemma demo_fits: "state_fits demo_state" "code_fits demo_code"
  by (simp_all add: state_fits_def code_fits_def demo_state_def demo_code_def maxPayloadBytes_def)

lemma demo_clean: "clean_state demo_state = demo_state" "clean_code demo_code = demo_code"
  by (simp_all add: clean_state_def clean_code_def demo_state_def demo_code_def valid_utf8_ascii)

lemma demo_iat: "st_IAT demo_state = 1000" "cp_IAT demo_code = 1000"
  by (simp_all add: demo_state_def demo_code_def)

lemma demo_window: "iat_window (time_unix 1000) 60000000000 1030000000000 = Ok ()"
  by (simp add: iat_window_Ok time_unix_exact unix_to_internal_def time_sub_exact maxClockSkew_def)

lemma demo_state_opens:
  "\<exists>tok. Seal stored_codec [demo_key] DomainState marshal_state demo_state = Ok tok \<and>
     Open stored_codec [demo_key] DomainState tok unmarshal_state (60 * second) (1030 * second) = Ok demo_state"
proof -
  obtain tok where t: "Seal stored_codec [demo_key] DomainState marshal_state demo_state = Ok tok"
    using state_payload.seal_succeeds demo_signable by blast
  from state_round [OF stored_lossless _ demo_fits(1) this ring_key_hd [OF demo_signable]] t
  show ?thesis by (simp add: demo_clean demo_iat demo_window)
qed

section \<open>Properties\<close>

text \<open>
  C2. Sealing a state payload with the newest key and opening the token with any ring that still
  maps that key id to the same key yields the payload, its strings read as UTF-8, exactly when the
  issue time is at most the clock skew ahead and, for a positive ttl, at most the ttl behind.
\<close>

theorem state_seal_open:
  assumes "flate_lossless fl" "signable r" "int64_ok (st_IAT p)" "state_fits p"
    and "ring_key r' (KID (hd r)) = Some (KeyBytes (hd r))"
  shows "\<exists>tok. Seal fl r DomainState marshal_state p = Ok tok \<and>
    Open fl r' DomainState tok unmarshal_state ttl now =
      (if time_sub (time_unix (st_IAT p)) now > 60 * second
       then Err (FutureIAT (time_sub (time_unix (st_IAT p)) now))
       else if ttl > 0 \<and> time_sub now (time_unix (st_IAT p)) > ttl
       then Err (StaleIAT (time_sub now (time_unix (st_IAT p))) ttl)
       else Ok (clean_state p))"
proof -
  obtain tok where t: "Seal fl r DomainState marshal_state p = Ok tok"
    using state_payload.seal_succeeds assms(2) by blast
  show ?thesis
    using t state_round [OF assms(1,3,4) t assms(5)]
    by (auto simp: iat_window_def maxClockSkew_def)
qed

theorem state_seal_open_witness:
  "\<exists>tok. Seal stored_codec [demo_key] DomainState marshal_state demo_state = Ok tok \<and>
     Open stored_codec [demo_key] DomainState tok unmarshal_state 0 (1030 * second) = Ok demo_state"
  using state_seal_open [where r = "[demo_key]" and ttl = 0 and now = "1030 * second",
      OF stored_lossless demo_signable _ demo_fits(1) ring_key_hd [OF demo_signable]] demo_window
  by (simp add: demo_iat demo_clean iat_window_Ok maxClockSkew_def)

text \<open>
  C3. The same for a code payload, and rotation: a ring that gains a newer key with another key id
  still opens the codes sealed before.
\<close>

theorem code_survives_rotation:
  assumes "flate_lossless fl" "signable r" "int64_ok (cp_IAT p)" "code_fits p"
    and "KID k \<noteq> KID (hd r)"
  shows "\<exists>tok. Seal fl r DomainCode marshal_code p = Ok tok \<and>
    Open fl (k # r) DomainCode tok unmarshal_code ttl now =
      andThen (iat_window (time_unix (cp_IAT p)) ttl now) (\<lambda>_. Ok (clean_code p))"
proof -
  obtain tok where t: "Seal fl r DomainCode marshal_code p = Ok tok"
    using code_payload.seal_succeeds assms(2) by blast
  have "ring_key (k # r) (KID (hd r)) = Some (KeyBytes (hd r))"
    using ring_key_hd [OF assms(2)] assms(5) by (simp add: ring_key_def)
  from code_round [OF assms(1,3,4) t this] t show ?thesis by auto
qed

theorem code_survives_rotation_witness:
  "\<exists>tok. Seal stored_codec [demo_key] DomainCode marshal_code demo_code = Ok tok \<and>
     Open stored_codec [\<lparr>KID = ''k3'', KeyBytes = ''fresh''\<rparr>, demo_key] DomainCode tok unmarshal_code
       (60 * second) (1030 * second) = Ok demo_code"
  using code_survives_rotation [where k = "\<lparr>KID = ''k3'', KeyBytes = ''fresh''\<rparr>" and
      r = "[demo_key]" and ttl = "60 * second" and now = "1030 * second",
      OF stored_lossless demo_signable _ demo_fits(2)] demo_window
  by (simp add: demo_iat demo_clean) (simp add: demo_key_def)

text \<open>
  C4. What an accepted token is: three fields, a key of the ring under the first, decodable second
  and third fields, the third the MAC of domain and packed payload under that key; a payload that
  inflates within the cap and decodes, and an issue time in the window.
\<close>

theorem open_accepts_iff:
  "Open fl r domain token unmarshal ttl now = Ok p \<longleftrightarrow>
   (\<exists>kid pl mac key packed raw iat.
      split_on CHR ''.'' token = [kid, pl, mac] \<and> ring_key r kid = Some key \<and>
      rawurl_decode pl = Some packed \<and> rawurl_decode mac = Some (hmac_sha256 key (domain @ packed)) \<and>
      inflate fl packed = Some raw \<and> length raw \<le> 64 * 1024 \<and> unmarshal raw = Some p \<and>
      iatProbe raw = Some iat \<and> time_sub (time_unix iat) now \<le> 60 * second \<and>
      (ttl \<le> 0 \<or> time_sub now (time_unix iat) \<le> ttl))"
  unfolding Open_Ok open_fields_Ok open_payload_Ok iat_window_Ok tag_def maxClockSkew_def
    not_less [symmetric] imp_conv_disj [symmetric]
  using inflate_bound [of fl] unfolding maxPayloadBytes_def by (auto simp: not_less)

text \<open>
  C5. No unauthenticated byte is interpreted: on a token whose MAC does not verify, the verdict
  does not depend on the decompressor, the payload decoder, the ttl or the clock, and it is one of
  the errors of the steps up to authentication.
\<close>

theorem mac_before_payload:
  assumes "authenticated r domain token = None"
  shows "\<exists>e. e \<in> {EmptyRing, PayloadNotBase64, MacNotBase64, BadMAC} \<union> range WrongParts \<union> range UnknownKID \<and>
    (\<forall>fl unmarshal ttl now. Open fl r domain token unmarshal ttl now = Err e)"
  using assms
  by (auto simp: authenticated_def Open_def open_fields_def Let_def
      split: sum.splits prod.splits if_splits option.splits)

theorem mac_before_payload_witness:
  "\<exists>e. \<forall>fl unmarshal ttl now. Open fl [demo_key] DomainCode ''k2.QQ'' unmarshal ttl now = Err e"
  using mac_before_payload [of "[demo_key]" DomainCode "''k2.QQ''"]
  by (auto simp: authenticated_def open_fields_def numParts_def)

text \<open>
  C6. The window is the payload's own: a state accepted with a positive ttl was issued, by its own
  issue time, at most one minute after and at most the ttl before the reference time.
\<close>

theorem accepted_state_is_fresh:
  assumes "Open fl r domain token unmarshal_state ttl now = Ok p"
    and "0 < ttl" "ttl < max_duration"
  shows "time_unix (st_IAT p) \<le> now + 60 * second \<and> now \<le> time_unix (st_IAT p) + ttl"
proof -
  from assms(1) obtain raw iat where "unmarshal_state raw = Some p" "iatProbe raw = Some iat"
    and w: "iat_window (time_unix iat) ttl now = Ok ()"
    by (auto simp: Open_Ok open_payload_Ok)
  then have "iat = st_IAT p" using probe_state by fastforce
  with w assms(2,3) show ?thesis
    using time_sub_le [of "time_unix iat" now "60 * second"] time_sub_le [of now "time_unix iat" ttl]
    by (auto simp: iat_window_Ok maxClockSkew_def max_duration_def)
qed

theorem accepted_state_is_fresh_witness:
  "\<exists>tok. Open stored_codec [demo_key] DomainState tok unmarshal_state 60000000000 1030000000000 = Ok demo_state \<and>
     time_unix 1000 \<le> 1030000000000 + 60 * second"
proof -
  obtain tok where t: "Open stored_codec [demo_key] DomainState tok unmarshal_state
      60000000000 1030000000000 = Ok demo_state"
    using demo_state_opens by auto
  from accepted_state_is_fresh [OF this] t show ?thesis
    by (auto simp: max_duration_def demo_iat)
qed

lemma domains_disjoint: "DomainState @ x \<noteq> DomainCode @ y"
  by (simp add: DomainState_def DomainCode_def)

text \<open>
  C7. Domain separation: a token sealed under one of the two domains is refused as unauthenticated
  under the other, by every ring that knows the key id, unless the token itself exhibits a
  coincidence of HMAC: the payload in its second field, the compressed record, has the MAC in its
  third field as its tag under the other domain too. No concatenation of prefix and payload is
  ambiguous.
\<close>

theorem domain_separation:
  assumes "Seal fl r d marshal p = Ok tok" "{d, d'} = {DomainState, DomainCode}"
    and "ring_key r' (KID (hd r)) = Some key"
  shows "(\<forall>x y. d @ x \<noteq> d' @ y) \<and>
    (\<exists>raw pl mac packed. marshal p = Some raw \<and> packed = fl_deflate fl raw \<and>
      split_on CHR ''.'' tok = [KID (hd r), pl, mac] \<and> rawurl_decode pl = Some packed \<and>
      rawurl_decode mac = Some (hmac_sha256 (KeyBytes (hd r)) (d @ packed)) \<and>
      (Open fl' r' d' tok unmarshal ttl now = Err BadMAC \<or>
       rawurl_decode mac = Some (hmac_sha256 key (d' @ packed))))"
proof -
  from Seal_Ok [OF assms(1)] obtain raw where s: "signable r" and raw: "marshal p = Some raw"
    and t: "tok = sealed_token (hd r) d (fl_deflate fl raw)" by blast
  let ?packed = "fl_deflate fl raw"
  have dot: "CHR ''.'' \<notin> set (KID (hd r))" using s by (simp add: signable_def)
  have "open_fields r' tok = Ok (key, ?packed, tag (KeyBytes (hd r)) d ?packed)"
    unfolding t by (rule open_fields_sealed [OF dot assms(3)])
  moreover have "r' \<noteq> []" using assms(3) by (auto simp: ring_key_def)
  ultimately have o: "Open fl' r' d' tok unmarshal ttl now = Err BadMAC \<or>
      tag (KeyBytes (hd r)) d ?packed = tag key d' ?packed"
    by (auto simp: Open_def)
  have "\<forall>x y. d @ x \<noteq> d' @ y"
    using assms(2) domains_disjoint by (auto simp: doubleton_eq_iff eq_commute [of "DomainCode @ _"])
  then show ?thesis
    using o raw split_sealed [OF dot, of d ?packed]
    by (simp add: t rawurl.dec_enc) (simp add: tag_def)
qed

theorem domain_separation_witness:
  "\<exists>tok pl mac packed. Seal stored_codec [demo_key] DomainState marshal_state demo_state = Ok tok \<and>
     split_on CHR ''.'' tok = [KID demo_key, pl, mac] \<and> rawurl_decode pl = Some packed \<and>
     (Open stored_codec [demo_key] DomainCode tok unmarshal_code 0 0 = Err BadMAC \<or>
      rawurl_decode mac = Some (hmac_sha256 (KeyBytes demo_key) (DomainCode @ packed)))"
proof -
  obtain tok where t: "Seal stored_codec [demo_key] DomainState marshal_state demo_state = Ok tok"
    using state_payload.seal_succeeds demo_signable by blast
  from domain_separation [OF t refl ring_key_hd [OF demo_signable]]
  obtain pl mac packed where "split_on CHR ''.'' tok = [KID (hd [demo_key]), pl, mac]" "rawurl_decode pl = Some packed"
    "Open stored_codec [demo_key] DomainCode tok unmarshal_code 0 0 = Err BadMAC \<or>
      rawurl_decode mac = Some (hmac_sha256 (KeyBytes (hd [demo_key])) (DomainCode @ packed))" by blast
  with t show ?thesis by auto
qed

text \<open>
  The key id of a token that reaches an error message is cut: at most 64 bytes of it are kept,
  whatever the caller sent.
\<close>

theorem logged_kid_is_bounded:
  assumes "Open fl r domain token unmarshal ttl now = Err (UnknownKID k)"
  shows "\<exists>kid. prefix (take 64 kid) k \<and> prefix kid token \<and> length k \<le> 64 + length ''...(truncated)''"
proof -
  from assms obtain kid p m where "split_on CHR ''.'' token = [kid, p, m]"
    and k: "k = seal_truncate kid maxLoggedKIDLen"
    by (auto simp: Open_def open_fields_def open_payload_def andThen_Err iat_window_def Let_def
        numParts_def length_Suc_conv numeral_3_eq_3 split: if_splits option.splits)
  then have "prefix kid token" using join_split [of "CHR ''.''" token] by (auto simp: prefix_def)
  with k show ?thesis
    by (auto simp: seal_truncate_def maxLoggedKIDLen_def intro!: exI [of _ kid])
qed

theorem logged_kid_is_bounded_witness:
  "Open stored_codec [demo_key] DomainState ''old.a.b'' unmarshal_state 0 0 = Err (UnknownKID ''old'') \<and> length ''old'' \<le> 78"
proof -
  have "Open stored_codec [demo_key] DomainState ''old.a.b'' unmarshal_state 0 0 = Err (UnknownKID ''old'')"
    by (simp add: Open_def open_fields_def numParts_def ring_key_def demo_key_def seal_truncate_def
        maxLoggedKIDLen_def)
  from this logged_kid_is_bounded [OF this] show ?thesis by auto
qed

text \<open>
  C8. When signing fails and how: exactly for a ring whose newest key is unusable. No key, or no
  key material, is \<open>ErrEmptyRing\<close> and not \<open>ErrMalformed\<close>; an empty or dotted key id is
  \<open>ErrMalformed\<close>.
\<close>

theorem seal_failures:
  "(\<forall>e. Seal fl r domain marshal_code p \<noteq> Err e) = signable r \<and>
   (Seal fl r domain marshal_code p = Err e \<longrightarrow>
      errors_is e ErrEmptyRing = (r = [] \<or> KID (hd r) \<noteq> [] \<and> CHR ''.'' \<notin> set (KID (hd r))) \<and>
      errors_is e ErrMalformed = (\<not> errors_is e ErrEmptyRing))"
  by (cases r) (auto simp: Seal_def signable_def marshal_code_def Let_def split: if_splits)

theorem seal_failures_witness:
  "\<exists>e. Seal stored_codec [\<lparr>KID = ''k1'', KeyBytes = []\<rparr>] DomainCode marshal_code demo_code = Err e \<and>
     errors_is e ErrEmptyRing \<and> \<not> errors_is e ErrMalformed"
proof -
  let ?r = "[\<lparr>KID = ''k1'', KeyBytes = []\<rparr>]"
  have "Seal stored_codec ?r DomainCode marshal_code demo_code = Err (NoKeyMaterial ''k1'')"
    by (simp add: Seal_def)
  with seal_failures [of stored_codec ?r DomainCode demo_code "NoKeyMaterial ''k1''"]
  show ?thesis by auto
qed

text \<open>
  C9. The round trip is exact precisely for UTF-8: a state accepted in its window comes back equal
  if and only if its strings are valid UTF-8; other bytes come back as U+FFFD.
\<close>

theorem round_trip_exact_iff:
  assumes "flate_lossless fl" "int64_ok (st_IAT p)" "state_fits p"
    and "Seal fl r DomainState marshal_state p = Ok tok"
    and "iat_window (time_unix (st_IAT p)) ttl now = Ok ()"
  shows "Open fl r DomainState tok unmarshal_state ttl now = Ok p \<longleftrightarrow>
    valid_utf8 (st_CID p) \<and> valid_utf8 (st_RU p) \<and> valid_utf8 (st_ST p) \<and> valid_utf8 (st_Nonce p)"
proof -
  have "signable r" using Seal_Ok [OF assms(4)] by blast
  from state_round [OF assms(1-4) ring_key_hd [OF this]] assms(5) show ?thesis
    by (cases p) (auto simp: clean_state_def to_valid_eq_iff)
qed

theorem round_trip_exact_iff_witness:
  "\<exists>tok. Seal stored_codec [demo_key] DomainState marshal_state (demo_state\<lparr>st_ST := [CHR 0xFF]\<rparr>) = Ok tok \<and>
     Open stored_codec [demo_key] DomainState tok unmarshal_state 60000000000 1030000000000
       \<noteq> Ok (demo_state\<lparr>st_ST := [CHR 0xFF]\<rparr>)"
proof -
  let ?p = "demo_state\<lparr>st_ST := [CHR 0xFF]\<rparr>"
  obtain tok where t: "Seal stored_codec [demo_key] DomainState marshal_state ?p = Ok tok"
    using state_payload.seal_succeeds demo_signable by blast
  have "\<not> valid_utf8 [CHR 0xFF]"
    by (subst valid_utf8.simps) (simp add: utf8_width_def lead_byte_def)
  moreover have "state_fits ?p"
    by (simp add: state_fits_def demo_state_def maxPayloadBytes_def)
  ultimately show ?thesis
    using round_trip_exact_iff [OF stored_lossless _ _ t, of 60000000000 1030000000000] t demo_window
    by (auto simp: demo_iat)
qed

end
