(* ===== verification/GoQuery.thy ===== *)
theory GoQuery imports
  Encoding
  "HOL-Library.Multiset"
begin

text \<open>
  Package \<open>net/url\<close>, escaping and query strings: \<open>shouldEscape\<close>, \<open>escape\<close>, \<open>unescape\<close>,
  \<open>ParseQuery\<close> and the \<open>Values\<close> operations \<open>Get\<close>, \<open>Set\<close> and \<open>Encode\<close>. The round trip from
  \<open>Values\<close> through \<open>Encode\<close> and \<open>ParseQuery\<close> is what carries every parameter of a redirect.
\<close>

section \<open>Escaping\<close>

datatype url_mode =
  EncodePath | EncodeHost | EncodeZone | EncodeUserPassword | EncodeQueryComponent | EncodeFragment

definition host_extra :: "char \<Rightarrow> bool" where
  "host_extra c \<longleftrightarrow> c \<in> set ''!$&()*+,;=:[]<>'' \<or> c = CHR 0x22 \<or> c = CHR 0x27"

definition url_reserved :: "char \<Rightarrow> bool" where
  "url_reserved c \<longleftrightarrow> c \<in> set ''$&+,/:;=?@''"

definition should_escape :: "char \<Rightarrow> url_mode \<Rightarrow> bool" where
  "should_escape c mode =
     (if is_alnum c then False
      else if (mode = EncodeHost \<or> mode = EncodeZone) \<and> host_extra c then False
      else if c \<in> set ''-_.~'' then False
      else if url_reserved c \<and> mode = EncodePath then c = CHR ''?''
      else if url_reserved c \<and> mode = EncodeUserPassword then c \<in> set ''@/?:''
      else if url_reserved c \<and> mode = EncodeFragment then False
      else if mode = EncodeFragment \<and> c \<in> set ''!()*'' then False
      else True)"

definition percent :: "char \<Rightarrow> string" where
  "percent c = [CHR ''%'', upper_hex_digit (byte c div 16), upper_hex_digit (byte c mod 16)]"

definition escape_char :: "url_mode \<Rightarrow> char \<Rightarrow> string" where
  "escape_char mode c =
     (if c = CHR '' '' \<and> mode = EncodeQueryComponent then ''+''
      else if should_escape c mode then percent c else [c])"

definition url_escape :: "url_mode \<Rightarrow> string \<Rightarrow> string" where
  "url_escape mode s = concat (map (escape_char mode) s)"

text \<open>The escapes a host or zone may not contain, and the raw bytes it may not contain.\<close>

definition escape_refused :: "url_mode \<Rightarrow> nat \<Rightarrow> nat \<Rightarrow> bool" where
  "escape_refused mode u v =
     (mode = EncodeHost \<and> u < 8 \<and> (u, v) \<noteq> (2, 5) \<or>
      mode = EncodeZone \<and> (u, v) \<noteq> (2, 5) \<and> u * 16 + v \<noteq> 32 \<and> should_escape (chr (u * 16 + v)) EncodeHost)"

definition raw_refused :: "url_mode \<Rightarrow> char \<Rightarrow> bool" where
  "raw_refused mode c =
     ((mode = EncodeHost \<or> mode = EncodeZone) \<and> byte c < 128 \<and> should_escape c mode)"

fun url_unescape :: "url_mode \<Rightarrow> string \<Rightarrow> string option" where
  "url_unescape mode [] = Some []"
| "url_unescape mode (c # s) =
     (if c = CHR ''%'' then
        (case s of
           a # b # r \<Rightarrow>
             (case (unhex a, unhex b) of
                (Some u, Some v) \<Rightarrow>
                  if escape_refused mode u v then None
                  else map_option ((#) (chr (u * 16 + v))) (url_unescape mode r)
              | _ \<Rightarrow> None)
         | _ \<Rightarrow> None)
      else if c = CHR ''+'' \<and> mode = EncodeQueryComponent then map_option ((#) (CHR '' '')) (url_unescape mode s)
      else if raw_refused mode c then None
      else map_option ((#) c) (url_unescape mode s))"

abbreviation QueryEscape :: "string \<Rightarrow> string" where
  "QueryEscape \<equiv> url_escape EncodeQueryComponent"

abbreviation QueryUnescape :: "string \<Rightarrow> string option" where
  "QueryUnescape \<equiv> url_unescape EncodeQueryComponent"

lemma url_escape_Nil [simp]: "url_escape mode [] = []"
  by (simp add: url_escape_def)

lemma url_escape_Cons: "url_escape mode (c # s) = escape_char mode c @ url_escape mode s"
  by (simp add: url_escape_def)

lemma byte_nibbles: "chr (byte c div 16 * 16 + byte c mod 16) = c"
  by (simp only: div_mult_mod_eq char_of_char)

lemma url_unescape_percent:
  "\<not> escape_refused mode (byte c div 16) (byte c mod 16) \<Longrightarrow>
   url_unescape mode (percent c @ s) = map_option ((#) c) (url_unescape mode s)"
  using nat_of_char_less_256 [of c]
  by (simp add: percent_def less_mult_imp_div_less)

lemma query_unescape_escape [roundtrip]: "QueryUnescape (QueryEscape s) = Some s"
proof (induction s)
  case (Cons c s)
  have "\<not> should_escape CHR ''%'' m \<Longrightarrow> False" "should_escape CHR ''+'' EncodeQueryComponent" for m
    by (auto simp: should_escape_def byte_class url_reserved_def host_extra_def)
  with Cons show ?case
    by (auto simp: url_escape_Cons escape_char_def url_unescape_percent escape_refused_def raw_refused_def)
qed simp

text \<open>What an escaped query component is made of: it contains no separator and no control byte.\<close>

definition query_byte :: "char \<Rightarrow> bool" where
  "query_byte c \<longleftrightarrow> is_alnum c \<or> c \<in> set ''-_.~+%''"

lemma upper_hex_alnum: "v < 16 \<Longrightarrow> is_alnum (upper_hex_digit v)"
  by (auto simp: upper_hex_digit_def byte_class)

lemma query_escape_bytes [charset]: "list_all query_byte (QueryEscape s)"
proof -
  have "list_all query_byte (escape_char EncodeQueryComponent c)" for c
    using nat_of_char_less_256 [of c]
    by (auto simp: escape_char_def percent_def query_byte_def upper_hex_alnum less_mult_imp_div_less
        should_escape_def split: if_splits)
  then show ?thesis
    by (induction s) (auto simp: url_escape_Cons)
qed

interpretation query: text_codec QueryEscape QueryUnescape query_byte
  by unfold_locales (rule query_unescape_escape query_escape_bytes)+

section \<open>Values\<close>

text \<open>
  \<open>url.Values\<close> is a Go map from keys to lists: an association list with distinct keys.
  \<open>values_add\<close> appends one value, \<open>values_set\<close> replaces them, \<open>values_get\<close> returns the first.
\<close>

type_synonym Values = "(string \<times> string list) list"

fun values_add :: "string \<Rightarrow> string \<Rightarrow> Values \<Rightarrow> Values" where
  "values_add k v [] = [(k, [v])]"
| "values_add k v ((k', vs) # m) = (if k' = k then (k', vs @ [v]) # m else (k', vs) # values_add k v m)"

definition values_set :: "string \<Rightarrow> string \<Rightarrow> Values \<Rightarrow> Values" where
  "values_set k v m = map_put k [v] m"

definition values_get :: "Values \<Rightarrow> string \<Rightarrow> string" where
  "values_get m k = (case map_of m k of Some (v # _) \<Rightarrow> v | _ \<Rightarrow> [])"

text \<open>One \<open>key=value\<close> piece of a query, and the limit on the number of pieces.\<close>

definition max_query_params :: nat where "max_query_params = 10000"

definition parse_pair :: "string \<Rightarrow> (string \<times> string) option" where
  "parse_pair piece =
     (case cut CHR ''='' piece of (k, v, _) \<Rightarrow>
        (case (QueryUnescape k, QueryUnescape v) of
           (Some k', Some v') \<Rightarrow> Some (k', v')
         | _ \<Rightarrow> None))"

text \<open>The parsed values and whether there was no error; pieces in error are skipped.\<close>

fun parse_pieces :: "string list \<Rightarrow> Values \<Rightarrow> bool \<Rightarrow> Values \<times> bool" where
  "parse_pieces [] m good = (m, good)"
| "parse_pieces (p # ps) m good =
     (if CHR '';'' \<in> set p then parse_pieces ps m False
      else if p = [] then parse_pieces ps m good
      else (case parse_pair p of
              None \<Rightarrow> parse_pieces ps m False
            | Some (k, v) \<Rightarrow> parse_pieces ps (values_add k v m) good))"

definition ParseQuery :: "string \<Rightarrow> Values \<times> bool" where
  "ParseQuery q =
     (if count_list q CHR ''&'' + 1 > max_query_params then ([], False)
      else parse_pieces (split_on CHR ''&'' q) [] True)"

definition encode_pairs :: "Values \<Rightarrow> (string \<times> string) list" where
  "encode_pairs m = concat (map (\<lambda>(k, vs). map (Pair k) vs) (sort_key fst m))"

definition encode_pair :: "string \<times> string \<Rightarrow> string" where
  "encode_pair kv = QueryEscape (fst kv) @ CHR ''='' # QueryEscape (snd kv)"

text \<open>\<open>Values.Encode\<close>: sorted by key, joined with ampersands.\<close>

definition Encode :: "Values \<Rightarrow> string" where
  "Encode m = join_with CHR ''&'' (map encode_pair (encode_pairs m))"

section \<open>Encoding and parsing again\<close>

lemma query_free [simp]:
  "CHR ''='' \<notin> set (QueryEscape s)" "CHR ''&'' \<notin> set (QueryEscape s)" "CHR '';'' \<notin> set (QueryEscape s)"
  "CHR ''#'' \<notin> set (QueryEscape s)"
  by (rule query.enc_avoids, simp add: query_byte_def byte_class)+

lemma encode_pair_free:
  "CHR ''&'' \<notin> set (encode_pair kv)" "CHR '';'' \<notin> set (encode_pair kv)" "CHR ''#'' \<notin> set (encode_pair kv)"
  "encode_pair kv \<noteq> []"
  by (auto simp: encode_pair_def)

lemma parse_encode_pair: "parse_pair (encode_pair kv) = Some kv"
  by (simp add: parse_pair_def encode_pair_def cut_append query_unescape_escape)

fun add_pairs :: "(string \<times> string) list \<Rightarrow> Values \<Rightarrow> Values" where
  "add_pairs [] m = m"
| "add_pairs ((k, v) # kvs) m = add_pairs kvs (values_add k v m)"

lemma parse_encoded_pieces: "parse_pieces (map encode_pair kvs) m good = (add_pairs kvs m, good)"
  by (induction kvs m rule: add_pairs.induct) (auto simp: encode_pair_free parse_encode_pair)

lemma add_pairs_append: "add_pairs (a @ b) m = add_pairs b (add_pairs a m)"
  by (induction a m rule: add_pairs.induct) auto

lemma values_add_fresh:
  "k \<notin> fst ` set m \<Longrightarrow> values_add k v m = m @ [(k, [v])]"
  by (induction k v m rule: values_add.induct) auto

lemma values_add_last:
  "k \<notin> fst ` set m \<Longrightarrow> values_add k v (m @ [(k, vs)]) = m @ [(k, vs @ [v])]"
  by (induction k v m rule: values_add.induct) auto

lemma add_pairs_more:
  "k \<notin> fst ` set m \<Longrightarrow> add_pairs (map (Pair k) ws) (m @ [(k, vs)]) = m @ [(k, vs @ ws)]"
  by (induction ws arbitrary: vs) (auto simp: values_add_last)

lemma add_pairs_group:
  "k \<notin> fst ` set m \<Longrightarrow> vs \<noteq> [] \<Longrightarrow> add_pairs (map (Pair k) vs) m = m @ [(k, vs)]"
  by (cases vs) (auto simp: values_add_fresh add_pairs_more)

lemma add_pairs_groups:
  "distinct (map fst (m @ ms)) \<Longrightarrow> (\<And>k vs. (k, vs) \<in> set ms \<Longrightarrow> vs \<noteq> []) \<Longrightarrow>
   add_pairs (concat (map (\<lambda>(k, vs). map (Pair k) vs) ms)) m = m @ ms"
proof (induction ms arbitrary: m)
  case (Cons p ms)
  obtain k vs where p: "p = (k, vs)" by (cases p)
  have "vs \<noteq> []" "k \<notin> fst ` set m"
    using Cons.prems p by (auto simp: rev_image_eqI)
  moreover have "distinct (map fst ((m @ [(k, vs)]) @ ms))"
    using Cons.prems(1) p by auto
  from Cons.IH [OF this] Cons.prems(2)
  have "add_pairs (concat (map (\<lambda>(k, vs). map (Pair k) vs) ms)) (m @ [(k, vs)]) = m @ (k, vs) # ms"
    by auto
  ultimately show ?case
    by (simp add: p add_pairs_append add_pairs_group)
qed simp

text \<open>Well-formed values: distinct keys and no empty lists, as \<open>ParseQuery\<close> and \<open>Set\<close> produce.\<close>

definition wf_values :: "Values \<Rightarrow> bool" where
  "wf_values m \<longleftrightarrow> distinct (map fst m) \<and> [] \<notin> snd ` set m"

definition value_count :: "Values \<Rightarrow> nat" where
  "value_count m = sum_list (map (length \<circ> snd) m)"

lemma distinct_sort_keys: "distinct (map fst (sort_key fst m)) = distinct (map fst m)"
  by (rule mset_eq_imp_distinct_iff) simp

lemma map_of_sort [simp]: "distinct (map fst m) \<Longrightarrow> map_of (sort_key fst m) k = map_of m k"
proof -
  assume d: "distinct (map fst m)"
  then have "set (sort_key fst m) = set m" "distinct (map fst (sort_key fst m))"
    by (simp_all add: distinct_sort_keys)
  then have "map_of (sort_key fst m) k = Some v \<longleftrightarrow> map_of m k = Some v" for v
    using d by (simp add: map_of_eq_Some_iff)
  then show ?thesis by (cases "map_of m k") (metis option.exhaust, simp)
qed

lemma length_encode_pairs: "length (encode_pairs m) = value_count m"
proof -
  have "length (concat (map (\<lambda>(k, vs). map (Pair k) vs) ms)) = value_count ms" for ms :: Values
    by (induction ms) (auto simp: value_count_def)
  moreover have "value_count (sort_key fst m) = value_count m"
    unfolding value_count_def
    by (metis (no_types, lifting) mset_map mset_sort sum_mset_sum_list)
  ultimately show ?thesis by (simp add: encode_pairs_def)
qed

lemma split_encode: "encode_pairs m \<noteq> [] \<Longrightarrow> split_on CHR ''&'' (Encode m) = map encode_pair (encode_pairs m)"
  unfolding Encode_def by (rule split_join) (auto simp: encode_pair_free)

lemma count_encode: "encode_pairs m \<noteq> [] \<Longrightarrow> count_list (Encode m) CHR ''&'' + 1 = value_count m"
  using arg_cong [OF split_encode, of m length] by (simp add: length_split_on length_encode_pairs)

theorem parse_encode [roundtrip]:
  assumes "wf_values m" "value_count m \<le> max_query_params"
  shows "ParseQuery (Encode m) = (sort_key fst m, True)"
proof -
  have g: "add_pairs (encode_pairs m) [] = sort_key fst m"
    using add_pairs_groups [of "[]" "sort_key fst m"] assms(1)
    by (force simp: encode_pairs_def wf_values_def distinct_sort_keys)
  show ?thesis
  proof (cases "encode_pairs m = []")
    case True
    then have "Encode m = []" by (simp add: Encode_def)
    with True g show ?thesis by (simp add: ParseQuery_def max_query_params_def)
  next
    case False
    then show ?thesis
      using assms(2) g count_encode [OF False]
      by (simp add: ParseQuery_def split_encode parse_encoded_pieces)
  qed
qed

lemma encode_bytes: "c \<in> set (Encode m) \<Longrightarrow> query_byte c \<or> c = CHR ''='' \<or> c = CHR ''&''"
proof -
  have e: "c \<in> set (encode_pair kv) \<Longrightarrow> query_byte c \<or> c = CHR ''=''" for kv
    using query_escape_bytes by (auto simp: encode_pair_def list_all_iff)
  have "c \<in> set (join_with CHR ''&'' xs) \<Longrightarrow> c = CHR ''&'' \<or> (\<exists>x \<in> set xs. c \<in> set x)" for xs
    by (induction xs rule: join_with.induct) auto
  then show "c \<in> set (Encode m) \<Longrightarrow> query_byte c \<or> c = CHR ''='' \<or> c = CHR ''&''"
    using e by (fastforce simp: Encode_def)
qed

section \<open>Lookups\<close>

lemma map_of_values_set [simp]:
  "map_of (values_set k v m) k' = (if k' = k then Some [v] else map_of m k')"
  by (simp add: values_set_def)

lemma values_get_set [simp]: "values_get (values_set k v m) k' = (if k' = k then v else values_get m k')"
  by (simp add: values_get_def)

lemma values_get_cong: "map_of m k = map_of m' k \<Longrightarrow> values_get m k = values_get m' k"
  by (simp add: values_get_def)

lemma wf_values_Nil [simp, wf_keep]: "wf_values []"
  by (simp add: wf_values_def)

lemma wf_values_set [simp, wf_keep]: "wf_values m \<Longrightarrow> wf_values (values_set k v m)"
  using set_map_put_subset [of k "[v]" m] by (auto simp: wf_values_def values_set_def)

lemma values_add_keys: "fst ` set (values_add k v m) = insert k (fst ` set m)"
  by (induction k v m rule: values_add.induct) auto

lemma wf_values_add [simp, wf_keep]: "wf_values m \<Longrightarrow> wf_values (values_add k v m)"
  by (induction k v m rule: values_add.induct) (auto simp: wf_values_def values_add_keys)

lemma wf_parse_pieces: "wf_values m \<Longrightarrow> wf_values (fst (parse_pieces ps m good))"
  by (induction ps m good rule: parse_pieces.induct) (auto split: option.splits)

lemma wf_ParseQuery [simp, wf_keep]: "wf_values (fst (ParseQuery q))"
  by (simp add: ParseQuery_def wf_parse_pieces)

lemma wf_values_filter [simp, wf_keep]: "wf_values m \<Longrightarrow> wf_values (filter P m)"
  by (auto simp: wf_values_def distinct_map_filter)

lemma map_of_filter_key:
  "map_of (filter (\<lambda>kv. P (fst kv)) m) k = (if P k then map_of m k else None)"
  by (induction m) auto

lemma value_count_Nil [simp]: "value_count [] = 0"
  by (simp add: value_count_def)

lemma value_count_set: "value_count (values_set k v m) \<le> value_count m + 1"
proof -
  have "value_count (map_put k [v] m) \<le> value_count m + 1"
    by (induction k "[v]" m rule: map_put.induct) (auto simp: value_count_def)
  then show ?thesis by (simp add: values_set_def)
qed

lemma value_count_filter: "value_count (filter P m) \<le> value_count m"
  by (induction m) (auto simp: value_count_def)

lemma value_count_add: "value_count (values_add k v m) = value_count m + 1"
  by (induction k v m rule: values_add.induct) (auto simp: value_count_def)

lemma value_count_pieces: "value_count (fst (parse_pieces ps m good)) \<le> value_count m + length ps"
  by (induction ps m good rule: parse_pieces.induct)
    (auto simp: value_count_add le_SucI split: option.splits)

lemma value_count_ParseQuery: "value_count (fst (ParseQuery q)) \<le> max_query_params"
  using value_count_pieces [of "split_on CHR ''&'' q" "[]" True]
  by (auto simp: ParseQuery_def length_split_on)

end
