(* ===== verification/GoUrl.thy ===== *)
theory GoUrl imports
  GoQuery
begin

text \<open>
  Package \<open>net/url\<close>, the \<open>URL\<close> type: \<open>Parse\<close>, \<open>String\<close>, \<open>IsAbs\<close>, \<open>Hostname\<close>, \<open>Query\<close> and
  \<open>JoinPath\<close>, and \<open>path.Clean\<close>. Bracketed hosts must be IPv6 literals and an unbracketed host has
  at most one colon, as in the Go version the program is built with.
\<close>

section \<open>Host literals\<close>

definition is_hex :: "char \<Rightarrow> bool" where
  "is_hex c \<longleftrightarrow> unhex c \<noteq> None"

definition ipv4_field :: "string \<Rightarrow> bool" where
  "ipv4_field f \<longleftrightarrow>
     f \<noteq> [] \<and> list_all is_digit f \<and> length f \<le> 3 \<and> digits_value f \<le> 255 \<and> (length f = 1 \<or> hd f \<noteq> CHR ''0'')"

definition ipv4_ok :: "string \<Rightarrow> bool" where
  "ipv4_ok s \<longleftrightarrow> length (split_on CHR ''.'' s) = 4 \<and> list_all ipv4_field (split_on CHR ''.'' s)"

text \<open>\<open>ip6_loop n ell s\<close>: the groups of an IPv6 address, \<open>n\<close> still missing, after an ellipsis or not.\<close>

definition ip6_done :: "nat \<Rightarrow> bool \<Rightarrow> bool" where
  "ip6_done n ell = (if n > 0 then ell else \<not> ell)"

fun ip6_loop :: "nat \<Rightarrow> bool \<Rightarrow> string \<Rightarrow> bool" where
  "ip6_loop 0 ell s = False"
| "ip6_loop (Suc n) ell s =
     (let ds = takeWhile is_hex s; r = dropWhile is_hex s
      in if ds = [] \<or> length ds > 4 then False
         else (case r of
             [] \<Rightarrow> ip6_done n ell
           | c # t \<Rightarrow>
               if c = CHR ''.'' then (ell \<or> n = 1) \<and> n \<ge> 1 \<and> ipv4_ok s \<and> ip6_done (n - 1) ell
               else if c \<noteq> CHR '':'' \<or> t = [] then False
               else if hd t = CHR '':'' then
                 \<not> ell \<and> (if tl t = [] then ip6_done n True else ip6_loop n True (tl t))
               else ip6_loop n ell t))"

definition ip6_literal :: "string \<Rightarrow> bool" where
  "ip6_literal h =
     (let a = takeWhile (\<lambda>c. c \<noteq> CHR ''%'') h; z = dropWhile (\<lambda>c. c \<noteq> CHR ''%'') h;
          lead = takeWhile (\<lambda>c. c \<notin> set ''.:%'') h
      in lead \<noteq> h \<and> h ! length lead = CHR '':'' \<and> z \<noteq> ''%'' \<and>
         (if prefix ''::'' a then (if length a = 2 then True else ip6_loop 8 True (drop 2 a))
          else ip6_loop 8 False a))"

section \<open>The URL type\<close>

record URL =
  u_Scheme :: string
  u_Opaque :: string
  u_User :: "(string \<times> string option) option"
  u_Host :: string
  u_Path :: string
  u_RawPath :: string
  u_OmitHost :: bool
  u_ForceQuery :: bool
  u_RawQuery :: string
  u_Fragment :: string
  u_RawFragment :: string

definition empty_url :: URL where
  "empty_url = \<lparr>u_Scheme = [], u_Opaque = [], u_User = None, u_Host = [], u_Path = [], u_RawPath = [],
     u_OmitHost = False, u_ForceQuery = False, u_RawQuery = [], u_Fragment = [], u_RawFragment = []\<rparr>"

abbreviation IsAbs :: "URL \<Rightarrow> bool" where "IsAbs u \<equiv> u_Scheme u \<noteq> []"

section \<open>Parse\<close>

definition ctl_byte :: "char \<Rightarrow> bool" where
  "ctl_byte c \<longleftrightarrow> byte c < 32 \<or> byte c = 127"

definition scheme_byte :: "char \<Rightarrow> bool" where
  "scheme_byte c \<longleftrightarrow> is_alnum c \<or> c \<in> set ''+-.''"

text \<open>\<open>getScheme\<close>: no scheme when the leading run does not end in a colon or does not start with a
  letter; an error for an empty scheme.\<close>

definition getScheme :: "string \<Rightarrow> (string \<times> string) option" where
  "getScheme raw =
     (let s = takeWhile scheme_byte raw; r = dropWhile scheme_byte raw
      in if s \<noteq> [] \<and> \<not> is_upper (hd s) \<and> \<not> is_lower (hd s) then Some ([], raw)
         else (case r of
             c # t \<Rightarrow> if c = CHR '':'' then (if s = [] then None else Some (s, t)) else Some ([], raw)
           | [] \<Rightarrow> Some ([], raw)))"

definition valid_optional_port :: "string \<Rightarrow> bool" where
  "valid_optional_port p \<longleftrightarrow> p = [] \<or> hd p = CHR '':'' \<and> list_all is_digit (tl p)"

definition userinfo_byte :: "char \<Rightarrow> bool" where
  "userinfo_byte c \<longleftrightarrow> is_alnum c \<or> c \<in> set ''-._:~!$&()*+,;=%@'' \<or> c = CHR 0x27"

text \<open>The part before and the part from the last occurrence of a byte.\<close>

definition before_last :: "char \<Rightarrow> string \<Rightarrow> string" where
  "before_last c s = rev (drop 1 (dropWhile (\<lambda>x. x \<noteq> c) (rev s)))"

definition after_last :: "char \<Rightarrow> string \<Rightarrow> string" where
  "after_last c s = rev (takeWhile (\<lambda>x. x \<noteq> c) (rev s))"

fun index_of :: "string \<Rightarrow> string \<Rightarrow> nat option" where
  "index_of p [] = (if p = [] then Some 0 else None)"
| "index_of p (c # s) = (if prefix p (c # s) then Some 0 else map_option Suc (index_of p s))"

definition unescape_ip_literal :: "string \<Rightarrow> string option" where
  "unescape_ip_literal h =
     (case index_of ''%25'' h of
        None \<Rightarrow> url_unescape EncodeHost h
      | Some i \<Rightarrow>
          (case (url_unescape EncodeHost (take i h), url_unescape EncodeZone (drop i h)) of
             (Some a, Some z) \<Rightarrow> Some (a @ z) | _ \<Rightarrow> None))"

definition parse_host :: "string \<Rightarrow> string option" where
  "parse_host host =
     (if CHR ''['' \<in> set host then
        (if CHR '']'' \<notin> set host then None
         else let port = after_last CHR '']'' host;
                  name = drop (length (before_last CHR ''['' host) + 1) (before_last CHR '']'' host)
              in if \<not> valid_optional_port port then None
                 else (case (url_unescape EncodeHost port, unescape_ip_literal name) of
                         (Some p, Some n) \<Rightarrow> if ip6_literal n then Some (CHR ''['' # n @ CHR '']'' # p) else None
                       | _ \<Rightarrow> None))
      else if \<not> valid_optional_port (dropWhile (\<lambda>c. c \<noteq> CHR '':'') host) then None
      else url_unescape EncodeHost host)"

definition parse_userinfo :: "string \<Rightarrow> (string \<times> string option) option" where
  "parse_userinfo s =
     (if \<not> list_all userinfo_byte s then None
      else if CHR '':'' \<notin> set s then map_option (\<lambda>u. (u, None)) (url_unescape EncodeUserPassword s)
      else (case cut CHR '':'' s of (n, p, _) \<Rightarrow>
              (case (url_unescape EncodeUserPassword n, url_unescape EncodeUserPassword p) of
                 (Some n', Some p') \<Rightarrow> Some (n', Some p') | _ \<Rightarrow> None)))"

definition parseAuthority :: "string \<Rightarrow> ((string \<times> string option) option \<times> string) option" where
  "parseAuthority a =
     (if CHR ''@'' \<notin> set a then map_option (Pair None) (parse_host a)
      else (case parse_host (after_last CHR ''@'' a) of None \<Rightarrow> None
            | Some h \<Rightarrow> map_option (\<lambda>u. (Some u, h)) (parse_userinfo (before_last CHR ''@'' a))))"

definition setPath :: "string \<Rightarrow> URL \<Rightarrow> URL option" where
  "setPath p u =
     (case url_unescape EncodePath p of None \<Rightarrow> None
      | Some path \<Rightarrow>
          Some (u\<lparr>u_Path := path, u_RawPath := (if p = url_escape EncodePath path then [] else p)\<rparr>))"

definition setFragment :: "string \<Rightarrow> URL \<Rightarrow> URL option" where
  "setFragment f u =
     (case url_unescape EncodeFragment f of None \<Rightarrow> None
      | Some frag \<Rightarrow>
          Some (u\<lparr>u_Fragment := frag,
                  u_RawFragment := (if f = url_escape EncodeFragment frag then [] else f)\<rparr>))"

text \<open>After scheme and query are cut off: opaque part, authority and path.\<close>

definition parse_rest :: "string \<Rightarrow> URL \<Rightarrow> URL option" where
  "parse_rest rest u =
     (if \<not> prefix ''/'' rest \<and> u_Scheme u \<noteq> [] then Some (u\<lparr>u_Opaque := rest\<rparr>)
      else if \<not> prefix ''/'' rest \<and> CHR '':'' \<in> set (takeWhile (\<lambda>c. c \<noteq> CHR ''/'') rest) then None
      else if prefix ''//'' rest \<and> (u_Scheme u \<noteq> [] \<or> \<not> prefix ''///'' rest) then
        (let a = takeWhile (\<lambda>c. c \<noteq> CHR ''/'') (drop 2 rest); p = dropWhile (\<lambda>c. c \<noteq> CHR ''/'') (drop 2 rest)
         in case parseAuthority a of None \<Rightarrow> None
            | Some (user, host) \<Rightarrow> setPath p (u\<lparr>u_User := user, u_Host := host\<rparr>))
      else setPath rest (u\<lparr>u_OmitHost := u_Scheme u \<noteq> [] \<and> prefix ''/'' rest\<rparr>))"

definition parse_no_fragment :: "string \<Rightarrow> URL option" where
  "parse_no_fragment raw =
     (if \<not> list_all (\<lambda>c. \<not> ctl_byte c) raw then None
      else if raw = ''*'' then Some (empty_url\<lparr>u_Path := ''*''\<rparr>)
      else (case getScheme raw of None \<Rightarrow> None
            | Some (s, rest) \<Rightarrow>
                let u = empty_url\<lparr>u_Scheme := to_lower s\<rparr>
                in if suffix ''?'' rest \<and> count_list rest CHR ''?'' = 1
                   then parse_rest (butlast rest) (u\<lparr>u_ForceQuery := True\<rparr>)
                   else (case cut CHR ''?'' rest of (r, q, _) \<Rightarrow> parse_rest r (u\<lparr>u_RawQuery := q\<rparr>))))"

definition url_Parse :: "string \<Rightarrow> URL option" where
  "url_Parse raw =
     (case cut CHR ''#'' raw of (s, frag, _) \<Rightarrow>
        (case parse_no_fragment s of None \<Rightarrow> None
         | Some u \<Rightarrow> if frag = [] then Some u else setFragment frag u))"

section \<open>String\<close>

definition valid_encoded :: "string \<Rightarrow> url_mode \<Rightarrow> bool" where
  "valid_encoded s mode =
     list_all (\<lambda>c. c \<in> set ''!$&()*+,;=:@[]%'' \<or> c = CHR 0x27 \<or> \<not> should_escape c mode) s"

definition EscapedPath :: "URL \<Rightarrow> string" where
  "EscapedPath u =
     (if u_RawPath u \<noteq> [] \<and> valid_encoded (u_RawPath u) EncodePath \<and>
         url_unescape EncodePath (u_RawPath u) = Some (u_Path u) then u_RawPath u
      else if u_Path u = ''*'' then ''*''
      else url_escape EncodePath (u_Path u))"

definition EscapedFragment :: "URL \<Rightarrow> string" where
  "EscapedFragment u =
     (if u_RawFragment u \<noteq> [] \<and> valid_encoded (u_RawFragment u) EncodeFragment \<and>
         url_unescape EncodeFragment (u_RawFragment u) = Some (u_Fragment u) then u_RawFragment u
      else url_escape EncodeFragment (u_Fragment u))"

fun userinfo_string :: "string \<times> string option \<Rightarrow> string" where
  "userinfo_string (n, None) = url_escape EncodeUserPassword n"
| "userinfo_string (n, Some p) = url_escape EncodeUserPassword n @ CHR '':'' # url_escape EncodeUserPassword p"

definition authority_string :: "URL \<Rightarrow> string" where
  "authority_string u =
     (if u_Scheme u = [] \<and> u_Host u = [] \<and> u_User u = None then []
      else if u_OmitHost u \<and> u_Host u = [] \<and> u_User u = None then []
      else (if u_Host u \<noteq> [] \<or> u_Path u \<noteq> [] \<or> u_User u \<noteq> None then ''//'' else []) @
           (case u_User u of None \<Rightarrow> [] | Some ui \<Rightarrow> userinfo_string ui @ ''@'') @
           url_escape EncodeHost (u_Host u))"

text \<open>Everything before the query: a URL whose query changes keeps it.\<close>

definition url_base_string :: "URL \<Rightarrow> string" where
  "url_base_string u =
     (let scheme = (if u_Scheme u = [] then [] else u_Scheme u @ '':''); auth = authority_string u; path = EscapedPath u
      in if u_Opaque u \<noteq> [] then scheme @ u_Opaque u
         else scheme @ auth @
           (if path \<noteq> [] \<and> hd path \<noteq> CHR ''/'' \<and> u_Host u \<noteq> [] then ''/''
            else if scheme @ auth = [] \<and> CHR '':'' \<in> set (takeWhile (\<lambda>c. c \<noteq> CHR ''/'') path) then ''./''
            else []) @ path)"

definition url_String :: "URL \<Rightarrow> string" where
  "url_String u =
     url_base_string u @
     (if u_ForceQuery u \<or> u_RawQuery u \<noteq> [] then CHR ''?'' # u_RawQuery u else []) @
     (if u_Fragment u \<noteq> [] then CHR ''#'' # EscapedFragment u else [])"

section \<open>Accessors\<close>

text \<open>\<open>u.Query()\<close> ignores errors.\<close>

definition url_Query :: "URL \<Rightarrow> Values" where
  "url_Query u = fst (ParseQuery (u_RawQuery u))"

text \<open>\<open>u.Hostname()\<close>: \<open>stripPort\<close> and the brackets removed.\<close>

definition Hostname :: "URL \<Rightarrow> string" where
  "Hostname u =
     (let h = u_Host u;
          colon = CHR '':'' \<in> set h;
          port = CHR '':'' # after_last CHR '':'' h;
          h' = (if colon \<and> valid_optional_port port then before_last CHR '':'' h else h)
      in if prefix ''['' h' \<and> suffix '']'' h' then butlast (tl h') else h')"

section \<open>path.Clean and JoinPath\<close>

text \<open>The elements of a path, dots resolved; a rooted path drops leading \<open>..\<close>.\<close>

fun clean_elems :: "bool \<Rightarrow> string list \<Rightarrow> string list \<Rightarrow> string list" where
  "clean_elems rooted acc [] = rev acc"
| "clean_elems rooted acc (e # es) =
     (if e = [] \<or> e = ''.'' then clean_elems rooted acc es
      else if e = ''..'' then
        (case acc of
           [] \<Rightarrow> if rooted then clean_elems rooted [] es else clean_elems rooted [''..''] es
         | a # as \<Rightarrow> if a = ''..'' then clean_elems rooted (e # acc) es else clean_elems rooted as es)
      else clean_elems rooted (e # acc) es)"

definition path_Clean :: "string \<Rightarrow> string" where
  "path_Clean p =
     (if p = [] then ''.''
      else let rooted = prefix ''/'' p;
               out = join_with CHR ''/'' (clean_elems rooted [] (split_on CHR ''/'' p))
           in if rooted then CHR ''/'' # out else if out = [] then ''.'' else out)"

definition path_Join :: "string \<Rightarrow> string \<Rightarrow> string" where
  "path_Join a b =
     (let s = (if a = [] then b else if b = [] then a else a @ CHR ''/'' # b)
      in if s = [] then [] else path_Clean s)"

text \<open>\<open>u.JoinPath(elem)\<close>; an error of \<open>setPath\<close> is ignored and leaves the path fields alone.\<close>

definition JoinPath :: "URL \<Rightarrow> string \<Rightarrow> URL" where
  "JoinPath u e =
     (let base = EscapedPath u;
          p0 = (if prefix ''/'' base then path_Join base e else drop 1 (path_Join (CHR ''/'' # base) e));
          p = (if suffix ''/'' e \<and> \<not> suffix ''/'' p0 then p0 @ ''/'' else p0)
      in case setPath p u of Some u' \<Rightarrow> u' | None \<Rightarrow> u)"

end
