(* ===== verification/GoHttp.thy ===== *)
theory GoHttp imports
  GoUrl
  Utf8
begin

text \<open>
  Package \<open>net/http\<close> as the handlers use it: header maps, the response writer whose header freezes
  at the first \<open>WriteHeader\<close> or \<open>Write\<close>, \<open>Redirect\<close>, cookies, Basic authentication and
  \<open>ParseForm\<close>. Header keys are kept in canonical form, as the server and the handlers write them.
\<close>

section \<open>Headers\<close>

type_synonym Header = "(string \<times> string list) list"

abbreviation header_get :: "Header \<Rightarrow> string \<Rightarrow> string" where "header_get h k \<equiv> values_get h k"
abbreviation header_set :: "string \<Rightarrow> string \<Rightarrow> Header \<Rightarrow> Header" where "header_set k v h \<equiv> values_set k v h"
abbreviation header_add :: "string \<Rightarrow> string \<Rightarrow> Header \<Rightarrow> Header" where "header_add k v h \<equiv> values_add k v h"

definition header_del :: "string \<Rightarrow> Header \<Rightarrow> Header" where
  "header_del k h = filter (\<lambda>kv. fst kv \<noteq> k) h"

lemma map_of_header_del [simp]: "map_of (header_del k h) k' = (if k' = k then None else map_of h k')"
  using map_of_filter_key [of "\<lambda>x. x \<noteq> k" h k'] by (simp add: header_del_def)

lemma map_of_values_add:
  "map_of (values_add k v m) k' =
     (if k' = k then Some ((case map_of m k of None \<Rightarrow> [] | Some vs \<Rightarrow> vs) @ [v]) else map_of m k')"
  by (induction k v m rule: values_add.induct) auto

lemma values_get_add_other [simp]: "k' \<noteq> k \<Longrightarrow> values_get (values_add k v m) k' = values_get m k'"
  by (rule values_get_cong) (simp add: map_of_values_add)

section \<open>Response writer\<close>

text \<open>What a handler has written: the live header map, the status with the header snapshot that was
  sent, and the body.\<close>

record ResponseWriter =
  rw_Header :: Header
  rw_Sent :: "(nat \<times> Header) option"
  rw_Body :: string

definition new_writer :: ResponseWriter where
  "new_writer = \<lparr>rw_Header = [], rw_Sent = None, rw_Body = []\<rparr>"

definition informational :: "nat \<Rightarrow> bool" where
  "informational s \<longleftrightarrow> 100 \<le> s \<and> s < 200 \<and> s \<noteq> 101"

definition set_header :: "string \<Rightarrow> string \<Rightarrow> ResponseWriter \<Rightarrow> ResponseWriter" where
  "set_header k v w = w\<lparr>rw_Header := header_set k v (rw_Header w)\<rparr>"

definition add_header :: "string \<Rightarrow> string \<Rightarrow> ResponseWriter \<Rightarrow> ResponseWriter" where
  "add_header k v w = w\<lparr>rw_Header := header_add k v (rw_Header w)\<rparr>"

definition WriteHeader :: "nat \<Rightarrow> ResponseWriter \<Rightarrow> ResponseWriter" where
  "WriteHeader s w =
     (if rw_Sent w \<noteq> None \<or> informational s then w else w\<lparr>rw_Sent := Some (s, rw_Header w)\<rparr>)"

definition WriteBody :: "string \<Rightarrow> ResponseWriter \<Rightarrow> ResponseWriter" where
  "WriteBody b w = (let w' = WriteHeader 200 w in w'\<lparr>rw_Body := rw_Body w' @ b\<rparr>)"

definition sent_status :: "ResponseWriter \<Rightarrow> nat option" where
  "sent_status w = map_option fst (rw_Sent w)"

definition sent_header :: "ResponseWriter \<Rightarrow> string \<Rightarrow> string list option" where
  "sent_header w k = (case rw_Sent w of None \<Rightarrow> None | Some (s, h) \<Rightarrow> map_of h k)"

lemma rw_simps [simp]:
  "rw_Header (set_header k v w) = header_set k v (rw_Header w)" "rw_Sent (set_header k v w) = rw_Sent w"
  "rw_Body (set_header k v w) = rw_Body w"
  "rw_Header (add_header k v w) = header_add k v (rw_Header w)" "rw_Sent (add_header k v w) = rw_Sent w"
  "rw_Body (add_header k v w) = rw_Body w"
  "rw_Header (WriteHeader s w) = rw_Header w" "rw_Body (WriteHeader s w) = rw_Body w"
  "rw_Header (WriteBody b w) = rw_Header w" "rw_Body (WriteBody b w) = rw_Body w @ b"
  by (simp_all add: set_header_def add_header_def WriteHeader_def WriteBody_def Let_def)

lemma rw_Sent_WriteHeader [simp]:
  "rw_Sent (WriteHeader s w) =
     (if rw_Sent w = None \<and> \<not> informational s then Some (s, rw_Header w) else rw_Sent w)"
  by (simp add: WriteHeader_def)

lemma rw_Sent_WriteBody [simp]:
  "rw_Sent (WriteBody b w) = (if rw_Sent w = None then Some (200, rw_Header w) else rw_Sent w)"
  by (simp add: WriteBody_def Let_def informational_def)

section \<open>HTML escaping and Redirect\<close>

definition html_char :: "char \<Rightarrow> string" where
  "html_char c =
     (if c = CHR ''&'' then ''&amp;'' else if c = CHR 0x27 then ''&#39;'' else if c = CHR ''<'' then ''&lt;''
      else if c = CHR ''>'' then ''&gt;'' else if c = CHR 0x22 then ''&#34;'' else [c])"

definition html_escape :: "string \<Rightarrow> string" where
  "html_escape s = concat (map html_char s)"

lemma html_escape_no_markup:
  "CHR ''<'' \<notin> set (html_escape s)" "CHR ''>'' \<notin> set (html_escape s)" "CHR 0x22 \<notin> set (html_escape s)"
  "CHR 0x27 \<notin> set (html_escape s)"
  by (auto simp: html_escape_def html_char_def split: if_splits)

definition hex_escape_non_ascii :: "string \<Rightarrow> string" where
  "hex_escape_non_ascii s =
     concat (map (\<lambda>c. if byte c \<ge> 128 then [CHR ''%'', hex_digit (byte c div 16), hex_digit (byte c mod 16)] else [c]) s)"

lemma hex_escape_ascii: "list_all (\<lambda>c. byte c < 128) s \<Longrightarrow> hex_escape_non_ascii s = s"
  by (induction s) (auto simp: hex_escape_non_ascii_def)

text \<open>A target without scheme and host is made absolute against the request path.\<close>

definition redirect_target :: "string \<Rightarrow> string \<Rightarrow> string" where
  "redirect_target reqpath url =
     (case url_Parse url of
        Some u \<Rightarrow>
          (if u_Scheme u = [] \<and> u_Host u = [] then
             (let old = (if reqpath = [] then ''/'' else reqpath);
                  dir = (if CHR ''/'' \<in> set old then before_last CHR ''/'' old @ ''/'' else []);
                  full = (if \<not> prefix ''/'' url then dir @ url else url);
                  p = takeWhile (\<lambda>c. c \<noteq> CHR ''?'') full;
                  q = dropWhile (\<lambda>c. c \<noteq> CHR ''?'') full;
                  cleaned = path_Clean p
              in (if suffix ''/'' p \<and> \<not> suffix ''/'' cleaned then cleaned @ ''/'' else cleaned) @ q)
           else url)
      | None \<Rightarrow> url)"

text \<open>\<open>http.Redirect\<close> with a status and its text; the body only answers a GET without a content type.\<close>

definition redirect_body :: "string \<Rightarrow> string \<Rightarrow> string" where
  "redirect_body text url =
     ''<a href='' @ [CHR 0x22] @ html_escape url @ [CHR 0x22] @ ''>'' @ text @ ''</a>.'' @ [CHR 0x0A, CHR 0x0A]"

definition http_Redirect :: "nat \<Rightarrow> string \<Rightarrow> string \<Rightarrow> string \<Rightarrow> string \<Rightarrow> ResponseWriter \<Rightarrow> ResponseWriter" where
  "http_Redirect status text reqmethod reqpath url w =
     (let target = redirect_target reqpath url;
          had = map_of (rw_Header w) ''Content-Type'' \<noteq> None;
          w1 = set_header ''Location'' (hex_escape_non_ascii target) w;
          w2 = (if \<not> had \<and> reqmethod \<in> {''GET'', ''HEAD''}
                then set_header ''Content-Type'' ''text/html; charset=utf-8'' w1 else w1);
          w3 = WriteHeader status w2
      in if \<not> had \<and> reqmethod = ''GET'' then WriteBody (redirect_body text target) w3 else w3)"

definition RedirectFound :: "string \<Rightarrow> string \<Rightarrow> string \<Rightarrow> ResponseWriter \<Rightarrow> ResponseWriter" where
  "RedirectFound = http_Redirect 302 ''Found''"

text \<open>\<open>http.Error\<close>: a plain-text error replaces what the headers said of another content.\<close>

definition http_Error :: "string \<Rightarrow> nat \<Rightarrow> ResponseWriter \<Rightarrow> ResponseWriter" where
  "http_Error msg status w =
     (let w1 = w\<lparr>rw_Header := header_del ''Content-Length'' (rw_Header w)\<rparr>;
          w2 = set_header ''X-Content-Type-Options'' ''nosniff''
                 (set_header ''Content-Type'' ''text/plain; charset=utf-8'' w1)
      in WriteBody (msg @ [CHR 0x0A]) (WriteHeader status w2))"

lemma error_sent:
  "rw_Sent w = None \<Longrightarrow> \<not> informational s \<Longrightarrow>
   \<exists>h. rw_Sent (http_Error msg s w) = Some (s, h) \<and>
     (\<forall>k. k \<notin> {''Content-Length'', ''X-Content-Type-Options'', ''Content-Type''} \<longrightarrow> map_of h k = map_of (rw_Header w) k)"
  by (auto simp: http_Error_def Let_def)

lemma any_redirect_sent:
  "rw_Sent w = None \<Longrightarrow> \<not> informational s \<Longrightarrow>
   \<exists>h. rw_Sent (http_Redirect s text m p url w) = Some (s, h) \<and>
     (\<forall>k. k \<notin> {''Location'', ''Content-Type''} \<longrightarrow> map_of h k = map_of (rw_Header w) k)"
  by (auto simp: http_Redirect_def Let_def)

lemma redirect_sent:
  "rw_Sent w = None \<Longrightarrow>
   \<exists>h. rw_Sent (RedirectFound m p url w) = Some (302, h) \<and>
     map_of h ''Location'' = Some [hex_escape_non_ascii (redirect_target p url)] \<and>
     (\<forall>k. k \<notin> {''Location'', ''Content-Type''} \<longrightarrow> map_of h k = map_of (rw_Header w) k)"
  by (auto simp: RedirectFound_def http_Redirect_def Let_def informational_def)

lemma redirect_absolute: "url_Parse url = Some u \<Longrightarrow> u_Scheme u \<noteq> [] \<Longrightarrow> redirect_target p url = url"
  by (simp add: redirect_target_def)

lemma rw_Header_Redirect_other:
  "k \<notin> {''Location'', ''Content-Type''} \<Longrightarrow>
   map_of (rw_Header (RedirectFound m p url w)) k = map_of (rw_Header w) k"
  by (simp add: RedirectFound_def http_Redirect_def Let_def)

section \<open>Cookies\<close>

record Cookie =
  ck_Name :: string
  ck_Value :: string
  ck_Path :: string
  ck_MaxAge :: int
  ck_HttpOnly :: bool
  ck_Secure :: bool

definition token_byte :: "char \<Rightarrow> bool" where
  "token_byte c \<longleftrightarrow> is_alnum c \<or> c \<in> set ''!#$%&*+-.^_|~'' \<or> c = CHR 0x27 \<or> c = CHR 0x60"

definition is_token :: "string \<Rightarrow> bool" where
  "is_token s \<longleftrightarrow> s \<noteq> [] \<and> list_all token_byte s"

definition cookie_value_byte :: "char \<Rightarrow> bool" where
  "cookie_value_byte c \<longleftrightarrow>
     32 \<le> byte c \<and> byte c < 127 \<and> c \<noteq> CHR 0x22 \<and> c \<noteq> CHR '';'' \<and> c \<noteq> CHR 0x5C"

definition sanitize_cookie_value :: "string \<Rightarrow> string" where
  "sanitize_cookie_value v =
     (let v' = filter cookie_value_byte v
      in if CHR '' '' \<in> set v' \<or> CHR '','' \<in> set v' then CHR 0x22 # v' @ [CHR 0x22] else v')"

definition cookie_path_byte :: "char \<Rightarrow> bool" where
  "cookie_path_byte c \<longleftrightarrow> 32 \<le> byte c \<and> byte c < 127 \<and> c \<noteq> CHR '';''"

text \<open>\<open>Cookie.String\<close> of a cookie with \<open>SameSite=Lax\<close> and neither domain nor expiry date.\<close>

definition cookie_string :: "Cookie \<Rightarrow> string" where
  "cookie_string c =
     (if \<not> is_token (ck_Name c) then []
      else ck_Name c @ ''='' @ sanitize_cookie_value (ck_Value c) @
        (if ck_Path c = [] then [] else ''; Path='' @ filter cookie_path_byte (ck_Path c)) @
        (if ck_MaxAge c > 0 then ''; Max-Age='' @ itoa_int (ck_MaxAge c)
         else if ck_MaxAge c < 0 then ''; Max-Age=0'' else []) @
        (if ck_HttpOnly c then ''; HttpOnly'' else []) @ (if ck_Secure c then ''; Secure'' else []) @
        ''; SameSite=Lax'')"

definition SetCookie :: "Cookie \<Rightarrow> ResponseWriter \<Rightarrow> ResponseWriter" where
  "SetCookie c w = (if cookie_string c = [] then w else add_header ''Set-Cookie'' (cookie_string c) w)"

definition ascii_space :: "char \<Rightarrow> bool" where
  "ascii_space c \<longleftrightarrow> c \<in> {CHR '' '', CHR 0x09, CHR 0x0A, CHR 0x0D}"

definition trim_ascii :: "string \<Rightarrow> string" where
  "trim_ascii s = rev (dropWhile ascii_space (rev (dropWhile ascii_space s)))"

definition parse_cookie_value :: "string \<Rightarrow> string option" where
  "parse_cookie_value raw =
     (let v = (if length raw > 1 \<and> hd raw = CHR 0x22 \<and> last raw = CHR 0x22 then butlast (tl raw) else raw)
      in if list_all cookie_value_byte v then Some v else None)"

definition cookie_part :: "string \<Rightarrow> string \<Rightarrow> string option" where
  "cookie_part name part =
     (case cut CHR ''='' (trim_ascii part) of (n, v, _) \<Rightarrow>
        if trim_ascii n = name \<and> is_token name then parse_cookie_value v else None)"

definition max_cookies :: nat where "max_cookies = 3000"

text \<open>\<open>r.Cookie(name)\<close>: the first well-formed cookie of that name.\<close>

definition read_cookie :: "Header \<Rightarrow> string \<Rightarrow> string option" where
  "read_cookie h name =
     (let ls = (case map_of h ''Cookie'' of None \<Rightarrow> [] | Some vs \<Rightarrow> vs);
          parts = concat (map (\<lambda>l. split_on CHR '';'' (trim_ascii l)) ls)
      in if sum_list (map (\<lambda>l. count_list l CHR '';'' + 1) ls) > max_cookies then None
         else (case List.map_filter (cookie_part name) parts of [] \<Rightarrow> None | v # _ \<Rightarrow> Some v))"

end
