(* ===== verification/GoForm.thy ===== *)
theory GoForm imports
  GoHttp
begin

text \<open>
  Incoming requests: the request value, \<open>mime.ParseMediaType\<close>, \<open>ParseForm\<close> with its 10 MB limit,
  \<open>FormValue\<close>-style lookup and \<open>BasicAuth\<close>.
\<close>

text \<open>The body is what the reader delivers and whether it ended without an error.\<close>

record Request =
  rq_Method :: string
  rq_Path :: string
  rq_RawPath :: string
  rq_RawQuery :: string
  rq_Header :: Header
  rq_Body :: string
  rq_BodyClean :: bool
  rq_ContentLength :: int

definition rq_Query :: "Request \<Rightarrow> Values" where
  "rq_Query r = fst (ParseQuery (rq_RawQuery r))"

section \<open>Media types\<close>

definition mime_special :: "char \<Rightarrow> bool" where
  "mime_special c \<longleftrightarrow> c \<in> set ''()<>@,;:/[]?='' \<or> c = CHR 0x22 \<or> c = CHR 0x5C"

definition mime_token :: "char \<Rightarrow> bool" where
  "mime_token c \<longleftrightarrow> 32 < byte c \<and> byte c < 127 \<and> \<not> mime_special c"

text \<open>One \<open>; name=value\<close> parameter: name, value and rest; no result when it is malformed.\<close>

fun quoted_value :: "string \<Rightarrow> string \<Rightarrow> (string \<times> string) option" where
  "quoted_value acc [] = None"
| "quoted_value acc (c # s) =
     (if c = CHR 0x22 then Some (rev acc, s)
      else if c = CHR 0x5C \<and> s \<noteq> [] \<and> mime_special (hd s)
      then quoted_value (hd s # acc) (tl s)
      else if c = CHR 0x0D \<or> c = CHR 0x0A then None
      else quoted_value (c # acc) s)"

definition media_value :: "string \<Rightarrow> (string \<times> string) option" where
  "media_value s =
     (if s = [] then None
      else if hd s = CHR 0x22 then quoted_value [] (tl s)
      else (let t = takeWhile mime_token s in if t = [] then None else Some (t, dropWhile mime_token s)))"

definition skip_space :: "string \<Rightarrow> string" where
  "skip_space s = strip_front space_runes s"

definition media_param :: "string \<Rightarrow> (string \<times> string \<times> string) option" where
  "media_param v =
     (let r = skip_space v
      in if \<not> prefix '';'' r then None
         else let r1 = skip_space (tl r); name = takeWhile mime_token r1;
                  r2 = skip_space (dropWhile mime_token r1)
              in if name = [] \<or> \<not> prefix ''='' r2 then None
                 else (case media_value (skip_space (tl r2)) of
                         None \<Rightarrow> None
                       | Some (value, rest) \<Rightarrow> Some (to_lower name, value, rest)))"

text \<open>The outcome for the whole header: the media type and whether there was no error. The length of
  the input bounds the number of parameters.\<close>

fun media_params :: "nat \<Rightarrow> string \<Rightarrow> (string \<times> string) list \<Rightarrow> bool option" where
  "media_params 0 v seen = Some (skip_space v = [])"
| "media_params (Suc n) v seen =
     (if skip_space v = [] then Some True
      else (case media_param v of
              None \<Rightarrow> Some (trim_space v = '';'')
            | Some (k, x, rest) \<Rightarrow>
                if map_of seen k \<noteq> None \<and> map_of seen k \<noteq> Some x then None
                else media_params n rest ((k, x) # seen)))"

definition media_type_ok :: "string \<Rightarrow> bool" where
  "media_type_ok t =
     (case cut CHR ''/'' t of (a, b, found) \<Rightarrow>
        a \<noteq> [] \<and> list_all mime_token a \<and> (\<not> found \<or> b \<noteq> [] \<and> list_all mime_token b))"

definition ParseMediaType :: "string \<Rightarrow> string \<times> bool" where
  "ParseMediaType v =
     (let base = takeWhile (\<lambda>c. c \<noteq> CHR '';'') v; t = trim_space (to_lower base)
      in if \<not> media_type_ok t then ([], False)
         else (case media_params (length v) (drop (length base) v) [] of
                 None \<Rightarrow> ([], False) | Some good \<Rightarrow> (t, good)))"

section \<open>ParseForm\<close>

definition max_form_size :: nat where "max_form_size = 10485760"

definition form_type :: string where "form_type = ''application/x-www-form-urlencoded''"

text \<open>\<open>parsePostForm\<close>: the body values and whether there was no error.\<close>

definition parse_post_form :: "Request \<Rightarrow> Values \<times> bool" where
  "parse_post_form r =
     (let ct = header_get (rq_Header r) ''Content-Type'';
          mt = ParseMediaType (if ct = [] then ''application/octet-stream'' else ct)
      in if fst mt \<noteq> form_type then ([], snd mt)
         else if length (rq_Body r) > max_form_size then ([], False)
         else if \<not> rq_BodyClean r then ([], False)
         else (case ParseQuery (rq_Body r) of (vs, good) \<Rightarrow> (vs, snd mt \<and> good)))"

text \<open>\<open>copyValues\<close> appends the query's values after the body's.\<close>

fun add_all :: "string \<Rightarrow> string list \<Rightarrow> Values \<Rightarrow> Values" where
  "add_all k [] m = m"
| "add_all k (v # vs) m = add_all k vs (values_add k v m)"

fun copy_values :: "Values \<Rightarrow> Values \<Rightarrow> Values" where
  "copy_values m [] = m"
| "copy_values m ((k, vs) # src) = copy_values (add_all k vs m) src"

definition ParseForm :: "Request \<Rightarrow> Values \<times> bool" where
  "ParseForm r =
     (let post = (if rq_Method r \<in> {''POST'', ''PUT'', ''PATCH''} then parse_post_form r else ([], True));
          query = ParseQuery (rq_RawQuery r)
      in (copy_values (fst post) (fst query), snd post \<and> snd query))"

lemma wf_add_all [simp, wf_keep]: "wf_values m \<Longrightarrow> wf_values (add_all k vs m)"
  by (induction k vs m rule: add_all.induct) auto

lemma wf_copy_values [simp, wf_keep]: "wf_values m \<Longrightarrow> wf_values (copy_values m src)"
  by (induction m src rule: copy_values.induct) auto

lemma wf_ParseForm [simp, wf_keep]: "wf_values (fst (ParseForm r))"
proof -
  have "wf_values (fst (parse_post_form r))"
    using wf_ParseQuery [of "rq_Body r"]
    by (cases "ParseQuery (rq_Body r)") (simp add: parse_post_form_def Let_def)
  then show ?thesis by (simp add: ParseForm_def Let_def)
qed

section \<open>Basic authentication\<close>

definition BasicAuth :: "Request \<Rightarrow> (string \<times> string) option" where
  "BasicAuth r =
     (let auth = header_get (rq_Header r) ''Authorization''
      in if length auth < 6 \<or> to_lower (take 6 auth) \<noteq> ''basic '' then None
         else (case std_decode (drop 6 auth) of None \<Rightarrow> None
               | Some c \<Rightarrow> (case cut CHR '':'' c of (u, p, found) \<Rightarrow> if found then Some (u, p) else None)))"

lemma to_lower_basic: "to_lower ''Basic '' = ''basic ''"
  by (simp add: to_lower_def lower_byte_def byte_class chr_eq_iff)

lemma basic_auth_header [roundtrip]:
  assumes "header_get (rq_Header r) ''Authorization'' = ''Basic '' @ std_encode (u @ CHR '':'' # p)"
    and "CHR '':'' \<notin> set u"
  shows "BasicAuth r = Some (u, p)"
  using assms to_lower_basic
  by (simp add: BasicAuth_def std64.dec_enc cut_append Let_def)

end
