(* ===== verification/Fault.thy ===== *)
theory Fault imports
  GoForm
  JsonParse
begin

text \<open>
  Packages \<open>internal/fault\<close> (\<open>fault.go\<close>) and \<open>internal/metrics\<close> (\<open>metrics.go\<close>): the error bodies
  the proxy mints itself, as functions on the response writer, and the counters.
\<close>

section \<open>Fault bodies\<close>

definition ContentTypeJSON :: string where "ContentTypeJSON = ''application/json; charset=utf-8''"
definition ContentTypeHTML :: string where "ContentTypeHTML = ''text/html; charset=utf-8''"

record FaultError =
  fe_Resource :: string
  fe_Field :: string
  fe_Code :: string

record Fault =
  ft_Message :: string
  ft_Errors :: "FaultError list"

definition error_tokens :: "FaultError \<Rightarrow> jtok list" where
  "error_tokens e =
     [LBrace, TStr ''resource'', Colon, TStr (fe_Resource e), Comma, TStr ''field'', Colon, TStr (fe_Field e),
      Comma, TStr ''code'', Colon, TStr (fe_Code e), RBrace]"

fun comma_tokens :: "jtok list list \<Rightarrow> jtok list" where
  "comma_tokens [] = []"
| "comma_tokens [x] = x"
| "comma_tokens (x # y # xs) = x @ Comma # comma_tokens (y # xs)"

definition fault_tokens :: "Fault \<Rightarrow> jtok list" where
  "fault_tokens f =
     [LBrace, TStr ''message'', Colon, TStr (ft_Message f), Comma, TStr ''errors'', Colon, LBrack] @
     comma_tokens (map error_tokens (ft_Errors f)) @ [RBrack, RBrace]"

text \<open>Marshalling strings cannot fail, so the fallback body of the code is never used. A nil error
  list and an empty one are the same list here and the same JSON there.\<close>

definition fault_Write :: "nat \<Rightarrow> Fault \<Rightarrow> ResponseWriter \<Rightarrow> ResponseWriter" where
  "fault_Write status f w =
     (let body = json_print (fault_tokens f);
          w1 = set_header ''Content-Type'' ContentTypeJSON w;
          w2 = set_header ''Content-Length'' (itoa_int (int (length body))) w1
      in WriteBody body (WriteHeader status w2))"

definition WriteInvalidClientID :: "ResponseWriter \<Rightarrow> ResponseWriter" where
  "WriteInvalidClientID =
     fault_Write 400 \<lparr>ft_Message = ''Bad Request'',
       ft_Errors = [\<lparr>fe_Resource = ''Application'', fe_Field = ''client_id'', fe_Code = ''invalid''\<rparr>]\<rparr>"

definition WriteInvalidClientSecret :: "ResponseWriter \<Rightarrow> ResponseWriter" where
  "WriteInvalidClientSecret =
     fault_Write 401 \<lparr>ft_Message = ''Authorization Error'',
       ft_Errors = [\<lparr>fe_Resource = ''Application'', fe_Field = '''', fe_Code = ''invalid''\<rparr>]\<rparr>"

definition WriteInvalidCode :: "ResponseWriter \<Rightarrow> ResponseWriter" where
  "WriteInvalidCode =
     fault_Write 400 \<lparr>ft_Message = ''Bad Request'',
       ft_Errors = [\<lparr>fe_Resource = ''AuthorizationCode'', fe_Field = ''code'', fe_Code = ''invalid''\<rparr>]\<rparr>"

definition WriteUnauthorized :: "ResponseWriter \<Rightarrow> ResponseWriter" where
  "WriteUnauthorized = fault_Write 401 \<lparr>ft_Message = ''Authorization Error'', ft_Errors = []\<rparr>"

definition WriteUpstreamUnavailable :: "ResponseWriter \<Rightarrow> ResponseWriter" where
  "WriteUpstreamUnavailable =
     fault_Write 502 \<lparr>ft_Message = ''Bad Gateway'',
       ft_Errors = [\<lparr>fe_Resource = ''Upstream'', fe_Field = ''strava'', fe_Code = ''unavailable''\<rparr>]\<rparr>"

definition WriteUpstreamTimeout :: "ResponseWriter \<Rightarrow> ResponseWriter" where
  "WriteUpstreamTimeout =
     fault_Write 504 \<lparr>ft_Message = ''Gateway Timeout'',
       ft_Errors = [\<lparr>fe_Resource = ''Upstream'', fe_Field = ''strava'', fe_Code = ''timeout''\<rparr>]\<rparr>"

section \<open>Browser pages\<close>

definition defaultDetail :: string where "defaultDetail = ''The request could not be processed.''"

definition html_lines :: "string list \<Rightarrow> string" where
  "html_lines ls = concat (map (\<lambda>l. l @ [CHR 0x0A]) ls)"

definition quoted :: "string \<Rightarrow> string" where
  "quoted s = CHR 0x22 # s @ [CHR 0x22]"

definition page_head :: "string \<Rightarrow> string" where
  "page_head title =
     html_lines [''<!doctype html>'', ''<html lang='' @ quoted ''en'' @ ''>'', ''<head>'',
       ''<meta charset='' @ quoted ''utf-8'' @ ''>'',
       ''<meta name='' @ quoted ''viewport'' @ '' content='' @ quoted ''width=device-width, initial-scale=1'' @ ''>'',
       ''<meta name='' @ quoted ''robots'' @ '' content='' @ quoted ''noindex, nofollow'' @ ''>'',
       ''<title>'' @ title @ ''</title>'', ''</head>'', ''<body>'', ''<h1>'' @ title @ ''</h1>''] @ ''<p>''"

definition page_tail :: string where
  "page_tail = html_lines [''</p>'', ''</body>'', ''</html>'']"

definition badRequestPage :: "string \<Rightarrow> string" where
  "badRequestPage detail = page_head ''400 Bad Request'' @ html_escape detail @ page_tail"

definition WriteBadRequestPage :: "string \<Rightarrow> ResponseWriter \<Rightarrow> ResponseWriter" where
  "WriteBadRequestPage detail w =
     (let body = badRequestPage (if detail = [] then defaultDetail else detail);
          w1 = set_header ''Content-Type'' ContentTypeHTML w;
          w2 = set_header ''Content-Length'' (itoa_int (int (length body))) w1
      in WriteBody body (WriteHeader 400 w2))"

section \<open>Counters\<close>

text \<open>An \<open>expvar.Map\<close>: its keys with their counts. \<open>Inc\<close> ignores the empty key.\<close>

type_synonym Counters = "(string \<times> nat) list"

definition NameOAuthCallbacks :: string where "NameOAuthCallbacks = ''oauth_callbacks_total''"
definition NameTokenExchanges :: string where "NameTokenExchanges = ''token_exchanges_total''"
definition NameUpstreamErrors :: string where "NameUpstreamErrors = ''upstream_errors_total''"

record Metrics =
  m_OAuthCallbacks :: Counters
  m_TokenExchanges :: Counters
  m_UpstreamErrors :: Counters

definition count_of :: "Counters \<Rightarrow> string \<Rightarrow> nat" where
  "count_of m key = (case map_of m key of None \<Rightarrow> 0 | Some n \<Rightarrow> n)"

definition Inc :: "string \<Rightarrow> Counters \<Rightarrow> Counters" where
  "Inc key m = (if key = [] then m else map_put key (count_of m key + 1) m)"

text \<open>The registry of published variables; an occupied name that is no map yields a fresh,
  unpublished one.\<close>

datatype expvar = EMap Counters | EOther

definition mustMap :: "string \<Rightarrow> (string \<times> expvar) list \<Rightarrow> Counters \<times> (string \<times> expvar) list" where
  "mustMap name reg =
     (case map_of reg name of
        Some (EMap m) \<Rightarrow> (m, reg)
      | Some EOther \<Rightarrow> ([], reg)
      | None \<Rightarrow> ([], map_put name (EMap []) reg))"

lemma count_of_Inc: "count_of (Inc key m) k = (if k = key \<and> key \<noteq> [] then count_of m k + 1 else count_of m k)"
  by (simp add: Inc_def count_of_def)

lemma keys_Inc: "fst ` set (Inc key m) \<subseteq> insert key (fst ` set m)"
  by (auto simp: Inc_def)

section \<open>What a writer sends\<close>

lemma sent_fault:
  assumes "rw_Sent w = None" "\<not> informational status"
  shows "\<exists>h. rw_Sent (fault_Write status f w) = Some (status, h) \<and>
    map_of h ''Content-Type'' = Some [ContentTypeJSON] \<and>
    map_of h ''Content-Length'' = Some [itoa_int (int (length (json_print (fault_tokens f))))] \<and>
    (\<forall>k. k \<notin> {''Content-Type'', ''Content-Length''} \<longrightarrow> map_of h k = map_of (rw_Header w) k)"
  using assms by (auto simp: fault_Write_def Let_def)

lemma body_fault: "rw_Body (fault_Write status f w) = rw_Body w @ json_print (fault_tokens f)"
  by (simp add: fault_Write_def Let_def)

lemma header_fault_other:
  "k \<notin> {''Content-Type'', ''Content-Length''} \<Longrightarrow>
   map_of (rw_Header (fault_Write status f w)) k = map_of (rw_Header w) k"
  by (simp add: fault_Write_def Let_def)

lemmas fault_writers =
  WriteInvalidClientID_def WriteInvalidClientSecret_def WriteInvalidCode_def WriteUnauthorized_def
  WriteUpstreamUnavailable_def WriteUpstreamTimeout_def

lemma sent_status_fault:
  "rw_Sent w = None \<Longrightarrow> sent_status (WriteInvalidClientID w) = Some 400"
  "rw_Sent w = None \<Longrightarrow> sent_status (WriteInvalidClientSecret w) = Some 401"
  "rw_Sent w = None \<Longrightarrow> sent_status (WriteInvalidCode w) = Some 400"
  "rw_Sent w = None \<Longrightarrow> sent_status (WriteUnauthorized w) = Some 401"
  "rw_Sent w = None \<Longrightarrow> sent_status (WriteUpstreamUnavailable w) = Some 502"
  "rw_Sent w = None \<Longrightarrow> sent_status (WriteUpstreamTimeout w) = Some 504"
  "rw_Sent w = None \<Longrightarrow> sent_status (WriteBadRequestPage d w) = Some 400"
  by (simp_all add: fault_writers fault_Write_def WriteBadRequestPage_def Let_def sent_status_def informational_def)

lemma sent_page:
  assumes "rw_Sent w = None"
  shows "\<exists>h. rw_Sent (WriteBadRequestPage d w) = Some (400, h) \<and>
    (\<forall>k. k \<notin> {''Content-Type'', ''Content-Length''} \<longrightarrow> map_of h k = map_of (rw_Header w) k)"
  using assms by (auto simp: WriteBadRequestPage_def Let_def informational_def)

section \<open>Parsing a Fault back\<close>

text \<open>The stack machine on the tokens of a list of values: each element of the list is consumed and
  pushed.\<close>

definition clean_error :: "FaultError \<Rightarrow> json" where
  "clean_error e = JObj [(''resource'', JStr (to_valid (fe_Resource e))), (''field'', JStr (to_valid (fe_Field e))),
     (''code'', JStr (to_valid (fe_Code e)))]"

lemma ascii_name [simp]:
  "to_valid ''resource'' = ''resource''" "to_valid ''field'' = ''field''" "to_valid ''code'' = ''code''"
  "to_valid ''message'' = ''message''" "to_valid ''errors'' = ''errors''"
  by (rule to_valid_id, rule valid_utf8_ascii, simp)+

lemma json_run_append:
  "json_run c (a @ b) = (case json_run c a of None \<Rightarrow> None | Some c' \<Rightarrow> json_run c' b)"
  by (induction c a rule: json_run.induct) (auto split: option.splits)

lemma run_error:
  "length st < 10 \<Longrightarrow> json_run (InArr vs # st, WantValue) (map clean_tok (error_tokens e)) =
     Some (InArr (clean_error e # vs) # st, AfterElem)"
  by (simp add: error_tokens_def clean_error_def max_nesting_def)

lemma run_errors:
  "length st < 10 \<Longrightarrow> es \<noteq> [] \<Longrightarrow>
   json_run (InArr vs # st, WantValue) (map clean_tok (comma_tokens (map error_tokens es))) =
     Some (InArr (rev (map clean_error es) @ vs) # st, AfterElem)"
proof (induction es arbitrary: vs)
  case (Cons e es)
  then show ?case by (cases es) (simp_all add: run_error json_run_append)
qed simp

lemma well_spaced_strings: "list_all (\<lambda>t. \<forall>n. t \<noteq> TNum n) ts \<Longrightarrow> well_spaced ts"
  by (induction ts rule: well_spaced.induct) auto

lemma all_comma_tokens: "P Comma \<Longrightarrow> (\<And>x. x \<in> set xs \<Longrightarrow> list_all P x) \<Longrightarrow> list_all P (comma_tokens xs)"
  by (induction xs rule: comma_tokens.induct) auto

lemma no_numbers: "list_all (\<lambda>t. \<forall>n. t \<noteq> TNum n) (fault_tokens f)"
proof -
  have "list_all (\<lambda>t. \<forall>n. t \<noteq> TNum n) (comma_tokens (map error_tokens es))" for es
    by (rule all_comma_tokens) (auto simp: error_tokens_def)
  then show ?thesis by (simp add: fault_tokens_def)
qed

lemma comma_tokens_hd: "es \<noteq> [] \<Longrightarrow> \<exists>ts. comma_tokens (map error_tokens es) = LBrace # ts"
  by (cases es; cases "tl es") (auto simp: error_tokens_def)

lemma parse_fault:
  "json_parse (json_print (fault_tokens f)) =
     Some (JObj [(''message'', JStr (to_valid (ft_Message f))), (''errors'', JArr (map clean_error (ft_Errors f)))])"
proof (cases "ft_Errors f = []")
  case True
  then show ?thesis
    using no_numbers [of f]
    by (simp add: json_parse_def json_lex_print well_spaced_strings)
       (simp add: fault_tokens_def True max_nesting_def)
next
  case False
  then have "json_run ([InArr [], fr], WantValueOrEnd) (map clean_tok (comma_tokens (map error_tokens (ft_Errors f)))) =
      Some ([InArr (rev (map clean_error (ft_Errors f))), fr], AfterElem)" for fr
    using run_errors [of "[fr]" "ft_Errors f" "[]"] comma_tokens_hd [of "ft_Errors f"]
    by auto
  then show ?thesis
    using no_numbers [of f]
    by (simp add: json_parse_def json_lex_print well_spaced_strings)
       (simp add: fault_tokens_def max_nesting_def json_run_append run_errors)
qed

end
