(* ===== verification/FaultProps.thy ===== *)
theory FaultProps imports
  Fault
begin

text \<open>The properties of the error bodies: exact bytes, declared length, and what a client reads back.\<close>

text \<open>
  C10. Every Fault that reaches a fresh response is sent with its status, the JSON media type and a
  Content-Length that is the length of the body, and the body is JSON that decodes to the Fault's
  message and errors (an empty list as an empty array).
\<close>

theorem fault_response:
  assumes "rw_Sent w = None" "rw_Body w = []" "\<not> informational status"
  shows "\<exists>h. rw_Sent (fault_Write status f w) = Some (status, h) \<and>
    map_of h ''Content-Type'' = Some [''application/json; charset=utf-8''] \<and>
    map_of h ''Content-Length'' = Some [itoa_int (int (length (rw_Body (fault_Write status f w))))] \<and>
    json_parse (rw_Body (fault_Write status f w)) =
      Some (JObj [(''message'', JStr (to_valid (ft_Message f))), (''errors'', JArr (map clean_error (ft_Errors f)))])"
  using sent_fault [OF assms(1,3), of f] assms(2)
  by (auto simp: body_fault parse_fault ContentTypeJSON_def)

theorem fault_response_witness:
  "\<exists>h. rw_Sent (fault_Write 429 \<lparr>ft_Message = ''Rate Limit Exceeded'', ft_Errors = []\<rparr> new_writer) = Some (429, h) \<and>
     map_of h ''Content-Type'' = Some [''application/json; charset=utf-8'']"
  using fault_response [of new_writer 429 "\<lparr>ft_Message = ''Rate Limit Exceeded'', ft_Errors = []\<rparr>"]
  by (auto simp: new_writer_def informational_def)

text \<open>
  The proxy-minted Faults are, byte for byte, the bodies of the contract, with their statuses:
  an unknown client is 400 on the client id, a wrong secret is 401 naming no field, a bad code is
  400, bad Basic credentials are 401 with no errors, and upstream failures are 502 and 504.
\<close>

definition fault_json :: "string \<Rightarrow> string \<Rightarrow> string" where
  "fault_json message errors = ''{'' @ quoted ''message'' @ '':'' @ quoted message @ '','' @ quoted ''errors'' @ '':['' @ errors @ '']}''"

definition entry_json :: "string \<Rightarrow> string \<Rightarrow> string \<Rightarrow> string" where
  "entry_json r f c = ''{'' @ quoted ''resource'' @ '':'' @ quoted r @ '','' @ quoted ''field'' @ '':'' @ quoted f @ '','' @
     quoted ''code'' @ '':'' @ quoted c @ ''}''"

theorem fault_bodies_exact:
  "(sent_status (WriteInvalidClientID new_writer), rw_Body (WriteInvalidClientID new_writer)) =
     (Some 400, fault_json ''Bad Request'' (entry_json ''Application'' ''client_id'' ''invalid'')) \<and>
   (sent_status (WriteInvalidClientSecret new_writer), rw_Body (WriteInvalidClientSecret new_writer)) =
     (Some 401, fault_json ''Authorization Error'' (entry_json ''Application'' '''' ''invalid'')) \<and>
   (sent_status (WriteInvalidCode new_writer), rw_Body (WriteInvalidCode new_writer)) =
     (Some 400, fault_json ''Bad Request'' (entry_json ''AuthorizationCode'' ''code'' ''invalid'')) \<and>
   (sent_status (WriteUnauthorized new_writer), rw_Body (WriteUnauthorized new_writer)) =
     (Some 401, fault_json ''Authorization Error'' []) \<and>
   (sent_status (WriteUpstreamUnavailable new_writer), rw_Body (WriteUpstreamUnavailable new_writer)) =
     (Some 502, fault_json ''Bad Gateway'' (entry_json ''Upstream'' ''strava'' ''unavailable'')) \<and>
   (sent_status (WriteUpstreamTimeout new_writer), rw_Body (WriteUpstreamTimeout new_writer)) =
     (Some 504, fault_json ''Gateway Timeout'' (entry_json ''Upstream'' ''strava'' ''timeout''))"
  by code_simp

text \<open>
  C11. The browser-facing 400 page is the fixed frame around the escaped detail, which carries no
  markup of its own, and declares its length; it is the only thing written to the response.
\<close>

theorem bad_request_page_inert:
  assumes "rw_Sent w = None" "rw_Body w = []"
  shows "\<exists>text h. rw_Body (WriteBadRequestPage detail w) = page_head ''400 Bad Request'' @ text @ page_tail \<and>
    text \<noteq> [] \<and> set text \<inter> {CHR ''<'', CHR ''>'', CHR 0x22, CHR 0x27} = {} \<and>
    rw_Sent (WriteBadRequestPage detail w) = Some (400, h) \<and>
    map_of h ''Content-Length'' = Some [itoa_int (int (length (rw_Body (WriteBadRequestPage detail w))))] \<and>
    map_of h ''Location'' = map_of (rw_Header w) ''Location''"
proof -
  have "html_escape s \<noteq> []" if "s \<noteq> []" for s
    using that by (cases s) (auto simp: html_escape_def html_char_def)
  moreover have "defaultDetail \<noteq> []" by (simp add: defaultDetail_def)
  ultimately show ?thesis
    using assms html_escape_no_markup
    by (intro exI [of _ "html_escape (if detail = [] then defaultDetail else detail)"])
       (auto simp: WriteBadRequestPage_def Let_def badRequestPage_def informational_def)
qed

theorem bad_request_page_inert_witness:
  "\<exists>text. rw_Body (WriteBadRequestPage ''<script>'' new_writer) = page_head ''400 Bad Request'' @ text @ page_tail \<and>
     set text \<inter> {CHR ''<'', CHR ''>'', CHR 0x22, CHR 0x27} = {}"
  using bad_request_page_inert [of new_writer "''<script>''"] by (auto simp: new_writer_def)

end
