(* ===== verification/Config.thy ===== *)
theory Config imports
  Seal
  GoUrl
begin

text \<open>
  Package \<open>internal/config\<close> (\<open>config.go\<close>, \<open>secret.go\<close>): loading, validating and hot-reloading the
  configuration. The process environment and the file system are the parameters of \<open>Load\<close>; a
  holder is the currently published snapshot.
\<close>

section \<open>Secrets\<close>

datatype Secret = NewSecret (Reveal: string)

definition Redacted :: string where "Redacted = ''[REDACTED]''"

definition secret_IsZero :: "Secret \<Rightarrow> bool" where
  "secret_IsZero s \<longleftrightarrow> Reveal s = []"

definition secret_String :: "Secret \<Rightarrow> string" where "secret_String s = Redacted"
definition secret_GoString :: "Secret \<Rightarrow> string" where "secret_GoString s = Redacted"

definition secret_Format :: "Secret \<Rightarrow> char \<Rightarrow> string" where
  "secret_Format s verb = (if verb = CHR ''q'' then CHR 0x22 # Redacted @ [CHR 0x22] else Redacted)"

definition secret_MarshalJSON :: "Secret \<Rightarrow> string" where
  "secret_MarshalJSON s = json_print [TStr Redacted]"

definition secret_LogValue :: "Secret \<Rightarrow> string" where "secret_LogValue s = Redacted"

text \<open>\<open>UnmarshalJSON\<close> on the parsed value; null decodes to the empty string.\<close>

fun secret_UnmarshalJSON :: "json \<Rightarrow> Secret option" where
  "secret_UnmarshalJSON (JStr s) = Some (NewSecret s)"
| "secret_UnmarshalJSON JNull = Some (NewSecret [])"
| "secret_UnmarshalJSON _ = None"

section \<open>Types\<close>

datatype config_error =
    ErrMissingStravaClientID | ErrMissingStravaClientSecret | ErrInvalidPublicURL | ErrInvalidUpstreamBaseURL
  | ErrInvalidBool | ErrInvalidStateTTL | ErrEmptyKeyRing | ErrMalformedStateKey | ErrShortStateKey
  | ErrDuplicateKID | ErrNoClientRegistry | ErrMalformedClients | ErrNoClients | ErrInvalidClientID
  | ErrDuplicateClientID | ErrNoRedirectURIs | ErrInvalidRedirectURI | ErrInsecureRedirectURI
  | ErrClientSecret | ErrTLSRequired
  | ReadFailed string

definition EnvStravaClientID :: string where "EnvStravaClientID = ''STRAVA_CLIENT_ID''"
definition EnvStravaClientSecret :: string where "EnvStravaClientSecret = ''STRAVA_CLIENT_SECRET''"
definition EnvPublicURL :: string where "EnvPublicURL = ''PROXY_PUBLIC_URL''"
definition EnvUpstreamBaseURL :: string where "EnvUpstreamBaseURL = ''UPSTREAM_BASE_URL''"
definition EnvListenAddr :: string where "EnvListenAddr = ''LISTEN_ADDR''"
definition EnvAdminAddr :: string where "EnvAdminAddr = ''ADMIN_ADDR''"
definition EnvTLSCertFile :: string where "EnvTLSCertFile = ''TLS_CERT_FILE''"
definition EnvTLSKeyFile :: string where "EnvTLSKeyFile = ''TLS_KEY_FILE''"
definition EnvDevAllowHTTP :: string where "EnvDevAllowHTTP = ''DEV_ALLOW_HTTP''"
definition EnvStateKeys :: string where "EnvStateKeys = ''PROXY_STATE_KEYS''"
definition EnvStateTTL :: string where "EnvStateTTL = ''PROXY_STATE_TTL''"
definition EnvClients :: string where "EnvClients = ''PROXY_CLIENTS''"
definition EnvClientsFile :: string where "EnvClientsFile = ''PROXY_CLIENTS_FILE''"

definition DefaultUpstreamBaseURL :: string where "DefaultUpstreamBaseURL = ''https://www.strava.com''"
definition DefaultListenAddr :: string where "DefaultListenAddr = '':8443''"
definition DefaultAdminAddr :: string where "DefaultAdminAddr = ''127.0.0.1:9090''"
definition DefaultStateTTL :: duration where "DefaultStateTTL = 15 * minute"
definition MinStateKeyLen :: nat where "MinStateKeyLen = 32"

record StateKey =
  sk_KID :: string
  sk_Key :: string

record Client =
  cl_ID :: string
  cl_SecretSHA256 :: string
  cl_RedirectURIs :: "string list"
  cl_RequireNonceCookie :: bool

record Config =
  cf_StravaClientID :: string
  cf_StravaClientSecret :: Secret
  cf_PublicURL :: string
  cf_UpstreamBaseURL :: string
  cf_ListenAddr :: string
  cf_AdminAddr :: string
  cf_TLSCertFile :: string
  cf_TLSKeyFile :: string
  cf_DevAllowHTTP :: bool
  cf_StateKeys :: "StateKey list"
  cf_StateTTL :: duration
  cf_Clients :: "(string \<times> Client) list"

section \<open>Lookups\<close>

definition AllowsRedirectURI :: "Client \<Rightarrow> string \<Rightarrow> bool" where
  "AllowsRedirectURI c uri = list_ex (\<lambda>allowed. allowed = uri) (cl_RedirectURIs c)"

definition VerifySecret :: "Client \<Rightarrow> string \<Rightarrow> bool" where
  "VerifySecret c presented \<longleftrightarrow> sha256 presented = cl_SecretSHA256 c"

definition config_Client :: "Config \<Rightarrow> string \<Rightarrow> Client option" where
  "config_Client c cid = map_of (cf_Clients c) cid"

definition CallbackURL :: "Config \<Rightarrow> string" where
  "CallbackURL c = cf_PublicURL c @ ''/oauth/callback''"

section \<open>State keys\<close>

definition kid_byte :: "char \<Rightarrow> bool" where
  "kid_byte c \<longleftrightarrow> is_alnum c \<or> c = CHR ''_'' \<or> c = CHR ''-''"

definition validKID :: "string \<Rightarrow> bool" where
  "validKID kid \<longleftrightarrow> list_all kid_byte kid \<and> kid \<noteq> []"

definition decodeKey :: "string \<Rightarrow> string option" where
  "decodeKey s =
     (case hex_decode s of Some b \<Rightarrow> Some b
      | None \<Rightarrow> (case rawurl_decode s of Some b \<Rightarrow> Some b | None \<Rightarrow> std_decode s))"

text \<open>One entry of the ring: skipped when blank.\<close>

definition parse_key_entry :: "string \<Rightarrow> string list \<Rightarrow> (config_error, StateKey) result" where
  "parse_key_entry entry seen =
     (case cut CHR ''='' entry of (k, e, found) \<Rightarrow>
        let kid = trim_space k; encoded = trim_space e
        in if \<not> found \<or> kid = [] \<or> encoded = [] then Err ErrMalformedStateKey
           else if \<not> validKID kid then Err ErrMalformedStateKey
           else if kid \<in> set seen then Err ErrDuplicateKID
           else (case decodeKey encoded of
                   None \<Rightarrow> Err ErrMalformedStateKey
                 | Some key \<Rightarrow> if length key < MinStateKeyLen then Err ErrShortStateKey
                               else Ok \<lparr>sk_KID = kid, sk_Key = key\<rparr>))"

fun parse_key_entries :: "string list \<Rightarrow> StateKey list \<Rightarrow> (config_error, StateKey list) result" where
  "parse_key_entries [] keys = Ok keys"
| "parse_key_entries (e # es) keys =
     (if trim_space e = [] then parse_key_entries es keys
      else andThen (parse_key_entry (trim_space e) (map sk_KID keys)) (\<lambda>k. parse_key_entries es (keys @ [k])))"

definition parseStateKeys :: "string \<Rightarrow> (config_error, StateKey list) result" where
  "parseStateKeys spec =
     andThen (parse_key_entries (split_on CHR '','' spec) [])
       (\<lambda>keys. if keys = [] then Err ErrEmptyKeyRing else Ok keys)"

section \<open>Redirect URIs\<close>

definition isAllDigits :: "string \<Rightarrow> bool" where
  "isAllDigits s \<longleftrightarrow> s \<noteq> [] \<and> list_all is_digit s"

definition loopbackHosts :: "string list" where
  "loopbackHosts = [''localhost'', ''127.0.0.1'', ''::1'']"

definition validateRedirectURI :: "string \<Rightarrow> (config_error, unit) result" where
  "validateRedirectURI raw =
     (if trim_space raw = [] then Err ErrInvalidRedirectURI
      else (case url_Parse raw of
              None \<Rightarrow> Err ErrInvalidRedirectURI
            | Some u \<Rightarrow>
                if u_Host u = [] \<or> \<not> IsAbs u then Err ErrInvalidRedirectURI
                else if u_Fragment u \<noteq> [] \<or> CHR ''#'' \<in> set raw then Err ErrInvalidRedirectURI
                else if u_Scheme u = ''https'' then Ok ()
                else if u_Scheme u = ''http'' then
                  (if Hostname u \<in> set loopbackHosts then Ok () else Err ErrInsecureRedirectURI)
                else Err ErrInsecureRedirectURI))"

fun validate_uris :: "string list \<Rightarrow> (config_error, unit) result" where
  "validate_uris [] = Ok ()"
| "validate_uris (u # us) = andThen (validateRedirectURI u) (\<lambda>_. validate_uris us)"

section \<open>The client registry\<close>

record clientJSON =
  cj_ClientID :: string
  cj_ClientSecretSHA256 :: string
  cj_ClientSecret :: Secret
  cj_RedirectURIs :: "string list"
  cj_RequireNonceCookie :: bool

definition zero_clientJSON :: clientJSON where
  "zero_clientJSON = \<lparr>cj_ClientID = [], cj_ClientSecretSHA256 = [], cj_ClientSecret = NewSecret [],
     cj_RedirectURIs = [], cj_RequireNonceCookie = False\<rparr>"

text \<open>Decoding into a slice: a null element keeps what a previous decoding put at its index.\<close>

fun read_strings_into :: "json list \<Rightarrow> string list \<Rightarrow> string list option" where
  "read_strings_into [] cur = Some []"
| "read_strings_into (j # js) cur =
     (case read_string j (case cur of [] \<Rightarrow> [] | c # _ \<Rightarrow> c) of
        None \<Rightarrow> None | Some s \<Rightarrow> map_option ((#) s) (read_strings_into js (drop 1 cur)))"

fun read_strings :: "json \<Rightarrow> string list \<Rightarrow> string list option" where
  "read_strings (JArr js) cur = read_strings_into js cur"
| "read_strings JNull cur = Some []"
| "read_strings _ cur = None"

definition client_member :: "string \<Rightarrow> json \<Rightarrow> clientJSON \<Rightarrow> clientJSON option" where
  "client_member k v e =
     (if field_is ''client_id'' k then map_option (\<lambda>s. e\<lparr>cj_ClientID := s\<rparr>) (read_string v (cj_ClientID e))
      else if field_is ''client_secret_sha256'' k
      then map_option (\<lambda>s. e\<lparr>cj_ClientSecretSHA256 := s\<rparr>) (read_string v (cj_ClientSecretSHA256 e))
      else if field_is ''client_secret'' k
      then map_option (\<lambda>s. e\<lparr>cj_ClientSecret := s\<rparr>) (secret_UnmarshalJSON v)
      else if field_is ''redirect_uris'' k
      then map_option (\<lambda>s. e\<lparr>cj_RedirectURIs := s\<rparr>) (read_strings v (cj_RedirectURIs e))
      else if field_is ''require_nonce_cookie'' k
      then map_option (\<lambda>b. e\<lparr>cj_RequireNonceCookie := b\<rparr>) (read_bool v (cj_RequireNonceCookie e))
      else Some e)"

fun read_entries :: "json list \<Rightarrow> clientJSON list option" where
  "read_entries [] = Some []"
| "read_entries (j # js) =
     (case (read_struct client_member j zero_clientJSON, read_entries js) of
        (Some e, Some es) \<Rightarrow> Some (e # es) | _ \<Rightarrow> None)"

definition unmarshal_clients :: "string \<Rightarrow> clientJSON list option" where
  "unmarshal_clients raw =
     (case json_parse raw of
        Some (JArr js) \<Rightarrow> read_entries js
      | Some JNull \<Rightarrow> Some []
      | _ \<Rightarrow> None)"

definition clientDigest :: "clientJSON \<Rightarrow> (config_error, string) result" where
  "clientDigest e =
     (let hexDigest = trim_space (cj_ClientSecretSHA256 e); plaintext = Reveal (cj_ClientSecret e)
      in if hexDigest \<noteq> [] \<and> plaintext \<noteq> [] then Err ErrClientSecret
         else if hexDigest \<noteq> [] then
           (case hex_decode hexDigest of
              None \<Rightarrow> Err ErrClientSecret
            | Some b \<Rightarrow> if length b \<noteq> 32 then Err ErrClientSecret else Ok b)
         else if plaintext \<noteq> [] then Ok (sha256 plaintext)
         else Err ErrClientSecret)"

definition parse_client :: "clientJSON \<Rightarrow> (string \<times> Client) list \<Rightarrow> (config_error, Client) result" where
  "parse_client e clients =
     (let cid = trim_space (cj_ClientID e)
      in if \<not> isAllDigits cid then Err ErrInvalidClientID
         else if map_of clients cid \<noteq> None then Err ErrDuplicateClientID
         else if cj_RedirectURIs e = [] then Err ErrNoRedirectURIs
         else andThen (validate_uris (cj_RedirectURIs e)) (\<lambda>_.
              andThen (clientDigest e) (\<lambda>digest.
                Ok \<lparr>cl_ID = cid, cl_SecretSHA256 = digest, cl_RedirectURIs = cj_RedirectURIs e,
                    cl_RequireNonceCookie = cj_RequireNonceCookie e\<rparr>)))"

fun parse_entries :: "clientJSON list \<Rightarrow> (string \<times> Client) list \<Rightarrow> (config_error, (string \<times> Client) list) result" where
  "parse_entries [] clients = Ok clients"
| "parse_entries (e # es) clients =
     andThen (parse_client e clients) (\<lambda>c. parse_entries es (map_put (cl_ID c) c clients))"

definition parseClients :: "string \<Rightarrow> (config_error, (string \<times> Client) list) result" where
  "parseClients raw =
     (case unmarshal_clients raw of
        None \<Rightarrow> Err ErrMalformedClients
      | Some es \<Rightarrow> andThen (parse_entries es []) (\<lambda>clients. if clients = [] then Err ErrNoClients else Ok clients))"

section \<open>Validation\<close>

definition validateAbsURL :: "string \<Rightarrow> config_error \<Rightarrow> (config_error, unit) result" where
  "validateAbsURL raw sentinel =
     (if raw = [] then Err sentinel
      else (case url_Parse raw of
              None \<Rightarrow> Err sentinel
            | Some u \<Rightarrow>
                if \<not> IsAbs u \<or> u_Host u = [] then Err sentinel
                else if u_Scheme u \<noteq> ''http'' \<and> u_Scheme u \<noteq> ''https'' then Err sentinel
                else if u_RawQuery u \<noteq> [] \<or> u_Fragment u \<noteq> [] then Err sentinel
                else Ok ()))"

fun validate_keys :: "StateKey list \<Rightarrow> string list \<Rightarrow> (config_error, unit) result" where
  "validate_keys [] seen = Ok ()"
| "validate_keys (k # ks) seen =
     (if \<not> validKID (sk_KID k) then Err ErrMalformedStateKey
      else if sk_KID k \<in> set seen then Err ErrDuplicateKID
      else if length (sk_Key k) < MinStateKeyLen then Err ErrShortStateKey
      else validate_keys ks (sk_KID k # seen))"

text \<open>The code visits the map in an unspecified order, which decides only which error is returned.\<close>

fun validate_clients :: "(string \<times> Client) list \<Rightarrow> (config_error, unit) result" where
  "validate_clients [] = Ok ()"
| "validate_clients ((cid, cl) # cs) =
     (if \<not> isAllDigits cid then Err ErrInvalidClientID
      else if cl_ID cl \<noteq> cid then Err ErrInvalidClientID
      else if cl_RedirectURIs cl = [] then Err ErrNoRedirectURIs
      else andThen (validate_uris (cl_RedirectURIs cl)) (\<lambda>_. validate_clients cs))"

definition validate :: "Config \<Rightarrow> (config_error, unit) result" where
  "validate c =
     (if cf_StravaClientID c = [] then Err ErrMissingStravaClientID
      else if secret_IsZero (cf_StravaClientSecret c) then Err ErrMissingStravaClientSecret
      else andThen (validateAbsURL (cf_PublicURL c) ErrInvalidPublicURL) (\<lambda>_.
           andThen (validateAbsURL (cf_UpstreamBaseURL c) ErrInvalidUpstreamBaseURL) (\<lambda>_.
             if cf_StateTTL c \<le> 0 then Err ErrInvalidStateTTL
             else if cf_StateKeys c = [] then Err ErrEmptyKeyRing
             else andThen (validate_keys (cf_StateKeys c) []) (\<lambda>_.
               if cf_Clients c = [] then Err ErrNoClients
               else andThen (validate_clients (cf_Clients c)) (\<lambda>_.
                 if \<not> cf_DevAllowHTTP c \<and> (cf_TLSCertFile c = [] \<or> cf_TLSKeyFile c = [])
                 then Err ErrTLSRequired else Ok ())))))"

section \<open>Load\<close>

text \<open>What the process sees: the environment (an unset variable reads as empty) and the files.\<close>

record System =
  sys_Getenv :: "string \<Rightarrow> string"
  sys_ReadFile :: "string \<Rightarrow> string option"

definition getenv_trimmed :: "System \<Rightarrow> string \<Rightarrow> string" where
  "getenv_trimmed sys name = trim_space (sys_Getenv sys name)"

definition envOrFile :: "System \<Rightarrow> string \<Rightarrow> (config_error, string) result" where
  "envOrFile sys name =
     (let path = getenv_trimmed sys (name @ ''_FILE'')
      in if path \<noteq> [] then
           (case sys_ReadFile sys path of None \<Rightarrow> Err (ReadFailed name) | Some b \<Rightarrow> Ok (trim_space b))
         else Ok (getenv_trimmed sys name))"

definition loadClientRegistry :: "System \<Rightarrow> (config_error, string) result" where
  "loadClientRegistry sys =
     (let path = getenv_trimmed sys EnvClientsFile; v = getenv_trimmed sys EnvClients
      in if path \<noteq> [] then
           (case sys_ReadFile sys path of None \<Rightarrow> Err (ReadFailed EnvClientsFile) | Some b \<Rightarrow> Ok b)
         else if v \<noteq> [] then Ok v
         else Err ErrNoClientRegistry)"

definition or_default :: "string \<Rightarrow> string \<Rightarrow> string" where
  "or_default v d = (if v \<noteq> [] then v else d)"

definition load_bool :: "System \<Rightarrow> (config_error, bool) result" where
  "load_bool sys =
     (let v = getenv_trimmed sys EnvDevAllowHTTP
      in if v = [] then Ok False
         else (case parse_bool v of None \<Rightarrow> Err ErrInvalidBool | Some b \<Rightarrow> Ok b))"

definition load_ttl :: "System \<Rightarrow> (config_error, duration) result" where
  "load_ttl sys =
     (let v = getenv_trimmed sys EnvStateTTL
      in if v = [] then Ok DefaultStateTTL
         else (case parse_duration v of None \<Rightarrow> Err ErrInvalidStateTTL | Some d \<Rightarrow> Ok d))"

definition load_upstream :: "System \<Rightarrow> string" where
  "load_upstream sys =
     (let v = getenv_trimmed sys EnvUpstreamBaseURL
      in if v \<noteq> [] then trim_right CHR ''/'' v else DefaultUpstreamBaseURL)"

definition Load :: "System \<Rightarrow> (config_error, Config) result" where
  "Load sys =
     andThen (envOrFile sys EnvStravaClientSecret) (\<lambda>secret.
     andThen (envOrFile sys EnvPublicURL) (\<lambda>publicURL.
     andThen (load_bool sys) (\<lambda>dev.
     andThen (load_ttl sys) (\<lambda>ttl.
     andThen (envOrFile sys EnvStateKeys) (\<lambda>keySpec.
     andThen (parseStateKeys keySpec) (\<lambda>keys.
     andThen (loadClientRegistry sys) (\<lambda>raw.
     andThen (parseClients raw) (\<lambda>clients.
       let c = \<lparr>cf_StravaClientID = getenv_trimmed sys EnvStravaClientID,
                cf_StravaClientSecret = NewSecret secret,
                cf_PublicURL = trim_right CHR ''/'' publicURL,
                cf_UpstreamBaseURL = load_upstream sys,
                cf_ListenAddr = or_default (getenv_trimmed sys EnvListenAddr) DefaultListenAddr,
                cf_AdminAddr = or_default (getenv_trimmed sys EnvAdminAddr) DefaultAdminAddr,
                cf_TLSCertFile = getenv_trimmed sys EnvTLSCertFile,
                cf_TLSKeyFile = getenv_trimmed sys EnvTLSKeyFile,
                cf_DevAllowHTTP = dev, cf_StateKeys = keys, cf_StateTTL = ttl, cf_Clients = clients\<rparr>
       in andThen (validate c) (\<lambda>_. Ok c)))))))))"

section \<open>The holder\<close>

record Holder = h_p :: Config

definition NewHolder :: "Config \<Rightarrow> Holder" where "NewHolder c = \<lparr>h_p = c\<rparr>"
definition holder_Get :: "Holder \<Rightarrow> Config" where "holder_Get h = h_p h"

definition holder_Reload :: "System \<Rightarrow> Holder \<Rightarrow> config_error option \<times> Holder" where
  "holder_Reload sys h =
     (case Load sys of Err e \<Rightarrow> (Some e, h) | Ok c \<Rightarrow> (None, h\<lparr>h_p := c\<rparr>))"

end
