(* ===== verification/ConfigLaws.thy ===== *)
theory ConfigLaws imports
  Config
  SealLaws
begin

text \<open>
  Laws of the configuration: the abstract statement \<open>config_ok\<close> of what a usable configuration is,
  which \<open>validate\<close> decides; the key ring of a usable configuration can always sign; the interface
  \<open>reloadable\<close> of a configuration that is swapped only when it loads.
\<close>

section \<open>Trimming graphic strings\<close>

definition graphic :: "char \<Rightarrow> bool" where
  "graphic c \<longleftrightarrow> 33 \<le> byte c \<and> byte c < 127"

lemma strip_graphic:
  assumes "list_all graphic s" "\<And>p. p \<in> set ps \<Longrightarrow> p \<noteq> [] \<Longrightarrow> \<not> graphic (hd p)"
  shows "strip_front ps s = s"
proof -
  have "\<not> prefix p s" if "p \<in> set ps" "p \<noteq> []" for p
    using assms that by (cases p; cases s) fastforce+
  then have "find (\<lambda>p. p \<noteq> [] \<and> prefix p s) ps = None"
    by (auto simp: find_None_iff)
  then show ?thesis by (simp add: strip_front_none strip_one_def)
qed

lemma space_runes_not_graphic:
  "p \<in> set space_runes \<Longrightarrow> p \<noteq> [] \<and> \<not> graphic (hd p) \<and> \<not> graphic (hd (rev p))"
  by (auto simp: space_runes_def graphic_def)

lemma trim_graphic: "list_all graphic s \<Longrightarrow> trim_space s = s"
proof -
  assume s: "list_all graphic s"
  have "strip_front space_runes s = s"
    using space_runes_not_graphic by (intro strip_graphic s) blast
  moreover have "strip_front (map rev space_runes) (rev s) = rev s"
    using space_runes_not_graphic s by (intro strip_graphic) (auto simp: list_all_iff)
  ultimately show ?thesis by (simp add: trim_space_def)
qed

lemma graphic_alnum: "is_alnum c \<Longrightarrow> graphic c"
  by (auto simp: graphic_def byte_class)

lemma graphic_kid: "kid_byte c \<Longrightarrow> graphic c"
  by (auto simp: kid_byte_def graphic_alnum) (auto simp: graphic_def)

lemma graphic_hex: "list_all graphic (hex_encode s)"
  using hex.enc_alphabet [of s]
  by (auto simp: list_all_iff hex_alphabet_def graphic_def byte_class)

section \<open>URLs without a fragment\<close>

lemma setPath_fields:
  "setPath p u = Some v \<Longrightarrow> u_Fragment v = u_Fragment u \<and> u_Scheme v = u_Scheme u \<and> u_Host v = u_Host u \<and>
     u_Opaque v = u_Opaque u \<and> u_RawQuery v = u_RawQuery u \<and> u_ForceQuery v = u_ForceQuery u"
  by (auto simp: setPath_def split: option.splits)

lemma parse_rest_fields:
  "parse_rest rest u = Some v \<Longrightarrow> u_Fragment v = u_Fragment u \<and> u_Scheme v = u_Scheme u \<and>
     u_RawQuery v = u_RawQuery u \<and> u_ForceQuery v = u_ForceQuery u"
  by (auto simp: parse_rest_def Let_def dest!: setPath_fields split: if_splits option.splits prod.splits)

lemma parse_no_fragment_fragment: "parse_no_fragment s = Some u \<Longrightarrow> u_Fragment u = []"
  by (auto simp: parse_no_fragment_def Let_def empty_url_def dest!: parse_rest_fields
      split: if_splits option.splits prod.splits)

lemma url_Parse_no_hash: "url_Parse raw = Some u \<Longrightarrow> CHR ''#'' \<notin> set raw \<Longrightarrow> u_Fragment u = []"
  by (auto simp: url_Parse_def cut_absent dest: parse_no_fragment_fragment split: option.splits)

section \<open>What a usable configuration is\<close>

definition redirect_ok :: "string \<Rightarrow> bool" where
  "redirect_ok raw \<longleftrightarrow> trim_space raw \<noteq> [] \<and> CHR ''#'' \<notin> set raw \<and>
     (case url_Parse raw of None \<Rightarrow> False
      | Some u \<Rightarrow> u_Host u \<noteq> [] \<and>
          (u_Scheme u = ''https'' \<or> u_Scheme u = ''http'' \<and> Hostname u \<in> {''localhost'', ''127.0.0.1'', ''::1''}))"

definition base_url_ok :: "string \<Rightarrow> bool" where
  "base_url_ok raw \<longleftrightarrow> raw \<noteq> [] \<and>
     (case url_Parse raw of None \<Rightarrow> False
      | Some u \<Rightarrow> u_Host u \<noteq> [] \<and> u_Scheme u \<in> {''http'', ''https''} \<and> u_RawQuery u = [] \<and> u_Fragment u = [])"

definition key_ok :: "StateKey \<Rightarrow> bool" where
  "key_ok k \<longleftrightarrow> validKID (sk_KID k) \<and> 32 \<le> length (sk_Key k)"

definition keys_ok :: "StateKey list \<Rightarrow> bool" where
  "keys_ok ks \<longleftrightarrow> list_all key_ok ks \<and> distinct (map sk_KID ks)"

definition client_ok :: "string \<times> Client \<Rightarrow> bool" where
  "client_ok e \<longleftrightarrow> isAllDigits (fst e) \<and> cl_ID (snd e) = fst e \<and> cl_RedirectURIs (snd e) \<noteq> [] \<and>
     list_all redirect_ok (cl_RedirectURIs (snd e))"

definition config_ok :: "Config \<Rightarrow> bool" where
  "config_ok c \<longleftrightarrow>
     cf_StravaClientID c \<noteq> [] \<and> Reveal (cf_StravaClientSecret c) \<noteq> [] \<and>
     base_url_ok (cf_PublicURL c) \<and> base_url_ok (cf_UpstreamBaseURL c) \<and> 0 < cf_StateTTL c \<and>
     cf_StateKeys c \<noteq> [] \<and> keys_ok (cf_StateKeys c) \<and>
     cf_Clients c \<noteq> [] \<and> list_all client_ok (cf_Clients c) \<and>
     (cf_DevAllowHTTP c \<or> cf_TLSCertFile c \<noteq> [] \<and> cf_TLSKeyFile c \<noteq> [])"

lemma unit_Ok: "(\<exists>x. r = Inr x) \<longleftrightarrow> r = Inr ()"
  by auto

lemma validateRedirectURI_Ok: "validateRedirectURI raw = Ok () \<longleftrightarrow> redirect_ok raw"
proof (cases "url_Parse raw")
  case (Some u)
  have h: "u_Fragment u = []" if "CHR ''#'' \<notin> set raw"
    using url_Parse_no_hash [OF Some that] .
  show ?thesis
    by (cases "trim_space raw = []"; cases "CHR ''#'' \<in> set raw"; cases "u_Host u = []";
        cases "u_Scheme u = ''https''"; cases "u_Scheme u = ''http''")
      (simp_all add: validateRedirectURI_def redirect_ok_def loopbackHosts_def Some h)
qed (simp add: validateRedirectURI_def redirect_ok_def)

lemma validate_uris_Ok: "validate_uris us = Ok () \<longleftrightarrow> list_all redirect_ok us"
  by (induction us) (auto simp: validateRedirectURI_Ok unit_Ok)

lemma validateAbsURL_Ok: "validateAbsURL raw e = Ok () \<longleftrightarrow> base_url_ok raw"
  by (auto simp: validateAbsURL_def base_url_ok_def split: option.splits)

lemma validate_keys_Ok:
  "validate_keys ks seen = Ok () \<longleftrightarrow>
   list_all key_ok ks \<and> distinct (map sk_KID ks) \<and> sk_KID ` set ks \<inter> set seen = {}"
  by (induction ks seen rule: validate_keys.induct) (auto simp: key_ok_def MinStateKeyLen_def)

lemma validate_clients_Ok: "validate_clients cs = Ok () \<longleftrightarrow> list_all client_ok cs"
  by (induction cs rule: validate_clients.induct) (auto simp: client_ok_def validate_uris_Ok unit_Ok)

lemma validate_Ok: "validate c = Ok () \<longleftrightarrow> config_ok c"
  by (auto simp: validate_def config_ok_def secret_IsZero_def unit_Ok validateAbsURL_Ok validate_keys_Ok
      validate_clients_Ok keys_ok_def)

section \<open>Registries\<close>

text \<open>A parsed registry keeps one entry per id, with a 32-byte digest.\<close>

definition registry_ok :: "(string \<times> Client) list \<Rightarrow> bool" where
  "registry_ok cs \<longleftrightarrow> distinct (map fst cs) \<and> list_all client_ok cs \<and>
     list_all (\<lambda>e. length (cl_SecretSHA256 (snd e)) = 32) cs"

lemma clientDigest_length: "clientDigest e = Ok d \<Longrightarrow> length d = 32"
  by (auto simp: clientDigest_def Let_def length_sha256 split: if_splits option.splits)

lemma parse_client_Ok:
  "parse_client e cs = Ok c \<Longrightarrow>
   client_ok (cl_ID c, c) \<and> length (cl_SecretSHA256 c) = 32 \<and> map_of cs (cl_ID c) = None"
  by (auto simp: parse_client_def Let_def client_ok_def validate_uris_Ok unit_Ok clientDigest_length
      split: if_splits)

lemma registry_ok_put [wf_keep]:
  "registry_ok cs \<Longrightarrow> client_ok (k, c) \<Longrightarrow> length (cl_SecretSHA256 c) = 32 \<Longrightarrow> registry_ok (map_put k c cs)"
  using set_map_put_subset [of k c cs] by (auto simp: registry_ok_def list_all_iff)

lemma parse_entries_ok [wf_keep]: "parse_entries es cs = Ok cs' \<Longrightarrow> registry_ok cs \<Longrightarrow> registry_ok cs'"
  by (induction es cs rule: parse_entries.induct) (auto dest!: parse_client_Ok intro: registry_ok_put)

lemma parseClients_Ok: "parseClients raw = Ok cs \<Longrightarrow> registry_ok cs \<and> cs \<noteq> []"
  by (auto simp: parseClients_def registry_ok_def dest!: parse_entries_ok split: option.splits if_splits)

lemma registry_lookup: "list_all client_ok cs \<Longrightarrow> map_of cs cid = Some c \<Longrightarrow> client_ok (cid, c)"
  by (auto simp: list_all_iff dest: map_of_SomeD)

section \<open>Load\<close>

lemma Load_Ok:
  "Load sys = Ok c \<Longrightarrow> config_ok c \<and> registry_ok (cf_Clients c) \<and> int64_ok (cf_StateTTL c)"
proof -
  assume l: "Load sys = Ok c"
  then have "config_ok c" "registry_ok (cf_Clients c)"
    by (auto simp: Load_def Let_def validate_Ok unit_Ok dest: parseClients_Ok)
  moreover have "int64_ok (cf_StateTTL c)"
    using l by (auto simp: Load_def Let_def load_ttl_def DefaultStateTTL_def
        dest: parse_duration_int64 split: if_splits option.splits)
  ultimately show ?thesis by blast
qed

section \<open>The key ring\<close>

definition ring_of :: "Config \<Rightarrow> Ring" where
  "ring_of c = map (\<lambda>k. \<lparr>KID = sk_KID k, KeyBytes = sk_Key k\<rparr>) (cf_StateKeys c)"

lemma validKID_no_dot: "validKID kid \<Longrightarrow> CHR ''.'' \<notin> set kid"
  by (auto simp: validKID_def list_all_iff kid_byte_def byte_class)

lemma ring_of_signable: "config_ok c \<Longrightarrow> signable (ring_of c)"
  by (cases "cf_StateKeys c")
    (auto simp: config_ok_def keys_ok_def key_ok_def ring_of_def signable_def validKID_no_dot validKID_def)

lemma ring_of_key: "keys_ok (cf_StateKeys c) \<Longrightarrow> k \<in> set (cf_StateKeys c) \<Longrightarrow> ring_key (ring_of c) (sk_KID k) = Some (sk_Key k)"
proof -
  assume ok: "keys_ok (cf_StateKeys c)" and k: "k \<in> set (cf_StateKeys c)"
  have "find (\<lambda>e. KID e = sk_KID k \<and> KeyBytes e \<noteq> []) (map (\<lambda>k. \<lparr>KID = sk_KID k, KeyBytes = sk_Key k\<rparr>) ks) =
      Some \<lparr>KID = sk_KID k, KeyBytes = sk_Key k\<rparr>"
    if "list_all key_ok ks" "distinct (map sk_KID ks)" "k \<in> set ks" for ks
    using that by (induction ks) (auto simp: key_ok_def)
  with ok k show ?thesis by (auto simp: ring_key_def ring_of_def keys_ok_def)
qed

section \<open>Reloading\<close>

text \<open>
  The interface of a source of configurations: everything it loads is valid. A client that swaps
  the published value only on success then always publishes a valid one, whatever the sequence of
  reloads, and it is the last one that loaded.
\<close>

locale reloadable =
  fixes load :: "'s \<Rightarrow> ('e, 'c) result"
    and valid :: "'c \<Rightarrow> bool"
  assumes load_valid: "load s = Ok c \<Longrightarrow> valid c"
begin

definition swap :: "'c \<Rightarrow> 's \<Rightarrow> 'c" where
  "swap c s = (case load s of Inl e \<Rightarrow> c | Inr c' \<Rightarrow> c')"

lemma swap_valid: "valid c \<Longrightarrow> valid (swap c s)"
  by (auto simp: swap_def load_valid split: sum.splits)

lemma swaps_valid: "valid c \<Longrightarrow> valid (foldl swap c ss)"
  by (induction ss arbitrary: c) (auto simp: swap_valid)

lemma swaps_last:
  "foldl swap c (ss @ s # ts) = c' \<Longrightarrow> load s = Ok d \<Longrightarrow> (\<And>t. t \<in> set ts \<Longrightarrow> \<not> is_ok (load t)) \<Longrightarrow> c' = d"
proof (induction ts arbitrary: c' rule: rev_induct)
  case (snoc t ts)
  from snoc.prems(3) [of t] obtain e where "load t = Inl e" by (cases "load t") auto
  with snoc show ?case by (auto simp: swap_def)
qed (auto simp: swap_def)

lemma swaps_none: "(\<And>t. t \<in> set ts \<Longrightarrow> \<not> is_ok (load t)) \<Longrightarrow> foldl swap c ts = c"
proof (induction ts)
  case (Cons t ts)
  from Cons.prems [of t] obtain e where "load t = Inl e" by (cases "load t") auto
  with Cons show ?case by (auto simp: swap_def)
qed simp

end

interpretation cfg: reloadable Load "\<lambda>c. config_ok c \<and> registry_ok (cf_Clients c) \<and> int64_ok (cf_StateTTL c)"
  by unfold_locales (rule Load_Ok)

lemma holder_Reload_swap: "holder_Get (snd (holder_Reload sys h)) = cfg.swap (holder_Get h) sys"
  by (auto simp: holder_Reload_def holder_Get_def cfg.swap_def split: sum.splits)

lemma holder_Reloads_swap:
  "holder_Get (foldl (\<lambda>h s. snd (holder_Reload s h)) h ss) = foldl cfg.swap (holder_Get h) ss"
  by (induction ss arbitrary: h) (auto simp: holder_Reload_swap)

section \<open>Printing the key ring\<close>

lemmas env_name_defs = EnvStravaClientID_def EnvStravaClientSecret_def EnvPublicURL_def EnvUpstreamBaseURL_def
  EnvListenAddr_def EnvAdminAddr_def EnvTLSCertFile_def EnvTLSKeyFile_def EnvDevAllowHTTP_def EnvStateKeys_def
  EnvStateTTL_def EnvClients_def EnvClientsFile_def

definition print_key :: "StateKey \<Rightarrow> string" where
  "print_key k = sk_KID k @ CHR ''='' # hex_encode (sk_Key k)"

lemma kid_bytes: "validKID kid \<Longrightarrow> list_all graphic kid \<and> CHR ''='' \<notin> set kid \<and> CHR '','' \<notin> set kid \<and> kid \<noteq> []"
  by (auto simp: validKID_def list_all_iff graphic_kid) (auto simp: kid_byte_def byte_class)

lemma print_key_graphic:
  assumes "key_ok k"
  shows "trim_space (print_key k) = print_key k" "CHR '','' \<notin> set (print_key k)" "print_key k \<noteq> []"
proof -
  from assms have k: "validKID (sk_KID k)" by (simp add: key_ok_def)
  show "trim_space (print_key k) = print_key k"
    using kid_bytes [OF k] graphic_hex [of "sk_Key k"]
    by (intro trim_graphic) (simp add: print_key_def graphic_def)
  show "CHR '','' \<notin> set (print_key k)" "print_key k \<noteq> []"
    using kid_bytes [OF k] hex.enc_avoids [of "CHR '',''"]
    by (auto simp: print_key_def hex_alphabet_def byte_class)
qed

lemma parse_print_key:
  assumes "key_ok k" "sk_KID k \<notin> set seen"
  shows "parse_key_entry (print_key k) seen = Ok k"
proof -
  from assms have k: "validKID (sk_KID k)" "32 \<le> length (sk_Key k)" by (simp_all add: key_ok_def)
  then have "cut CHR ''='' (print_key k) = (sk_KID k, hex_encode (sk_Key k), True)"
    using kid_bytes [OF k(1)] by (simp add: print_key_def cut_append)
  moreover have "hex_encode (sk_Key k) \<noteq> []"
    using k(2) by (cases "sk_Key k") auto
  ultimately show ?thesis
    using assms k kid_bytes [OF k(1)] graphic_hex [of "sk_Key k"]
    by (simp add: parse_key_entry_def trim_graphic decodeKey_def hex.dec_enc MinStateKeyLen_def)
qed

lemma parse_print_keys:
  "list_all key_ok ks \<Longrightarrow> distinct (map sk_KID (acc @ ks)) \<Longrightarrow>
   parse_key_entries (map print_key ks) acc = Ok (acc @ ks)"
proof (induction ks arbitrary: acc)
  case (Cons k ks)
  then have "parse_key_entry (print_key k) (map sk_KID acc) = Ok k"
    by (intro parse_print_key) auto
  then show ?case
    using Cons by (simp add: print_key_graphic)
qed simp

lemma parse_one_key: "key_ok k \<Longrightarrow> parseStateKeys (print_key k) = Ok [k]"
  using parse_print_keys [of "[k]" "[]"] split_join [of "[print_key k]" "CHR '',''"]
  by (simp add: parseStateKeys_def print_key_graphic)

end
