(* ===== verification/ConfigProps.thy ===== *)
theory ConfigProps imports
  ConfigLaws
begin

text \<open>The properties of loading, validating and reloading the configuration.\<close>

section \<open>A concrete system\<close>

definition demo_tokens :: "jtok list" where
  "demo_tokens =
     [LBrack, LBrace, TStr ''client_id'', Colon, TStr ''1001'', Comma, TStr ''client_secret'', Colon, TStr ''pw'', Comma,
      TStr ''redirect_uris'', Colon, LBrack, TStr ''https://app.example/cb'', Comma, TStr ''http://localhost/cb'',
      RBrack, RBrace, RBrack]"

definition demo_registry :: string where
  "demo_registry = json_print demo_tokens"

definition demo_state_key :: StateKey where
  "demo_state_key = \<lparr>sk_KID = ''k1'', sk_Key = replicate 32 (CHR 0x5C)\<rparr>"

definition demo_env :: "string \<Rightarrow> string" where
  "demo_env name =
     (if name = EnvStravaClientID then ''42''
      else if name = EnvStravaClientSecret then ''real''
      else if name = EnvPublicURL then ''https://proxy.example/''
      else if name = EnvTLSCertFile then ''/tls/c'' else if name = EnvTLSKeyFile then ''/tls/k''
      else if name = EnvStateKeys then print_key demo_state_key
      else if name = EnvClients then demo_registry
      else [])"

definition demo_sys :: System where
  "demo_sys = \<lparr>sys_Getenv = demo_env, sys_ReadFile = (\<lambda>path. None)\<rparr>"

definition demo_client :: Client where
  "demo_client = \<lparr>cl_ID = ''1001'', cl_SecretSHA256 = sha256 ''pw'',
     cl_RedirectURIs = [''https://app.example/cb'', ''http://localhost/cb''], cl_RequireNonceCookie = False\<rparr>"

definition demo_config :: Config where
  "demo_config = \<lparr>cf_StravaClientID = ''42'', cf_StravaClientSecret = NewSecret ''real'',
     cf_PublicURL = ''https://proxy.example'', cf_UpstreamBaseURL = ''https://www.strava.com'',
     cf_ListenAddr = '':8443'', cf_AdminAddr = ''127.0.0.1:9090'', cf_TLSCertFile = ''/tls/c'',
     cf_TLSKeyFile = ''/tls/k'', cf_DevAllowHTTP = False,
     cf_StateKeys = [demo_state_key], cf_StateTTL = 900000000000,
     cf_Clients = [(''1001'', demo_client)]\<rparr>"

text \<open>The steps of the load, each evaluated alone.\<close>

lemma demo_steps:
  "envOrFile demo_sys EnvStravaClientSecret = Ok ''real''"
  "envOrFile demo_sys EnvPublicURL = Ok ''https://proxy.example/''"
  "load_bool demo_sys = Ok False"
  "load_ttl demo_sys = Ok 900000000000"
  "getenv_trimmed demo_sys (EnvStateKeys @ ''_FILE'') = []" "getenv_trimmed demo_sys EnvClientsFile = []"
  by code_simp+

text \<open>The key ring and the registry are read back from what was printed.\<close>

lemma demo_state_key_ok: "key_ok demo_state_key"
  by (simp add: demo_state_key_def key_ok_def validKID_def kid_byte_def byte_class)

lemma demo_key_spec:
  "envOrFile demo_sys EnvStateKeys = Ok (print_key demo_state_key)"
  "parseStateKeys (print_key demo_state_key) = Ok (cf_StateKeys demo_config)"
proof -
  have "sys_Getenv demo_sys EnvStateKeys = print_key demo_state_key" by (simp add: demo_sys_def demo_env_def env_name_defs)
  then show "envOrFile demo_sys EnvStateKeys = Ok (print_key demo_state_key)"
    using print_key_graphic(1) [OF demo_state_key_ok] by (simp only: envOrFile_def demo_steps Let_def) (simp add: getenv_trimmed_def)
  show "parseStateKeys (print_key demo_state_key) = Ok (cf_StateKeys demo_config)"
    using parse_one_key [OF demo_state_key_ok] by (simp add: demo_config_def)
qed

lemma demo_trim: "trim_space demo_registry = demo_registry"
  by code_simp

lemma demo_registry_read: "loadClientRegistry demo_sys = Ok demo_registry"
proof -
  have "sys_Getenv demo_sys EnvClients = demo_registry" by (simp add: demo_sys_def demo_env_def env_name_defs)
  moreover have "demo_registry \<noteq> []" by (simp add: demo_registry_def demo_tokens_def)
  ultimately show ?thesis
    by (simp only: loadClientRegistry_def demo_steps Let_def) (simp add: getenv_trimmed_def demo_trim)
qed

text \<open>The registry: the JSON printed parses to the value it denotes, one entry is read from it, and the
  entry passes the checks.\<close>

definition demo_json :: json where
  "demo_json = JObj [(''client_id'', JStr ''1001''), (''client_secret'', JStr ''pw''),
     (''redirect_uris'', JArr [JStr ''https://app.example/cb'', JStr ''http://localhost/cb''])]"

lemma demo_parse: "json_parse demo_registry = Some (JArr [demo_json])"
proof -
  have "well_spaced demo_tokens" by (simp add: demo_tokens_def)
  then show ?thesis
    by (simp only: json_parse_def json_lex_print demo_registry_def)
      (simp add: demo_tokens_def demo_json_def max_nesting_def to_valid_id valid_utf8_ascii)
qed

definition demo_entry :: clientJSON where
  "demo_entry = \<lparr>cj_ClientID = ''1001'', cj_ClientSecretSHA256 = [], cj_ClientSecret = NewSecret ''pw'',
     cj_RedirectURIs = [''https://app.example/cb'', ''http://localhost/cb''], cj_RequireNonceCookie = False\<rparr>"

lemma demo_fields:
  "field_is ''client_id'' ''client_id''" "\<not> field_is ''client_id'' ''client_secret''"
  "\<not> field_is ''client_id'' ''redirect_uris''" "\<not> field_is ''client_secret_sha256'' ''client_secret''"
  "\<not> field_is ''client_secret_sha256'' ''redirect_uris''" "field_is ''client_secret'' ''client_secret''"
  "\<not> field_is ''client_secret'' ''redirect_uris''" "field_is ''redirect_uris'' ''redirect_uris''"
  by (simp_all add: field_is_def fold_name_ascii is_lower_byte chr_eq_iff)

lemma demo_read: "read_entries [demo_json] = Some [demo_entry]"
  by (simp add: demo_json_def demo_entry_def client_member_def demo_fields zero_clientJSON_def)

lemma demo_uris: "validate_uris (cj_RedirectURIs demo_entry) = Ok ()"
  by code_simp

lemma demo_id: "trim_space ''1001'' = ''1001''" "isAllDigits ''1001''"
  by code_simp+

lemma demo_clients: "parseClients demo_registry = Ok (cf_Clients demo_config)"
proof -
  have "parse_client demo_entry [] = Ok demo_client"
    using demo_uris by (simp add: parse_client_def clientDigest_def demo_id demo_entry_def demo_client_def Let_def)
  then have "parse_entries [demo_entry] [] = Ok [(''1001'', demo_client)]"
    by (simp add: demo_client_def)
  then show ?thesis
    by (simp only: parseClients_def unmarshal_clients_def demo_parse demo_read option.case json.case andThen.simps)
      (simp add: demo_config_def)
qed

lemma demo_scalars:
  "getenv_trimmed demo_sys EnvStravaClientID = ''42''"
  "trim_right CHR ''/'' ''https://proxy.example/'' = ''https://proxy.example''"
  "load_upstream demo_sys = ''https://www.strava.com''"
  "or_default (getenv_trimmed demo_sys EnvListenAddr) DefaultListenAddr = '':8443''"
  "or_default (getenv_trimmed demo_sys EnvAdminAddr) DefaultAdminAddr = ''127.0.0.1:9090''"
  "getenv_trimmed demo_sys EnvTLSCertFile = ''/tls/c''"
  "getenv_trimmed demo_sys EnvTLSKeyFile = ''/tls/k''"
  by code_simp+

lemma demo_bases: "base_url_ok ''https://proxy.example''" "base_url_ok ''https://www.strava.com''"
  by code_simp+

lemma demo_client_ok: "client_ok (''1001'', demo_client)"
  using demo_uris demo_id(2) by (simp only: validate_uris_Ok) (simp add: client_ok_def demo_client_def demo_entry_def)

lemma demo_validate: "validate demo_config = Ok ()"
proof -
  have "keys_ok [demo_state_key]" using demo_state_key_ok by (simp add: keys_ok_def)
  then show ?thesis
    using demo_client_ok by (simp add: validate_Ok config_ok_def demo_config_def demo_bases)
qed

lemma demo_load: "Load demo_sys = Ok demo_config"
proof -
  have "\<lparr>cf_StravaClientID = ''42'', cf_StravaClientSecret = NewSecret ''real'',
      cf_PublicURL = ''https://proxy.example'', cf_UpstreamBaseURL = ''https://www.strava.com'',
      cf_ListenAddr = '':8443'', cf_AdminAddr = ''127.0.0.1:9090'',
      cf_TLSCertFile = ''/tls/c'', cf_TLSKeyFile = ''/tls/k'',
      cf_DevAllowHTTP = False, cf_StateKeys = cf_StateKeys demo_config, cf_StateTTL = 900000000000,
      cf_Clients = cf_Clients demo_config\<rparr> = demo_config"
    by (simp add: demo_config_def)
  then show ?thesis
    by (simp only: Load_def demo_steps demo_key_spec demo_registry_read demo_clients demo_scalars andThen.simps Let_def demo_validate)
qed

section \<open>Properties\<close>

text \<open>
  C12. \<open>Load\<close> never returns a configuration that breaks a rule: what it returns satisfies the
  abstract statement of a usable configuration, its registry has one entry per client id with a
  32-byte digest, every URI any client may redirect to is https or loopback http without a
  fragment, and its key ring can sign and finds each of its keys.
\<close>

theorem loaded_config_is_valid:
  assumes "Load sys = Ok c"
  shows "config_ok c \<and> registry_ok (cf_Clients c) \<and> int64_ok (cf_StateTTL c) \<and> signable (ring_of c) \<and>
    (\<forall>k. k \<in> set (cf_StateKeys c) \<longrightarrow> ring_key (ring_of c) (sk_KID k) = Some (sk_Key k)) \<and>
    (\<forall>cid cl uri. config_Client c cid = Some cl \<and> AllowsRedirectURI cl uri \<longrightarrow> cl_ID cl = cid \<and> redirect_ok uri)"
proof -
  note ok = Load_Ok [OF assms]
  moreover have "cl_ID cl = cid \<and> redirect_ok uri"
    if "config_Client c cid = Some cl" "AllowsRedirectURI cl uri" for cid cl uri
    using ok that registry_lookup [of "cf_Clients c" cid cl]
    by (auto simp: config_ok_def config_Client_def AllowsRedirectURI_def client_ok_def list_all_iff list_ex_iff)
  ultimately show ?thesis
    using ring_of_signable ring_of_key by (auto simp: config_ok_def)
qed

theorem loaded_config_is_valid_witness: "config_ok demo_config \<and> signable (ring_of demo_config)"
  using loaded_config_is_valid [OF demo_load] by blast

text \<open>
  C13. \<open>validate\<close> decides the abstract statement: it accepts a configuration exactly when every
  rule holds.
\<close>

theorem validate_decides: "validate c = Ok () \<longleftrightarrow> config_ok c"
  by (rule validate_Ok)

text \<open>
  C14. Hot reload: from a loaded configuration, whatever the sequence of reloads and whatever the
  environment and files are at each, the published snapshot is valid, and it is the one of the last
  reload that loaded: reloads that fail leave it alone.
\<close>

theorem reload_publishes_last_good:
  assumes "Load sys0 = Ok c0"
    and "\<And>t. t \<in> set ts \<Longrightarrow> \<not> is_ok (Load t)"
  defines "run \<equiv> foldl (\<lambda>h s. snd (holder_Reload s h))"
  shows "config_ok (holder_Get (run (NewHolder c0) ss)) \<and>
    holder_Get (run (NewHolder c0) ts) = c0 \<and>
    (\<forall>s c. Load s = Ok c \<longrightarrow> holder_Get (run (NewHolder c0) (ss @ s # ts)) = c)"
proof -
  have h: "holder_Get (run (NewHolder c0) xs) = foldl cfg.swap c0 xs" for xs
    using holder_Reloads_swap [of "NewHolder c0"] by (simp add: run_def NewHolder_def holder_Get_def)
  have v: "config_ok (foldl cfg.swap c0 ss)"
    using cfg.swaps_valid [OF Load_Ok [OF assms(1)]] by blast
  have n: "foldl cfg.swap c0 ts = c0"
    by (rule cfg.swaps_none) (rule assms(2))
  have l: "foldl cfg.swap c0 (ss @ s # ts) = c" if "Load s = Ok c" for s c
    using cfg.swaps_last [OF refl that] assms(2) by blast
  from v n l show ?thesis unfolding h by blast
qed

definition bad_sys :: System where
  "bad_sys = \<lparr>sys_Getenv = (\<lambda>name. if name = ''STRAVA_CLIENT_SECRET_FILE'' then ''/gone'' else []),
     sys_ReadFile = (\<lambda>path. None)\<rparr>"

lemma bad_path: "getenv_trimmed bad_sys (EnvStravaClientSecret @ ''_FILE'') = ''/gone''"
  by code_simp

lemma bad_load: "Load bad_sys = Err (ReadFailed EnvStravaClientSecret)"
proof -
  have "sys_ReadFile bad_sys x = None" for x by (simp add: bad_sys_def)
  with bad_path have "envOrFile bad_sys EnvStravaClientSecret = Err (ReadFailed EnvStravaClientSecret)"
    by (simp add: envOrFile_def Let_def)
  then show ?thesis by (simp add: Load_def)
qed

theorem reload_publishes_last_good_witness:
  "holder_Get (foldl (\<lambda>h s. snd (holder_Reload s h)) (NewHolder demo_config) [bad_sys, demo_sys, bad_sys]) = demo_config \<and>
   config_ok demo_config"
  using reload_publishes_last_good [OF demo_load, of "[bad_sys]" "[bad_sys]"] demo_load bad_load
    reload_publishes_last_good [OF demo_load, of "[bad_sys]" "[]"]
  by (auto simp: NewHolder_def holder_Get_def)

text \<open>
  C15. The key ring syntax is lossless for hex: printing a ring of valid key ids and long enough keys
  as \<open>kid=hexkey\<close> pairs and parsing it gives the same ring, in the same order.
\<close>

theorem state_keys_round_trip:
  assumes "keys_ok ks" "ks \<noteq> []"
  shows "parseStateKeys (join_with CHR '','' (map print_key ks)) = Ok ks"
proof -
  have "split_on CHR '','' (join_with CHR '','' (map print_key ks)) = map print_key ks"
    using assms by (intro split_join) (auto simp: keys_ok_def list_all_iff print_key_graphic)
  then show ?thesis
    using assms parse_print_keys [of ks "[]"] by (simp add: parseStateKeys_def keys_ok_def)
qed

theorem state_keys_round_trip_witness:
  "parseStateKeys (join_with CHR '','' (map print_key
     [\<lparr>sk_KID = ''k2'', sk_Key = replicate 32 (CHR 0x01)\<rparr>, \<lparr>sk_KID = ''k1'', sk_Key = replicate 40 (CHR 0x02)\<rparr>])) =
   Ok [\<lparr>sk_KID = ''k2'', sk_Key = replicate 32 (CHR 0x01)\<rparr>, \<lparr>sk_KID = ''k1'', sk_Key = replicate 40 (CHR 0x02)\<rparr>]"
  by (rule state_keys_round_trip) (simp_all add: keys_ok_def key_ok_def validKID_def kid_byte_def byte_class)

text \<open>
  A pre-hashed registration is the registration of the plaintext: an entry with the hex digest
  of a non-empty secret and the entry with the secret itself give the same client, which accepts
  that secret; setting both is refused.
\<close>

theorem prehashed_is_plaintext:
  assumes "s \<noteq> []"
  shows "parse_client (e\<lparr>cj_ClientSecretSHA256 := hex_encode (sha256 s), cj_ClientSecret := NewSecret []\<rparr>) cs =
      parse_client (e\<lparr>cj_ClientSecretSHA256 := [], cj_ClientSecret := NewSecret s\<rparr>) cs \<and>
    (\<forall>c. parse_client (e\<lparr>cj_ClientSecretSHA256 := [], cj_ClientSecret := NewSecret s\<rparr>) cs = Ok c \<longrightarrow> VerifySecret c s) \<and>
    clientDigest (e\<lparr>cj_ClientSecretSHA256 := hex_encode (sha256 s), cj_ClientSecret := NewSecret s\<rparr>) = Err ErrClientSecret"
proof -
  have n: "hex_encode (sha256 s) \<noteq> []"
    using length_sha256 [of s] by (cases "sha256 s") auto
  have t: "trim_space (hex_encode (sha256 s)) = hex_encode (sha256 s)"
    by (rule trim_graphic [OF graphic_hex])
  show ?thesis
    using assms n t by (auto simp: parse_client_def clientDigest_def Let_def hex.dec_enc length_sha256 VerifySecret_def)
qed

theorem prehashed_is_plaintext_witness:
  "clientDigest (zero_clientJSON\<lparr>cj_ClientSecretSHA256 := hex_encode (sha256 ''pw''), cj_ClientSecret := NewSecret ''pw''\<rparr>) =
     Err ErrClientSecret"
  using prehashed_is_plaintext [of "''pw''" zero_clientJSON "[]"] by simp

text \<open>The variables that are read.\<close>

definition load_vars :: "string set" where
  "load_vars = {''STRAVA_CLIENT_ID'', ''STRAVA_CLIENT_SECRET'', ''STRAVA_CLIENT_SECRET_FILE'', ''PROXY_PUBLIC_URL'',
     ''PROXY_PUBLIC_URL_FILE'', ''UPSTREAM_BASE_URL'', ''LISTEN_ADDR'', ''ADMIN_ADDR'', ''TLS_CERT_FILE'', ''TLS_KEY_FILE'',
     ''DEV_ALLOW_HTTP'', ''PROXY_STATE_KEYS'', ''PROXY_STATE_KEYS_FILE'', ''PROXY_STATE_TTL'', ''PROXY_CLIENTS'',
     ''PROXY_CLIENTS_FILE''}"

lemma getenv_agree:
  "(\<And>v. v \<in> load_vars \<Longrightarrow> sys_Getenv s v = sys_Getenv t v) \<Longrightarrow> v \<in> load_vars \<Longrightarrow>
   getenv_trimmed s v = getenv_trimmed t v"
  by (simp add: getenv_trimmed_def)

lemmas env_names =
  EnvStravaClientID_def EnvStravaClientSecret_def EnvPublicURL_def EnvUpstreamBaseURL_def EnvListenAddr_def
  EnvAdminAddr_def EnvTLSCertFile_def EnvTLSKeyFile_def EnvDevAllowHTTP_def EnvStateKeys_def EnvStateTTL_def
  EnvClients_def EnvClientsFile_def

lemma load_vars_names [simp]:
  "EnvStravaClientID \<in> load_vars" "EnvStravaClientSecret \<in> load_vars" "EnvPublicURL \<in> load_vars"
  "EnvUpstreamBaseURL \<in> load_vars" "EnvListenAddr \<in> load_vars" "EnvAdminAddr \<in> load_vars"
  "EnvTLSCertFile \<in> load_vars" "EnvTLSKeyFile \<in> load_vars" "EnvDevAllowHTTP \<in> load_vars"
  "EnvStateKeys \<in> load_vars" "EnvStateTTL \<in> load_vars" "EnvClients \<in> load_vars" "EnvClientsFile \<in> load_vars"
  "EnvStravaClientSecret @ ''_FILE'' \<in> load_vars" "EnvPublicURL @ ''_FILE'' \<in> load_vars"
  "EnvStateKeys @ ''_FILE'' \<in> load_vars"
  by (simp_all add: env_names load_vars_def)

text \<open>The files the environment names.\<close>

definition load_files :: "System \<Rightarrow> string set" where
  "load_files s = getenv_trimmed s ` {''STRAVA_CLIENT_SECRET_FILE'', ''PROXY_PUBLIC_URL_FILE'', ''PROXY_STATE_KEYS_FILE'',
     ''PROXY_CLIENTS_FILE''} - {[]}"

lemma load_files_names:
  assumes "n \<in> {EnvStravaClientSecret @ ''_FILE'', EnvPublicURL @ ''_FILE'', EnvStateKeys @ ''_FILE'', EnvClientsFile}"
    and "getenv_trimmed s n \<noteq> []"
  shows "getenv_trimmed s n \<in> load_files s"
  using assms by (auto simp: load_files_def env_names)

text \<open>
  C16. What \<open>Load\<close> reads: the listed variables and, where one of the four file variables is set, the
  file it names; two systems that agree on these load alike, whatever other variables and files they
  have. A file behind a \<open>_FILE\<close> variable is read instead of the variable: when the secret's file cannot
  be read the load fails with an error of its own, whatever the variable holds. The client id has no
  such indirection.
\<close>

theorem load_reads_only:
  assumes "\<And>v. v \<in> load_vars \<Longrightarrow> sys_Getenv s v = sys_Getenv t v"
    and "\<And>f. f \<in> load_files s \<Longrightarrow> sys_ReadFile s f = sys_ReadFile t f"
  shows "Load s = Load t \<and> ''STRAVA_CLIENT_ID_FILE'' \<notin> load_vars \<and>
    (getenv_trimmed s ''STRAVA_CLIENT_SECRET_FILE'' = path \<and> path \<noteq> [] \<and> sys_ReadFile s path = None \<longrightarrow>
       Load s = Err (ReadFailed ''STRAVA_CLIENT_SECRET''))"
proof -
  have g: "getenv_trimmed s v = getenv_trimmed t v" if "v \<in> load_vars" for v
    using getenv_agree assms(1) that by blast
  have e: "envOrFile s n = envOrFile t n" if "n \<in> {EnvStravaClientSecret, EnvPublicURL, EnvStateKeys}" for n
  proof -
    have v: "n \<in> load_vars" "n @ ''_FILE'' \<in> load_vars" using that by auto
    have f: "getenv_trimmed s (n @ ''_FILE'') \<noteq> [] \<Longrightarrow>
        sys_ReadFile s (getenv_trimmed s (n @ ''_FILE'')) = sys_ReadFile t (getenv_trimmed s (n @ ''_FILE''))"
      using that by (intro assms(2) load_files_names) auto
    from f show ?thesis unfolding envOrFile_def Let_def g [OF v(1), symmetric] g [OF v(2), symmetric] by simp
  qed
  have f: "getenv_trimmed s EnvClientsFile \<noteq> [] \<Longrightarrow>
      sys_ReadFile s (getenv_trimmed s EnvClientsFile) = sys_ReadFile t (getenv_trimmed s EnvClientsFile)"
    by (intro assms(2) load_files_names) auto
  have r: "loadClientRegistry s = loadClientRegistry t"
    using f unfolding loadClientRegistry_def Let_def g [OF load_vars_names(12), symmetric]
      g [OF load_vars_names(13), symmetric] by simp
  have "Load s = Load t"
    unfolding Load_def load_bool_def load_ttl_def load_upstream_def r
    by (simp add: Let_def g e)
  moreover have "Load s = Err (ReadFailed ''STRAVA_CLIENT_SECRET'')"
    if "getenv_trimmed s ''STRAVA_CLIENT_SECRET_FILE'' = path" "path \<noteq> []" "sys_ReadFile s path = None"
    using that by (simp add: Load_def envOrFile_def EnvStravaClientSecret_def Let_def)
  ultimately show ?thesis by (auto simp: load_vars_def)
qed

text \<open>The witness: another variable and another file are changed.\<close>

theorem load_reads_only_witness:
  "Load bad_sys = Load (bad_sys\<lparr>sys_Getenv := (sys_Getenv bad_sys)(''HOME'' := ''/root''),
     sys_ReadFile := (sys_ReadFile bad_sys)(''/etc/extra'' \<mapsto> ''x'')\<rparr>) \<and>
   Load bad_sys = Err (ReadFailed ''STRAVA_CLIENT_SECRET'')"
proof -
  let ?t = "bad_sys\<lparr>sys_Getenv := (sys_Getenv bad_sys)(''HOME'' := ''/root''),
     sys_ReadFile := (sys_ReadFile bad_sys)(''/etc/extra'' \<mapsto> ''x'')\<rparr>"
  have a: "sys_Getenv bad_sys v = sys_Getenv ?t v" if "v \<in> load_vars" for v
    using that by (auto simp: load_vars_def)
  have "''/etc/extra'' \<notin> load_files bad_sys" by code_simp
  then have b: "sys_ReadFile bad_sys f = sys_ReadFile ?t f" if "f \<in> load_files bad_sys" for f
    using that by auto
  have "sys_ReadFile bad_sys ''/gone'' = None" by (simp add: bad_sys_def)
  with load_reads_only [of bad_sys ?t "''/gone''", OF a b] bad_path
  show ?thesis by (auto simp add: EnvStravaClientSecret_def simp del: fun_upd_apply)
qed

end
