(* ===== verification/Server.thy ===== *)
theory Server imports
  Fault
  ConfigLaws
begin

text \<open>
  What the handlers of \<open>internal/oauth\<close> act on, and the shared part of that package
  (\<open>handler.go\<close>): the world of one request (response, counters, log, the client id cell of the
  access log, the calls made to Strava), the handler's dependencies, \<open>upstreamURL\<close>, \<open>firstParam\<close>,
  \<open>writeInternal\<close> and \<open>relay\<close>.

  Strava, the clock, the random source and the compressor are fields of \<open>Env\<close>: Strava is a
  function from the request it receives to a reply or a transport error.
\<close>

section \<open>Logging\<close>

datatype Level = Debug | Info | Warn | Error

datatype log_value = LStr string | LInt int | LSealErr seal_error | LStrs "string list"

record LogEvent =
  lg_Level :: Level
  lg_Msg :: string
  lg_Attrs :: "(string \<times> log_value) list"

text \<open>The severities are ordered, as slog's integer levels are.\<close>

fun level_value :: "Level \<Rightarrow> int" where
  "level_value Debug = - 4"
| "level_value Info = 0"
| "level_value Warn = 4"
| "level_value Error = 8"

instantiation Level :: linorder
begin

definition less_eq_Level :: "Level \<Rightarrow> Level \<Rightarrow> bool" where
  "less_eq_Level a b \<longleftrightarrow> level_value a \<le> level_value b"

definition less_Level :: "Level \<Rightarrow> Level \<Rightarrow> bool" where
  "less_Level a b \<longleftrightarrow> level_value a < level_value b"

instance
proof
  fix a b c :: Level
  show "(a < b) = (a \<le> b \<and> \<not> b \<le> a)" by (auto simp: less_eq_Level_def less_Level_def)
  show "a \<le> a" by (simp add: less_eq_Level_def)
  show "a \<le> b \<Longrightarrow> b \<le> c \<Longrightarrow> a \<le> c" by (simp add: less_eq_Level_def)
  show "a \<le> b \<Longrightarrow> b \<le> a \<Longrightarrow> a = b"
    by (cases a; cases b) (auto simp: less_eq_Level_def)
  show "a \<le> b \<or> b \<le> a" by (auto simp: less_eq_Level_def)
qed

end

section \<open>Calls to Strava\<close>

record OutRequest =
  or_Method :: string
  or_URL :: string
  or_Header :: Header
  or_Body :: string
  or_BodyClean :: bool
  or_ContentLength :: int

text \<open>What \<open>errors.Is\<close> and \<open>errors.As\<close> find in the chain of a failed call: a deadline error, a
  cancellation, a \<open>net.Error\<close> with its \<open>Timeout()\<close>, a \<open>*url.Error\<close> with its operation and cause.\<close>

record CallError =
  ce_Deadline :: bool
  ce_Canceled :: bool
  ce_NetTimeout :: "bool option"
  ce_URLError :: "(string \<times> string) option"
  ce_Text :: string

datatype upstream_result =
    Reply (rp_Status: nat) (rp_Header: Header) (rp_Body: string) (rp_CopyError: "string option")
  | NoReply CallError

record Env =
  e_Ring :: Ring
  e_Flate :: flate_codec
  e_Now :: "nat \<Rightarrow> instant"
  e_Rand :: "string option"
  e_Upstream :: "OutRequest \<Rightarrow> upstream_result"

record World =
  w_rw :: ResponseWriter
  w_metrics :: Metrics
  w_log :: "LogEvent list"
  w_client_id :: "string option"
  w_calls :: "OutRequest list"

definition respond :: "(ResponseWriter \<Rightarrow> ResponseWriter) \<Rightarrow> World \<Rightarrow> World" where
  "respond f w = w\<lparr>w_rw := f (w_rw w)\<rparr>"

definition logmsg :: "Level \<Rightarrow> string \<Rightarrow> (string \<times> log_value) list \<Rightarrow> World \<Rightarrow> World" where
  "logmsg l msg attrs w = w\<lparr>w_log := w_log w @ [\<lparr>lg_Level = l, lg_Msg = msg, lg_Attrs = attrs\<rparr>]\<rparr>"

definition inc_callbacks :: "string \<Rightarrow> World \<Rightarrow> World" where
  "inc_callbacks k w = w\<lparr>w_metrics := (w_metrics w)\<lparr>m_OAuthCallbacks := Inc k (m_OAuthCallbacks (w_metrics w))\<rparr>\<rparr>"

definition inc_exchanges :: "string \<Rightarrow> World \<Rightarrow> World" where
  "inc_exchanges k w = w\<lparr>w_metrics := (w_metrics w)\<lparr>m_TokenExchanges := Inc k (m_TokenExchanges (w_metrics w))\<rparr>\<rparr>"

definition inc_upstream :: "string \<Rightarrow> World \<Rightarrow> World" where
  "inc_upstream k w = w\<lparr>w_metrics := (w_metrics w)\<lparr>m_UpstreamErrors := Inc k (m_UpstreamErrors (w_metrics w))\<rparr>\<rparr>"

text \<open>\<open>httpmid.SetClientID\<close>: no effect on an empty id, nor when no access log installed its cell.\<close>

definition SetClientID :: "string \<Rightarrow> World \<Rightarrow> World" where
  "SetClientID cid w = (if cid = [] \<or> w_client_id w = None then w else w\<lparr>w_client_id := Some cid\<rparr>)"

section \<open>handler.go\<close>

definition pathAuthorize :: string where "pathAuthorize = ''/oauth/authorize''"
definition pathMobileAuthorize :: string where "pathMobileAuthorize = ''/oauth/mobile/authorize''"
definition pathToken :: string where "pathToken = ''/api/v3/oauth/token''"
definition pathDeauthorize :: string where "pathDeauthorize = ''/oauth/deauthorize''"
definition pathRevoke :: string where "pathRevoke = ''/oauth/revoke''"
definition contentTypeForm :: string where "contentTypeForm = ''application/x-www-form-urlencoded''"

text \<open>The ring of the handler if one was injected, otherwise the one of the live configuration.\<close>

definition handler_ring :: "Env \<Rightarrow> Config \<Rightarrow> Ring" where
  "handler_ring env cfg = (if e_Ring env \<noteq> [] then e_Ring env else ring_of cfg)"

definition upstreamURL :: "Config \<Rightarrow> string \<Rightarrow> URL option" where
  "upstreamURL cfg path =
     (case url_Parse (cf_UpstreamBaseURL cfg) of
        None \<Rightarrow> None
      | Some base \<Rightarrow> if \<not> IsAbs base \<or> u_Host base = [] then None else Some (JoinPath base path))"

definition firstParam :: "Values \<Rightarrow> string \<Rightarrow> string \<times> bool" where
  "firstParam v key =
     (case map_of v key of None \<Rightarrow> ([], False) | Some [] \<Rightarrow> ([], True) | Some (x # xs) \<Rightarrow> (x, True))"

definition internalErrorPage :: string where
  "internalErrorPage = page_head ''500 Internal Server Error'' @ ''The request could not be processed.'' @ page_tail"

definition writeInternal :: "ResponseWriter \<Rightarrow> ResponseWriter" where
  "writeInternal w = WriteBody internalErrorPage (WriteHeader 500 (set_header ''Content-Type'' ContentTypeHTML w))"

text \<open>\<open>strings.Contains\<close>.\<close>

definition contains :: "string \<Rightarrow> string \<Rightarrow> bool" where
  "contains s p \<longleftrightarrow> index_of p s \<noteq> None"

definition isTimeout :: "CallError \<Rightarrow> bool" where
  "isTimeout e =
     (if ce_Deadline e then True
      else (case ce_NetTimeout e of Some t \<Rightarrow> t | None \<Rightarrow> contains (ce_Text e) ''Client.Timeout''))"

definition redactURL :: "CallError \<Rightarrow> string" where
  "redactURL e = (case ce_URLError e of Some (op, cause) \<Rightarrow> op @ '' '' @ cause | None \<Rightarrow> ce_Text e)"

text \<open>\<open>http.NewRequestWithContext\<close> on the rendered URL: an error when it does not parse.\<close>

definition new_request :: "string \<Rightarrow> string \<Rightarrow> string \<Rightarrow> bool \<Rightarrow> OutRequest option" where
  "new_request method url body clean =
     (case url_Parse url of None \<Rightarrow> None
      | Some u \<Rightarrow> Some \<lparr>or_Method = method, or_URL = url, or_Header = [], or_Body = body,
                        or_BodyClean = clean, or_ContentLength = int (length body)\<rparr>)"

definition copy_reply_headers :: "Header \<Rightarrow> ResponseWriter \<Rightarrow> ResponseWriter" where
  "copy_reply_headers hdr w =
     foldl (\<lambda>w name. if header_get hdr name \<noteq> [] then set_header name (header_get hdr name) w else w)
       w [''Content-Type'', ''Content-Length'']"

text \<open>\<open>relay\<close>: one call, then the status, two headers and the body of the reply; the returned status
  is 0 when the call failed.\<close>

definition relay :: "Env \<Rightarrow> OutRequest \<Rightarrow> string \<Rightarrow> World \<Rightarrow> nat \<times> World" where
  "relay env req route w =
     (let w0 = w\<lparr>w_calls := w_calls w @ [req]\<rparr>
      in case e_Upstream env req of
           NoReply err \<Rightarrow>
             (let kind = (if isTimeout err then ''timeout'' else ''unavailable'');
                  w1 = inc_upstream kind w0;
                  w2 = logmsg Warn ''upstream call failed''
                         [(''route'', LStr route), (''kind'', LStr kind), (''error'', LStr (redactURL err))] w1
              in (0, respond (if kind = ''timeout'' then WriteUpstreamTimeout else WriteUpstreamUnavailable) w2))
         | Reply status hdr body failure \<Rightarrow>
             (let w1 = respond (\<lambda>rw. WriteBody body (WriteHeader status (copy_reply_headers hdr rw))) w0
              in (status, case failure of
                            None \<Rightarrow> w1
                          | Some e \<Rightarrow> logmsg Warn ''relaying upstream body failed''
                                       [(''route'', LStr route), (''error'', LStr e)] w1)))"

end
