(* ===== verification/Authorize.thy ===== *)
theory Authorize imports
  Server
begin

text \<open>
  \<open>internal/oauth/authorize.go\<close>: the two authorize endpoints. Query parameters are read once from
  the URL; the clock and the random source are those of \<open>Env\<close>.
\<close>

definition MaxCallerStateLen :: nat where "MaxCallerStateLen = 1024"
definition NonceCookieName :: string where "NonceCookieName = ''__Host-sap_nonce''"
definition nonceLen :: nat where "nonceLen = 32"

definition authorizeOwnedParams :: "string \<Rightarrow> bool" where
  "authorizeOwnedParams k \<longleftrightarrow> k \<in> {''client_id'', ''redirect_uri'', ''state''}"

definition newNonce :: "Env \<Rightarrow> string option" where
  "newNonce env = map_option (\<lambda>b. rawurl_encode (take nonceLen b)) (e_Rand env)"

definition nonceCookie :: "string \<Rightarrow> Config \<Rightarrow> Cookie" where
  "nonceCookie v cfg =
     \<lparr>ck_Name = NonceCookieName, ck_Value = v, ck_Path = ''/'', ck_MaxAge = cf_StateTTL cfg div second,
      ck_HttpOnly = True, ck_Secure = True\<rparr>"

definition clearNonceCookie :: "ResponseWriter \<Rightarrow> ResponseWriter" where
  "clearNonceCookie =
     SetCookie \<lparr>ck_Name = NonceCookieName, ck_Value = [], ck_Path = ''/'', ck_MaxAge = - 1,
       ck_HttpOnly = True, ck_Secure = True\<rparr>"

text \<open>The nonce step: the nonce to seal and the world with its cookie; no result when the random
  source fails.\<close>

definition issue_nonce :: "Env \<Rightarrow> Config \<Rightarrow> Client \<Rightarrow> World \<Rightarrow> (string \<times> World) option" where
  "issue_nonce env cfg client w =
     (if cl_RequireNonceCookie client then
        map_option (\<lambda>n. (n, respond (SetCookie (nonceCookie n cfg)) w)) (newNonce env)
      else Some ([], w))"

definition authorize_params :: "Config \<Rightarrow> Values \<Rightarrow> string \<Rightarrow> Values" where
  "authorize_params cfg q sealed =
     values_set ''state'' sealed
       (values_set ''redirect_uri'' (CallbackURL cfg)
         (values_set ''client_id'' (cf_StravaClientID cfg)
           (filter (\<lambda>kv. \<not> authorizeOwnedParams (fst kv)) q)))"

text \<open>After the checks: seal the state and redirect to Strava.\<close>

definition authorize_redirect :: "Env \<Rightarrow> Config \<Rightarrow> Request \<Rightarrow> string \<Rightarrow> StatePayload \<Rightarrow> World \<Rightarrow> World" where
  "authorize_redirect env cfg r upstreamPath payload w =
     (case Seal (e_Flate env) (handler_ring env cfg) DomainState marshal_state payload of
        Err e \<Rightarrow> respond writeInternal (logmsg Error ''sealing state failed'' [(''error'', LSealErr e)] w)
      | Ok sealed \<Rightarrow>
          (case upstreamURL cfg upstreamPath of
             None \<Rightarrow> respond writeInternal (logmsg Error ''building upstream authorize URL failed'' [] w)
           | Some target \<Rightarrow>
               let out = authorize_params cfg (rq_Query r) sealed;
                   location = url_String (target\<lparr>u_RawQuery := Encode out\<rparr>)
               in respond (RedirectFound (rq_Method r) (rq_Path r) location) w))"

definition authorize :: "Env \<Rightarrow> Holder \<Rightarrow> Request \<Rightarrow> string \<Rightarrow> World \<Rightarrow> World" where
  "authorize env holder r upstreamPath w =
     (let cfg = holder_Get holder; q = rq_Query r; clientID = fst (firstParam q ''client_id'')
      in case config_Client cfg clientID of
           None \<Rightarrow> respond (WriteBadRequestPage ''Unknown client_id.'') w
         | Some client \<Rightarrow>
             let w1 = SetClientID (cl_ID client) w; redirectURI = fst (firstParam q ''redirect_uri'')
             in if \<not> AllowsRedirectURI client redirectURI then
                  respond (WriteBadRequestPage ''The redirect_uri is not registered for this client.'') w1
                else (case firstParam q ''state'' of (callerState, hasState) \<Rightarrow>
                  if length callerState > MaxCallerStateLen then
                    respond (WriteBadRequestPage ''The state parameter is too long.'') w1
                  else (case issue_nonce env cfg client w1 of
                      None \<Rightarrow> respond writeInternal (logmsg Error ''generating nonce failed'' [] w1)
                    | Some (nonce, w2) \<Rightarrow>
                        authorize_redirect env cfg r upstreamPath
                          \<lparr>st_CID = cl_ID client, st_RU = redirectURI, st_ST = callerState, st_HasST = hasState,
                           st_IAT = unix_seconds (e_Now env 0), st_Nonce = nonce\<rparr> w2)))"

definition Authorize :: "Env \<Rightarrow> Holder \<Rightarrow> Request \<Rightarrow> World \<Rightarrow> World" where
  "Authorize env holder r = authorize env holder r pathAuthorize"

definition MobileAuthorize :: "Env \<Rightarrow> Holder \<Rightarrow> Request \<Rightarrow> World \<Rightarrow> World" where
  "MobileAuthorize env holder r = authorize env holder r pathMobileAuthorize"

end
