(* ===== verification/Callback.thy ===== *)
theory Callback imports
  Authorize
begin

text \<open>
  \<open>internal/oauth/callback.go\<close>: the interposed callback. The clock is read once to open the state
  and once more to date the wrapped code.
\<close>

definition outcomeSuccess :: string where "outcomeSuccess = ''success''"
definition outcomeUpstreamError :: string where "outcomeUpstreamError = ''upstream_error''"
definition outcomeBadState :: string where "outcomeBadState = ''bad_state''"
definition outcomeExpiredState :: string where "outcomeExpiredState = ''expired_state''"
definition outcomeUnknownClient :: string where "outcomeUnknownClient = ''unknown_client''"
definition outcomeRedirectRevoked :: string where "outcomeRedirectRevoked = ''redirect_uri_revoked''"
definition outcomeNonceMismatch :: string where "outcomeNonceMismatch = ''nonce_mismatch''"
definition outcomeMissingCode :: string where "outcomeMissingCode = ''missing_code''"
definition outcomeInternal :: string where "outcomeInternal = ''internal_error''"

definition errorPassthroughParams :: "string list" where
  "errorPassthroughParams = [''error_description'', ''error_uri'']"

text \<open>Reject with the 400 page, counting the outcome.\<close>

definition reject_callback :: "string \<Rightarrow> string \<Rightarrow> World \<Rightarrow> World" where
  "reject_callback outcome detail w = respond (WriteBadRequestPage detail) (inc_callbacks outcome w)"

definition finishRedirect :: "Request \<Rightarrow> URL \<Rightarrow> Values \<Rightarrow> StatePayload \<Rightarrow> string \<Rightarrow> World \<Rightarrow> World" where
  "finishRedirect r dst out st outcome w =
     (let out' = (if st_HasST st then values_set ''state'' (st_ST st) out else out);
          location = url_String (dst\<lparr>u_RawQuery := Encode out'\<rparr>)
      in respond (RedirectFound (rq_Method r) (rq_Path r) location) (inc_callbacks outcome w))"

definition copy_params :: "Values \<Rightarrow> string list \<Rightarrow> Values \<Rightarrow> Values" where
  "copy_params q names out =
     foldl (\<lambda>out name. case firstParam q name of (v, present) \<Rightarrow> if present then values_set name v out else out) out names"

text \<open>The two ways a verified callback ends: the error leg, and the code leg.\<close>

definition error_leg :: "Request \<Rightarrow> URL \<Rightarrow> StatePayload \<Rightarrow> string \<Rightarrow> World \<Rightarrow> World" where
  "error_leg r dst st errVal w =
     finishRedirect r dst (copy_params (rq_Query r) errorPassthroughParams
       (values_set ''error'' errVal (url_Query dst))) st outcomeUpstreamError w"

definition code_leg :: "Env \<Rightarrow> Config \<Rightarrow> Request \<Rightarrow> URL \<Rightarrow> StatePayload \<Rightarrow> World \<Rightarrow> World" where
  "code_leg env cfg r dst st w =
     (let code = fst (firstParam (rq_Query r) ''code'')
      in if code = [] then
           reject_callback outcomeMissingCode ''Strava returned neither an authorization code nor an error.'' w
         else (case Seal (e_Flate env) (handler_ring env cfg) DomainCode marshal_code
                      \<lparr>cp_CID = st_CID st, cp_SC = code, cp_IAT = unix_seconds (e_Now env 1)\<rparr> of
                 Err e \<Rightarrow>
                   respond writeInternal
                     (logmsg Error ''sealing code failed'' [(''error'', LSealErr e)] (inc_callbacks outcomeInternal w))
               | Ok wrapped \<Rightarrow>
                   finishRedirect r dst
                     (copy_params (rq_Query r) [''scope''] (values_set ''code'' wrapped (url_Query dst))) st outcomeSuccess w))"

definition callback_target :: "Env \<Rightarrow> Config \<Rightarrow> Request \<Rightarrow> StatePayload \<Rightarrow> World \<Rightarrow> World" where
  "callback_target env cfg r st w =
     (case url_Parse (st_RU st) of
        None \<Rightarrow>
          respond writeInternal
            (logmsg Error ''sealed redirect_uri does not parse'' [(''client_id'', LStr (st_CID st))]
              (inc_callbacks outcomeInternal w))
      | Some dst \<Rightarrow>
          (case firstParam (rq_Query r) ''error'' of (errVal, present) \<Rightarrow>
             if present then error_leg r dst st errVal w else code_leg env cfg r dst st w))"

definition nonce_matches :: "StatePayload \<Rightarrow> Request \<Rightarrow> bool" where
  "nonce_matches st r \<longleftrightarrow>
     st_Nonce st \<noteq> [] \<and>
     (case read_cookie (rq_Header r) NonceCookieName of None \<Rightarrow> [] | Some v \<Rightarrow> v) = st_Nonce st"

definition callback_client :: "Env \<Rightarrow> Config \<Rightarrow> Request \<Rightarrow> StatePayload \<Rightarrow> World \<Rightarrow> World" where
  "callback_client env cfg r st w =
     (case config_Client cfg (st_CID st) of
        None \<Rightarrow>
          reject_callback outcomeUnknownClient
            ''The client that started this authorization is no longer registered.'' w
      | Some client \<Rightarrow>
          if \<not> AllowsRedirectURI client (st_RU st) then
            reject_callback outcomeRedirectRevoked
              ''The redirect_uri is no longer registered for this client.'' w
          else if cl_RequireNonceCookie client then
            (let w1 = respond clearNonceCookie w
             in if \<not> nonce_matches st r then
                  reject_callback outcomeNonceMismatch
                    ''The authorization could not be verified. Please start again.'' w1
                else callback_target env cfg r st w1)
          else callback_target env cfg r st w)"

definition Callback :: "Env \<Rightarrow> Holder \<Rightarrow> Request \<Rightarrow> World \<Rightarrow> World" where
  "Callback env holder r w =
     (let cfg = holder_Get holder; stateToken = fst (firstParam (rq_Query r) ''state'')
      in case Open (e_Flate env) (handler_ring env cfg) DomainState stateToken unmarshal_state
                (cf_StateTTL cfg) (e_Now env 0) of
           Err e \<Rightarrow>
             (let expired = errors_is e ErrExpired;
                  outcome = (if expired then outcomeExpiredState else outcomeBadState);
                  detail = (if expired then ''The authorization request has expired. Please start again.''
                            else ''The authorization state is missing, malformed or has been tampered with.'');
                  w1 = logmsg Warn ''rejecting callback state''
                         [(''outcome'', LStr outcome), (''error'', LSealErr e)] (inc_callbacks outcome w)
              in respond (WriteBadRequestPage detail) w1)
         | Ok st \<Rightarrow> callback_client env cfg r st (SetClientID (st_CID st) w))"

end
