(* ===== verification/Token.thy ===== *)
theory Token imports
  Callback
begin

text \<open>
  \<open>internal/oauth/token.go\<close> and \<open>internal/oauth/revoke.go\<close>: the server-to-server endpoints. Each
  makes at most one call, through \<open>relay\<close>.
\<close>

section \<open>token.go\<close>

definition grantAuthorizationCode :: string where "grantAuthorizationCode = ''authorization_code''"
definition grantRefreshToken :: string where "grantRefreshToken = ''refresh_token''"

definition tokenOwnedParams :: "string \<Rightarrow> bool" where
  "tokenOwnedParams k \<longleftrightarrow> k \<in> {''client_id'', ''client_secret''}"

definition outcomeMalformedRequest :: string where "outcomeMalformedRequest = ''malformed_request''"
definition outcomeBadClientID :: string where "outcomeBadClientID = ''invalid_client_id''"
definition outcomeBadClientSecret :: string where "outcomeBadClientSecret = ''invalid_client_secret''"
definition outcomeBadCode :: string where "outcomeBadCode = ''invalid_code''"

definition statusOutcome :: "nat \<Rightarrow> string" where
  "statusOutcome status = (if 200 \<le> status \<and> status < 300 then outcomeSuccess else outcomeUpstreamError)"

definition metrics_key :: "string \<Rightarrow> string \<Rightarrow> string" where
  "metrics_key grant outcome =
     (let g = (if grant = grantAuthorizationCode \<or> grant = grantRefreshToken then grant
               else if grant = [] then ''none'' else ''other'')
      in g @ '':'' @ outcome)"

definition reject_token :: "string \<Rightarrow> (ResponseWriter \<Rightarrow> ResponseWriter) \<Rightarrow> World \<Rightarrow> World" where
  "reject_token k f w = respond f (inc_exchanges k w)"

text \<open>The code parameter of an authorization-code grant, unwrapped and bound to the client.\<close>

definition unwrap_code :: "Env \<Rightarrow> Config \<Rightarrow> Client \<Rightarrow> string \<Rightarrow> Values \<Rightarrow> World \<Rightarrow> (World, string) result" where
  "unwrap_code env cfg client grant form w =
     (case Open (e_Flate env) (handler_ring env cfg) DomainCode (values_get form ''code'') unmarshal_code
             (cf_StateTTL cfg) (e_Now env 0) of
        Err e \<Rightarrow>
          Err (respond WriteInvalidCode (logmsg Warn ''rejecting wrapped code''
            [(''client_id'', LStr (cl_ID client)), (''error'', LSealErr e)]
            (inc_exchanges (metrics_key grant outcomeBadCode) w)))
      | Ok cp \<Rightarrow>
          if cp_CID cp \<noteq> cl_ID client then
            Err (respond WriteInvalidCode (logmsg Warn ''wrapped code presented by a different client''
              [(''client_id'', LStr (cl_ID client))] (inc_exchanges (metrics_key grant outcomeBadCode) w)))
          else Ok (cp_SC cp))"

text \<open>The upstream leg: the real credentials, one request, its outcome counted.\<close>

definition token_params :: "Config \<Rightarrow> Values \<Rightarrow> Values" where
  "token_params cfg out =
     values_set ''client_secret'' (Reveal (cf_StravaClientSecret cfg))
       (values_set ''client_id'' (cf_StravaClientID cfg) out)"

definition token_request :: "string \<Rightarrow> string \<Rightarrow> OutRequest option" where
  "token_request target body =
     map_option (\<lambda>req. req\<lparr>or_Header := header_set ''Accept'' ''application/json''
                            (header_set ''Content-Type'' contentTypeForm (or_Header req)),
                          or_ContentLength := int (length body)\<rparr>)
       (new_request ''POST'' target body True)"

definition token_upstream :: "Env \<Rightarrow> Config \<Rightarrow> string \<Rightarrow> Values \<Rightarrow> World \<Rightarrow> World" where
  "token_upstream env cfg grant out w =
     (case upstreamURL cfg pathToken of
        None \<Rightarrow>
          respond WriteUpstreamUnavailable (inc_exchanges (metrics_key grant outcomeInternal)
            (logmsg Error ''building upstream token URL failed'' [] w))
      | Some target \<Rightarrow>
          (case token_request (url_String target) (Encode (token_params cfg out)) of
             None \<Rightarrow>
               respond WriteUpstreamUnavailable (inc_exchanges (metrics_key grant outcomeInternal)
                 (logmsg Error ''building upstream token request failed'' [] w))
           | Some req \<Rightarrow>
               (case relay env req ''token'' w of (status, w1) \<Rightarrow>
                  if status = 0 then inc_exchanges (metrics_key grant outcomeUpstreamError) w1
                  else inc_exchanges (metrics_key grant (statusOutcome status)) w1)))"

text \<open>After authentication.\<close>

definition token_exchange :: "Env \<Rightarrow> Config \<Rightarrow> Client \<Rightarrow> Values \<Rightarrow> World \<Rightarrow> World" where
  "token_exchange env cfg client form w =
     (let grant = values_get form ''grant_type'';
          out = filter (\<lambda>kv. \<not> tokenOwnedParams (fst kv)) form
      in if grant = grantAuthorizationCode then
           (case unwrap_code env cfg client grant form w of
              Inl w1 \<Rightarrow> w1
            | Inr sc \<Rightarrow> token_upstream env cfg grant (values_set ''code'' sc out) w)
         else token_upstream env cfg grant out w)"

definition Token :: "Env \<Rightarrow> Holder \<Rightarrow> Request \<Rightarrow> World \<Rightarrow> World" where
  "Token env holder r w =
     (let cfg = holder_Get holder
      in case ParseForm r of (form, good) \<Rightarrow>
           if \<not> good then reject_token (metrics_key [] outcomeMalformedRequest) WriteInvalidClientID w
           else let grant = values_get form ''grant_type''
                in case config_Client cfg (values_get form ''client_id'') of
                     None \<Rightarrow> reject_token (metrics_key grant outcomeBadClientID) WriteInvalidClientID w
                   | Some client \<Rightarrow>
                       let w1 = SetClientID (cl_ID client) w
                       in if \<not> VerifySecret client (values_get form ''client_secret'') then
                            reject_token (metrics_key grant outcomeBadClientSecret) WriteInvalidClientSecret w1
                          else token_exchange env cfg client form w1)"

section \<open>revoke.go\<close>

definition passthroughHeaders :: "string list" where
  "passthroughHeaders = [''Content-Type'', ''Accept'', ''Accept-Language'', ''User-Agent'']"

definition copyRequestHeaders :: "Request \<Rightarrow> OutRequest \<Rightarrow> OutRequest" where
  "copyRequestHeaders src dst =
     foldl (\<lambda>dst name. if header_get (rq_Header src) name \<noteq> []
                        then dst\<lparr>or_Header := header_set name (header_get (rq_Header src) name) (or_Header dst)\<rparr>
                        else dst) dst passthroughHeaders"

definition basicAuthHeader :: "string \<Rightarrow> string \<Rightarrow> string" where
  "basicAuthHeader user pass = ''Basic '' @ std_encode (user @ '':'' @ pass)"

text \<open>The request of a pass-through leg: the caller's body, query and allow-listed headers.\<close>

definition passthrough_request :: "URL \<Rightarrow> Request \<Rightarrow> OutRequest option" where
  "passthrough_request target r =
     map_option (\<lambda>req. copyRequestHeaders r (req\<lparr>or_ContentLength := rq_ContentLength r\<rparr>))
       (new_request ''POST'' (url_String (target\<lparr>u_RawQuery := rq_RawQuery r\<rparr>)) (rq_Body r) (rq_BodyClean r))"

definition Deauthorize :: "Env \<Rightarrow> Holder \<Rightarrow> Request \<Rightarrow> World \<Rightarrow> World" where
  "Deauthorize env holder r w =
     (let cfg = holder_Get holder
      in case upstreamURL cfg pathDeauthorize of
           None \<Rightarrow> respond WriteUpstreamUnavailable (logmsg Error ''building upstream deauthorize URL failed'' [] w)
         | Some target \<Rightarrow>
             (case passthrough_request target r of
                None \<Rightarrow>
                  respond WriteUpstreamUnavailable (logmsg Error ''building upstream deauthorize request failed'' [] w)
              | Some req \<Rightarrow>
                  let v = header_get (rq_Header r) ''Authorization'';
                      req' = (if v \<noteq> [] then req\<lparr>or_Header := header_set ''Authorization'' v (or_Header req)\<rparr> else req)
                  in snd (relay env req' ''deauthorize'' w)))"

definition revoke_upstream :: "Env \<Rightarrow> Config \<Rightarrow> Request \<Rightarrow> World \<Rightarrow> World" where
  "revoke_upstream env cfg r w =
     (case upstreamURL cfg pathRevoke of
        None \<Rightarrow> respond WriteUpstreamUnavailable (logmsg Error ''building upstream revoke URL failed'' [] w)
      | Some target \<Rightarrow>
          (case passthrough_request target r of
             None \<Rightarrow>
               respond WriteUpstreamUnavailable (logmsg Error ''building upstream revoke request failed'' [] w)
           | Some req \<Rightarrow>
               let auth = basicAuthHeader (cf_StravaClientID cfg) (Reveal (cf_StravaClientSecret cfg))
               in snd (relay env (req\<lparr>or_Header := header_set ''Authorization'' auth (or_Header req)\<rparr>) ''revoke'' w)))"

definition Revoke :: "Env \<Rightarrow> Holder \<Rightarrow> Request \<Rightarrow> World \<Rightarrow> World" where
  "Revoke env holder r w =
     (let cfg = holder_Get holder
      in case BasicAuth r of
           None \<Rightarrow> respond WriteUnauthorized w
         | Some (clientID, clientSecret) \<Rightarrow>
             (case config_Client cfg clientID of
                None \<Rightarrow> respond WriteUnauthorized w
              | Some client \<Rightarrow>
                  if \<not> VerifySecret client clientSecret then
                    respond WriteUnauthorized (SetClientID (cl_ID client) w)
                  else revoke_upstream env cfg r (SetClientID (cl_ID client) w)))"

end
