(* ===== verification/ServerLaws.thy ===== *)
theory ServerLaws imports
  Token
begin

text \<open>
  Laws the OAuth handlers share: how each step acts on the fields of the world, what a relayed or
  minted response sends, and which headers of the response the handlers write themselves.
\<close>

section \<open>Fields of the world\<close>

lemma respond_simps [simp]:
  "w_rw (respond f w) = f (w_rw w)" "w_metrics (respond f w) = w_metrics w" "w_log (respond f w) = w_log w"
  "w_client_id (respond f w) = w_client_id w" "w_calls (respond f w) = w_calls w"
  by (simp_all add: respond_def)

lemma logmsg_simps [simp]:
  "w_rw (logmsg l m a w) = w_rw w" "w_metrics (logmsg l m a w) = w_metrics w"
  "w_client_id (logmsg l m a w) = w_client_id w" "w_calls (logmsg l m a w) = w_calls w"
  by (simp_all add: logmsg_def)

lemma inc_simps [simp]:
  "w_rw (inc_callbacks k w) = w_rw w" "w_log (inc_callbacks k w) = w_log w"
  "w_client_id (inc_callbacks k w) = w_client_id w" "w_calls (inc_callbacks k w) = w_calls w"
  "w_rw (inc_exchanges k w) = w_rw w" "w_log (inc_exchanges k w) = w_log w"
  "w_client_id (inc_exchanges k w) = w_client_id w" "w_calls (inc_exchanges k w) = w_calls w"
  "w_rw (inc_upstream k w) = w_rw w" "w_log (inc_upstream k w) = w_log w"
  "w_client_id (inc_upstream k w) = w_client_id w" "w_calls (inc_upstream k w) = w_calls w"
  "m_TokenExchanges (w_metrics (inc_exchanges k w)) = Inc k (m_TokenExchanges (w_metrics w))"
  "m_TokenExchanges (w_metrics (inc_upstream k w)) = m_TokenExchanges (w_metrics w)"
  "m_OAuthCallbacks (w_metrics (inc_callbacks k w)) = Inc k (m_OAuthCallbacks (w_metrics w))"
  by (simp_all add: inc_callbacks_def inc_exchanges_def inc_upstream_def)

lemma SetClientID_simps [simp]:
  "w_rw (SetClientID c w) = w_rw w" "w_metrics (SetClientID c w) = w_metrics w" "w_log (SetClientID c w) = w_log w"
  "w_calls (SetClientID c w) = w_calls w"
  by (simp_all add: SetClientID_def)

section \<open>Fresh responses and answers\<close>

text \<open>The headers the handlers write themselves; every other header of the response is what was set
  before the handler ran.\<close>

definition own_headers :: "string set" where
  "own_headers = {''Location'', ''Content-Type'', ''Content-Length'', ''Set-Cookie''}"

definition fresh :: "World \<Rightarrow> bool" where
  "fresh w \<longleftrightarrow> rw_Sent (w_rw w) = None \<and> rw_Body (w_rw w) = []"

definition same_headers :: "Header \<Rightarrow> Header \<Rightarrow> bool" where
  "same_headers h h' \<longleftrightarrow> (\<forall>k. k \<notin> own_headers \<longrightarrow> map_of h' k = map_of h k)"

definition answers :: "ResponseWriter \<Rightarrow> ResponseWriter \<Rightarrow> nat \<Rightarrow> bool" where
  "answers rw rw' s \<longleftrightarrow> (\<exists>h. rw_Sent rw' = Some (s, h) \<and> same_headers (rw_Header rw) h)"

lemma same_headers_refl [simp]: "same_headers h h"
  by (simp add: same_headers_def)

lemma same_headers_set [simp]: "k \<in> own_headers \<Longrightarrow> same_headers h (header_set k v h') = same_headers h h'"
  by (auto simp: same_headers_def)

lemma same_headers_set2 [simp]: "k \<in> own_headers \<Longrightarrow> same_headers (header_set k v h) h' = same_headers h h'"
  by (auto simp: same_headers_def)

lemma same_headers_add [simp]: "k \<in> own_headers \<Longrightarrow> same_headers (header_add k v h) h' = same_headers h h'"
  by (auto simp: same_headers_def map_of_values_add)

lemma own_headers_names [simp]:
  "''Location'' \<in> own_headers" "''Content-Type'' \<in> own_headers" "''Content-Length'' \<in> own_headers"
  "''Set-Cookie'' \<in> own_headers"
  by (simp_all add: own_headers_def)

lemma answers_fault:
  "rw_Sent rw = None \<Longrightarrow> \<not> informational s \<Longrightarrow> answers rw (fault_Write s f rw) s"
  by (auto simp: answers_def fault_Write_def Let_def)

lemma not_informational [simp]:
  "\<not> informational 200" "\<not> informational 302" "\<not> informational 400" "\<not> informational 401"
  "\<not> informational 500" "\<not> informational 502" "\<not> informational 504"
  by (simp_all add: informational_def)

lemma answers_faults:
  assumes "rw_Sent rw = None"
  shows "answers rw (WriteInvalidClientID rw) 400" "answers rw (WriteInvalidClientSecret rw) 401"
    "answers rw (WriteInvalidCode rw) 400" "answers rw (WriteUnauthorized rw) 401"
    "answers rw (WriteUpstreamUnavailable rw) 502" "answers rw (WriteUpstreamTimeout rw) 504"
  using assms by (simp_all add: fault_writers answers_fault)

lemma answers_page: "rw_Sent rw = None \<Longrightarrow> answers rw (WriteBadRequestPage d rw) 400"
  by (simp add: answers_def WriteBadRequestPage_def Let_def)

lemma answers_internal: "rw_Sent rw = None \<Longrightarrow> answers rw (writeInternal rw) 500"
  by (simp add: answers_def writeInternal_def)

lemma answers_redirect: "rw_Sent rw = None \<Longrightarrow> answers rw (RedirectFound m p url rw) 302"
  by (simp add: answers_def RedirectFound_def http_Redirect_def Let_def)

lemma SetCookie_sent [simp]: "rw_Sent (SetCookie c rw) = rw_Sent rw" "rw_Body (SetCookie c rw) = rw_Body rw"
  by (simp_all add: SetCookie_def)

lemma SetCookie_headers [simp]: "same_headers (rw_Header (SetCookie c rw)) h = same_headers (rw_Header rw) h"
  by (simp add: SetCookie_def)

lemma answers_SetCookie [simp]: "answers (SetCookie c rw) rw' s = answers rw rw' s"
  by (simp add: answers_def)

section \<open>Relaying\<close>

lemma relay_calls: "w_calls (snd (relay env req route w)) = w_calls w @ [req]"
  by (simp add: relay_def Let_def split: upstream_result.splits option.splits)

lemma copy_reply_headers_simps [simp]:
  "rw_Sent (copy_reply_headers h rw) = rw_Sent rw" "rw_Body (copy_reply_headers h rw) = rw_Body rw"
  "same_headers (rw_Header rw) (rw_Header (copy_reply_headers h rw))"
  by (simp_all add: copy_reply_headers_def)

lemma relay_reply:
  assumes "e_Upstream env req = Reply s h b f" "rw_Sent (w_rw w) = None" "rw_Body (w_rw w) = []" "\<not> informational s"
  shows "rw_Sent (w_rw (snd (relay env req route w))) = Some (s, rw_Header (copy_reply_headers h (w_rw w))) \<and>
    rw_Body (w_rw (snd (relay env req route w))) = b \<and> fst (relay env req route w) = s"
  using assms by (simp add: relay_def Let_def split: option.splits)

lemma relay_failure:
  assumes "e_Upstream env req = NoReply e" "rw_Sent (w_rw w) = None"
  shows "fst (relay env req route w) = 0 \<and>
    w_rw (snd (relay env req route w)) =
      (if isTimeout e then WriteUpstreamTimeout else WriteUpstreamUnavailable) (w_rw w)"
  using assms by (simp add: relay_def Let_def)

text \<open>A final status from Strava: what \<open>http.Client\<close> returns.\<close>

definition final_replies :: "Env \<Rightarrow> bool" where
  "final_replies env \<longleftrightarrow> (\<forall>req. case e_Upstream env req of Reply s h b f \<Rightarrow> \<not> informational s | NoReply e \<Rightarrow> True)"

lemma answers_relay:
  assumes "final_replies env" "rw_Sent (w_rw w) = None"
  shows "\<exists>s. answers (w_rw w) (w_rw (snd (relay env req route w))) s"
proof (cases "e_Upstream env req")
  case (Reply s h b f)
  then have "\<not> informational s"
    using assms(1) unfolding final_replies_def by (metis upstream_result.simps(5))
  with Reply assms(2) have "answers (w_rw w) (w_rw (snd (relay env req route w))) s"
    by (simp add: relay_def Let_def answers_def split: option.splits)
  then show ?thesis ..
next
  case (NoReply e)
  then show ?thesis
    using assms(2) by (auto simp: relay_failure intro: answers_faults)
qed

end
