(* ===== verification/UrlLaws.thy ===== *)
theory UrlLaws imports
  ConfigLaws
  GoHttp
begin

text \<open>
  Laws of rendered URLs: a hierarchical URL renders to ASCII without a question mark or hash before
  its query, so that replacing the query replaces exactly what follows the first question mark; and
  an absolute URL is left alone by \<open>http.Redirect\<close>.
\<close>

section \<open>Characters of rendered URLs\<close>

text \<open>Bytes that may occur in front of the query of a rendered URL.\<close>

definition url_byte :: "char \<Rightarrow> bool" where
  "url_byte c \<longleftrightarrow> 32 < byte c \<and> byte c < 127 \<and> c \<noteq> CHR ''?'' \<and> c \<noteq> CHR ''#''"

lemma url_byte_alnum: "is_alnum c \<Longrightarrow> url_byte c"
  by (auto simp: url_byte_def byte_class)

lemma url_byte_percent: "list_all url_byte (percent c)"
  using nat_of_char_less_256 [of c]
  by (auto simp: percent_def upper_hex_alnum url_byte_alnum less_mult_imp_div_less) (simp add: url_byte_def)

lemma unescaped_byte:
  assumes "\<not> should_escape c mode" "mode \<noteq> EncodeFragment"
  shows "url_byte c"
proof (cases "is_alnum c")
  case False
  with assms have "c \<in> set ''!$&()*+,;=:[]<>'' \<or> c = CHR 0x22 \<or> c = CHR 0x27 \<or> c \<in> set ''-_.~'' \<or>
      url_reserved c \<and> c \<noteq> CHR ''?''"
    by (cases mode) (auto simp: should_escape_def host_extra_def split: if_splits)
  then show ?thesis
    by (auto simp: url_byte_def url_reserved_def)
qed (rule url_byte_alnum)

lemma escape_bytes:
  assumes "mode \<notin> {EncodeQueryComponent, EncodeFragment}"
  shows "list_all url_byte (url_escape mode s)"
proof -
  have "list_all url_byte (escape_char mode c)" for c
    using assms unescaped_byte [of c mode] by (auto simp: escape_char_def url_byte_percent)
  then show ?thesis
    by (induction s) (auto simp: url_escape_Cons)
qed

lemma valid_encoded_bytes: "valid_encoded s EncodePath \<Longrightarrow> list_all url_byte s"
proof -
  assume v: "valid_encoded s EncodePath"
  have "url_byte c" if "c \<in> set ''!$&()*+,;=:@[]%'' \<or> c = CHR 0x27 \<or> \<not> should_escape c EncodePath" for c
    using that unescaped_byte [of c EncodePath] by (auto simp: url_byte_def)
  with v show ?thesis
    unfolding valid_encoded_def list_all_iff by blast
qed

lemma escaped_path_bytes: "list_all url_byte (EscapedPath u)"
  using valid_encoded_bytes [of "u_RawPath u"] escape_bytes [of EncodePath "u_Path u"]
  by (auto simp: EscapedPath_def) (simp_all add: url_byte_def)

lemma userinfo_bytes: "list_all url_byte (userinfo_string ui)"
  by (cases ui rule: userinfo_string.cases) (auto simp: escape_bytes url_byte_def)

lemma authority_bytes: "list_all url_byte (authority_string u)"
  using escape_bytes [of EncodeHost "u_Host u"] userinfo_bytes
  by (auto simp: authority_string_def url_byte_def split: option.splits)

lemma base_string_bytes:
  "u_Opaque u = [] \<Longrightarrow> list_all url_byte (u_Scheme u) \<Longrightarrow> list_all url_byte (url_base_string u)"
  using authority_bytes [of u] escaped_path_bytes [of u]
  by (auto simp: url_base_string_def Let_def) (simp_all add: url_byte_def)

section \<open>Replacing the query\<close>

lemma base_string_query [simp]: "url_base_string (u\<lparr>u_RawQuery := q\<rparr>) = url_base_string u"
  by (simp add: url_base_string_def authority_string_def EscapedPath_def)

lemma url_String_query:
  "u_Fragment u = [] \<Longrightarrow> q \<noteq> [] \<Longrightarrow> url_String (u\<lparr>u_RawQuery := q\<rparr>) = url_base_string u @ CHR ''?'' # q"
  by (simp add: url_String_def)

lemma cut_rendered:
  assumes "u_Opaque u = []" "list_all url_byte (u_Scheme u)" "u_Fragment u = []" "q \<noteq> []"
  shows "cut CHR ''?'' (url_String (u\<lparr>u_RawQuery := q\<rparr>)) = (url_base_string u, q, True)"
proof -
  have "CHR ''?'' \<notin> set (url_base_string u)"
    using base_string_bytes [OF assms(1,2)] by (auto simp: list_all_iff url_byte_def)
  then show ?thesis
    using assms(3,4) by (simp add: url_String_query cut_append)
qed

section \<open>Redirecting to an absolute URL\<close>

text \<open>A URL the proxy redirects to: absolute http or https, hierarchical, without a fragment.\<close>

definition web_url :: "URL \<Rightarrow> bool" where
  "web_url u \<longleftrightarrow> u_Scheme u \<in> {''http'', ''https''} \<and> u_Opaque u = [] \<and> u_Fragment u = []"

lemma web_scheme_bytes: "web_url u \<Longrightarrow> list_all url_byte (u_Scheme u)"
  by (auto simp: web_url_def url_byte_def)

lemma web_base_string:
  assumes "web_url u"
  shows "\<exists>rest. url_base_string u = u_Scheme u @ CHR '':'' # rest"
proof -
  have "u_Scheme u \<noteq> []" "u_Opaque u = []" using assms by (auto simp: web_url_def)
  then show ?thesis by (simp add: url_base_string_def Let_def)
qed

lemma scheme_of_rendered:
  assumes "s \<in> {''http'', ''https''}" "raw = s @ CHR '':'' # rest" "url_Parse raw = Some v"
  shows "u_Scheme v = s"
proof -
  have nohash: "CHR ''#'' \<notin> set (s @ '':'')" using assms(1) by auto
  have "fst (cut CHR ''#'' raw) = s @ CHR '':'' # takeWhile (\<lambda>x. x \<noteq> CHR ''#'') rest"
    using assms(1,2) by (auto simp: cut_def)
  then obtain t u where t: "parse_no_fragment (s @ CHR '':'' # t) = Some u" and sv: "u_Scheme v = u_Scheme u"
    using assms(3) by (auto simp: url_Parse_def setFragment_def split: prod.splits option.splits if_splits)
  have g: "getScheme (s @ CHR '':'' # t) = Some (s, t)"
    using assms(1) by (auto simp: getScheme_def Let_def scheme_byte_def byte_class)
  have l: "to_lower s = s"
    using assms(1) by (auto simp: to_lower_def lower_byte_def byte_class)
  have ne: "s @ CHR '':'' # t \<noteq> ''*''"
    using assms(1) by auto
  from t show ?thesis
    unfolding sv using ne
    by (auto simp: parse_no_fragment_def g l Let_def dest!: parse_rest_fields split: if_splits prod.splits)
qed

lemma redirect_target_web:
  assumes "web_url u"
  shows "redirect_target p (url_String (u\<lparr>u_RawQuery := q\<rparr>)) = url_String (u\<lparr>u_RawQuery := q\<rparr>)"
proof -
  obtain rest where "url_base_string u = u_Scheme u @ CHR '':'' # rest"
    using web_base_string [OF assms] by blast
  then have "\<exists>rest. url_String (u\<lparr>u_RawQuery := q\<rparr>) = u_Scheme u @ CHR '':'' # rest"
    by (simp add: url_String_def)
  moreover have "u_Scheme u \<in> {''http'', ''https''}" using assms by (simp add: web_url_def)
  ultimately have "u_Scheme v \<noteq> []" if "url_Parse (url_String (u\<lparr>u_RawQuery := q\<rparr>)) = Some v" for v
    using scheme_of_rendered that by fastforce
  then show ?thesis
    by (auto simp: redirect_target_def split: option.splits)
qed

lemma query_byte_ascii: "query_byte c \<Longrightarrow> byte c < 128"
  by (auto simp: query_byte_def byte_class)

lemma rendered_ascii:
  assumes "web_url u"
  shows "list_all (\<lambda>c. byte c < 128) (url_String (u\<lparr>u_RawQuery := Encode m\<rparr>))"
proof -
  have "list_all (\<lambda>c. byte c < 128) (Encode m)"
    using encode_bytes [of _ m] query_byte_ascii by (fastforce simp: list_all_iff)
  moreover have "list_all url_byte (url_base_string u)"
    using base_string_bytes [OF _ web_scheme_bytes [OF assms]] assms by (simp add: web_url_def)
  then have "list_all (\<lambda>c. byte c < 128) (url_base_string u)"
    by (rule list.pred_mono_strong) (simp add: url_byte_def)
  ultimately show ?thesis
    using assms by (simp add: url_String_def web_url_def)
qed

lemma location_web:
  "web_url u \<Longrightarrow> hex_escape_non_ascii (redirect_target p (url_String (u\<lparr>u_RawQuery := Encode m\<rparr>))) =
     url_String (u\<lparr>u_RawQuery := Encode m\<rparr>)"
  by (simp add: redirect_target_web hex_escape_ascii rendered_ascii)

section \<open>Parsed base URLs and redirect URIs\<close>

lemma parse_rest_opaque:
  "parse_rest rest u = Some v \<Longrightarrow> u_Opaque u = [] \<Longrightarrow> u_Host u = [] \<Longrightarrow> u_Host v \<noteq> [] \<Longrightarrow> u_Opaque v = []"
  by (auto simp: parse_rest_def Let_def dest!: setPath_fields split: if_splits option.splits prod.splits)

lemma parse_no_fragment_opaque: "parse_no_fragment s = Some u \<Longrightarrow> u_Host u \<noteq> [] \<Longrightarrow> u_Opaque u = []"
  by (auto simp: parse_no_fragment_def Let_def empty_url_def dest!: parse_rest_opaque
      split: if_splits option.splits prod.splits)

lemma url_Parse_opaque: "url_Parse raw = Some u \<Longrightarrow> u_Host u \<noteq> [] \<Longrightarrow> u_Opaque u = []"
  by (auto simp: url_Parse_def setFragment_def dest: parse_no_fragment_opaque
      split: prod.splits option.splits if_splits)

lemma redirect_ok_web: "redirect_ok raw \<Longrightarrow> \<exists>u. url_Parse raw = Some u \<and> web_url u \<and> u_Host u \<noteq> []"
  by (auto simp: redirect_ok_def web_url_def url_Parse_no_hash url_Parse_opaque split: option.splits)

lemma base_url_ok_web: "base_url_ok raw \<Longrightarrow> \<exists>u. url_Parse raw = Some u \<and> web_url u \<and> u_Host u \<noteq> []"
  by (auto simp: base_url_ok_def web_url_def url_Parse_opaque split: option.splits)

lemma JoinPath_fields:
  "u_Scheme (JoinPath u e) = u_Scheme u" "u_Opaque (JoinPath u e) = u_Opaque u"
  "u_Fragment (JoinPath u e) = u_Fragment u" "u_Host (JoinPath u e) = u_Host u"
  by (auto simp: JoinPath_def Let_def dest: setPath_fields split: option.splits)

end
