(* ===== verification/AuthorizeLaws.thy ===== *)
theory AuthorizeLaws imports
  ServerLaws
  UrlLaws
begin

text \<open>
  Laws of the authorize endpoints: when they redirect, where to, and that every other outcome is
  the 400 page.
\<close>

definition redirects_to :: "World \<Rightarrow> string \<Rightarrow> bool" where
  "redirects_to w loc \<longleftrightarrow> (\<exists>h. rw_Sent (w_rw w) = Some (302, h) \<and> map_of h ''Location'' = Some [loc])"

definition no_location :: "World \<Rightarrow> bool" where
  "no_location w \<longleftrightarrow> (\<exists>s h. rw_Sent (w_rw w) = Some (s, h) \<and> map_of h ''Location'' = None)"

text \<open>A response that has not been started and has no Location header yet.\<close>

definition unsent :: "World \<Rightarrow> bool" where
  "unsent w \<longleftrightarrow> rw_Sent (w_rw w) = None \<and> map_of (rw_Header (w_rw w)) ''Location'' = None"

lemma unsent_simps [simp]:
  "unsent (logmsg l m a w) = unsent w" "unsent (inc_callbacks k w) = unsent w" "unsent (inc_exchanges k w) = unsent w"
  "unsent (SetClientID c w) = unsent w" "unsent (respond (SetCookie ck) w) = unsent w"
  by (auto simp: unsent_def SetCookie_def map_of_values_add)

lemma clearNonce_unsent [simp]: "unsent (respond clearNonceCookie w) = unsent w"
  by (simp add: clearNonceCookie_def)

lemma page_no_location:
  "unsent w \<Longrightarrow> sent_status (w_rw (respond (WriteBadRequestPage d) w)) = Some 400 \<and>
     no_location (respond (WriteBadRequestPage d) w)"
  by (auto simp: unsent_def no_location_def WriteBadRequestPage_def Let_def sent_status_def)

lemma internal_no_location:
  "unsent w \<Longrightarrow> sent_status (w_rw (respond writeInternal w)) = Some 500 \<and> no_location (respond writeInternal w)"
  by (auto simp: unsent_def no_location_def writeInternal_def sent_status_def)

lemma redirect_sends:
  "web_url u \<Longrightarrow> unsent w \<Longrightarrow>
   redirects_to (respond (RedirectFound m p (url_String (u\<lparr>u_RawQuery := Encode q\<rparr>))) w)
     (url_String (u\<lparr>u_RawQuery := Encode q\<rparr>))"
  by (auto simp: redirects_to_def unsent_def RedirectFound_def http_Redirect_def Let_def location_web)

lemma redirects_unique: "redirects_to w a \<Longrightarrow> redirects_to w b \<longleftrightarrow> a = b"
  by (auto simp: redirects_to_def)

lemma no_location_redirects: "no_location w \<Longrightarrow> \<not> redirects_to w loc"
  by (auto simp: no_location_def redirects_to_def)

lemma Encode_not_Nil: "value_count m > 0 \<Longrightarrow> Encode m \<noteq> []"
proof -
  assume "value_count m > 0"
  then have "encode_pairs m \<noteq> []" using length_encode_pairs [of m] by auto
  from split_encode [OF this] this show ?thesis
    by (cases "encode_pairs m") (auto simp: encode_pair_def)
qed

lemma value_count_pos: "map_of m k = Some [v] \<Longrightarrow> value_count m > 0"
  by (induction m) (auto simp: value_count_def split: if_splits)

lemma redirect_parts:
  assumes "web_url u" "map_of q k = Some [v]"
  shows "cut CHR ''?'' (url_String (u\<lparr>u_RawQuery := Encode q\<rparr>)) = (url_base_string u, Encode q, True)"
  using assms web_scheme_bytes [OF assms(1)] Encode_not_Nil [OF value_count_pos [OF assms(2)]]
  by (intro cut_rendered) (auto simp: web_url_def)

section \<open>The redirect to Strava\<close>

lemma upstream_target:
  assumes "config_ok cfg"
  shows "\<exists>base. url_Parse (cf_UpstreamBaseURL cfg) = Some base \<and> upstreamURL cfg path = Some (JoinPath base path) \<and>
    web_url (JoinPath base path) \<and> u_Host base \<noteq> []"
proof -
  have "base_url_ok (cf_UpstreamBaseURL cfg)" using assms by (simp add: config_ok_def)
  then show ?thesis
    using base_url_ok_web by (fastforce simp: upstreamURL_def web_url_def JoinPath_fields)
qed

lemma authorize_params_lookup:
  "map_of (authorize_params cfg q tok) ''client_id'' = Some [cf_StravaClientID cfg]"
  "map_of (authorize_params cfg q tok) ''redirect_uri'' = Some [CallbackURL cfg]"
  "map_of (authorize_params cfg q tok) ''state'' = Some [tok]"
  "k \<notin> {''client_id'', ''redirect_uri'', ''state''} \<Longrightarrow> map_of (authorize_params cfg q tok) k = map_of q k"
  using map_of_filter_key [of "\<lambda>k. \<not> authorizeOwnedParams k" q k]
  by (auto simp: authorize_params_def authorizeOwnedParams_def)

lemma authorize_params_wf: "wf_values q \<Longrightarrow> wf_values (authorize_params cfg q tok)"
  by (simp add: authorize_params_def)

lemma authorize_redirect_sends:
  assumes "config_ok cfg" "signable (handler_ring env cfg)" "unsent w"
  shows "\<exists>tok base. Seal (e_Flate env) (handler_ring env cfg) DomainState marshal_state payload = Ok tok \<and>
    url_Parse (cf_UpstreamBaseURL cfg) = Some base \<and> web_url (JoinPath base path) \<and>
    redirects_to (authorize_redirect env cfg r path payload w)
      (url_String ((JoinPath base path)\<lparr>u_RawQuery := Encode (authorize_params cfg (rq_Query r) tok)\<rparr>)) \<and>
    w_rw (authorize_redirect env cfg r path payload w) =
      RedirectFound (rq_Method r) (rq_Path r)
        (url_String ((JoinPath base path)\<lparr>u_RawQuery := Encode (authorize_params cfg (rq_Query r) tok)\<rparr>)) (w_rw w)"
proof -
  obtain base where b: "url_Parse (cf_UpstreamBaseURL cfg) = Some base"
    "upstreamURL cfg path = Some (JoinPath base path)" "web_url (JoinPath base path)"
    using upstream_target [OF assms(1)] by blast
  obtain tok where "Seal (e_Flate env) (handler_ring env cfg) DomainState marshal_state payload = Ok tok"
    using state_payload.seal_succeeds assms(2) by blast
  with b show ?thesis
    using redirect_sends [OF b(3) assms(3)] by (simp add: authorize_redirect_def Let_def)
qed

section \<open>Who is redirected\<close>

definition authorize_admits :: "Config \<Rightarrow> Request \<Rightarrow> Client \<Rightarrow> bool" where
  "authorize_admits cfg r client \<longleftrightarrow>
     config_Client cfg (fst (firstParam (rq_Query r) ''client_id'')) = Some client \<and>
     fst (firstParam (rq_Query r) ''redirect_uri'') \<in> set (cl_RedirectURIs client) \<and>
     length (fst (firstParam (rq_Query r) ''state'')) \<le> 1024"

lemma AllowsRedirectURI_iff: "AllowsRedirectURI c uri \<longleftrightarrow> uri \<in> set (cl_RedirectURIs c)"
  by (auto simp: AllowsRedirectURI_def list_ex_iff)

definition state_payload_for :: "Env \<Rightarrow> Request \<Rightarrow> Client \<Rightarrow> string \<Rightarrow> StatePayload" where
  "state_payload_for env r client nonce =
     \<lparr>st_CID = cl_ID client, st_RU = fst (firstParam (rq_Query r) ''redirect_uri''),
      st_ST = fst (firstParam (rq_Query r) ''state''), st_HasST = snd (firstParam (rq_Query r) ''state''),
      st_IAT = unix_seconds (e_Now env 0), st_Nonce = nonce\<rparr>"

lemma authorize_admitted:
  assumes "authorize_admits (holder_Get holder) r client"
  shows "authorize env holder r path w =
    (case issue_nonce env (holder_Get holder) client (SetClientID (cl_ID client) w) of
       None \<Rightarrow> respond writeInternal (logmsg Error ''generating nonce failed'' [] (SetClientID (cl_ID client) w))
     | Some (nonce, w2) \<Rightarrow>
         authorize_redirect env (holder_Get holder) r path (state_payload_for env r client nonce) w2)"
  using assms
  by (cases "firstParam (rq_Query r) ''state''")
    (simp add: authorize_def authorize_admits_def Let_def AllowsRedirectURI_iff MaxCallerStateLen_def
      state_payload_for_def split: option.split)

lemma authorize_refused:
  assumes "\<And>client. \<not> authorize_admits (holder_Get holder) r client"
  shows "\<exists>d w1. authorize env holder r path w = respond (WriteBadRequestPage d) w1 \<and>
    w1 \<in> {w} \<union> range (\<lambda>c. SetClientID c w)"
proof (cases "config_Client (holder_Get holder) (fst (firstParam (rq_Query r) ''client_id''))")
  case None
  then show ?thesis by (auto simp: authorize_def Let_def)
next
  case (Some client)
  with assms [of client] show ?thesis
    by (cases "firstParam (rq_Query r) ''state''")
      (auto simp: authorize_def authorize_admits_def Let_def AllowsRedirectURI_iff MaxCallerStateLen_def)
qed

lemma issue_nonce_unsent: "issue_nonce env cfg client w = Some (n, w2) \<Longrightarrow> unsent w \<Longrightarrow> unsent w2"
  by (auto simp: issue_nonce_def split: if_splits)

lemma issue_nonce_calls: "issue_nonce env cfg client w = Some (n, w2) \<Longrightarrow> w_calls w2 = w_calls w"
  by (auto simp: issue_nonce_def split: if_splits)

lemma issue_nonce_total: "e_Rand env \<noteq> None \<Longrightarrow> \<exists>n w2. issue_nonce env cfg client w = Some (n, w2)"
  by (auto simp: issue_nonce_def newNonce_def)

text \<open>Where an admitted request goes.\<close>

abbreviation nonce_for :: "Client \<Rightarrow> string \<Rightarrow> string" where
  "nonce_for client rnd \<equiv> (if cl_RequireNonceCookie client then rawurl_encode (take 32 rnd) else [])"

lemma authorize_sends:
  assumes "config_ok (holder_Get holder)" "signable (handler_ring env (holder_Get holder))"
    and "e_Rand env = Some rnd" "unsent w" "authorize_admits (holder_Get holder) r client"
  shows "\<exists>tok base. Seal (e_Flate env) (handler_ring env (holder_Get holder)) DomainState marshal_state
        (state_payload_for env r client (nonce_for client rnd)) = Ok tok \<and>
    url_Parse (cf_UpstreamBaseURL (holder_Get holder)) = Some base \<and> web_url (JoinPath base path) \<and>
    redirects_to (authorize env holder r path w) (url_base_string (JoinPath base path) @ CHR ''?'' #
      Encode (authorize_params (holder_Get holder) (rq_Query r) tok))"
proof -
  have "\<exists>w2. issue_nonce env (holder_Get holder) client (SetClientID (cl_ID client) w) = Some (nonce_for client rnd, w2)"
    using assms(3) by (cases "cl_RequireNonceCookie client") (simp_all add: issue_nonce_def newNonce_def nonceLen_def)
  then obtain w2 where
    n: "issue_nonce env (holder_Get holder) client (SetClientID (cl_ID client) w) = Some (nonce_for client rnd, w2)" ..
  have u: "unsent w2" using issue_nonce_unsent [OF n] assms(4) by simp
  obtain tok base where s: "Seal (e_Flate env) (handler_ring env (holder_Get holder)) DomainState marshal_state
        (state_payload_for env r client (nonce_for client rnd)) = Ok tok"
    and b: "url_Parse (cf_UpstreamBaseURL (holder_Get holder)) = Some base" "web_url (JoinPath base path)"
    and t: "redirects_to (authorize_redirect env (holder_Get holder) r path (state_payload_for env r client (nonce_for client rnd)) w2)
      (url_String ((JoinPath base path)\<lparr>u_RawQuery := Encode (authorize_params (holder_Get holder) (rq_Query r) tok)\<rparr>))"
    using authorize_redirect_sends [OF assms(1,2) u] by blast
  let ?out = "authorize_params (holder_Get holder) (rq_Query r) tok"
  have "Encode ?out \<noteq> []"
    by (rule Encode_not_Nil [OF value_count_pos]) (rule authorize_params_lookup(3))
  then have "url_String ((JoinPath base path)\<lparr>u_RawQuery := Encode ?out\<rparr>) =
      url_base_string (JoinPath base path) @ CHR ''?'' # Encode ?out"
    using b(2) by (intro url_String_query) (simp_all add: web_url_def)
  with t n s b show ?thesis
    by (intro exI [of _ tok] exI [of _ base]) (simp add: authorize_admitted [OF assms(5)])
qed

lemma authorize_calls [simp]: "w_calls (authorize env holder r path w) = w_calls w"
  by (auto simp: authorize_def authorize_redirect_def Let_def issue_nonce_calls
      split: option.splits prod.splits sum.splits if_splits)

end
