(* ===== verification/AuthorizeProps.thy ===== *)
theory AuthorizeProps imports
  AuthorizeLaws
  SealProps
begin

text \<open>The properties of the authorize endpoints.\<close>

section \<open>A concrete deployment\<close>

text \<open>A configuration with one client, a compressor that stores, a fixed clock and a Strava that
  answers every call with a small JSON body.\<close>

definition tiny_client :: Client where
  "tiny_client = \<lparr>cl_ID = ''7'', cl_SecretSHA256 = sha256 ''pw'', cl_RedirectURIs = [''https://a.example/cb?x=1''],
     cl_RequireNonceCookie = True\<rparr>"

definition tiny_config :: Config where
  "tiny_config = \<lparr>cf_StravaClientID = ''42'', cf_StravaClientSecret = NewSecret ''real'',
     cf_PublicURL = ''https://p.example'', cf_UpstreamBaseURL = ''https://s.example'',
     cf_ListenAddr = '':8443'', cf_AdminAddr = ''127.0.0.1:9090'', cf_TLSCertFile = [], cf_TLSKeyFile = [],
     cf_DevAllowHTTP = True, cf_StateKeys = [\<lparr>sk_KID = ''k1'', sk_Key = replicate 32 (CHR 0x5C)\<rparr>],
     cf_StateTTL = 900000000000, cf_Clients = [(''7'', tiny_client)]\<rparr>"

definition tiny_reply :: upstream_result where
  "tiny_reply = Reply 200 [(''Content-Type'', [''application/json''])] ''{}'' None"

definition tiny_env :: Env where
  "tiny_env = \<lparr>e_Ring = [], e_Flate = stored_codec, e_Now = (\<lambda>n. (1000 + int n) * second),
     e_Rand = Some (replicate 32 (CHR 0x01)), e_Upstream = (\<lambda>req. tiny_reply)\<rparr>"

definition new_world :: World where
  "new_world = \<lparr>w_rw = new_writer, w_metrics = \<lparr>m_OAuthCallbacks = [], m_TokenExchanges = [], m_UpstreamErrors = []\<rparr>,
     w_log = [], w_client_id = Some [], w_calls = []\<rparr>"

definition get_request :: "string \<Rightarrow> Header \<Rightarrow> Request" where
  "get_request q h = \<lparr>rq_Method = ''GET'', rq_Path = ''/'', rq_RawPath = [], rq_RawQuery = q, rq_Header = h,
     rq_Body = [], rq_BodyClean = True, rq_ContentLength = 0\<rparr>"

definition tiny_authorize :: Request where
  "tiny_authorize = get_request
     (Encode [(''client_id'', [''7'']), (''redirect_uri'', [''https://a.example/cb?x=1'']), (''scope'', [''read,activity:read'']),
              (''state'', [''xyz''])]) []"

lemma tiny_redirect: "redirect_ok ''https://a.example/cb?x=1''"
  by code_simp

lemma tiny_bases: "base_url_ok ''https://p.example''" "base_url_ok ''https://s.example''"
  by code_simp+

lemma tiny_config_ok: "config_ok tiny_config"
  by (simp add: config_ok_def tiny_config_def tiny_bases keys_ok_def key_ok_def validKID_def kid_byte_def
      byte_class client_ok_def tiny_client_def isAllDigits_def tiny_redirect)

lemma tiny_holder [simp]: "holder_Get (NewHolder tiny_config) = tiny_config"
  by (simp add: NewHolder_def holder_Get_def)

lemma tiny_ring: "signable (handler_ring tiny_env tiny_config)"
  using ring_of_signable [OF tiny_config_ok] by (simp add: handler_ring_def tiny_env_def)

lemma new_world_unsent: "unsent new_world" "fresh new_world"
  by (simp_all add: unsent_def fresh_def new_world_def new_writer_def)

lemma tiny_authorize_query: "rq_Query tiny_authorize =
    [(''client_id'', [''7'']), (''redirect_uri'', [''https://a.example/cb?x=1'']), (''scope'', [''read,activity:read'']),
     (''state'', [''xyz''])]"
  by code_simp

lemma tiny_admits: "authorize_admits (holder_Get (NewHolder tiny_config)) tiny_authorize tiny_client"
  by (simp add: authorize_admits_def tiny_authorize_query firstParam_def config_Client_def tiny_config_def
      tiny_client_def NewHolder_def holder_Get_def)

section \<open>Properties\<close>

text \<open>
  C17. The authorize endpoints redirect exactly the requests whose client is registered, whose
  redirect URI is one of that client's, byte for byte, and whose state is at most 1024 bytes; every
  other request gets the 400 page without a Location; no request makes the proxy call Strava.
\<close>

theorem authorize_redirects_iff:
  assumes "config_ok (holder_Get holder)" "signable (handler_ring env (holder_Get holder))"
    and "e_Rand env \<noteq> None" "unsent w"
  shows "w_calls (authorize env holder r path w) = w_calls w \<and>
    (if \<exists>client. authorize_admits (holder_Get holder) r client
     then \<exists>loc. redirects_to (authorize env holder r path w) loc
     else sent_status (w_rw (authorize env holder r path w)) = Some 400 \<and>
       no_location (authorize env holder r path w))"
proof (cases "\<exists>client. authorize_admits (holder_Get holder) r client")
  case True
  then obtain client where c: "authorize_admits (holder_Get holder) r client" by blast
  obtain n w2 where n: "issue_nonce env (holder_Get holder) client (SetClientID (cl_ID client) w) = Some (n, w2)"
    using issue_nonce_total assms(3) by blast
  have "unsent w2" using issue_nonce_unsent [OF n] assms(4) by simp
  from authorize_redirect_sends [OF assms(1,2) this, of "state_payload_for env r client n" path r]
  have "\<exists>loc. redirects_to (authorize env holder r path w) loc"
    unfolding authorize_admitted [OF c] n by auto
  with True show ?thesis by simp
next
  case False
  then obtain d w1 where "authorize env holder r path w = respond (WriteBadRequestPage d) w1"
    and w1: "w1 \<in> {w} \<union> range (\<lambda>c. SetClientID c w)"
    using authorize_refused by blast
  moreover have "unsent w1" using w1 assms(4) by auto
  ultimately have "sent_status (w_rw (authorize env holder r path w)) = Some 400 \<and>
      no_location (authorize env holder r path w)"
    using page_no_location [of w1 d] by simp
  with False show ?thesis by simp
qed

theorem authorize_redirects_iff_witness:
  "(\<exists>loc. redirects_to (Authorize tiny_env (NewHolder tiny_config) tiny_authorize new_world) loc) \<and>
   sent_status (w_rw (Authorize tiny_env (NewHolder tiny_config) (get_request [] []) new_world)) = Some 400"
proof -
  have h: "holder_Get (NewHolder tiny_config) = tiny_config" by (simp add: NewHolder_def holder_Get_def)
  have r: "e_Rand tiny_env \<noteq> None" by (simp add: tiny_env_def)
  have "rq_Query (get_request [] []) = []" by code_simp
  then have n: "\<not> authorize_admits tiny_config (get_request [] []) c" for c
    by (simp add: authorize_admits_def firstParam_def config_Client_def tiny_config_def)
  note t = authorize_redirects_iff [of "NewHolder tiny_config" tiny_env new_world, unfolded h,
      OF tiny_config_ok tiny_ring r new_world_unsent(1)]
  have y: "\<exists>c. authorize_admits tiny_config tiny_authorize c"
    using tiny_admits unfolding h by blast
  have n': "\<not> (\<exists>c. authorize_admits tiny_config (get_request [] []) c)"
    using n by blast
  from t [of tiny_authorize pathAuthorize, unfolded if_P [OF y]]
    t [of "get_request [] []" pathAuthorize, unfolded if_not_P [OF n']]
  show ?thesis unfolding Authorize_def by blast
qed

text \<open>
  C18. Where an admitted request is sent: to the configured Strava host and the endpoint's path,
  with a query that parses back to the caller's own parameters, except that the client id is the real
  one, the redirect URI is the proxy's callback, and the state is the sealed record of the client,
  its redirect URI, its own state (if any), the time and the nonce of the cookie.
\<close>

theorem authorize_location:
  assumes "config_ok (holder_Get holder)" "signable (handler_ring env (holder_Get holder))"
    and "e_Rand env = Some rnd" "unsent w" "authorize_admits (holder_Get holder) r client"
  shows "\<exists>tok base out. Seal (e_Flate env) (handler_ring env (holder_Get holder)) DomainState marshal_state
        (state_payload_for env r client (if cl_RequireNonceCookie client then rawurl_encode (take 32 rnd) else [])) = Ok tok \<and>
    url_Parse (cf_UpstreamBaseURL (holder_Get holder)) = Some base \<and>
    redirects_to (authorize env holder r path w) (url_base_string (JoinPath base path) @ CHR ''?'' # Encode out) \<and>
    map_of out ''client_id'' = Some [cf_StravaClientID (holder_Get holder)] \<and>
    map_of out ''redirect_uri'' = Some [CallbackURL (holder_Get holder)] \<and> map_of out ''state'' = Some [tok] \<and>
    (\<forall>k. k \<notin> {''client_id'', ''redirect_uri'', ''state''} \<longrightarrow> map_of out k = map_of (rq_Query r) k) \<and>
    (value_count out \<le> 10000 \<longrightarrow> ParseQuery (Encode out) = (sort_key fst out, True))"
proof -
  from authorize_sends [OF assms, of path] obtain tok base
    where t: "Seal (e_Flate env) (handler_ring env (holder_Get holder)) DomainState marshal_state
        (state_payload_for env r client (nonce_for client rnd)) = Ok tok"
      "url_Parse (cf_UpstreamBaseURL (holder_Get holder)) = Some base"
      "redirects_to (authorize env holder r path w) (url_base_string (JoinPath base path) @ CHR ''?'' #
        Encode (authorize_params (holder_Get holder) (rq_Query r) tok))"
    by blast
  show ?thesis
    using t parse_encode [OF authorize_params_wf [OF wf_ParseQuery], of "holder_Get holder" "rq_RawQuery r" tok]
    by (intro exI [of _ tok] exI [of _ base] exI [of _ "authorize_params (holder_Get holder) (rq_Query r) tok"])
      (auto simp: authorize_params_lookup rq_Query_def max_query_params_def)
qed

theorem authorize_location_witness:
  "\<exists>base out. url_Parse ''https://s.example'' = Some base \<and>
     redirects_to (Authorize tiny_env (NewHolder tiny_config) tiny_authorize new_world)
       (url_base_string (JoinPath base pathAuthorize) @ CHR ''?'' # Encode out) \<and>
     map_of out ''client_id'' = Some [''42''] \<and> map_of out ''scope'' = Some [''read,activity:read'']"
proof -
  have h: "holder_Get (NewHolder tiny_config) = tiny_config" by (simp add: NewHolder_def holder_Get_def)
  have r: "e_Rand tiny_env = Some (replicate 32 (CHR 0x01))" by (simp add: tiny_env_def)
  from authorize_location [of "NewHolder tiny_config" tiny_env, unfolded h,
      OF tiny_config_ok tiny_ring r new_world_unsent(1) tiny_admits [unfolded h], of pathAuthorize]
  obtain base out where b: "url_Parse (cf_UpstreamBaseURL tiny_config) = Some base"
    "redirects_to (authorize tiny_env (NewHolder tiny_config) tiny_authorize pathAuthorize new_world)
       (url_base_string (JoinPath base pathAuthorize) @ CHR ''?'' # Encode out)"
    "map_of out ''client_id'' = Some [cf_StravaClientID tiny_config]"
    and k: "\<forall>k. k \<notin> {''client_id'', ''redirect_uri'', ''state''} \<longrightarrow>
      map_of out k = map_of (rq_Query tiny_authorize) k"
    by blast
  from k have "map_of out ''scope'' = map_of (rq_Query tiny_authorize) ''scope''" by simp
  then have "map_of out ''scope'' = Some [''read,activity:read'']"
    by (simp add: tiny_authorize_query)
  moreover have "cf_UpstreamBaseURL tiny_config = ''https://s.example''" "cf_StravaClientID tiny_config = ''42''"
    by (simp_all add: tiny_config_def)
  ultimately show ?thesis
    using b unfolding Authorize_def by metis
qed

end
