(* ===== verification/CallbackLaws.thy ===== *)
theory CallbackLaws imports
  AuthorizeLaws
begin

text \<open>Laws of the callback: whom it redirects, with which parameters, and which outcome it counts.\<close>

section \<open>Parameters\<close>

lemma copy_params_lookup:
  "map_of (copy_params q names out) k =
     (if k \<in> set names \<and> snd (firstParam q k) then Some [fst (firstParam q k)] else map_of out k)"
proof (induction names arbitrary: out)
  case (Cons n names)
  have "copy_params q (n # names) out =
      copy_params q names (if snd (firstParam q n) then values_set n (fst (firstParam q n)) out else out)"
    by (simp add: copy_params_def case_prod_beta)
  with Cons show ?case by auto
qed (simp add: copy_params_def)

lemma wf_copy_params [simp, wf_keep]: "wf_values out \<Longrightarrow> wf_values (copy_params q names out)"
proof (induction names arbitrary: out)
  case (Cons n names)
  have "copy_params q (n # names) out =
      copy_params q names (if snd (firstParam q n) then values_set n (fst (firstParam q n)) out else out)"
    by (simp add: copy_params_def case_prod_beta)
  with Cons show ?case by auto
qed (simp add: copy_params_def)

definition with_state :: "StatePayload \<Rightarrow> Values \<Rightarrow> Values" where
  "with_state st out = (if st_HasST st then values_set ''state'' (st_ST st) out else out)"

lemma with_state_lookup:
  "map_of (with_state st out) k = (if k = ''state'' \<and> st_HasST st then Some [st_ST st] else map_of out k)"
  by (simp add: with_state_def)

lemma wf_with_state [simp, wf_keep]: "wf_values out \<Longrightarrow> wf_values (with_state st out)"
  by (simp add: with_state_def)

definition error_out :: "Request \<Rightarrow> URL \<Rightarrow> StatePayload \<Rightarrow> Values" where
  "error_out r dst st =
     with_state st (copy_params (rq_Query r) errorPassthroughParams
       (values_set ''error'' (fst (firstParam (rq_Query r) ''error'')) (url_Query dst)))"

definition code_out :: "Request \<Rightarrow> URL \<Rightarrow> StatePayload \<Rightarrow> string \<Rightarrow> Values" where
  "code_out r dst st wrapped =
     with_state st (copy_params (rq_Query r) [''scope''] (values_set ''code'' wrapped (url_Query dst)))"

lemma error_out_lookup:
  "map_of (error_out r dst st) ''error'' = Some [fst (firstParam (rq_Query r) ''error'')]"
  "k \<in> {''error_description'', ''error_uri''} \<Longrightarrow> snd (firstParam (rq_Query r) k) \<Longrightarrow>
     map_of (error_out r dst st) k = Some [fst (firstParam (rq_Query r) k)]"
  "st_HasST st \<Longrightarrow> map_of (error_out r dst st) ''state'' = Some [st_ST st]"
  "k \<notin> {''error'', ''error_description'', ''error_uri''} \<Longrightarrow> \<not> (k = ''state'' \<and> st_HasST st) \<Longrightarrow>
     map_of (error_out r dst st) k = map_of (url_Query dst) k"
  by (auto simp: error_out_def with_state_lookup copy_params_lookup errorPassthroughParams_def)

lemma code_out_lookup:
  "map_of (code_out r dst st wrapped) ''code'' = Some [wrapped]"
  "snd (firstParam (rq_Query r) ''scope'') \<Longrightarrow>
     map_of (code_out r dst st wrapped) ''scope'' = Some [fst (firstParam (rq_Query r) ''scope'')]"
  "st_HasST st \<Longrightarrow> map_of (code_out r dst st wrapped) ''state'' = Some [st_ST st]"
  "k \<noteq> ''code'' \<Longrightarrow> \<not> (k = ''scope'' \<and> snd (firstParam (rq_Query r) ''scope'')) \<Longrightarrow>
     \<not> (k = ''state'' \<and> st_HasST st) \<Longrightarrow> map_of (code_out r dst st wrapped) k = map_of (url_Query dst) k"
  by (auto simp: code_out_def with_state_lookup copy_params_lookup)

lemma wf_outs [simp, wf_keep]: "wf_values (error_out r dst st)" "wf_values (code_out r dst st wrapped)"
  by (simp_all add: error_out_def code_out_def url_Query_def)

section \<open>The two redirects\<close>

lemma finish_redirects:
  assumes "web_url dst" "unsent w" "map_of (with_state st out) k = Some [v]"
  shows "redirects_to (finishRedirect r dst out st outcome w)
    (url_base_string dst @ CHR ''?'' # Encode (with_state st out))"
proof -
  have "Encode (with_state st out) \<noteq> []"
    using assms(3) by (intro Encode_not_Nil value_count_pos)
  then have e: "url_String (dst\<lparr>u_RawQuery := Encode (with_state st out)\<rparr>) =
      url_base_string dst @ CHR ''?'' # Encode (with_state st out)"
    using assms(1) by (intro url_String_query) (simp_all add: web_url_def)
  have "finishRedirect r dst out st outcome w =
      respond (RedirectFound (rq_Method r) (rq_Path r) (url_String (dst\<lparr>u_RawQuery := Encode (with_state st out)\<rparr>)))
        (inc_callbacks outcome w)"
    by (simp add: finishRedirect_def with_state_def Let_def)
  then show ?thesis
    using redirect_sends [OF assms(1), of "inc_callbacks outcome w" _ _ "with_state st out"] assms(2)
    unfolding e by simp
qed

lemma error_leg_redirects:
  assumes "web_url dst" "unsent w"
  shows "redirects_to (error_leg r dst st (fst (firstParam (rq_Query r) ''error'')) w)
    (url_base_string dst @ CHR ''?'' # Encode (error_out r dst st))"
  unfolding error_leg_def error_out_def
  by (rule finish_redirects [OF assms]) (rule error_out_lookup(1) [unfolded error_out_def])

lemma code_leg_redirects:
  assumes "web_url dst" "unsent w" "fst (firstParam (rq_Query r) ''code'') \<noteq> []"
    and "Seal (e_Flate env) (handler_ring env cfg) DomainCode marshal_code
      \<lparr>cp_CID = st_CID st, cp_SC = fst (firstParam (rq_Query r) ''code''), cp_IAT = unix_seconds (e_Now env 1)\<rparr> = Ok wrapped"
  shows "redirects_to (code_leg env cfg r dst st w)
    (url_base_string dst @ CHR ''?'' # Encode (code_out r dst st wrapped))"
  using assms finish_redirects [OF assms(1,2) code_out_lookup(1) [unfolded code_out_def]]
  by (simp add: code_leg_def code_out_def Let_def)

section \<open>Whom it redirects\<close>

definition callback_admits :: "Config \<Rightarrow> Request \<Rightarrow> StatePayload \<Rightarrow> bool" where
  "callback_admits cfg r st \<longleftrightarrow>
     (case config_Client cfg (st_CID st) of None \<Rightarrow> False
      | Some client \<Rightarrow> st_RU st \<in> set (cl_RedirectURIs client) \<and> (cl_RequireNonceCookie client \<longrightarrow> nonce_matches st r))"

definition strava_answered :: "Request \<Rightarrow> bool" where
  "strava_answered r \<longleftrightarrow> snd (firstParam (rq_Query r) ''error'') \<or> fst (firstParam (rq_Query r) ''code'') \<noteq> []"

lemma admitted_redirect_uri:
  assumes "config_ok cfg" "config_Client cfg cid = Some client" "uri \<in> set (cl_RedirectURIs client)"
  shows "\<exists>u. url_Parse uri = Some u \<and> web_url u \<and> u_Host u \<noteq> []"
proof -
  have "client_ok (cid, client)"
    using assms registry_lookup by (auto simp: config_ok_def config_Client_def)
  then show ?thesis
    using assms(3) by (intro redirect_ok_web) (auto simp: client_ok_def list_all_iff)
qed

text \<open>A rejection is the 400 page with one outcome counted.\<close>

definition rejected :: "World \<Rightarrow> World \<Rightarrow> string \<Rightarrow> bool" where
  "rejected w w' outcome \<longleftrightarrow> sent_status (w_rw w') = Some 400 \<and> no_location w' \<and>
     m_OAuthCallbacks (w_metrics w') = Inc outcome (m_OAuthCallbacks (w_metrics w))"

lemma reject_rejected: "unsent w \<Longrightarrow> rejected w (reject_callback outcome d w) outcome"
  using page_no_location [of "inc_callbacks outcome w" d] by (simp add: rejected_def reject_callback_def)

lemma rejected_cookie [simp]:
  "rejected (respond clearNonceCookie w) w' k = rejected w w' k" "rejected (SetClientID c w) w' k = rejected w w' k"
  by (simp_all add: rejected_def)

definition counted :: "World \<Rightarrow> World \<Rightarrow> string \<Rightarrow> bool" where
  "counted w w' outcome \<longleftrightarrow> m_OAuthCallbacks (w_metrics w') = Inc outcome (m_OAuthCallbacks (w_metrics w))"

lemma callback_target_redirects:
  assumes "url_Parse (st_RU st) = Some dst" "web_url dst" "unsent w" "signable (handler_ring env cfg)"
  shows "if snd (firstParam (rq_Query r) ''error'') then
      redirects_to (callback_target env cfg r st w) (url_base_string dst @ CHR ''?'' # Encode (error_out r dst st)) \<and>
      counted w (callback_target env cfg r st w) outcomeUpstreamError
    else if fst (firstParam (rq_Query r) ''code'') \<noteq> [] then
      (\<exists>wrapped. Seal (e_Flate env) (handler_ring env cfg) DomainCode marshal_code
          \<lparr>cp_CID = st_CID st, cp_SC = fst (firstParam (rq_Query r) ''code''), cp_IAT = unix_seconds (e_Now env 1)\<rparr> = Ok wrapped \<and>
        redirects_to (callback_target env cfg r st w) (url_base_string dst @ CHR ''?'' # Encode (code_out r dst st wrapped)) \<and>
        counted w (callback_target env cfg r st w) outcomeSuccess)
    else rejected w (callback_target env cfg r st w) outcomeMissingCode"
proof -
  obtain wrapped where s: "Seal (e_Flate env) (handler_ring env cfg) DomainCode marshal_code
      \<lparr>cp_CID = st_CID st, cp_SC = fst (firstParam (rq_Query r) ''code''), cp_IAT = unix_seconds (e_Now env 1)\<rparr> = Ok wrapped"
    using code_payload.seal_succeeds assms(4) by blast
  have c: "callback_target env cfg r st w =
      (if snd (firstParam (rq_Query r) ''error'') then error_leg r dst st (fst (firstParam (rq_Query r) ''error'')) w
       else code_leg env cfg r dst st w)"
    using assms(1) by (simp add: callback_target_def case_prod_beta)
  show ?thesis
  proof (cases "snd (firstParam (rq_Query r) ''error'')")
    case True
    with c error_leg_redirects [OF assms(2,3)] show ?thesis
      by (simp add: counted_def error_leg_def finishRedirect_def)
  next
    case False
    show ?thesis
    proof (cases "fst (firstParam (rq_Query r) ''code'') = []")
      case True
      with False c show ?thesis
        using reject_rejected [OF assms(3)] by (simp add: code_leg_def)
    next
      case ne: False
      have "counted w (code_leg env cfg r dst st w) outcomeSuccess"
        using ne s by (simp add: counted_def code_leg_def finishRedirect_def Let_def)
      with False ne s c code_leg_redirects [OF assms(2,3) ne s] show ?thesis by auto
    qed
  qed
qed

section \<open>The whole handler\<close>

abbreviation open_state :: "Env \<Rightarrow> Config \<Rightarrow> Request \<Rightarrow> (seal_error, StatePayload) result" where
  "open_state env cfg r \<equiv> Open (e_Flate env) (handler_ring env cfg) DomainState (fst (firstParam (rq_Query r) ''state''))
     unmarshal_state (cf_StateTTL cfg) (e_Now env 0)"

lemma callback_bad_state:
  assumes "open_state env (holder_Get holder) r = Err e" "unsent w"
  shows "rejected w (Callback env holder r w) (if errors_is e ErrExpired then outcomeExpiredState else outcomeBadState)"
  using assms page_no_location
  by (simp add: Callback_def Let_def rejected_def)

lemma callback_admitted:
  assumes "callback_admits cfg r st"
  shows "\<exists>client w1. config_Client cfg (st_CID st) = Some client \<and> st_RU st \<in> set (cl_RedirectURIs client) \<and>
    w1 \<in> {w, respond clearNonceCookie w} \<and> callback_client env cfg r st w = callback_target env cfg r st w1"
  using assms
  by (auto simp: callback_admits_def callback_client_def AllowsRedirectURI_iff Let_def split: option.splits)

lemma callback_refused:
  assumes "\<not> callback_admits cfg r st" "unsent w"
  shows "\<exists>k \<in> {outcomeUnknownClient, outcomeRedirectRevoked, outcomeNonceMismatch}.
    rejected w (callback_client env cfg r st w) k"
proof (cases "config_Client cfg (st_CID st)")
  case None
  then show ?thesis using reject_rejected [OF assms(2)] by (auto simp: callback_client_def)
next
  case (Some client)
  with assms(1) show ?thesis
    using reject_rejected [OF assms(2)] reject_rejected [of "respond clearNonceCookie w"] assms(2)
    by (auto simp: callback_client_def callback_admits_def AllowsRedirectURI_iff Let_def)
qed

lemma Callback_opened:
  "open_state env (holder_Get holder) r = Ok st \<Longrightarrow>
   Callback env holder r w = callback_client env (holder_Get holder) r st (SetClientID (st_CID st) w)"
  by (simp add: Callback_def Let_def)

lemma callback_calls [simp]: "w_calls (Callback env holder r w) = w_calls w"
  by (simp add: Callback_def callback_client_def callback_target_def error_leg_def code_leg_def finishRedirect_def
      reject_callback_def Let_def split: sum.split option.split prod.split)

end
