(* ===== verification/CallbackProps.thy ===== *)
theory CallbackProps imports
  CallbackLaws
  AuthorizeProps
begin

text \<open>The properties of the callback endpoint.\<close>

section \<open>Its outcomes\<close>

lemma rejected_no_redirect: "rejected w w' k \<Longrightarrow> \<not> redirects_to w' loc"
  by (auto simp: rejected_def no_location_redirects)

lemma callback_admitted_redirects:
  assumes "config_ok cfg" "signable (handler_ring env cfg)" "unsent w" "callback_admits cfg r st"
  shows "\<exists>client dst. config_Client cfg (st_CID st) = Some client \<and> st_RU st \<in> set (cl_RedirectURIs client) \<and>
    url_Parse (st_RU st) = Some dst \<and> web_url dst \<and> u_Host dst \<noteq> [] \<and>
    (if snd (firstParam (rq_Query r) ''error'') then
      redirects_to (callback_client env cfg r st w) (url_base_string dst @ CHR ''?'' # Encode (error_out r dst st)) \<and>
      counted w (callback_client env cfg r st w) outcomeUpstreamError
    else if fst (firstParam (rq_Query r) ''code'') \<noteq> [] then
      (\<exists>wrapped. Seal (e_Flate env) (handler_ring env cfg) DomainCode marshal_code
          \<lparr>cp_CID = st_CID st, cp_SC = fst (firstParam (rq_Query r) ''code''), cp_IAT = unix_seconds (e_Now env 1)\<rparr> = Ok wrapped \<and>
        redirects_to (callback_client env cfg r st w) (url_base_string dst @ CHR ''?'' # Encode (code_out r dst st wrapped)) \<and>
        counted w (callback_client env cfg r st w) outcomeSuccess)
    else rejected w (callback_client env cfg r st w) outcomeMissingCode)"
proof -
  obtain client w1 where c: "config_Client cfg (st_CID st) = Some client" "st_RU st \<in> set (cl_RedirectURIs client)"
    and w1: "w1 \<in> {w, respond clearNonceCookie w}"
    and t: "callback_client env cfg r st w = callback_target env cfg r st w1"
    using callback_admitted [OF assms(4)] by blast
  obtain dst where d: "url_Parse (st_RU st) = Some dst" "web_url dst" "u_Host dst \<noteq> []"
    using admitted_redirect_uri [OF assms(1) c] by blast
  have u: "unsent w1" and e: "\<And>w' k. counted w1 w' k = counted w w' k" "\<And>w' k. rejected w1 w' k = rejected w w' k"
    using w1 assms(3) by (auto simp: counted_def)
  show ?thesis
    unfolding t using callback_target_redirects [OF d(1,2) u assms(2), of r, unfolded e] c d
    by (intro exI conjI) assumption+
qed

lemma rejected_SetClientID: "counted (SetClientID c w) w' k = counted w w' k"
  by (simp add: counted_def)

text \<open>
  C19. Every callback has exactly one outcome, counted once under its name, and never calls Strava: a
  state that does not open, is expired, names a client or a redirect URI that is no longer
  registered, or misses its nonce, and an answer with neither error nor code, is the 400 page without
  a Location; everything else redirects.
\<close>

theorem callback_outcomes:
  assumes "config_ok (holder_Get holder)" "signable (handler_ring env (holder_Get holder))" "unsent w"
  shows "w_calls (Callback env holder r w) = w_calls w \<and>
    (case open_state env (holder_Get holder) r of
       Inl e \<Rightarrow> rejected w (Callback env holder r w) (if errors_is e ErrExpired then ''expired_state'' else ''bad_state'')
     | Inr st \<Rightarrow>
         if \<not> callback_admits (holder_Get holder) r st then
           (\<exists>k. k \<in> {''unknown_client'', ''redirect_uri_revoked'', ''nonce_mismatch''} \<and> rejected w (Callback env holder r w) k)
         else if \<not> strava_answered r then rejected w (Callback env holder r w) ''missing_code''
         else (\<exists>loc. redirects_to (Callback env holder r w) loc) \<and>
           counted w (Callback env holder r w)
             (if snd (firstParam (rq_Query r) ''error'') then ''upstream_error'' else ''success''))"
proof (cases "open_state env (holder_Get holder) r")
  case (Inl e)
  with callback_bad_state [OF this assms(3)] show ?thesis
    by (cases "errors_is e ErrExpired") (simp_all add: outcomeExpiredState_def outcomeBadState_def)
next
  case (Inr st)
  let ?w = "SetClientID (st_CID st) w"
  have u: "unsent ?w" using assms(3) by simp
  note o = Callback_opened [OF Inr]
  show ?thesis
  proof (cases "callback_admits (holder_Get holder) r st")
    case True
    obtain dst where "if snd (firstParam (rq_Query r) ''error'') then
        redirects_to (Callback env holder r w) (url_base_string dst @ CHR ''?'' # Encode (error_out r dst st)) \<and>
        counted w (Callback env holder r w) outcomeUpstreamError
      else if fst (firstParam (rq_Query r) ''code'') \<noteq> [] then
        (\<exists>wrapped. redirects_to (Callback env holder r w) (url_base_string dst @ CHR ''?'' # Encode (code_out r dst st wrapped))) \<and>
        counted w (Callback env holder r w) outcomeSuccess
      else rejected w (Callback env holder r w) outcomeMissingCode"
      using callback_admitted_redirects [OF assms(1,2) u True]
      unfolding o [symmetric] rejected_cookie rejected_SetClientID by (elim exE conjE) (rule that, auto split: if_splits)
    then show ?thesis
      using True by (simp add: Inr strava_answered_def outcomeUpstreamError_def outcomeSuccess_def
          outcomeMissingCode_def split: if_splits) blast+
  next
    case False
    from callback_refused [OF this u, of env] False show ?thesis
      by (auto simp: Inr o [symmetric] outcomeUnknownClient_def outcomeRedirectRevoked_def outcomeNonceMismatch_def)
  qed
qed

text \<open>A callback without a state parameter, and one carrying a state sealed a moment earlier.\<close>

lemma empty_query: "rq_Query (get_request [] h) = []"
  by (simp add: rq_Query_def get_request_def ParseQuery_def)

lemma empty_state: "open_state tiny_env tiny_config (get_request [] []) = Err (WrongParts 1)"
proof -
  have "handler_ring tiny_env tiny_config \<noteq> []" using tiny_ring by (auto simp: signable_def)
  then show ?thesis
    by (simp add: empty_query firstParam_def Open_def open_fields_def numParts_def)
qed

theorem callback_outcomes_witness:
  "rejected new_world (Callback tiny_env (NewHolder tiny_config) (get_request [] []) new_world) ''bad_state''"
  using callback_outcomes [of "NewHolder tiny_config" tiny_env new_world "get_request [] []", unfolded tiny_holder,
      OF tiny_config_ok tiny_ring new_world_unsent(1)]
  by (simp only: empty_state sum.case) simp

section \<open>Where it redirects\<close>

lemma callback_redirect_opened:
  assumes "redirects_to (Callback env holder r w) loc" "unsent w"
  obtains st where "open_state env (holder_Get holder) r = Ok st"
    "callback_admits (holder_Get holder) r st"
    "redirects_to (callback_client env (holder_Get holder) r st (SetClientID (st_CID st) w)) loc"
proof (cases "open_state env (holder_Get holder) r")
  case (Inl e)
  from callback_bad_state [OF this assms(2)] rejected_no_redirect assms(1) show ?thesis by blast
next
  case (Inr st)
  have u: "unsent (SetClientID (st_CID st) w)" using assms(2) by simp
  have r: "redirects_to (callback_client env (holder_Get holder) r st (SetClientID (st_CID st) w)) loc"
    using assms(1) Callback_opened [OF Inr] by simp
  have "callback_admits (holder_Get holder) r st"
    using callback_refused [OF _ u, of "holder_Get holder" r st env] rejected_no_redirect r by blast
  with that Inr r show ?thesis by blast
qed

text \<open>
  C20. Wherever the callback redirects to was authenticated: the state opens, its client is
  registered and still has its redirect URI, which is the Location up to the query; the browser
  holds the nonce if the client asks for it; the query carries the caller's state back, Strava's
  error as it came or the code sealed for this client only, and otherwise what the registered URI
  had.
\<close>

theorem callback_location:
  assumes "config_ok (holder_Get holder)" "signable (handler_ring env (holder_Get holder))" "unsent w"
    and "redirects_to (Callback env holder r w) loc"
  shows "\<exists>st client dst out. open_state env (holder_Get holder) r = Inr st \<and>
    config_Client (holder_Get holder) (st_CID st) = Some client \<and> st_RU st \<in> set (cl_RedirectURIs client) \<and>
    (cl_RequireNonceCookie client \<longrightarrow> nonce_matches st r) \<and>
    url_Parse (st_RU st) = Some dst \<and> loc = url_base_string dst @ CHR ''?'' # Encode out \<and>
    (st_HasST st \<longrightarrow> map_of out ''state'' = Some [st_ST st]) \<and>
    (if snd (firstParam (rq_Query r) ''error'')
     then map_of out ''error'' = Some [fst (firstParam (rq_Query r) ''error'')] \<and>
       map_of out ''code'' = map_of (url_Query dst) ''code''
     else \<exists>wrapped. Seal (e_Flate env) (handler_ring env (holder_Get holder)) DomainCode marshal_code
         \<lparr>cp_CID = st_CID st, cp_SC = fst (firstParam (rq_Query r) ''code''), cp_IAT = unix_seconds (e_Now env 1)\<rparr>
           = Inr wrapped \<and>
       map_of out ''code'' = Some [wrapped]) \<and>
    (\<forall>k. k \<notin> {''error'', ''error_description'', ''error_uri'', ''code'', ''scope'', ''state''} \<longrightarrow>
      map_of out k = map_of (url_Query dst) k)"
proof -
  obtain st where st: "open_state env (holder_Get holder) r = Ok st" "callback_admits (holder_Get holder) r st"
    and red: "redirects_to (callback_client env (holder_Get holder) r st (SetClientID (st_CID st) w)) loc"
    using callback_redirect_opened [OF assms(4,3)] .
  have u: "unsent (SetClientID (st_CID st) w)" using assms(3) by simp
  obtain client dst where c: "config_Client (holder_Get holder) (st_CID st) = Some client"
      "st_RU st \<in> set (cl_RedirectURIs client)" "url_Parse (st_RU st) = Some dst"
    and s: "if snd (firstParam (rq_Query r) ''error'') then
        redirects_to (callback_client env (holder_Get holder) r st (SetClientID (st_CID st) w))
          (url_base_string dst @ CHR ''?'' # Encode (error_out r dst st))
      else if fst (firstParam (rq_Query r) ''code'') \<noteq> [] then
        (\<exists>wrapped. Seal (e_Flate env) (handler_ring env (holder_Get holder)) DomainCode marshal_code
          \<lparr>cp_CID = st_CID st, cp_SC = fst (firstParam (rq_Query r) ''code''), cp_IAT = unix_seconds (e_Now env 1)\<rparr>
            = Ok wrapped \<and>
          redirects_to (callback_client env (holder_Get holder) r st (SetClientID (st_CID st) w))
            (url_base_string dst @ CHR ''?'' # Encode (code_out r dst st wrapped)))
      else rejected (SetClientID (st_CID st) w)
        (callback_client env (holder_Get holder) r st (SetClientID (st_CID st) w)) outcomeMissingCode"
    using callback_admitted_redirects [OF assms(1,2) u st(2)]
    by (elim exE conjE) (rule that, assumption+, auto split: if_splits)
  have n: "cl_RequireNonceCookie client \<longrightarrow> nonce_matches st r"
    using st(2) c(1) by (simp add: callback_admits_def)
  show ?thesis
  proof (cases "snd (firstParam (rq_Query r) ''error'')")
    case True
    with s have l: "loc = url_base_string dst @ CHR ''?'' # Encode (error_out r dst st)"
      using redirects_unique [OF red] by simp
    show ?thesis
      unfolding if_P [OF True]
      by (rule exI [of _ st], rule exI [of _ client], rule exI [of _ dst], rule exI [of _ "error_out r dst st"])
        (simp add: st c n l error_out_lookup)
  next
    case False
    have ne: "fst (firstParam (rq_Query r) ''code'') \<noteq> []"
    proof
      assume "fst (firstParam (rq_Query r) ''code'') = []"
      with s False have "rejected (SetClientID (st_CID st) w)
          (callback_client env (holder_Get holder) r st (SetClientID (st_CID st) w)) outcomeMissingCode" by simp
      with rejected_no_redirect red show False by blast
    qed
    with s False obtain wrapped
      where w: "Seal (e_Flate env) (handler_ring env (holder_Get holder)) DomainCode marshal_code
          \<lparr>cp_CID = st_CID st, cp_SC = fst (firstParam (rq_Query r) ''code''), cp_IAT = unix_seconds (e_Now env 1)\<rparr>
            = Ok wrapped"
      and l: "loc = url_base_string dst @ CHR ''?'' # Encode (code_out r dst st wrapped)"
      using redirects_unique [OF red] by (auto split: if_splits)
    show ?thesis
      unfolding if_not_P [OF False]
      by (rule exI [of _ st], rule exI [of _ client], rule exI [of _ dst], rule exI [of _ "code_out r dst st wrapped"])
        (simp add: st c n l w code_out_lookup del: One_nat_def)
  qed
qed

text \<open>Strava's answer to a sealed authorization.\<close>

definition tiny_state :: StatePayload where
  "tiny_state = \<lparr>st_CID = ''7'', st_RU = ''https://a.example/cb?x=1'', st_ST = ''xyz'', st_HasST = True,
     st_IAT = 1000, st_Nonce = ''n''\<rparr>"

definition answer_request :: "string \<Rightarrow> Header \<Rightarrow> Request" where
  "answer_request tok h = get_request (Encode [(''state'', [tok]), (''code'', [''abc''])]) h"

lemma answer_query: "map_of (rq_Query (answer_request tok h)) ''state'' = Some [tok]"
    "map_of (rq_Query (answer_request tok h)) ''code'' = Some [''abc'']"
    "map_of (rq_Query (answer_request tok h)) ''error'' = None"
proof -
  let ?v = "[(''state'', [tok]), (''code'', [''abc''])]"
  have "ParseQuery (Encode ?v) = (sort_key fst ?v, True)"
    by (rule parse_encode) (simp_all add: wf_values_def value_count_def max_query_params_def)
  then have "rq_Query (answer_request tok h) = sort_key fst ?v"
    by (simp add: rq_Query_def answer_request_def get_request_def)
  moreover have "sort_key fst ?v = [(''code'', [''abc'']), (''state'', [tok])]" by simp
  ultimately show "map_of (rq_Query (answer_request tok h)) ''state'' = Some [tok]"
    "map_of (rq_Query (answer_request tok h)) ''code'' = Some [''abc'']"
    "map_of (rq_Query (answer_request tok h)) ''error'' = None" by simp_all
qed

lemma tiny_parse: "url_Parse ''https://a.example/cb?x=1'' = Some \<lparr>u_Scheme = ''https'', u_Opaque = [], u_User = None,
    u_Host = ''a.example'', u_Path = ''/cb'', u_RawPath = [], u_OmitHost = False, u_ForceQuery = False,
    u_RawQuery = ''x=1'', u_Fragment = [], u_RawFragment = []\<rparr>"
  by code_simp

definition nonce_header :: Header where
  "nonce_header = [(''Cookie'', [''__Host-sap_nonce=n''])]"

lemma tiny_state_opens:
  "\<exists>tok. Seal stored_codec (handler_ring tiny_env tiny_config) DomainState marshal_state tiny_state = Inr tok \<and>
     open_state tiny_env tiny_config (answer_request tok h) = Inr tiny_state"
proof -
  let ?r = "handler_ring tiny_env tiny_config"
  obtain tok where t: "Seal stored_codec ?r DomainState marshal_state tiny_state = Inr tok"
    using state_payload.seal_succeeds tiny_ring by blast
  have f: "state_fits tiny_state" "clean_state tiny_state = tiny_state"
    by (simp_all add: tiny_state_def state_fits_def clean_state_def maxPayloadBytes_def valid_utf8_ascii)
  have w: "iat_window (time_unix 1000) 900000000000 1000000000000 = Inr ()"
    by (simp add: iat_window_Ok time_unix_exact unix_to_internal_def time_sub_exact maxClockSkew_def)
  from state_round [OF stored_lossless _ f(1) t ring_key_hd [OF tiny_ring], of 900000000000 1000000000000]
  have "Open stored_codec ?r DomainState tok unmarshal_state 900000000000 1000000000000 = Inr tiny_state"
    unfolding f(2) by (simp add: tiny_state_def w)
  then have "open_state tiny_env tiny_config (answer_request tok h) = Inr tiny_state"
    by (simp add: firstParam_def answer_query) (simp add: tiny_env_def tiny_config_def)
  with t show ?thesis by blast
qed

lemma tiny_callback_admits: "callback_admits tiny_config (answer_request tok nonce_header) tiny_state"
proof -
  have "read_cookie nonce_header NonceCookieName = Some ''n''" by code_simp
  then have "nonce_matches tiny_state (answer_request tok nonce_header)"
    by (simp add: nonce_matches_def tiny_state_def answer_request_def get_request_def)
  then show ?thesis
    by (simp add: callback_admits_def config_Client_def tiny_config_def tiny_client_def tiny_state_def)
qed

lemma tiny_callback_redirects:
  assumes "open_state tiny_env tiny_config (answer_request tok nonce_header) = Inr tiny_state"
  shows "\<exists>loc. redirects_to (Callback tiny_env (NewHolder tiny_config) (answer_request tok nonce_header) new_world) loc"
proof -
  have u: "unsent (SetClientID (st_CID tiny_state) new_world)" using new_world_unsent by simp
  have "snd (firstParam (rq_Query (answer_request tok nonce_header)) ''error'') = False"
    "fst (firstParam (rq_Query (answer_request tok nonce_header)) ''code'') \<noteq> []"
    by (simp_all add: firstParam_def answer_query)
  with callback_admitted_redirects [OF tiny_config_ok tiny_ring u tiny_callback_admits [of tok]]
  show ?thesis
    unfolding Callback_opened [of tiny_env "NewHolder tiny_config", unfolded tiny_holder, OF assms] by auto
qed

theorem callback_location_witness:
  "\<exists>tok loc. Seal stored_codec (handler_ring tiny_env tiny_config) DomainState marshal_state tiny_state = Inr tok \<and>
     redirects_to (Callback tiny_env (NewHolder tiny_config) (answer_request tok nonce_header) new_world) loc \<and>
     take 20 loc = ''https://a.example/cb''"
proof -
  obtain tok where t: "Seal stored_codec (handler_ring tiny_env tiny_config) DomainState marshal_state tiny_state = Inr tok"
    and o: "open_state tiny_env tiny_config (answer_request tok nonce_header) = Inr tiny_state"
    using tiny_state_opens by blast
  obtain loc where l: "redirects_to (Callback tiny_env (NewHolder tiny_config) (answer_request tok nonce_header) new_world) loc"
    using tiny_callback_redirects [OF o] ..
  from callback_location [of "NewHolder tiny_config", unfolded tiny_holder, OF tiny_config_ok tiny_ring new_world_unsent(1) l]
  obtain st dst out where "open_state tiny_env tiny_config (answer_request tok nonce_header) = Inr st"
    "url_Parse (st_RU st) = Some dst" "loc = url_base_string dst @ CHR ''?'' # Encode out"
    by (elim exE conjE) (rule that, assumption+)
  moreover have "map_option url_base_string (url_Parse ''https://a.example/cb?x=1'') = Some ''https://a.example/cb''"
    by (simp only: tiny_parse) code_simp
  ultimately have "take 20 loc = ''https://a.example/cb''"
    using o by (auto simp: tiny_state_def)
  with t l show ?thesis by blast
qed

end
