(* ===== verification/TokenLaws.thy ===== *)
theory TokenLaws imports
  ServerLaws
  UrlLaws
begin

text \<open>
  Laws of the server-to-server endpoints: what the token endpoint sends to Strava and on whose
  authority, which counters it touches, and what the pass-through endpoints forward.
\<close>

section \<open>Fixed targets\<close>

text \<open>The address of an endpoint of Strava: the configured base joined with a constant path, when the
  rendered URL parses again.\<close>

definition strava_target :: "Config \<Rightarrow> string \<Rightarrow> string option" where
  "strava_target cfg path =
     (case upstreamURL cfg path of None \<Rightarrow> None
      | Some t \<Rightarrow> if url_Parse (url_String t) = None then None else Some (url_String t))"

lemma strava_target_Some:
  "strava_target cfg path = Some url \<longleftrightarrow>
   (\<exists>t. upstreamURL cfg path = Some t \<and> url = url_String t \<and> url_Parse url \<noteq> None)"
  by (auto simp: strava_target_def split: option.splits)

lemma new_request_Some:
  "new_request m url b c = Some req \<longleftrightarrow> url_Parse url \<noteq> None \<and>
     req = \<lparr>or_Method = m, or_URL = url, or_Header = [], or_Body = b, or_BodyClean = c, or_ContentLength = int (length b)\<rparr>"
  by (auto simp: new_request_def split: option.splits)

section \<open>Who may exchange\<close>

definition token_client :: "Config \<Rightarrow> Values \<Rightarrow> Client \<Rightarrow> bool" where
  "token_client cfg form client \<longleftrightarrow>
     config_Client cfg (values_get form ''client_id'') = Some client \<and>
     VerifySecret client (values_get form ''client_secret'')"

text \<open>The parameters of the exchange: a wrapped code opened for this client when the first grant type
  is the authorization-code grant, any other form as it came.\<close>

definition exchange_params :: "Env \<Rightarrow> Config \<Rightarrow> Client \<Rightarrow> Values \<Rightarrow> Values option" where
  "exchange_params env cfg client form =
     (let out = filter (\<lambda>kv. \<not> tokenOwnedParams (fst kv)) form
      in if values_get form ''grant_type'' = grantAuthorizationCode then
           (case Open (e_Flate env) (handler_ring env cfg) DomainCode (values_get form ''code'') unmarshal_code
                  (cf_StateTTL cfg) (e_Now env 0) of
              Inl e \<Rightarrow> None
            | Inr cp \<Rightarrow> if cp_CID cp = cl_ID client then Some (values_set ''code'' (cp_SC cp) out) else None)
         else Some out)"

definition exchange_request :: "string \<Rightarrow> Config \<Rightarrow> Values \<Rightarrow> OutRequest" where
  "exchange_request url cfg out =
     \<lparr>or_Method = ''POST'', or_URL = url,
      or_Header = header_set ''Accept'' ''application/json'' (header_set ''Content-Type'' contentTypeForm []),
      or_Body = Encode (token_params cfg out), or_BodyClean = True,
      or_ContentLength = int (length (Encode (token_params cfg out)))\<rparr>"

definition exchange_outcome :: "nat \<Rightarrow> string" where
  "exchange_outcome status = (if status = 0 then outcomeUpstreamError else statusOutcome status)"

lemma token_upstream_call:
  assumes "strava_target cfg pathToken = Some url"
  shows "token_upstream env cfg grant out w =
    inc_exchanges (metrics_key grant (exchange_outcome (fst (relay env (exchange_request url cfg out) ''token'' w))))
      (snd (relay env (exchange_request url cfg out) ''token'' w))"
proof -
  obtain t where t: "upstreamURL cfg pathToken = Some t" "url = url_String t" "url_Parse (url_String t) \<noteq> None"
    using assms by (auto simp: strava_target_Some)
  then have "token_request (url_String t) (Encode (token_params cfg out)) = Some (exchange_request url cfg out)"
    by (auto simp: token_request_def new_request_def exchange_request_def)
  then show ?thesis
    by (simp add: token_upstream_def t(1) exchange_outcome_def case_prod_beta)
qed

lemma token_exchange_cases:
  "token_exchange env cfg client form w =
     (case exchange_params env cfg client form of
        Some out \<Rightarrow> token_upstream env cfg (values_get form ''grant_type'') out w
      | None \<Rightarrow> token_exchange env cfg client form w)"
  by (auto simp: token_exchange_def exchange_params_def unwrap_code_def Let_def split: sum.splits option.splits)

lemma token_exchange_refused:
  assumes "exchange_params env cfg client form = None"
  shows "\<exists>attrs msg. token_exchange env cfg client form w =
    respond WriteInvalidCode (logmsg Warn msg attrs
      (inc_exchanges (metrics_key grantAuthorizationCode outcomeBadCode) w))"
  using assms
  by (auto simp: token_exchange_def exchange_params_def unwrap_code_def Let_def split: sum.splits if_splits)

text \<open>The whole endpoint: refused by one of the minted bodies, or forwarded.\<close>

lemma Token_malformed:
  assumes "ParseForm r = (form, False)"
  shows "Token env holder r w = reject_token (metrics_key [] outcomeMalformedRequest) WriteInvalidClientID w"
  using assms by (simp add: Token_def)

lemma Token_stranger:
  assumes "ParseForm r = (form, True)" "config_Client (holder_Get holder) (values_get form ''client_id'') = None"
  shows "Token env holder r w =
    reject_token (metrics_key (values_get form ''grant_type'') outcomeBadClientID) WriteInvalidClientID w"
  using assms by (simp add: Token_def)

lemma Token_impostor:
  assumes "ParseForm r = (form, True)" "config_Client (holder_Get holder) (values_get form ''client_id'') = Some client"
    "\<not> VerifySecret client (values_get form ''client_secret'')"
  shows "Token env holder r w =
    reject_token (metrics_key (values_get form ''grant_type'') outcomeBadClientSecret) WriteInvalidClientSecret
      (SetClientID (cl_ID client) w)"
  using assms by (simp add: Token_def Let_def)

lemma Token_authenticated:
  assumes "ParseForm r = (form, True)" "token_client (holder_Get holder) form client"
  shows "Token env holder r w = token_exchange env (holder_Get holder) client form (SetClientID (cl_ID client) w)"
  using assms by (simp add: Token_def token_client_def Let_def)

lemma Token_cases:
  obtains (malformed) form where "ParseForm r = (form, False)"
  | (stranger) form where "ParseForm r = (form, True)" "config_Client (holder_Get holder) (values_get form ''client_id'') = None"
  | (impostor) form client where "ParseForm r = (form, True)"
      "config_Client (holder_Get holder) (values_get form ''client_id'') = Some client"
      "\<not> VerifySecret client (values_get form ''client_secret'')"
  | (refused) form client where "ParseForm r = (form, True)" "token_client (holder_Get holder) form client"
      "exchange_params env (holder_Get holder) client form = None"
  | (forwarded) form client out where "ParseForm r = (form, True)" "token_client (holder_Get holder) form client"
      "exchange_params env (holder_Get holder) client form = Some out"
proof -
  obtain form good where f: "ParseForm r = (form, good)" by fastforce
  show ?thesis
  proof (cases good)
    case True
    show ?thesis
    proof (cases "config_Client (holder_Get holder) (values_get form ''client_id'')")
      case None
      with f True show ?thesis by (auto intro: stranger)
    next
      case (Some client)
      show ?thesis
      proof (cases "VerifySecret client (values_get form ''client_secret'')")
        case True
        with Some have "token_client (holder_Get holder) form client" by (simp add: token_client_def)
        with f \<open>good\<close> refused forwarded show ?thesis
          by (cases "exchange_params env (holder_Get holder) client form") auto
      next
        case False
        with f \<open>good\<close> Some impostor show ?thesis by auto
      qed
    qed
  next
    case False
    with f malformed show ?thesis by auto
  qed
qed

lemma Token_forwarded:
  assumes "ParseForm r = (form, True)" "token_client (holder_Get holder) form client"
    and "exchange_params env (holder_Get holder) client form = Some out"
  shows "Token env holder r w =
    token_upstream env (holder_Get holder) (values_get form ''grant_type'') out (SetClientID (cl_ID client) w)"
  using Token_authenticated [OF assms(1,2)] token_exchange_cases [of env "holder_Get holder" client form] assms(3)
  by simp

section \<open>The parameters sent\<close>

lemma wf_token_params [simp, wf_keep]: "wf_values out \<Longrightarrow> wf_values (token_params cfg out)"
  by (simp add: token_params_def)

lemma token_params_lookup:
  "map_of (token_params cfg out) ''client_id'' = Some [cf_StravaClientID cfg]"
  "map_of (token_params cfg out) ''client_secret'' = Some [Reveal (cf_StravaClientSecret cfg)]"
  "k \<notin> {''client_id'', ''client_secret''} \<Longrightarrow> map_of (token_params cfg out) k = map_of out k"
  by (auto simp: token_params_def)

lemma wf_exchange_params: "exchange_params env cfg client form = Some out \<Longrightarrow> wf_values form \<Longrightarrow> wf_values out"
  by (auto simp: exchange_params_def Let_def split: if_splits sum.splits)

lemma exchange_params_lookup:
  assumes "exchange_params env cfg client form = Some out"
  shows "k \<notin> {''client_id'', ''client_secret'', ''code''} \<Longrightarrow> map_of out k = map_of form k"
  using assms map_of_filter_key [of "\<lambda>k. \<not> tokenOwnedParams k" form k]
  by (auto simp: exchange_params_def tokenOwnedParams_def Let_def split: if_splits sum.splits)

lemma exchange_params_code:
  assumes "exchange_params env cfg client form = Some out"
  shows "if values_get form ''grant_type'' = grantAuthorizationCode
    then \<exists>cp. Open (e_Flate env) (handler_ring env cfg) DomainCode (values_get form ''code'') unmarshal_code
        (cf_StateTTL cfg) (e_Now env 0) = Inr cp \<and> cp_CID cp = cl_ID client \<and> map_of out ''code'' = Some [cp_SC cp]
    else map_of out ''code'' = map_of form ''code''"
  using assms map_of_filter_key [of "\<lambda>k. \<not> tokenOwnedParams k" form "''code''"]
  by (auto simp: exchange_params_def tokenOwnedParams_def Let_def split: if_splits sum.splits)

section \<open>Counters\<close>

text \<open>The keys the token endpoint can ever count under: four grants and six outcomes.\<close>

definition exchange_keys :: "string list" where
  "exchange_keys = [g @ '':'' @ k. g \<leftarrow> [grantAuthorizationCode, grantRefreshToken, ''none'', ''other''],
     k \<leftarrow> [outcomeSuccess, outcomeUpstreamError, outcomeInternal, outcomeMalformedRequest, outcomeBadClientID,
          outcomeBadClientSecret, outcomeBadCode]]"

lemma metrics_key_bounded:
  assumes "k \<in> {outcomeSuccess, outcomeUpstreamError, outcomeInternal, outcomeMalformedRequest, outcomeBadClientID,
          outcomeBadClientSecret, outcomeBadCode}"
  shows "metrics_key g k \<in> set exchange_keys"
  using assms unfolding exchange_keys_def metrics_key_def Let_def by auto

lemma exchange_keys_distinct: "distinct exchange_keys" "[] \<notin> set exchange_keys"
  by code_simp+

lemma length_exchange_keys: "length exchange_keys = 28"
  by (simp add: exchange_keys_def)

lemma counted_once:
  assumes "k \<in> set exchange_keys"
  shows "sum_list (map (count_of (Inc k m)) exchange_keys) = Suc (sum_list (map (count_of m) exchange_keys))"
proof -
  have "sum_list (map (count_of (Inc k m)) ks) = sum_list (map (count_of m) ks) + (if k \<in> set ks then 1 else 0)"
    if "distinct ks" for ks
    using that assms exchange_keys_distinct(2) by (induction ks) (auto simp: count_of_Inc)
  with assms exchange_keys_distinct(1) show ?thesis by simp
qed

lemma relay_exchanges [simp]: "m_TokenExchanges (w_metrics (snd (relay env req route w))) = m_TokenExchanges (w_metrics w)"
  by (simp add: relay_def Let_def split: upstream_result.splits option.splits)

lemma token_upstream_counts:
  "\<exists>k \<in> set exchange_keys. m_TokenExchanges (w_metrics (token_upstream env cfg grant out w)) =
     Inc k (m_TokenExchanges (w_metrics w))"
proof -
  have u: "metrics_key grant outcomeInternal \<in> set exchange_keys"
      "metrics_key grant outcomeUpstreamError \<in> set exchange_keys"
      "metrics_key grant (statusOutcome s) \<in> set exchange_keys" for s
    by (rule metrics_key_bounded; simp add: statusOutcome_def)+
  show ?thesis
  proof (cases "upstreamURL cfg pathToken")
    case None
    with u(1) show ?thesis by (auto simp: token_upstream_def)
  next
    case (Some t)
    show ?thesis
    proof (cases "token_request (url_String t) (Encode (token_params cfg out))")
      case None
      with Some u(1) show ?thesis by (auto simp: token_upstream_def)
    next
      case req: (Some req)
      with Some u(2,3) show ?thesis by (auto simp: token_upstream_def case_prod_beta)
    qed
  qed
qed

lemma Token_counts:
  "\<exists>k \<in> set exchange_keys. m_TokenExchanges (w_metrics (Token env holder r w)) = Inc k (m_TokenExchanges (w_metrics w))"
proof (cases rule: Token_cases [where r = r and holder = holder and env = env])
  case (malformed form)
  then show ?thesis
    using metrics_key_bounded [of outcomeMalformedRequest "[]"] by (auto simp: Token_malformed reject_token_def)
next
  case (stranger form)
  then show ?thesis
    using metrics_key_bounded [of outcomeBadClientID] by (auto simp: Token_stranger reject_token_def)
next
  case (impostor form client)
  then show ?thesis
    using metrics_key_bounded [of outcomeBadClientSecret] by (auto simp: Token_impostor reject_token_def)
next
  case (refused form client)
  from token_exchange_refused [OF this(3), of "SetClientID (cl_ID client) w"] refused show ?thesis
    using metrics_key_bounded [of outcomeBadCode] by (auto simp: Token_authenticated)
next
  case (forwarded form client out)
  from token_upstream_counts [of env "holder_Get holder" "values_get form ''grant_type''" out "SetClientID (cl_ID client) w"]
  show ?thesis by (simp add: Token_forwarded [OF forwarded])
qed

section \<open>Calls\<close>

lemma token_upstream_calls:
  "strava_target cfg pathToken = Some url \<Longrightarrow>
   w_calls (token_upstream env cfg grant out w) = w_calls w @ [exchange_request url cfg out]"
  by (simp add: token_upstream_call relay_calls)

lemma reject_token_calls [simp]: "w_calls (reject_token k f w) = w_calls w"
  by (simp add: reject_token_def)

lemma token_refused_calls:
  "exchange_params env cfg client form = None \<Longrightarrow> w_calls (token_exchange env cfg client form w) = w_calls w"
  using token_exchange_refused [of env cfg client form w] by auto

section \<open>Pass-through endpoints\<close>

definition revoke_client :: "Config \<Rightarrow> Request \<Rightarrow> Client \<Rightarrow> bool" where
  "revoke_client cfg r client \<longleftrightarrow>
     (\<exists>u p. BasicAuth r = Some (u, p) \<and> config_Client cfg u = Some client \<and> VerifySecret client p)"

lemma Revoke_refused:
  assumes "\<And>client. \<not> revoke_client (holder_Get holder) r client"
  shows "w_rw (Revoke env holder r w) = WriteUnauthorized (w_rw w) \<and> w_calls (Revoke env holder r w) = w_calls w \<and>
    w_metrics (Revoke env holder r w) = w_metrics w"
proof (cases "BasicAuth r")
  case None
  then show ?thesis by (simp add: Revoke_def)
next
  case (Some up)
  obtain u p where up: "up = (u, p)" by fastforce
  show ?thesis
  proof (cases "config_Client (holder_Get holder) u")
    case None
    with Some up show ?thesis by (simp add: Revoke_def)
  next
    case c: (Some client)
    with Some up assms [of client] have "\<not> VerifySecret client p" by (simp add: revoke_client_def)
    with Some up c show ?thesis by (simp add: Revoke_def Let_def)
  qed
qed

lemma Revoke_accepted:
  assumes "revoke_client (holder_Get holder) r client"
  shows "Revoke env holder r w = revoke_upstream env (holder_Get holder) r (SetClientID (cl_ID client) w)"
  using assms by (auto simp: revoke_client_def Revoke_def Let_def)

lemma revoke_client_unique: "revoke_client cfg r c \<Longrightarrow> revoke_client cfg r c' \<Longrightarrow> c = c'"
  by (auto simp: revoke_client_def)

lemma copy_request_headers_fields [simp]:
  "or_Body (copyRequestHeaders r q) = or_Body q" "or_URL (copyRequestHeaders r q) = or_URL q"
  "or_Method (copyRequestHeaders r q) = or_Method q" "or_BodyClean (copyRequestHeaders r q) = or_BodyClean q"
  "or_ContentLength (copyRequestHeaders r q) = or_ContentLength q"
  by (simp_all add: copyRequestHeaders_def passthroughHeaders_def)

lemma copy_request_headers_lookup:
  "map_of (or_Header (copyRequestHeaders r q)) k =
     (if k \<in> set passthroughHeaders \<and> header_get (rq_Header r) k \<noteq> [] then Some [header_get (rq_Header r) k]
      else map_of (or_Header q) k)"
proof -
  have "map_of (or_Header (foldl (\<lambda>dst name. if header_get (rq_Header r) name \<noteq> []
        then dst\<lparr>or_Header := header_set name (header_get (rq_Header r) name) (or_Header dst)\<rparr> else dst) q names)) k =
      (if k \<in> set names \<and> header_get (rq_Header r) k \<noteq> [] then Some [header_get (rq_Header r) k]
       else map_of (or_Header q) k)" for names
    by (induction names arbitrary: q) auto
  then show ?thesis by (simp add: copyRequestHeaders_def)
qed

lemma passthrough_request_Some:
  assumes "passthrough_request t r = Some req"
  shows "or_Method req = ''POST''" "or_URL req = url_String (t\<lparr>u_RawQuery := rq_RawQuery r\<rparr>)"
    "or_Body req = rq_Body r" "or_BodyClean req = rq_BodyClean r" "or_ContentLength req = rq_ContentLength r"
    "map_of (or_Header req) k =
       (if k \<in> set passthroughHeaders \<and> header_get (rq_Header r) k \<noteq> [] then Some [header_get (rq_Header r) k] else None)"
  using assms
  by (auto simp: passthrough_request_def new_request_Some copy_request_headers_lookup)

end
