(* ===== verification/TokenProps.thy ===== *)
theory TokenProps imports
  TokenLaws
  AuthorizeProps
begin

text \<open>The properties of the server-to-server endpoints.\<close>

section \<open>Concrete requests\<close>

definition post_request :: "string \<Rightarrow> Header \<Rightarrow> Request" where
  "post_request body h = \<lparr>rq_Method = ''POST'', rq_Path = ''/oauth/token'', rq_RawPath = [], rq_RawQuery = [], rq_Header = h,
     rq_Body = body, rq_BodyClean = True, rq_ContentLength = int (length body)\<rparr>"

definition form_header :: Header where
  "form_header = [(''Content-Type'', [''application/x-www-form-urlencoded''])]"

definition tiny_form :: Values where
  "tiny_form = [(''client_id'', [''7'']), (''client_secret'', [''pw'']), (''grant_type'', [''refresh_token'']),
     (''refresh_token'', [''r1''])]"

definition tiny_refresh :: Request where
  "tiny_refresh = post_request (Encode tiny_form) form_header"

lemma form_media_type: "ParseMediaType ''application/x-www-form-urlencoded'' = (form_type, True)"
  by code_simp

lemma tiny_body: "ParseQuery (Encode tiny_form) = (tiny_form, True)"
proof -
  have "ParseQuery (Encode tiny_form) = (sort_key fst tiny_form, True)"
    by (rule parse_encode) (simp_all add: tiny_form_def wf_values_def value_count_def max_query_params_def)
  then show ?thesis by (simp add: tiny_form_def)
qed

lemma tiny_body_size: "length (Encode tiny_form) = 70"
  by code_simp

text \<open>A form posted without a query string is its body.\<close>

lemma post_form:
  assumes "ParseQuery body = (form, good)" "length body \<le> max_form_size"
  shows "ParseForm (post_request body form_header) = (form, good)"
  using assms
  by (simp add: ParseForm_def parse_post_form_def post_request_def form_header_def form_media_type values_get_def
      ParseQuery_def [of "[]"] max_query_params_def)

lemma tiny_refresh_form: "ParseForm tiny_refresh = (tiny_form, True)"
  unfolding tiny_refresh_def by (rule post_form [OF tiny_body]) (simp add: max_form_size_def tiny_body_size)

lemma tiny_token_client: "token_client tiny_config tiny_form tiny_client"
  by (simp add: token_client_def tiny_form_def config_Client_def tiny_config_def tiny_client_def VerifySecret_def
      values_get_def)

lemma tiny_exchange_params: "exchange_params env tiny_config tiny_client tiny_form =
    Some [(''grant_type'', [''refresh_token'']), (''refresh_token'', [''r1''])]"
  by (simp add: exchange_params_def tiny_form_def grantAuthorizationCode_def tokenOwnedParams_def values_get_def)

text \<open>The base of Strava and its token endpoint, evaluated step by step.\<close>

definition tiny_base :: URL where
  "tiny_base = empty_url\<lparr>u_Scheme := ''https'', u_Host := ''s.example''\<rparr>"

lemma tiny_base_parse: "url_Parse ''https://s.example'' = Some tiny_base"
  by code_simp

lemma tiny_token_path: "JoinPath tiny_base pathToken = tiny_base\<lparr>u_Path := ''api/v3/oauth/token''\<rparr>"
  by code_simp

lemma tiny_token_url: "url_String (tiny_base\<lparr>u_Path := ''api/v3/oauth/token''\<rparr>) = ''https://s.example/api/v3/oauth/token''"
  by code_simp

lemma tiny_token_parse:
  "url_Parse ''https://s.example/api/v3/oauth/token'' = Some (tiny_base\<lparr>u_Path := ''/api/v3/oauth/token''\<rparr>)"
  by code_simp

lemma tiny_upstream: "upstreamURL tiny_config path = Some (JoinPath tiny_base path)"
proof -
  have "cf_UpstreamBaseURL tiny_config = ''https://s.example''" by (simp add: tiny_config_def)
  then show ?thesis by (simp only: upstreamURL_def tiny_base_parse) (simp add: tiny_base_def)
qed

lemma tiny_token_target: "strava_target tiny_config pathToken = Some ''https://s.example/api/v3/oauth/token''"
  by (simp only: strava_target_def tiny_upstream option.case tiny_token_path tiny_token_url tiny_token_parse) simp

section \<open>Properties\<close>

text \<open>
  C21. The token endpoint spends the real credentials only for a client that proved its own: it
  calls Strava exactly when the form parses, the client's secret verifies and, for the
  authorization-code grant, the wrapped code opens and was sealed for this client. Then it makes one
  POST to the configured address whose body holds the real client id and secret, the unwrapped code,
  and every other parameter as the client sent it; otherwise it makes none.
\<close>

theorem token_spends_credentials:
  assumes "strava_target (holder_Get holder) pathToken = Some url"
  shows "if \<exists>form client. ParseForm r = (form, True) \<and> token_client (holder_Get holder) form client \<and>
      (values_get form ''grant_type'' = ''authorization_code'' \<longrightarrow>
        (\<exists>cp. Open (e_Flate env) (handler_ring env (holder_Get holder)) DomainCode (values_get form ''code'') unmarshal_code
           (cf_StateTTL (holder_Get holder)) (e_Now env 0) = Inr cp \<and> cp_CID cp = cl_ID client))
    then \<exists>form client out req. ParseForm r = (form, True) \<and> token_client (holder_Get holder) form client \<and>
      w_calls (Token env holder r w) = w_calls w @ [req] \<and> or_Method req = ''POST'' \<and> or_URL req = url \<and>
      or_Body req = Encode out \<and> wf_values out \<and>
      map_of out ''client_id'' = Some [cf_StravaClientID (holder_Get holder)] \<and>
      map_of out ''client_secret'' = Some [Reveal (cf_StravaClientSecret (holder_Get holder))] \<and>
      (if values_get form ''grant_type'' = ''authorization_code''
       then \<exists>cp. Open (e_Flate env) (handler_ring env (holder_Get holder)) DomainCode (values_get form ''code'') unmarshal_code
           (cf_StateTTL (holder_Get holder)) (e_Now env 0) = Inr cp \<and> cp_CID cp = cl_ID client \<and>
           map_of out ''code'' = Some [cp_SC cp]
       else map_of out ''code'' = map_of form ''code'') \<and>
      (\<forall>k. k \<notin> {''client_id'', ''client_secret'', ''code''} \<longrightarrow> map_of out k = map_of form k)
    else w_calls (Token env holder r w) = w_calls w"
proof (cases rule: Token_cases [where r = r and holder = holder and env = env])
  case (forwarded form client out)
  have "values_get form ''grant_type'' = ''authorization_code'' \<longrightarrow>
      (\<exists>cp. Open (e_Flate env) (handler_ring env (holder_Get holder)) DomainCode (values_get form ''code'') unmarshal_code
         (cf_StateTTL (holder_Get holder)) (e_Now env 0) = Inr cp \<and> cp_CID cp = cl_ID client)"
    using exchange_params_code [OF forwarded(3)] by (auto simp: grantAuthorizationCode_def)
  with forwarded(1,2) have y: "\<exists>form client. ParseForm r = (form, True) \<and> token_client (holder_Get holder) form client \<and>
      (values_get form ''grant_type'' = ''authorization_code'' \<longrightarrow>
        (\<exists>cp. Open (e_Flate env) (handler_ring env (holder_Get holder)) DomainCode (values_get form ''code'') unmarshal_code
           (cf_StateTTL (holder_Get holder)) (e_Now env 0) = Inr cp \<and> cp_CID cp = cl_ID client))"
    by blast
  have "wf_values form" using wf_ParseForm [of r] forwarded(1) by simp
  then have wf: "wf_values (token_params (holder_Get holder) out)"
    using wf_exchange_params [OF forwarded(3)] by simp
  show ?thesis
    unfolding if_P [OF y]
    by (rule exI [of _ form], rule exI [of _ client], rule exI [of _ "token_params (holder_Get holder) out"],
        rule exI [of _ "exchange_request url (holder_Get holder) out"])
      (use exchange_params_code [OF forwarded(3)] exchange_params_lookup [OF forwarded(3)] wf forwarded in
        \<open>auto simp: Token_forwarded [OF forwarded] token_upstream_calls [OF assms] exchange_request_def
          token_params_lookup grantAuthorizationCode_def\<close>)
next
  case (refused form client)
  then have "\<not> (values_get form ''grant_type'' = ''authorization_code'' \<longrightarrow>
        (\<exists>cp. Open (e_Flate env) (handler_ring env (holder_Get holder)) DomainCode (values_get form ''code'') unmarshal_code
           (cf_StateTTL (holder_Get holder)) (e_Now env 0) = Inr cp \<and> cp_CID cp = cl_ID client))"
    by (auto simp: exchange_params_def grantAuthorizationCode_def Let_def split: sum.splits if_splits)
  with refused show ?thesis
    by (auto simp: Token_authenticated token_refused_calls token_client_def)
qed (auto simp: Token_malformed Token_stranger Token_impostor token_client_def)

theorem token_spends_credentials_witness:
  "\<exists>req. w_calls (Token tiny_env (NewHolder tiny_config) tiny_refresh new_world) = [req] \<and>
     or_URL req = ''https://s.example/api/v3/oauth/token''"
proof -
  have g: "values_get tiny_form ''grant_type'' \<noteq> ''authorization_code''"
    by (simp add: tiny_form_def values_get_def)
  have y: "\<exists>form client. ParseForm tiny_refresh = (form, True) \<and> token_client tiny_config form client \<and>
      (values_get form ''grant_type'' = ''authorization_code'' \<longrightarrow>
        (\<exists>cp. Open (e_Flate tiny_env) (handler_ring tiny_env tiny_config) DomainCode (values_get form ''code'') unmarshal_code
           (cf_StateTTL tiny_config) (e_Now tiny_env 0) = Inr cp \<and> cp_CID cp = cl_ID client))"
    using tiny_refresh_form tiny_token_client g by blast
  show ?thesis
    using token_spends_credentials [of "NewHolder tiny_config", unfolded tiny_holder, OF tiny_token_target,
        of tiny_refresh tiny_env new_world, unfolded if_P [OF y]]
    by (elim exE conjE) (rule exI, rule conjI, simp add: new_world_def, assumption)
qed

text \<open>
  C22. What Strava answers to an exchange reaches the client byte for byte: its status, its body, its
  content type and length; every other header is the proxy's own. The exchange is counted once under
  the grant and success for a 2xx, upstream error otherwise.
\<close>

theorem token_relays_verbatim:
  assumes "strava_target (holder_Get holder) pathToken = Some url"
    and "w_calls (Token env holder r w) = w_calls w @ [req]" "e_Upstream env req = Reply status h body None"
    and "rw_Sent (w_rw w) = None" "rw_Body (w_rw w) = []" "status \<ge> 200"
  shows "(\<exists>hdr. rw_Sent (w_rw (Token env holder r w)) = Some (status, hdr) \<and>
      (\<forall>k. map_of hdr k =
        (if k \<in> {''Content-Type'', ''Content-Length''} \<and> header_get h k \<noteq> [] then Some [header_get h k]
         else map_of (rw_Header (w_rw w)) k))) \<and>
    rw_Body (w_rw (Token env holder r w)) = body \<and>
    (\<exists>form. ParseForm r = (form, True) \<and>
      m_TokenExchanges (w_metrics (Token env holder r w)) =
        Inc (metrics_key (values_get form ''grant_type'') (if status < 300 then ''success'' else ''upstream_error''))
          (m_TokenExchanges (w_metrics w)))"
proof -
  obtain form client out where f: "ParseForm r = (form, True)" "token_client (holder_Get holder) form client"
      "exchange_params env (holder_Get holder) client form = Some out"
  proof (cases rule: Token_cases [where r = r and holder = holder and env = env])
    case (refused form client)
    with assms(2) show ?thesis by (simp add: Token_authenticated token_refused_calls)
  qed (use assms(2) in \<open>auto simp: Token_malformed Token_stranger Token_impostor intro: that\<close>)
  note t = Token_forwarded [OF f, of w, unfolded token_upstream_call [OF assms(1)]]
  have req: "exchange_request url (holder_Get holder) out = req"
    using assms(2) unfolding t by (simp add: relay_calls)
  let ?w = "SetClientID (cl_ID client) w"
  have "\<not> informational status" using assms(6) by (simp add: informational_def)
  then have r: "rw_Sent (w_rw (snd (relay env req ''token'' ?w))) = Some (status, rw_Header (copy_reply_headers h (w_rw w)))"
    "rw_Body (w_rw (snd (relay env req ''token'' ?w))) = body" "fst (relay env req ''token'' ?w) = status"
    using relay_reply [OF assms(3), of ?w "''token''"] assms(4,5) by simp_all
  have h: "map_of (rw_Header (copy_reply_headers h (w_rw w))) k =
      (if k \<in> {''Content-Type'', ''Content-Length''} \<and> header_get h k \<noteq> [] then Some [header_get h k]
       else map_of (rw_Header (w_rw w)) k)" for k
    by (auto simp: copy_reply_headers_def)
  have o: "exchange_outcome status = (if status < 300 then ''success'' else ''upstream_error'')"
    using assms(6) by (simp add: exchange_outcome_def statusOutcome_def outcomeSuccess_def outcomeUpstreamError_def)
  show ?thesis
    unfolding t req by (simp add: r h f(1) o)
qed

theorem token_relays_verbatim_witness:
  "rw_Body (w_rw (Token tiny_env (NewHolder tiny_config) tiny_refresh new_world)) = ''{}'' \<and>
   m_TokenExchanges (w_metrics (Token tiny_env (NewHolder tiny_config) tiny_refresh new_world)) =
     [(''refresh_token:success'', 1)]"
proof -
  have c: "w_calls (Token tiny_env (NewHolder tiny_config) tiny_refresh new_world) = w_calls new_world @
      [exchange_request ''https://s.example/api/v3/oauth/token'' tiny_config
        [(''grant_type'', [''refresh_token'']), (''refresh_token'', [''r1''])]]"
    using Token_forwarded [of tiny_refresh tiny_form "NewHolder tiny_config", unfolded tiny_holder,
        OF tiny_refresh_form tiny_token_client tiny_exchange_params]
    by (simp add: token_upstream_calls [OF tiny_token_target])
  have u: "e_Upstream tiny_env x = Reply 200 [(''Content-Type'', [''application/json''])] ''{}'' None" for x
    by (simp add: tiny_env_def tiny_reply_def)
  have n: "rw_Sent (w_rw new_world) = None" "rw_Body (w_rw new_world) = []"
    by (simp_all add: new_world_def new_writer_def)
  have g: "values_get tiny_form ''grant_type'' = ''refresh_token''" by (simp add: tiny_form_def values_get_def)
  show ?thesis
    using token_relays_verbatim [of "NewHolder tiny_config", unfolded tiny_holder, OF tiny_token_target c u n]
    by (simp add: tiny_refresh_form g metrics_key_def grantRefreshToken_def new_world_def Inc_def count_of_def)
qed

text \<open>
  C23. The token counters cannot be grown by callers: after any sequence of token requests, each on
  its own connection, the keys are among 28 fixed ones besides those that were there, and every
  request was counted exactly once.
\<close>

definition serve_tokens :: "(Env \<times> Holder \<times> Request) list \<Rightarrow> World \<Rightarrow> World" where
  "serve_tokens = fold (\<lambda>(env, holder, r) w. Token env holder r (w\<lparr>w_rw := new_writer, w_client_id := Some []\<rparr>))"

theorem token_counters_bounded:
  "fst ` set (m_TokenExchanges (w_metrics (serve_tokens reqs w))) \<subseteq>
     set exchange_keys \<union> fst ` set (m_TokenExchanges (w_metrics w)) \<and>
   length exchange_keys = 28 \<and>
   sum_list (map (count_of (m_TokenExchanges (w_metrics (serve_tokens reqs w)))) exchange_keys) =
     sum_list (map (count_of (m_TokenExchanges (w_metrics w))) exchange_keys) + length reqs"
proof (induction reqs arbitrary: w)
  case Nil
  then show ?case using length_exchange_keys by (simp add: serve_tokens_def)
next
  case (Cons x reqs)
  obtain env holder r where x: "x = (env, holder, r)" by (cases x)
  let ?w = "w\<lparr>w_rw := new_writer, w_client_id := Some []\<rparr>"
  obtain k where k: "k \<in> set exchange_keys"
    "m_TokenExchanges (w_metrics (Token env holder r ?w)) = Inc k (m_TokenExchanges (w_metrics w))"
    using Token_counts [of env holder r ?w] by auto
  have s: "serve_tokens (x # reqs) w = serve_tokens reqs (Token env holder r ?w)"
    by (simp add: serve_tokens_def x)
  have sum: "sum_list (map (count_of (Inc k m)) exchange_keys) = sum_list (map (count_of m) exchange_keys) + 1" for m
    using counted_once [OF k(1)] by simp
  note ih = Cons.IH [of "Token env holder r ?w", unfolded k(2)]
  have "fst ` set (Inc k (m_TokenExchanges (w_metrics w))) \<subseteq> set exchange_keys \<union> fst ` set (m_TokenExchanges (w_metrics w))"
    using keys_Inc [of k "m_TokenExchanges (w_metrics w)"] k(1) by blast
  then have "fst ` set (m_TokenExchanges (w_metrics (serve_tokens reqs (Token env holder r ?w)))) \<subseteq>
      set exchange_keys \<union> fst ` set (m_TokenExchanges (w_metrics w))"
    using ih by blast
  with ih show ?case
    unfolding s sum by simp
qed

text \<open>
  C24. The revoke endpoint answers every request without the credentials of a registered client with
  the same 401, without calling Strava; a client's own request is forwarded once, body, query and
  negotiated headers unchanged, with the real credentials in place of the client's.
\<close>

theorem revoke_swaps_credentials:
  assumes "upstreamURL (holder_Get holder) pathRevoke = Some target"
  shows "if \<exists>u p client. BasicAuth r = Some (u, p) \<and> config_Client (holder_Get holder) u = Some client \<and>
      VerifySecret client p
    then (case passthrough_request target r of
        None \<Rightarrow> w_rw (Revoke env holder r w) = WriteUpstreamUnavailable (w_rw w) \<and> w_calls (Revoke env holder r w) = w_calls w
      | Some req \<Rightarrow> \<exists>sent. w_calls (Revoke env holder r w) = w_calls w @ [sent] \<and>
          or_Method sent = ''POST'' \<and> or_Body sent = rq_Body r \<and>
          or_URL sent = url_String (target\<lparr>u_RawQuery := rq_RawQuery r\<rparr>) \<and>
          (\<forall>k. map_of (or_Header sent) k =
            (if k = ''Authorization'' then
               Some [''Basic '' @ std_encode (cf_StravaClientID (holder_Get holder) @ CHR '':'' #
                 Reveal (cf_StravaClientSecret (holder_Get holder)))]
             else if k \<in> {''Content-Type'', ''Accept'', ''Accept-Language'', ''User-Agent''} \<and>
               header_get (rq_Header r) k \<noteq> [] then Some [header_get (rq_Header r) k]
             else None)))
    else w_rw (Revoke env holder r w) = WriteUnauthorized (w_rw w) \<and> w_calls (Revoke env holder r w) = w_calls w"
proof (cases "\<exists>client. revoke_client (holder_Get holder) r client")
  case True
  then obtain client where c: "revoke_client (holder_Get holder) r client" ..
  then have y: "\<exists>u p client. BasicAuth r = Some (u, p) \<and> config_Client (holder_Get holder) u = Some client \<and>
      VerifySecret client p"
    by (auto simp: revoke_client_def)
  show ?thesis
    unfolding if_P [OF y] Revoke_accepted [OF c]
    by (cases "passthrough_request target r")
      (auto simp: revoke_upstream_def assms relay_calls passthrough_request_Some basicAuthHeader_def passthroughHeaders_def)
next
  case False
  then have n: "\<not> (\<exists>u p client. BasicAuth r = Some (u, p) \<and> config_Client (holder_Get holder) u = Some client \<and>
      VerifySecret client p)"
    by (auto simp: revoke_client_def)
  show ?thesis
    unfolding if_not_P [OF n] using Revoke_refused [of holder r env w] False by blast
qed

definition tiny_revoke :: "string \<Rightarrow> Request" where
  "tiny_revoke user = post_request ''token=t'' [(''Authorization'', [''Basic '' @ std_encode (user @ '':pw'')])]"

lemma tiny_revoke_auth: "CHR '':'' \<notin> set user \<Longrightarrow> BasicAuth (tiny_revoke user) = Some (user, ''pw'')"
  by (rule basic_auth_header) (simp_all add: tiny_revoke_def post_request_def values_get_def)

theorem revoke_swaps_credentials_witness:
  "w_rw (Revoke tiny_env (NewHolder tiny_config) (tiny_revoke ''8'') new_world) = WriteUnauthorized (w_rw new_world)"
proof -
  have n: "\<not> (\<exists>u p client. BasicAuth (tiny_revoke ''8'') = Some (u, p) \<and> config_Client tiny_config u = Some client \<and>
      VerifySecret client p)"
    by (simp add: tiny_revoke_auth config_Client_def tiny_config_def)
  show ?thesis
    using revoke_swaps_credentials [of "NewHolder tiny_config", unfolded tiny_holder, OF tiny_upstream,
        of "tiny_revoke ''8''" tiny_env new_world, unfolded if_not_P [OF n]] by blast
qed

text \<open>
  C25. The deauthorize endpoint needs no secret: what it does is determined by the upstream base URL,
  Strava and the request alone. The caller's own authorization, body and query are forwarded in one
  call, or the request cannot be built and the answer is 502.
\<close>

theorem deauthorize_needs_no_secret:
  assumes "cf_UpstreamBaseURL (holder_Get holder) = cf_UpstreamBaseURL (holder_Get holder')"
    and "e_Upstream env = e_Upstream env'" "upstreamURL (holder_Get holder) pathDeauthorize = Some target"
  shows "Deauthorize env holder r w = Deauthorize env' holder' r w \<and>
    (case passthrough_request target r of
       None \<Rightarrow> w_rw (Deauthorize env holder r w) = WriteUpstreamUnavailable (w_rw w) \<and>
         w_calls (Deauthorize env holder r w) = w_calls w
     | Some req \<Rightarrow> \<exists>sent. w_calls (Deauthorize env holder r w) = w_calls w @ [sent] \<and> or_Body sent = rq_Body r \<and>
         or_URL sent = url_String (target\<lparr>u_RawQuery := rq_RawQuery r\<rparr>) \<and>
         header_get (or_Header sent) ''Authorization'' = header_get (rq_Header r) ''Authorization'')"
proof -
  have u: "upstreamURL (holder_Get holder) p = upstreamURL (holder_Get holder') p" for p
    using assms(1) by (simp add: upstreamURL_def)
  have "relay env = relay env'"
    using assms(2) by (intro ext) (simp add: relay_def)
  moreover have "map_of (or_Header req) ''Authorization'' = None" if "passthrough_request target r = Some req" for req
    using passthrough_request_Some(6) [OF that] by (simp add: passthroughHeaders_def)
  ultimately show ?thesis
    by (cases "passthrough_request target r")
      (auto simp: Deauthorize_def u [symmetric] assms(3) relay_calls passthrough_request_Some values_get_def Let_def)
qed

theorem deauthorize_needs_no_secret_witness:
  "Deauthorize tiny_env (NewHolder tiny_config) (tiny_revoke ''7'') new_world =
     Deauthorize (tiny_env\<lparr>e_Rand := None\<rparr>) (NewHolder (tiny_config\<lparr>cf_StravaClientSecret := NewSecret ''other''\<rparr>))
       (tiny_revoke ''7'') new_world"
proof -
  have h: "holder_Get (NewHolder c) = c" for c by (simp add: NewHolder_def holder_Get_def)
  have e: "e_Upstream tiny_env = e_Upstream (tiny_env\<lparr>e_Rand := None\<rparr>)"
    "cf_UpstreamBaseURL tiny_config = cf_UpstreamBaseURL (tiny_config\<lparr>cf_StravaClientSecret := NewSecret ''other''\<rparr>)"
    by simp_all
  show ?thesis
    by (rule deauthorize_needs_no_secret [of "NewHolder tiny_config"
          "NewHolder (tiny_config\<lparr>cf_StravaClientSecret := NewSecret ''other''\<rparr>)", unfolded h,
          OF e(2) e(1) tiny_upstream, THEN conjunct1])
qed

end
