(* ===== verification/Httpmid.thy ===== *)
theory Httpmid imports
  Server
begin

text \<open>
  Package \<open>internal/httpmid\<close> (\<open>mid.go\<close>): the hardening headers and the access log; the response
  recorder is in \<open>Recorder\<close>. A handler is a function from the request and the world to the world.
\<close>

type_synonym handler = "Request \<Rightarrow> World \<Rightarrow> World"

definition HeaderReferrerPolicy :: string where "HeaderReferrerPolicy = ''Referrer-Policy''"
definition ReferrerPolicyValue :: string where "ReferrerPolicyValue = ''no-referrer''"
definition HeaderCacheControl :: string where "HeaderCacheControl = ''Cache-Control''"
definition CacheControlValue :: string where "CacheControlValue = ''no-store''"
definition RedactedQuery :: string where "RedactedQuery = ''?<redacted>''"
definition maxLoggedPathLen :: nat where "maxLoggedPathLen = 256"

definition SecurityHeaders :: "handler \<Rightarrow> handler" where
  "SecurityHeaders next r w =
     next r (respond (\<lambda>rw. set_header HeaderCacheControl CacheControlValue
                             (set_header HeaderReferrerPolicy ReferrerPolicyValue rw)) w)"

section \<open>The access log\<close>

definition ellipsis :: string where "ellipsis = [CHR 0xE2, CHR 0x80, CHR 0xA6]"

definition safePath :: "Request \<Rightarrow> string" where
  "safePath r =
     (let p = rq_Path r;
          q = (if length p > maxLoggedPathLen then take maxLoggedPathLen p @ ellipsis else p)
      in map (\<lambda>c. if byte c < 32 \<or> byte c = 127 then CHR ''?'' else c) q)"

definition access_attrs :: "string \<Rightarrow> duration \<Rightarrow> Request \<Rightarrow> nat \<Rightarrow> nat \<Rightarrow> string option \<Rightarrow> (string \<times> log_value) list" where
  "access_attrs pattern elapsed r status bytes cid =
     [(''method'', LStr (rq_Method r)), (''pattern'', LStr pattern), (''path'', LStr (safePath r)),
      (''status'', LInt (int status)), (''bytes'', LInt (int bytes)), (''latency'', LInt elapsed)] @
     (if rq_RawQuery r \<noteq> [] then [(''query'', LStr RedactedQuery)] else []) @
     (case cid of Some (c # cs) \<Rightarrow> [(''client_id'', LStr (c # cs))] | _ \<Rightarrow> [])"

text \<open>The status and byte count the recorder has seen when the handler returns; \<open>elapsed\<close> is the
  measured latency and \<open>pattern\<close> the route that matched.\<close>

definition observed_status :: "ResponseWriter \<Rightarrow> nat" where
  "observed_status rw = (case sent_status rw of None \<Rightarrow> 200 | Some s \<Rightarrow> s)"

definition AccessLog :: "(Request \<Rightarrow> string) \<Rightarrow> duration \<Rightarrow> handler \<Rightarrow> handler" where
  "AccessLog pattern elapsed next r w =
     (let w1 = next r (w\<lparr>w_client_id := Some []\<rparr>);
          status = observed_status (w_rw w1);
          bytes = length (rw_Body (w_rw w1)) - length (rw_Body (w_rw w));
          level = (if status \<ge> 500 then Warn else Info)
      in logmsg level ''http request''
           (access_attrs (pattern r) elapsed r status bytes (w_client_id w1)) w1)"

section \<open>Laws\<close>

lemma length_safePath: "length (safePath r) \<le> maxLoggedPathLen + 3"
  by (simp add: safePath_def Let_def ellipsis_def)

lemma safePath_no_control: "c \<in> set (safePath r) \<Longrightarrow> 32 \<le> byte c \<and> byte c \<noteq> 127"
  by (auto simp: safePath_def Let_def split: if_splits)

end
