(* ===== verification/Upstream.thy ===== *)
theory Upstream imports
  Httpmid
begin

text \<open>
  Package \<open>internal/upstream\<close>: the reverse proxy of \<open>proxy.go\<close> on top of what it uses of
  \<open>httputil.ReverseProxy\<close>, and the settings of the transport and client of \<open>transport.go\<close>.

  A request in origin form has a path and a query only. The connection switch that follows a 101 is
  outside the model: the handler then leaves the response to it.
\<close>

section \<open>transport.go\<close>

definition DialTimeout :: duration where "DialTimeout = 5 * second"
definition KeepAlive :: duration where "KeepAlive = 30 * second"
definition TLSHandshakeTimeout :: duration where "TLSHandshakeTimeout = 10 * second"
definition ResponseHeaderTimeout :: duration where "ResponseHeaderTimeout = 30 * second"
definition ExpectContinueTimeout :: duration where "ExpectContinueTimeout = 1 * second"
definition IdleConnTimeout :: duration where "IdleConnTimeout = 90 * second"
definition MaxIdleConns :: nat where "MaxIdleConns = 100"
definition MaxIdleConnsPerHost :: nat where "MaxIdleConnsPerHost = 32"
definition ClientTimeout :: duration where "ClientTimeout = 15 * second"

text \<open>The settings the code chooses; TLS versions as the pair of major and minor number.\<close>

record Transport =
  tr_ProxyFromEnvironment :: bool
  tr_DialTimeout :: duration
  tr_KeepAlive :: duration
  tr_MinTLS :: "nat \<times> nat"
  tr_InsecureSkipVerify :: bool
  tr_ForceAttemptHTTP2 :: bool
  tr_DisableCompression :: bool
  tr_MaxIdleConns :: nat
  tr_MaxIdleConnsPerHost :: nat
  tr_IdleConnTimeout :: duration
  tr_TLSHandshakeTimeout :: duration
  tr_ResponseHeaderTimeout :: duration
  tr_ExpectContinueTimeout :: duration

definition NewTransport :: Transport where
  "NewTransport = \<lparr>tr_ProxyFromEnvironment = True, tr_DialTimeout = DialTimeout, tr_KeepAlive = KeepAlive,
     tr_MinTLS = (1, 2), tr_InsecureSkipVerify = False, tr_ForceAttemptHTTP2 = True, tr_DisableCompression = True,
     tr_MaxIdleConns = MaxIdleConns, tr_MaxIdleConnsPerHost = MaxIdleConnsPerHost,
     tr_IdleConnTimeout = IdleConnTimeout, tr_TLSHandshakeTimeout = TLSHandshakeTimeout,
     tr_ResponseHeaderTimeout = ResponseHeaderTimeout, tr_ExpectContinueTimeout = ExpectContinueTimeout\<rparr>"

text \<open>What \<open>CheckRedirect\<close> decides for every redirect: follow it, or return the response as it is.\<close>

datatype redirect_policy = FollowRedirect | UseLastResponse

record HttpClient =
  hc_Transport :: Transport
  hc_CheckRedirect :: redirect_policy
  hc_Timeout :: duration

definition NewClient :: HttpClient where
  "NewClient = \<lparr>hc_Transport = NewTransport, hc_CheckRedirect = UseLastResponse, hc_Timeout = ClientTimeout\<rparr>"

section \<open>Outgoing headers\<close>

definition KindTimeout :: string where "KindTimeout = ''timeout''"
definition KindUnavailable :: string where "KindUnavailable = ''unavailable''"

definition forwardedHeaders :: "string list" where
  "forwardedHeaders = [''Forwarded'', ''X-Forwarded-For'', ''X-Forwarded-Host'', ''X-Forwarded-Proto'']"

definition hopHeaders :: "string list" where
  "hopHeaders = [''Connection'', ''Proxy-Connection'', ''Keep-Alive'', ''Proxy-Authenticate'', ''Proxy-Authorization'',
     ''Te'', ''Trailer'', ''Transfer-Encoding'', ''Upgrade'']"

text \<open>Header names in canonical form: a letter at the start and after a hyphen is upper case, the
  others lower case; a name that is no token stays as it is.\<close>

definition upper_byte :: "char \<Rightarrow> char" where
  "upper_byte c = (if is_lower c then chr (byte c - 32) else c)"

fun canonical_bytes :: "bool \<Rightarrow> string \<Rightarrow> string" where
  "canonical_bytes up [] = []"
| "canonical_bytes up (c # cs) =
     (if up then upper_byte c else lower_byte c) # canonical_bytes (c = CHR ''-'') cs"

definition canonical_key :: "string \<Rightarrow> string" where
  "canonical_key s = (if is_token s then canonical_bytes True s else s)"

definition header_values :: "Header \<Rightarrow> string \<Rightarrow> string list" where
  "header_values h k = (case map_of h k of None \<Rightarrow> [] | Some vs \<Rightarrow> vs)"

text \<open>The comma-separated elements of a list-valued header.\<close>

definition list_elements :: "Header \<Rightarrow> string \<Rightarrow> string list" where
  "list_elements h k = map trim_ascii (concat (map (split_on CHR '','') (header_values h k)))"

definition has_token :: "Header \<Rightarrow> string \<Rightarrow> string \<Rightarrow> bool" where
  "has_token h k tok \<longleftrightarrow> to_lower tok \<in> set (map to_lower (list_elements h k))"

text \<open>\<open>removeHopByHopHeaders\<close>: the headers named in Connection, then the fixed ones.\<close>

definition connection_named :: "Header \<Rightarrow> string list" where
  "connection_named h = map canonical_key (filter (\<lambda>e. e \<noteq> []) (list_elements h ''Connection''))"

definition removeHopByHop :: "Header \<Rightarrow> Header" where
  "removeHopByHop h = fold header_del hopHeaders (fold header_del (connection_named h) h)"

definition upgrade_type :: "Header \<Rightarrow> string" where
  "upgrade_type h = (if has_token h ''Connection'' ''Upgrade'' then header_get h ''Upgrade'' else [])"

definition printable :: "string \<Rightarrow> bool" where
  "printable s \<longleftrightarrow> list_all (\<lambda>c. 32 \<le> byte c \<and> byte c \<le> 126) s"

section \<open>The outgoing request\<close>

text \<open>\<open>cleanQueryParams\<close>: a query with a semicolon or a broken escape is parsed and encoded again.\<close>

fun clean_query :: "string \<Rightarrow> bool" where
  "clean_query [] \<longleftrightarrow> True"
| "clean_query (c # s) \<longleftrightarrow>
     (if c = CHR '';'' then False
      else if c = CHR ''%'' then
        (case s of a # b # s' \<Rightarrow> is_hex a \<and> is_hex b \<and> clean_query s' | _ \<Rightarrow> False)
      else clean_query s)"

definition cleanQueryParams :: "string \<Rightarrow> string" where
  "cleanQueryParams q = (if clean_query q then q else Encode (fst (ParseQuery q)))"

definition joinURLPath :: "URL \<Rightarrow> URL \<Rightarrow> string \<times> string" where
  "joinURLPath a b =
     (let apath = EscapedPath a; bpath = EscapedPath b;
          raw = (u_RawPath a \<noteq> [] \<or> u_RawPath b \<noteq> []);
          aslash = suffix ''/'' (if raw then apath else u_Path a);
          bslash = prefix ''/'' (if raw then bpath else u_Path b)
      in if aslash \<and> bslash then (u_Path a @ drop 1 (u_Path b), if raw then apath @ drop 1 bpath else [])
         else if \<not> aslash \<and> \<not> bslash then
           (u_Path a @ CHR ''/'' # u_Path b, if raw then apath @ CHR ''/'' # bpath else [])
         else (u_Path a @ u_Path b, if raw then apath @ bpath else []))"

definition rewriteRequestURL :: "URL \<Rightarrow> URL \<Rightarrow> URL" where
  "rewriteRequestURL target out =
     (case joinURLPath target out of (p, raw) \<Rightarrow>
        out\<lparr>u_Scheme := u_Scheme target, u_Host := u_Host target, u_Path := p, u_RawPath := raw,
            u_RawQuery := (if u_RawQuery target = [] \<or> u_RawQuery out = [] then u_RawQuery target @ u_RawQuery out
                           else u_RawQuery target @ CHR ''&'' # u_RawQuery out)\<rparr>)"

text \<open>The headers sent on: hop-by-hop headers removed, a trailers-only TE and a connection upgrade put
  back, the forwarding headers removed, no User-Agent added.\<close>

definition proxy_headers :: "Header \<Rightarrow> Header" where
  "proxy_headers h =
     (let h1 = removeHopByHop h;
          h2 = (if has_token h ''Te'' ''trailers'' then header_set ''Te'' ''trailers'' h1 else h1);
          h3 = (if upgrade_type h \<noteq> []
                then header_set ''Upgrade'' (upgrade_type h) (header_set ''Connection'' ''Upgrade'' h2) else h2);
          h4 = fold header_del forwardedHeaders h3
      in if map_of h4 ''User-Agent'' = None then header_set ''User-Agent'' [] h4 else h4)"

definition proxy_url :: "URL \<Rightarrow> Request \<Rightarrow> URL" where
  "proxy_url base r =
     rewriteRequestURL base
       (empty_url\<lparr>u_Path := rq_Path r, u_RawPath := rq_RawPath r, u_RawQuery := cleanQueryParams (rq_RawQuery r)\<rparr>)"

definition proxy_request :: "URL \<Rightarrow> Request \<Rightarrow> OutRequest" where
  "proxy_request base r =
     \<lparr>or_Method = rq_Method r, or_URL = url_String (proxy_url base r), or_Header = proxy_headers (rq_Header r),
      or_Body = (if rq_ContentLength r = 0 then [] else rq_Body r), or_BodyClean = rq_BodyClean r,
      or_ContentLength = rq_ContentLength r\<rparr>"

section \<open>Failures\<close>

definition IsTimeout :: "CallError \<Rightarrow> bool" where
  "IsTimeout e = (if ce_Deadline e then True else (case ce_NetTimeout e of Some t \<Rightarrow> t | None \<Rightarrow> False))"

text \<open>\<open>gone\<close> is whether the context of the inbound request was cancelled.\<close>

definition isCanceled :: "bool \<Rightarrow> CallError \<Rightarrow> bool" where
  "isCanceled gone e \<longleftrightarrow> ce_Canceled e \<or> gone"

definition redactErr :: "CallError \<Rightarrow> string" where
  "redactErr e = (case ce_URLError e of Some (op, cause) \<Rightarrow> op @ '': '' @ cause | None \<Rightarrow> ce_Text e)"

definition errorHandler :: "bool \<Rightarrow> string \<Rightarrow> string \<Rightarrow> CallError \<Rightarrow> World \<Rightarrow> World" where
  "errorHandler gone method path e w =
     (let attrs = [(''method'', LStr method), (''path'', LStr path)]
      in if isCanceled gone e then logmsg Debug ''upstream request cancelled by client'' attrs w
         else if IsTimeout e then
           respond WriteUpstreamTimeout
             (logmsg Error ''upstream timeout'' (attrs @ [(''error'', LStr (redactErr e))]) (inc_upstream KindTimeout w))
         else
           respond WriteUpstreamUnavailable
             (logmsg Error ''upstream unavailable'' (attrs @ [(''error'', LStr (redactErr e))])
               (inc_upstream KindUnavailable w)))"

text \<open>\<open>logWriter\<close> takes the diagnostics of the reverse proxy, trailing newlines removed.\<close>

definition logWriter :: "string \<Rightarrow> World \<Rightarrow> World" where
  "logWriter p w =
     logmsg Warn ''reverse proxy'' [(''msg'', LStr (rev (dropWhile (\<lambda>c. c = CHR 0x0A) (rev p))))] w"

section \<open>The reverse proxy\<close>

text \<open>The error for an unprintable protocol; its text in the code also quotes the protocol.\<close>

definition bad_upgrade :: CallError where
  "bad_upgrade = \<lparr>ce_Deadline = False, ce_Canceled = False, ce_NetTimeout = None, ce_URLError = None,
     ce_Text = ''client tried to switch to invalid protocol''\<rparr>"

definition copy_headers :: "Header \<Rightarrow> ResponseWriter \<Rightarrow> ResponseWriter" where
  "copy_headers h w = fold (\<lambda>(k, vs) w. fold (add_header k) vs w) h w"

text \<open>The response sent on, and whether the handler returned: a body that fails on the way makes it
  abort the connection, past every middleware; a caller that hung up is not logged.\<close>

definition proxy_reply :: "nat \<Rightarrow> Header \<Rightarrow> string \<Rightarrow> string option \<Rightarrow> World \<Rightarrow> World \<times> bool" where
  "proxy_reply status h body failure w =
     (let w1 = respond (\<lambda>rw. WriteBody body (WriteHeader status (copy_headers (removeHopByHop h) rw))) w
      in case failure of
           None \<Rightarrow> (w1, True)
         | Some e \<Rightarrow>
             (if e = ''context canceled'' then w1
              else logWriter (''httputil: ReverseProxy read error during body copy: '' @ e) w1, False))"

definition NewProxy :: "Env \<Rightarrow> bool \<Rightarrow> URL \<Rightarrow> Request \<Rightarrow> World \<Rightarrow> World \<times> bool" where
  "NewProxy env gone base r w =
     (if \<not> printable (upgrade_type (rq_Header r)) then (errorHandler gone (rq_Method r) (rq_Path r) bad_upgrade w, True)
      else let req = proxy_request base r; w1 = w\<lparr>w_calls := w_calls w @ [req]\<rparr>
           in case e_Upstream env req of
                NoReply e \<Rightarrow> (errorHandler gone (rq_Method r) (u_Path (proxy_url base r)) e w1, True)
              | Reply status h body failure \<Rightarrow>
                  if status = 101 then (w1, True) else proxy_reply status h body failure w1)"

end
