(* ===== verification/GoMux.thy ===== *)
theory GoMux imports
  GoForm
begin

text \<open>
  \<open>http.ServeMux\<close> for the patterns the program registers: an optional method, literal segments and
  an optional trailing slash, no host and no named wildcard. The routing tree is searched segment by
  segment, literals first; a node's subtree pattern takes any non-empty rest. Registration never
  panics for these patterns and is total here.
\<close>

section \<open>Patterns and the routing tree\<close>

record 'h pattern =
  pt_Text :: string
  pt_Method :: string
  pt_Segs :: "string list"
  pt_Multi :: bool
  pt_Handler :: 'h

datatype 'h node = Node (nd_leaf: "'h pattern option") (nd_children: "(string \<times> 'h node) list")
  (nd_multi: "'h pattern option")

definition empty_node :: "'h node" where "empty_node = Node None [] None"

record 'h mux =
  mx_methods :: "(string \<times> 'h node) list"
  mx_any :: "'h node"

definition new_mux :: "'h mux" where
  "new_mux = \<lparr>mx_methods = [], mx_any = empty_node\<rparr>"

text \<open>A trailing slash makes the pattern match every path below it.\<close>

definition parse_pattern :: "string \<Rightarrow> 'h \<Rightarrow> 'h pattern" where
  "parse_pattern s h =
     (let (method, path) = (case cut CHR '' '' s of (m, rest, found) \<Rightarrow> if found then (m, rest) else ([], s));
          segs = split_on CHR ''/'' (drop 1 path);
          multi = (last segs = [])
      in \<lparr>pt_Text = s, pt_Method = method, pt_Segs = (if multi then butlast segs else segs), pt_Multi = multi,
          pt_Handler = h\<rparr>)"

fun add_segments :: "string list \<Rightarrow> 'h pattern \<Rightarrow> 'h node \<Rightarrow> 'h node" where
  "add_segments [] p (Node l ch m) = (if pt_Multi p then Node l ch (Some p) else Node (Some p) ch m)"
| "add_segments (s # ss) p (Node l ch m) =
     Node l (map_put s (add_segments ss p (case map_of ch s of None \<Rightarrow> empty_node | Some n \<Rightarrow> n)) ch) m"

definition mux_handle :: "string \<Rightarrow> 'h \<Rightarrow> 'h mux \<Rightarrow> 'h mux" where
  "mux_handle s h mx =
     (let p = parse_pattern s h
      in if pt_Method p = [] then mx\<lparr>mx_any := add_segments (pt_Segs p) p (mx_any mx)\<rparr>
         else mx\<lparr>mx_methods := map_put (pt_Method p)
                (add_segments (pt_Segs p) p
                  (case map_of (mx_methods mx) (pt_Method p) of None \<Rightarrow> empty_node | Some n \<Rightarrow> n)) (mx_methods mx)\<rparr>)"

section \<open>Matching\<close>

text \<open>\<open>firstSegment\<close>, repeated: the segments are unescaped one by one, where that is possible; a
  final slash is a segment of its own. Unescaping a segment is unescaping a path.\<close>

definition path_unescape :: "string \<Rightarrow> string" where
  "path_unescape s = (case url_unescape EncodePath s of None \<Rightarrow> s | Some u \<Rightarrow> u)"

function path_segs :: "string \<Rightarrow> string list" where
  "path_segs p =
     (if p = [] then [] else if p = ''/'' then [''/'']
      else path_unescape (takeWhile (\<lambda>c. c \<noteq> CHR ''/'') (tl p)) # path_segs (dropWhile (\<lambda>c. c \<noteq> CHR ''/'') (tl p)))"
  by pat_completeness auto

termination path_segs
proof (relation "measure length")
  fix p :: string
  assume "p \<noteq> []"
  have "length (dropWhile (\<lambda>c. c \<noteq> CHR ''/'') (tl p)) \<le> length (tl p)" by (rule length_dropWhile_le)
  also have "length (tl p) < length p" using \<open>p \<noteq> []\<close> by (cases p) simp_all
  finally show "(dropWhile (\<lambda>c. c \<noteq> CHR ''/'') (tl p), p) \<in> measure length" by simp
qed simp

declare path_segs.simps [simp del]

fun match_path :: "'h node \<Rightarrow> string list \<Rightarrow> 'h pattern option" where
  "match_path n [] = nd_leaf n"
| "match_path n (s # ss) =
     (case (case map_of (nd_children n) s of None \<Rightarrow> None | Some c \<Rightarrow> match_path c ss) of
        Some p \<Rightarrow> Some p
      | None \<Rightarrow> nd_multi n)"

definition match_method :: "'h mux \<Rightarrow> string \<Rightarrow> string list \<Rightarrow> 'h pattern option" where
  "match_method mx method segs =
     (case map_of (mx_methods mx) method of None \<Rightarrow> None | Some n \<Rightarrow> match_path n segs)"

text \<open>The method's own patterns, those of GET for a HEAD, those without a method.\<close>

definition mux_match :: "'h mux \<Rightarrow> string \<Rightarrow> string \<Rightarrow> 'h pattern option" where
  "mux_match mx method path =
     (case match_method mx method (path_segs path) of
        Some p \<Rightarrow> Some p
      | None \<Rightarrow>
          (case (if method = ''HEAD'' then match_method mx ''GET'' (path_segs path) else None) of
             Some p \<Rightarrow> Some p
           | None \<Rightarrow> match_path (mx_any mx) (path_segs path)))"

definition matching_methods :: "'h mux \<Rightarrow> string \<Rightarrow> string list" where
  "matching_methods mx path =
     (let tries = path # (if suffix ''/'' path then [] else [path @ ''/'']);
          ms = filter (\<lambda>m. \<exists>p \<in> set tries. match_method mx m (path_segs p) \<noteq> None) (map fst (mx_methods mx));
          ms' = (if ''GET'' \<in> set ms \<and> ''HEAD'' \<notin> set ms then ''HEAD'' # ms else ms)
      in sort ms')"

definition exact_match :: "'h pattern option \<Rightarrow> string \<Rightarrow> bool" where
  "exact_match m path =
     (case m of None \<Rightarrow> False
      | Some p \<Rightarrow>
          if \<not> pt_Multi p then True
          else if path \<noteq> [] \<and> last path \<noteq> CHR ''/'' then False
          else length (pt_Segs p) + 1 = count_list path CHR ''/'')"

section \<open>Finding the handler\<close>

datatype 'h route =
    Matched "'h pattern"
  | Moved (mv_URL: string) (mv_Pattern: string)
  | NotAllowed "string list"
  | Unrouted

definition cleanPath :: "string \<Rightarrow> string" where
  "cleanPath p =
     (if p = [] then ''/''
      else let q = (if hd p \<noteq> CHR ''/'' then CHR ''/'' # p else p); np = path_Clean q
           in if last q = CHR ''/'' \<and> np \<noteq> ''/'' then np @ ''/'' else np)"

definition rq_EscapedPath :: "Request \<Rightarrow> string" where
  "rq_EscapedPath r = EscapedPath (empty_url\<lparr>u_Path := rq_Path r, u_RawPath := rq_RawPath r\<rparr>)"

text \<open>\<open>matchOrRedirect\<close>: the match, or the target of the redirect that appends a slash.\<close>

definition match_or_redirect :: "'h mux \<Rightarrow> Request \<Rightarrow> string \<Rightarrow> 'h pattern option \<times> URL option" where
  "match_or_redirect mx r path =
     (let n = mux_match mx (rq_Method r) path; slashed = path @ ''/''
      in if \<not> exact_match n path \<and> \<not> suffix ''/'' path \<and> exact_match (mux_match mx (rq_Method r) slashed) slashed
         then (mux_match mx (rq_Method r) slashed,
               Some (empty_url\<lparr>u_Path := cleanPath (rq_Path r) @ ''/'', u_RawQuery := rq_RawQuery r\<rparr>))
         else (n, None))"

definition unmatched :: "'h mux \<Rightarrow> string \<Rightarrow> 'h route" where
  "unmatched mx path = (case matching_methods mx path of [] \<Rightarrow> Unrouted | m # ms \<Rightarrow> NotAllowed (m # ms))"

definition findHandler :: "'h mux \<Rightarrow> Request \<Rightarrow> 'h route" where
  "findHandler mx r =
     (let escaped = rq_EscapedPath r
      in if rq_Method r = ''CONNECT'' then
           (case match_or_redirect mx r escaped of
              (_, Some u) \<Rightarrow> Moved (url_String u) (u_Path u)
            | (_, None) \<Rightarrow>
                (case mux_match mx (rq_Method r) escaped of Some p \<Rightarrow> Matched p | None \<Rightarrow> unmatched mx escaped))
         else let path = cleanPath escaped
              in case match_or_redirect mx r path of
                   (_, Some u) \<Rightarrow> Moved (url_String u) (u_Path u)
                 | (n, None) \<Rightarrow>
                     if path \<noteq> escaped then
                       Moved (url_String (empty_url\<lparr>u_Path := path, u_RawQuery := rq_RawQuery r\<rparr>))
                         (case n of None \<Rightarrow> [] | Some p \<Rightarrow> pt_Text p)
                     else (case n of Some p \<Rightarrow> Matched p | None \<Rightarrow> unmatched mx path))"

text \<open>The answers of the mux itself.\<close>

definition comma_join :: "string list \<Rightarrow> string" where
  "comma_join ms = concat (map (\<lambda>(i, m). if i = (0::nat) then m else '', '' @ m) (enumerate 0 ms))"

definition mux_answer :: "'h route \<Rightarrow> Request \<Rightarrow> ResponseWriter \<Rightarrow> ResponseWriter" where
  "mux_answer rt r w =
     (case rt of
        Moved url _ \<Rightarrow> http_Redirect 307 ''Temporary Redirect'' (rq_Method r) (rq_Path r) url w
      | NotAllowed ms \<Rightarrow> http_Error ''Method Not Allowed'' 405 (set_header ''Allow'' (comma_join ms) w)
      | Unrouted \<Rightarrow> http_Error ''404 page not found'' 404 w
      | Matched p \<Rightarrow> w)"

definition route_pattern :: "'h route \<Rightarrow> string" where
  "route_pattern rt = (case rt of Matched p \<Rightarrow> pt_Text p | Moved _ pat \<Rightarrow> pat | _ \<Rightarrow> [])"

end
