(* ===== verification/UpstreamProps.thy ===== *)
theory UpstreamProps imports
  Upstream
  GoMux
  AuthorizeProps
begin

text \<open>The properties of the reverse proxy for the API.\<close>

section \<open>Headers\<close>

lemma map_of_fold_del: "map_of (fold header_del ks h) k = (if k \<in> set ks then None else map_of h k)"
  by (induction ks arbitrary: h) auto

lemma map_of_removeHopByHop:
  "map_of (removeHopByHop h) k = (if k \<in> set hopHeaders \<union> set (connection_named h) then None else map_of h k)"
  by (simp add: removeHopByHop_def map_of_fold_del)

lemma forwarded_not_hop: "k \<in> set forwardedHeaders \<Longrightarrow> k \<notin> {''Te'', ''Upgrade'', ''Connection'', ''User-Agent''}"
  by (auto simp: forwardedHeaders_def)

lemma proxy_headers_removed: "k \<in> set forwardedHeaders \<Longrightarrow> map_of (proxy_headers h) k = None"
  using forwarded_not_hop [of k] by (auto simp: proxy_headers_def Let_def map_of_fold_del)

lemma hop_names [simp]: "''Te'' \<in> set hopHeaders" "''Upgrade'' \<in> set hopHeaders" "''Connection'' \<in> set hopHeaders"
  by (simp_all add: hopHeaders_def)

lemma proxy_headers_kept:
  assumes "k \<notin> set forwardedHeaders \<union> set hopHeaders \<union> set (connection_named h) \<union> {''User-Agent''}"
  shows "map_of (proxy_headers h) k = map_of h k"
proof -
  have "k \<noteq> ''Te''" "k \<noteq> ''Upgrade''" "k \<noteq> ''Connection''" "k \<noteq> ''User-Agent''"
    using assms by auto
  with assms show ?thesis
    by (simp add: proxy_headers_def Let_def map_of_fold_del map_of_removeHopByHop)
qed

section \<open>The outgoing URL\<close>

lemma proxy_url_fields:
  "u_Scheme (proxy_url base r) = u_Scheme base" "u_Host (proxy_url base r) = u_Host base"
  "u_User (proxy_url base r) = None" "u_Fragment (proxy_url base r) = []"
  "u_RawQuery base = [] \<Longrightarrow> u_RawQuery (proxy_url base r) = cleanQueryParams (rq_RawQuery r)"
  by (simp_all add: proxy_url_def rewriteRequestURL_def empty_url_def split: prod.split)

lemma escaped_again:
  "u_Path u \<noteq> ''*'' \<Longrightarrow> EscapedPath (v\<lparr>u_Path := u_Path u, u_RawPath := EscapedPath u\<rparr>) = EscapedPath u"
  by (auto simp: EscapedPath_def)

lemma escaped_no_raw: "u_RawPath u = [] \<Longrightarrow> u_Path u \<noteq> ''*'' \<Longrightarrow> EscapedPath u = url_escape EncodePath (u_Path u)"
  by (simp add: EscapedPath_def)

lemma proxy_path:
  assumes "u_Path base = []" "u_RawPath base = []" "prefix ''/'' (rq_Path r)" "prefix ''/'' (rq_EscapedPath r)"
  shows "EscapedPath (proxy_url base r) = rq_EscapedPath r"
proof -
  let ?b = "empty_url\<lparr>u_Path := rq_Path r, u_RawPath := rq_RawPath r, u_RawQuery := cleanQueryParams (rq_RawQuery r)\<rparr>"
  have e: "EscapedPath ?b = rq_EscapedPath r" by (simp add: rq_EscapedPath_def EscapedPath_def)
  have star: "u_Path ?b \<noteq> ''*''" using assms(3) by (auto simp: prefix_def)
  have a: "EscapedPath base = []" using assms(1,2) by (simp add: EscapedPath_def url_escape_Nil)
  have j: "joinURLPath base ?b = (rq_Path r, if rq_RawPath r \<noteq> [] then rq_EscapedPath r else [])"
    using assms e a by (simp add: joinURLPath_def Let_def)
  show ?thesis
  proof (cases "rq_RawPath r = []")
    case True
    then show ?thesis
      using j star e by (simp add: proxy_url_def rewriteRequestURL_def EscapedPath_def)
  next
    case False
    then show ?thesis
      using j escaped_again [OF star] e by (auto simp: proxy_url_def rewriteRequestURL_def EscapedPath_def)
  qed
qed

section \<open>Properties\<close>

text \<open>
  C26. What the API proxy sends to Strava: host and scheme come from the configured base and nothing
  else; under a base without a path the escaped path is the caller's, byte for byte; no forwarding
  header passes; every other header passes unchanged unless it is hop-by-hop or named in Connection.
  The query is the caller's only when it has no semicolon and no broken escape; any other is
  replaced by an encoding of the parameters that parse.
\<close>

theorem proxied_request_faithful:
  assumes "u_RawQuery base = []"
  shows "u_Scheme (proxy_url base r) = u_Scheme base \<and> u_Host (proxy_url base r) = u_Host base \<and>
    u_User (proxy_url base r) = None \<and> u_Fragment (proxy_url base r) = [] \<and>
    (u_Path base = [] \<and> u_RawPath base = [] \<and> prefix ''/'' (rq_Path r) \<and> prefix ''/'' (rq_EscapedPath r) \<longrightarrow>
      EscapedPath (proxy_url base r) = rq_EscapedPath r) \<and>
    u_RawQuery (proxy_url base r) =
      (if clean_query (rq_RawQuery r) then rq_RawQuery r else Encode (fst (ParseQuery (rq_RawQuery r)))) \<and>
    (\<forall>k \<in> set forwardedHeaders. map_of (or_Header (proxy_request base r)) k = None) \<and>
    (\<forall>k. k \<notin> set forwardedHeaders \<union> set hopHeaders \<union> set (connection_named (rq_Header r)) \<union> {''User-Agent''} \<longrightarrow>
      map_of (or_Header (proxy_request base r)) k = map_of (rq_Header r) k)"
  using proxy_url_fields [of base r] assms proxy_path proxy_headers_removed proxy_headers_kept
  by (simp add: proxy_request_def cleanQueryParams_def)

definition api_request :: "string \<Rightarrow> Header \<Rightarrow> Request" where
  "api_request q h = \<lparr>rq_Method = ''GET'', rq_Path = ''/api/v3/athlete'', rq_RawPath = [], rq_RawQuery = q, rq_Header = h,
     rq_Body = [], rq_BodyClean = True, rq_ContentLength = 0\<rparr>"

theorem proxied_request_faithful_witness:
  "u_Host (proxy_url (empty_url\<lparr>u_Scheme := ''https'', u_Host := ''s''\<rparr>) (api_request ''a=1;b=2'' [])) = ''s'' \<and>
   u_RawQuery (proxy_url (empty_url\<lparr>u_Scheme := ''https'', u_Host := ''s''\<rparr>) (api_request ''a=1;b=2'' [])) = []"
proof -
  have b: "u_RawQuery (empty_url\<lparr>u_Scheme := ''https'', u_Host := ''s''\<rparr>) = []" by (simp add: empty_url_def)
  have q: "rq_RawQuery (api_request ''a=1;b=2'' []) = ''a=1;b=2''" by (simp add: api_request_def)
  have c: "clean_query ''a=1;b=2'' = False" "Encode (fst (ParseQuery ''a=1;b=2'')) = []" by code_simp+
  from proxied_request_faithful [OF b, of "api_request ''a=1;b=2'' []", unfolded q c if_False] show ?thesis
    by (simp add: empty_url_def)
qed

text \<open>
  C27. How the API proxy fails: a caller that went away is neither answered nor counted; a timeout is
  counted and answered with the 504 body, any other failure of the call with the 502 body; the log
  record holds the cause without the URL.
\<close>

theorem proxy_failures:
  assumes "printable (upgrade_type (rq_Header r))" "e_Upstream env (proxy_request base r) = NoReply e"
    and "NewProxy env gone base r w = (w', returned)"
  shows "returned \<and> w_calls w' = w_calls w @ [proxy_request base r] \<and>
    (if ce_Canceled e \<or> gone then w_rw w' = w_rw w \<and> w_metrics w' = w_metrics w
     else if IsTimeout e then w_rw w' = WriteUpstreamTimeout (w_rw w) \<and>
       m_UpstreamErrors (w_metrics w') = Inc ''timeout'' (m_UpstreamErrors (w_metrics w))
     else w_rw w' = WriteUpstreamUnavailable (w_rw w) \<and>
       m_UpstreamErrors (w_metrics w') = Inc ''unavailable'' (m_UpstreamErrors (w_metrics w))) \<and>
    (\<forall>op cause. ce_URLError e = Some (op, cause) \<and> \<not> (ce_Canceled e \<or> gone) \<longrightarrow>
      (''error'', LStr (op @ '': '' @ cause)) \<in> set (lg_Attrs (last (w_log w'))))"
proof -
  have w': "w' = errorHandler gone (rq_Method r) (u_Path (proxy_url base r)) e (w\<lparr>w_calls := w_calls w @ [proxy_request base r]\<rparr>)"
    and returned
    using assms by (auto simp: NewProxy_def Let_def)
  have u: "m_UpstreamErrors (w_metrics (inc_upstream k x)) = Inc k (m_UpstreamErrors (w_metrics x))" for k x
    by (simp add: inc_upstream_def)
  show ?thesis
    using \<open>returned\<close>
    by (simp add: w' errorHandler_def isCanceled_def Let_def u KindTimeout_def KindUnavailable_def)
      (simp add: logmsg_def redactErr_def)
qed

definition dead_env :: Env where
  "dead_env = tiny_env\<lparr>e_Upstream := (\<lambda>req. NoReply \<lparr>ce_Deadline = True, ce_Canceled = False, ce_NetTimeout = None,
     ce_URLError = None, ce_Text = []\<rparr>)\<rparr>"

theorem proxy_failures_witness:
  "sent_status (w_rw (fst (NewProxy dead_env False (empty_url\<lparr>u_Scheme := ''https'', u_Host := ''s''\<rparr>) (api_request [] [])
     new_world))) = Some 504"
proof -
  let ?base = "empty_url\<lparr>u_Scheme := ''https'', u_Host := ''s''\<rparr>"
  have p: "printable (upgrade_type (rq_Header (api_request [] [])))"
    by (simp add: api_request_def upgrade_type_def has_token_def list_elements_def header_values_def printable_def)
  obtain w' ret where n: "NewProxy dead_env False ?base (api_request [] []) new_world = (w', ret)" by fastforce
  have "w_rw w' = WriteUpstreamTimeout (w_rw new_world)"
    using proxy_failures [OF p _ n] by (simp add: dead_env_def IsTimeout_def)
  then show ?thesis
    unfolding n fst_conv
    by (simp add: new_world_def new_writer_def WriteUpstreamTimeout_def fault_Write_def sent_status_def Let_def informational_def)
qed

end
