(* ===== verification/Endpoints.thy ===== *)
theory Endpoints imports
  TokenLaws
  CallbackLaws
  Httpmid
begin

text \<open>
  The interface of an OAuth endpoint as the middleware and the server rely on it, and its
  interpretation on every endpoint: it answers exactly once, whatever happens; it makes at most one
  call, to a fixed path under the configured base URL; it leaves the hardening headers alone; it
  only appends to the log; it keeps the client id cell of the access log.
\<close>

section \<open>The interface\<close>

definition strava_call :: "Config \<Rightarrow> OutRequest \<Rightarrow> bool" where
  "strava_call cfg req \<longleftrightarrow> or_Method req = ''POST'' \<and>
     (\<exists>p \<in> {pathToken, pathDeauthorize, pathRevoke}. \<exists>t q. upstreamURL cfg p = Some t \<and>
        or_URL req = url_String (t\<lparr>u_RawQuery := q\<rparr>))"

definition calls_once :: "Config \<Rightarrow> World \<Rightarrow> World \<Rightarrow> bool" where
  "calls_once cfg w w' \<longleftrightarrow> (\<exists>cs. w_calls w' = w_calls w @ cs \<and> length cs \<le> 1 \<and> list_all (strava_call cfg) cs)"

definition keeps_cell :: "World \<Rightarrow> World \<Rightarrow> bool" where
  "keeps_cell w w' \<longleftrightarrow> (w_client_id w' = None) = (w_client_id w = None)"

definition answered :: "World \<Rightarrow> World \<Rightarrow> bool" where
  "answered w w' \<longleftrightarrow> (\<exists>s. answers (w_rw w) (w_rw w') s)"

text \<open>The log only grows, and not by an access record: that is the access log's own.\<close>

definition appends_log :: "World \<Rightarrow> World \<Rightarrow> bool" where
  "appends_log w w' \<longleftrightarrow> (\<exists>evs. w_log w' = w_log w @ evs \<and> list_all (\<lambda>e. lg_Msg e \<noteq> ''http request'') evs)"

locale oauth_handler =
  fixes h :: "Env \<Rightarrow> Holder \<Rightarrow> handler"
  assumes answers_once: "rw_Sent (w_rw w) = None \<Longrightarrow> final_replies env \<Longrightarrow> answered w (h env holder r w)"
    and one_call: "calls_once (holder_Get holder) w (h env holder r w)"
    and log_appends: "appends_log w (h env holder r w)"
    and cell_stays: "keeps_cell w (h env holder r w)"
begin

text \<open>Behind \<open>SecurityHeaders\<close> every response carries the two hardening headers.\<close>

lemma hardened:
  assumes "rw_Sent (w_rw w) = None" "final_replies env"
  shows "\<exists>s hdr. rw_Sent (w_rw (SecurityHeaders (h env holder) r w)) = Some (s, hdr) \<and>
    map_of hdr ''Cache-Control'' = Some [''no-store''] \<and> map_of hdr ''Referrer-Policy'' = Some [''no-referrer'']"
proof -
  let ?w = "respond (\<lambda>rw. set_header HeaderCacheControl CacheControlValue
    (set_header HeaderReferrerPolicy ReferrerPolicyValue rw)) w"
  have "rw_Sent (w_rw ?w) = None" using assms(1) by simp
  from answers_once [OF this assms(2), of holder r] obtain s hdr
    where s: "rw_Sent (w_rw (h env holder r ?w)) = Some (s, hdr)" "same_headers (rw_Header (w_rw ?w)) hdr"
    by (auto simp: answered_def answers_def)
  have "''Cache-Control'' \<notin> own_headers" "''Referrer-Policy'' \<notin> own_headers"
    by (simp_all add: own_headers_def)
  with s(2) have "map_of hdr ''Cache-Control'' = Some [''no-store'']" "map_of hdr ''Referrer-Policy'' = Some [''no-referrer'']"
    by (simp_all add: same_headers_def HeaderCacheControl_def CacheControlValue_def HeaderReferrerPolicy_def
        ReferrerPolicyValue_def)
  with s(1) show ?thesis by (simp add: SecurityHeaders_def)
qed

text \<open>Behind \<open>AccessLog\<close> the log grows by what the handler logged and, last, the one access record, with
  the status that was sent.\<close>

lemma logged:
  assumes "rw_Sent (w_rw w) = None" "final_replies env"
  shows "\<exists>s evs bytes cid. sent_status (w_rw (AccessLog pat el (h env holder) r w)) = Some s \<and>
    w_log (AccessLog pat el (h env holder) r w) = w_log w @ evs @
      [\<lparr>lg_Level = (if s \<ge> 500 then Warn else Info), lg_Msg = ''http request'',
        lg_Attrs = access_attrs (pat r) el r s bytes (Some cid)\<rparr>] \<and>
    list_all (\<lambda>e. lg_Msg e \<noteq> ''http request'') evs"
proof -
  let ?w = "w\<lparr>w_client_id := Some []\<rparr>"
  have n: "rw_Sent (w_rw ?w) = None" using assms(1) by simp
  obtain s where s: "sent_status (w_rw (h env holder r ?w)) = Some s"
    using answers_once [OF n assms(2), of holder r] by (auto simp: answered_def answers_def sent_status_def)
  obtain evs where e: "w_log (h env holder r ?w) = w_log w @ evs" "list_all (\<lambda>e. lg_Msg e \<noteq> ''http request'') evs"
    using log_appends [of ?w env holder r] by (auto simp: appends_log_def)
  obtain cid where c: "w_client_id (h env holder r ?w) = Some cid"
    using cell_stays [of ?w env holder r] by (auto simp: keeps_cell_def)
  show ?thesis
    using s e c by (simp add: AccessLog_def Let_def observed_status_def logmsg_def) blast
qed

end

text \<open>A browser-facing endpoint never calls Strava: only the browser does.\<close>

locale browser_handler = oauth_handler +
  assumes no_call: "w_calls (h env holder r w) = w_calls w"

section \<open>Extending the world\<close>

definition extends :: "World \<Rightarrow> World \<Rightarrow> bool" where
  "extends w w' \<longleftrightarrow> appends_log w w' \<and> keeps_cell w w'"

lemma appends_refl [simp]: "appends_log w w"
  by (simp add: appends_log_def)

lemma appends_logmsg: "m \<noteq> ''http request'' \<Longrightarrow> appends_log w w' \<Longrightarrow> appends_log w (logmsg l m a w')"
  by (auto simp: appends_log_def logmsg_def)

lemma extends_refl [simp]: "extends w w"
  by (simp add: extends_def keeps_cell_def)

lemma extends_steps [simp]:
  "extends w (respond f w') = extends w w'" "extends w (inc_callbacks k w') = extends w w'"
  "extends w (inc_exchanges k w') = extends w w'" "extends w (inc_upstream k w') = extends w w'"
  "extends w (w'\<lparr>w_calls := cs\<rparr>) = extends w w'" "extends w (reject_callback k d w') = extends w w'"
  "extends w (reject_token k f w') = extends w w'" "extends w (SetClientID c w') = extends w w'"
  by (auto simp: extends_def appends_log_def keeps_cell_def reject_callback_def reject_token_def SetClientID_def)

lemma extends_logmsg [simp]: "m \<noteq> ''http request'' \<Longrightarrow> extends w w' \<Longrightarrow> extends w (logmsg l m a w')"
  by (simp add: extends_def keeps_cell_def appends_logmsg)

lemma extends_relay [simp]: "extends w w' \<Longrightarrow> extends w (snd (relay env req route w'))"
  by (auto simp: relay_def Let_def split: upstream_result.split option.split)

lemma extends_nonce: "issue_nonce env cfg c w' = Some (n, w2) \<Longrightarrow> extends w w' \<Longrightarrow> extends w w2"
  by (auto simp: issue_nonce_def split: if_splits)

lemma extends_authorize: "extends w (authorize env holder r path w)"
proof -
  have red: "extends w w' \<Longrightarrow> extends w (authorize_redirect env cfg r path p w')" for cfg p w'
    by (auto simp: authorize_redirect_def Let_def split: sum.split option.split)
  show ?thesis
    by (auto simp: authorize_def Let_def intro!: red split: option.split prod.split elim: extends_nonce)
qed

lemma extends_Callback: "extends w (Callback env holder r w)"
proof -
  have t: "extends w w' \<Longrightarrow> extends w (callback_target env cfg r st w')" for cfg st w'
    by (auto simp: callback_target_def error_leg_def code_leg_def finishRedirect_def Let_def
        split: option.split prod.split sum.split)
  then have "extends w w' \<Longrightarrow> extends w (callback_client env cfg r st w')" for cfg st w'
    by (auto simp: callback_client_def Let_def split: option.split)
  then show ?thesis
    by (auto simp: Callback_def Let_def split: sum.split)
qed

lemma extends_Token: "extends w (Token env holder r w)"
proof -
  have u: "extends w w' \<Longrightarrow> extends w (token_upstream env cfg g out w')" for cfg g out w'
    by (auto simp: token_upstream_def case_prod_beta split: option.split)
  have "extends w w' \<Longrightarrow> extends w (token_exchange env cfg c form w')" for cfg c form w'
    by (auto simp: token_exchange_def unwrap_code_def Let_def intro!: u split: sum.split if_splits)
  then show ?thesis
    by (auto simp: Token_def Let_def split: prod.split option.split)
qed

lemma extends_Deauthorize: "extends w (Deauthorize env holder r w)"
  by (auto simp: Deauthorize_def Let_def split: option.split)

lemma extends_Revoke: "extends w (Revoke env holder r w)"
proof -
  have "extends w w' \<Longrightarrow> extends w (revoke_upstream env cfg r w')" for cfg w'
    by (auto simp: revoke_upstream_def Let_def split: option.split)
  then show ?thesis
    by (auto simp: Revoke_def Let_def split: option.split prod.split)
qed

section \<open>Every endpoint answers\<close>

text \<open>Nothing has been sent yet, and only headers the handlers own were touched.\<close>

definition pending :: "World \<Rightarrow> World \<Rightarrow> bool" where
  "pending w w' \<longleftrightarrow> rw_Sent (w_rw w') = None \<and>
     same_headers (rw_Header (w_rw w)) = same_headers (rw_Header (w_rw w'))"

lemma pending_refl [simp]: "pending w w \<longleftrightarrow> rw_Sent (w_rw w) = None"
  by (simp add: pending_def)

lemma pending_steps [simp]:
  "pending w (logmsg l m a w') = pending w w'" "pending w (inc_callbacks k w') = pending w w'"
  "pending w (inc_exchanges k w') = pending w w'" "pending w (SetClientID c w') = pending w w'"
  "pending w (respond (SetCookie ck) w') = pending w w'" "pending w (respond clearNonceCookie w') = pending w w'"
  by (simp_all add: pending_def clearNonceCookie_def fun_eq_iff)

lemma pending_nonce: "issue_nonce env cfg c w' = Some (n, w2) \<Longrightarrow> pending w w' \<Longrightarrow> pending w w2"
  by (auto simp: issue_nonce_def split: if_splits)

lemma pending_answers: "pending w w' \<Longrightarrow> answers (w_rw w') rw s \<Longrightarrow> answered w (respond (\<lambda>_. rw) w'')"
  by (auto simp: pending_def answered_def answers_def fun_eq_iff)

lemma answered_eq: "w_rw w'' = w_rw w' \<Longrightarrow> answered w w'' = answered w w'"
  by (simp add: answered_def)

lemma answered_steps [simp]:
  "answered w (logmsg l m a w') = answered w w'" "answered w (inc_exchanges k w') = answered w w'"
  by (simp_all add: answered_def)

lemma answered_writers [intro]:
  assumes "pending w w'"
  shows "answered w (respond WriteInvalidClientID w')" "answered w (respond WriteInvalidClientSecret w')"
    "answered w (respond WriteInvalidCode w')" "answered w (respond WriteUnauthorized w')"
    "answered w (respond WriteUpstreamUnavailable w')" "answered w (respond WriteUpstreamTimeout w')"
    "answered w (respond (WriteBadRequestPage d) w')" "answered w (respond writeInternal w')"
    "answered w (respond (RedirectFound m p url) w')"
proof -
  have n: "rw_Sent (w_rw w') = None" and h: "answers (w_rw w) = answers (w_rw w')"
    using assms by (auto simp: pending_def answers_def fun_eq_iff)
  show "answered w (respond WriteInvalidClientID w')" "answered w (respond WriteInvalidClientSecret w')"
    "answered w (respond WriteInvalidCode w')" "answered w (respond WriteUnauthorized w')"
    "answered w (respond WriteUpstreamUnavailable w')" "answered w (respond WriteUpstreamTimeout w')"
    "answered w (respond (WriteBadRequestPage d) w')" "answered w (respond writeInternal w')"
    "answered w (respond (RedirectFound m p url) w')"
    using n by (auto simp: answered_def h intro: answers_faults answers_page answers_internal answers_redirect)
qed

lemma answered_rejects [intro]:
  assumes "pending w w'"
  shows "answered w (reject_callback k d w')" "answered w (reject_token k WriteInvalidClientID w')"
    "answered w (reject_token k WriteInvalidClientSecret w')"
  using assms by (auto simp: reject_callback_def reject_token_def)

lemma answered_relay [intro]:
  assumes "final_replies env" "pending w w'"
  shows "answered w (snd (relay env req route w'))"
proof -
  have h: "answers (w_rw w) = answers (w_rw w')" using assms(2) by (simp add: pending_def answers_def fun_eq_iff)
  show ?thesis
    using answers_relay [OF assms(1), of w' req route] assms(2) by (auto simp: answered_def h pending_def)
qed

lemma answered_authorize:
  assumes "rw_Sent (w_rw w) = None"
  shows "answered w (authorize env holder r path w)"
proof -
  have red: "answered w (authorize_redirect env cfg r path p w')" if "pending w w'" for cfg p w'
    using that by (auto simp: authorize_redirect_def Let_def split: sum.split option.split)
  show ?thesis
    using assms by (auto simp: authorize_def Let_def intro!: red split: option.split prod.split elim!: pending_nonce)
qed

lemma answered_Callback:
  assumes "rw_Sent (w_rw w) = None"
  shows "answered w (Callback env holder r w)"
proof -
  have t: "answered w (callback_target env cfg r st w')" if "pending w w'" for cfg st w'
    using that by (auto simp: callback_target_def error_leg_def code_leg_def finishRedirect_def Let_def
        split: option.split prod.split sum.split)
  have c: "answered w (callback_client env cfg r st w')" if "pending w w'" for cfg st w'
    using that by (auto simp: callback_client_def Let_def t split: option.split)
  show ?thesis
    using assms by (auto simp: Callback_def Let_def c split: sum.split)
qed

lemma answered_Token:
  assumes "rw_Sent (w_rw w) = None" "final_replies env"
  shows "answered w (Token env holder r w)"
proof -
  have u: "answered w (token_upstream env cfg g out w')" if "pending w w'" for cfg g out w'
    using that assms(2) by (auto simp: token_upstream_def case_prod_beta split: option.split)
  have e: "answered w (token_exchange env cfg c form w')" if "pending w w'" for cfg c form w'
    using that by (auto simp: token_exchange_def unwrap_code_def Let_def u split: sum.split if_splits)
  show ?thesis
    using assms(1) by (auto simp: Token_def Let_def e split: prod.split option.split)
qed

lemma answered_Deauthorize:
  "rw_Sent (w_rw w) = None \<Longrightarrow> final_replies env \<Longrightarrow> answered w (Deauthorize env holder r w)"
  by (auto simp: Deauthorize_def Let_def split: option.split)

lemma answered_Revoke:
  assumes "rw_Sent (w_rw w) = None" "final_replies env"
  shows "answered w (Revoke env holder r w)"
proof -
  have "answered w (revoke_upstream env cfg r w')" if "pending w w'" for cfg w'
    using that assms(2) by (auto simp: revoke_upstream_def Let_def split: option.split)
  then show ?thesis
    using assms(1) by (auto simp: Revoke_def Let_def split: option.split prod.split)
qed

section \<open>Every endpoint calls Strava at most once\<close>

lemma calls_once_refl [simp]: "w_calls w' = w_calls w \<Longrightarrow> calls_once cfg w w'"
  by (simp add: calls_once_def)

lemma calls_once_cong: "w_calls w'' = w_calls w' \<Longrightarrow> calls_once cfg w w'' = calls_once cfg w w'"
  by (simp add: calls_once_def)

lemma calls_once_steps [simp]:
  "calls_once cfg w (respond f w') = calls_once cfg w w'" "calls_once cfg w (logmsg l m a w') = calls_once cfg w w'"
  "calls_once cfg w (inc_exchanges k w') = calls_once cfg w w'" "calls_once cfg w (SetClientID c w') = calls_once cfg w w'"
  "calls_once cfg w (reject_token k f w') = calls_once cfg w w'"
  by (simp_all add: calls_once_def)

lemma calls_once_relay:
  "w_calls w' = w_calls w \<Longrightarrow> strava_call cfg req \<Longrightarrow> calls_once cfg w (snd (relay env req route w'))"
  by (simp add: calls_once_def relay_calls)

lemma strava_call_target:
  assumes "upstreamURL cfg p = Some t" "p \<in> {pathToken, pathDeauthorize, pathRevoke}"
    "or_Method req = ''POST''" "or_URL req = url_String t"
  shows "strava_call cfg req"
proof -
  have "t = t\<lparr>u_RawQuery := u_RawQuery t\<rparr>" by simp
  with assms show ?thesis unfolding strava_call_def by metis
qed

lemma strava_call_passthrough:
  assumes "upstreamURL cfg p = Some t" "p \<in> {pathToken, pathDeauthorize, pathRevoke}"
    "passthrough_request t r = Some req"
  shows "strava_call cfg (req\<lparr>or_Header := hdr\<rparr>)" "strava_call cfg req"
  using assms passthrough_request_Some [OF assms(3)] unfolding strava_call_def by auto

lemma Token_calls_once: "calls_once (holder_Get holder) w (Token env holder r w)"
proof -
  have u: "calls_once cfg w (token_upstream env cfg g out w')" if "w_calls w' = w_calls w" for cfg g out w'
    using that
    by (auto simp: token_upstream_def token_request_def new_request_Some case_prod_beta
        intro!: calls_once_relay strava_call_target split: option.split)
  have e: "calls_once cfg w (token_exchange env cfg c form w')" if "w_calls w' = w_calls w" for cfg c form w'
    using that by (auto simp: token_exchange_def unwrap_code_def Let_def u split: sum.split if_splits)
  show ?thesis
    by (auto simp: Token_def Let_def e split: prod.split option.split)
qed

lemma Deauthorize_calls_once: "calls_once (holder_Get holder) w (Deauthorize env holder r w)"
  by (auto simp: Deauthorize_def Let_def intro!: calls_once_relay intro: strava_call_passthrough split: option.split)

lemma Revoke_calls_once: "calls_once (holder_Get holder) w (Revoke env holder r w)"
proof -
  have "calls_once cfg w (revoke_upstream env cfg r w')" if "w_calls w' = w_calls w" for cfg w'
    using that
    by (auto simp: revoke_upstream_def Let_def intro!: calls_once_relay intro: strava_call_passthrough split: option.split)
  then show ?thesis
    by (auto simp: Revoke_def Let_def split: option.split prod.split)
qed

section \<open>The endpoints provide the interface\<close>

interpretation authorize_ep: browser_handler Authorize
  using extends_authorize by unfold_locales (auto simp: Authorize_def answered_authorize extends_def)

interpretation mobile_ep: browser_handler MobileAuthorize
  using extends_authorize by unfold_locales (auto simp: MobileAuthorize_def answered_authorize extends_def)

interpretation callback_ep: browser_handler Callback
  using extends_Callback by unfold_locales (auto simp: answered_Callback extends_def)

interpretation token_ep: oauth_handler Token
  using extends_Token by unfold_locales (auto simp: answered_Token Token_calls_once extends_def)

interpretation deauthorize_ep: oauth_handler Deauthorize
  using extends_Deauthorize by unfold_locales (auto simp: answered_Deauthorize Deauthorize_calls_once extends_def)

interpretation revoke_ep: oauth_handler Revoke
  using extends_Revoke by unfold_locales (auto simp: answered_Revoke Revoke_calls_once extends_def)

end
