(* ===== verification/Routes.thy ===== *)
theory Routes imports
  Endpoints
  Upstream
  GoMux
begin

text \<open>
  The handler chains of \<open>cmd/strava-auth-proxy/main.go\<close>: the routes of the OAuth handler
  (\<open>Handler.Register\<close> in \<open>internal/oauth/handler.go\<close>) and of the API proxy behind the access log and
  the hardening headers, and the admin handler.
\<close>

section \<open>Routes\<close>

datatype endpoint =
  EAuthorize | EMobileAuthorize | ECallback | EToken | EDeauthorize | ERevoke | EProxy

definition Register :: "endpoint mux \<Rightarrow> endpoint mux" where
  "Register mx =
     fold (\<lambda>(s, h). mux_handle s h)
       [(''GET '' @ pathAuthorize, EAuthorize), (''GET '' @ pathMobileAuthorize, EMobileAuthorize),
        (''GET /oauth/callback'', ECallback), (''POST /oauth/token'', EToken), (''POST '' @ pathToken, EToken),
        (''POST '' @ pathDeauthorize, EDeauthorize), (''POST '' @ pathRevoke, ERevoke)] mx"

definition public_mux :: "endpoint mux" where
  "public_mux = mux_handle ''/api/v3/'' EProxy (Register new_mux)"

section \<open>The public handler\<close>

text \<open>What a request meets besides its own content: the dependencies of the handlers, the base URL
  the reverse proxy was built with, whether the caller hung up, and the measured latency.\<close>

record Site =
  si_Env :: Env
  si_Holder :: Holder
  si_Base :: URL
  si_Gone :: bool
  si_Elapsed :: duration

definition serve_endpoint :: "Site \<Rightarrow> endpoint \<Rightarrow> handler" where
  "serve_endpoint si e =
     (case e of
        EAuthorize \<Rightarrow> Authorize (si_Env si) (si_Holder si)
      | EMobileAuthorize \<Rightarrow> MobileAuthorize (si_Env si) (si_Holder si)
      | ECallback \<Rightarrow> Callback (si_Env si) (si_Holder si)
      | EToken \<Rightarrow> Token (si_Env si) (si_Holder si)
      | EDeauthorize \<Rightarrow> Deauthorize (si_Env si) (si_Holder si)
      | ERevoke \<Rightarrow> Revoke (si_Env si) (si_Holder si)
      | EProxy \<Rightarrow> (\<lambda>r w. fst (NewProxy (si_Env si) (si_Gone si) (si_Base si) r w)))"

text \<open>\<open>ServeMux.ServeHTTP\<close>: a request for \<open>*\<close> is refused before the routes are looked at.\<close>

definition mux_serve :: "endpoint mux \<Rightarrow> Site \<Rightarrow> handler" where
  "mux_serve mx si r w =
     (if rq_Path r = ''*'' then respond (WriteHeader 400 \<circ> set_header ''Connection'' ''close'') w
      else (case findHandler mx r of
              Matched p \<Rightarrow> serve_endpoint si (pt_Handler p) r w
            | rt \<Rightarrow> respond (mux_answer rt r) w))"

definition mux_pattern :: "endpoint mux \<Rightarrow> Request \<Rightarrow> string" where
  "mux_pattern mx r = (if rq_Path r = ''*'' then [] else route_pattern (findHandler mx r))"

definition isOAuthSurface :: "string \<Rightarrow> bool" where
  "isOAuthSurface path \<longleftrightarrow> prefix ''/oauth/'' path \<or> path = ''/api/v3/oauth/token''"

definition oauthSurfaceHeaders :: "handler \<Rightarrow> handler" where
  "oauthSurfaceHeaders next r w = (if isOAuthSurface (rq_Path r) then SecurityHeaders next r w else next r w)"

text \<open>The reverse proxy abandons a response whose body failed on the way; then no access record is
  written.\<close>

definition abandons :: "Site \<Rightarrow> Request \<Rightarrow> bool" where
  "abandons si r \<longleftrightarrow>
     (rq_Path r \<noteq> ''*'' \<and>
      (case findHandler public_mux r of
         Matched p \<Rightarrow> pt_Handler p = EProxy \<and> printable (upgrade_type (rq_Header r)) \<and>
           (case e_Upstream (si_Env si) (proxy_request (si_Base si) r) of
              Reply status h body failure \<Rightarrow> status \<noteq> 101 \<and> failure \<noteq> None
            | NoReply e \<Rightarrow> False)
       | _ \<Rightarrow> False))"

definition publicHandler :: "Site \<Rightarrow> handler" where
  "publicHandler si r w =
     (let inner = oauthSurfaceHeaders (mux_serve public_mux si)
      in if abandons si r then inner r (w\<lparr>w_client_id := Some []\<rparr>)
         else AccessLog (mux_pattern public_mux) (si_Elapsed si) inner r w)"

section \<open>The admin handler\<close>

datatype admin_endpoint = Healthz | Readyz | MetricsPage

definition writePlain :: "string \<Rightarrow> ResponseWriter \<Rightarrow> ResponseWriter" where
  "writePlain body w =
     WriteBody body (WriteHeader 200 (set_header ''Cache-Control'' ''no-store''
       (set_header ''Content-Type'' ''text/plain; charset=utf-8'' w)))"

definition admin_mux :: "admin_endpoint mux" where
  "admin_mux = mux_handle ''GET /metrics'' MetricsPage (mux_handle ''GET /readyz'' Readyz
     (mux_handle ''GET /healthz'' Healthz new_mux))"

text \<open>The page of \<open>expvar\<close> is given: it renders every published variable as JSON.\<close>

definition adminHandler :: "(Metrics \<Rightarrow> string) \<Rightarrow> Metrics \<Rightarrow> Request \<Rightarrow> ResponseWriter \<Rightarrow> ResponseWriter" where
  "adminHandler expvar_page m r w =
     (if rq_Path r = ''*'' then WriteHeader 400 (set_header ''Connection'' ''close'' w)
      else (case findHandler admin_mux r of
              Matched p \<Rightarrow>
                (case pt_Handler p of
                   Healthz \<Rightarrow> writePlain (''ok'' @ [CHR 0x0A]) w
                 | Readyz \<Rightarrow> writePlain (''ready'' @ [CHR 0x0A]) w
                 | MetricsPage \<Rightarrow>
                     WriteBody (expvar_page m) (set_header ''Content-Type'' ''application/json; charset=utf-8'' w))
            | rt \<Rightarrow> mux_answer rt r w))"

section \<open>The route table\<close>

text \<open>The trees, computed.\<close>

lemma public_tree:
  "mx_methods public_mux =
     [(''GET'', Node None
         [(''oauth'', Node None
            [(''authorize'', Node (Some (parse_pattern ''GET /oauth/authorize'' EAuthorize)) [] None),
             (''mobile'', Node None
                [(''authorize'', Node (Some (parse_pattern ''GET /oauth/mobile/authorize'' EMobileAuthorize)) [] None)] None),
             (''callback'', Node (Some (parse_pattern ''GET /oauth/callback'' ECallback)) [] None)] None)] None),
      (''POST'', Node None
         [(''oauth'', Node None
            [(''token'', Node (Some (parse_pattern ''POST /oauth/token'' EToken)) [] None),
             (''deauthorize'', Node (Some (parse_pattern ''POST /oauth/deauthorize'' EDeauthorize)) [] None),
             (''revoke'', Node (Some (parse_pattern ''POST /oauth/revoke'' ERevoke)) [] None)] None),
          (''api'', Node None
            [(''v3'', Node None
               [(''oauth'', Node None
                  [(''token'', Node (Some (parse_pattern ''POST /api/v3/oauth/token'' EToken)) [] None)] None)] None)] None)]
         None)]"
  "mx_any public_mux =
     Node None [(''api'', Node None [(''v3'', Node None [] (Some (parse_pattern ''/api/v3/'' EProxy)))] None)] None"
  by code_simp+

end
