(* ===== verification/RoutesLaws.thy ===== *)
theory RoutesLaws imports
  Routes
begin

text \<open>Laws of the public routes: the routing tree against a table, and which requests it answers itself.\<close>

section \<open>The table\<close>

definition public_table :: "string \<Rightarrow> string list \<Rightarrow> endpoint option" where
  "public_table method segs =
     (if method \<in> {''GET'', ''HEAD''} \<and> segs = [''oauth'', ''authorize''] then Some EAuthorize
      else if method \<in> {''GET'', ''HEAD''} \<and> segs = [''oauth'', ''mobile'', ''authorize''] then Some EMobileAuthorize
      else if method \<in> {''GET'', ''HEAD''} \<and> segs = [''oauth'', ''callback''] then Some ECallback
      else if method = ''POST'' \<and> segs \<in> {[''oauth'', ''token''], [''api'', ''v3'', ''oauth'', ''token'']} then Some EToken
      else if method = ''POST'' \<and> segs = [''oauth'', ''deauthorize''] then Some EDeauthorize
      else if method = ''POST'' \<and> segs = [''oauth'', ''revoke''] then Some ERevoke
      else if prefix [''api'', ''v3''] segs \<and> length segs > 2 then Some EProxy
      else None)"

lemma pattern_handler [simp]: "pt_Handler (parse_pattern s h) = h"
  by (simp add: parse_pattern_def Let_def split: prod.split)

lemma list_upto4:
  obtains "xs = []" | a where "xs = [a]" | a b where "xs = [a, b]" | a b c where "xs = [a, b, c]"
  | a b c d where "xs = [a, b, c, d]" | a b c d e es where "xs = a # b # c # d # e # es"
proof (cases xs)
  case (Cons a as)
  then show ?thesis using that by (cases as; cases "tl as"; cases "tl (tl as)"; cases "tl (tl (tl as))") auto
qed (rule that)

lemma get_routes:
  "map_option pt_Handler (match_method public_mux ''GET'' segs) =
   (if segs = [''oauth'', ''authorize''] then Some EAuthorize
    else if segs = [''oauth'', ''mobile'', ''authorize''] then Some EMobileAuthorize
    else if segs = [''oauth'', ''callback''] then Some ECallback else None)"
  by (cases segs rule: list_upto4) (simp_all add: match_method_def public_tree)

lemma post_routes:
  "map_option pt_Handler (match_method public_mux ''POST'' segs) =
   (if segs \<in> {[''oauth'', ''token''], [''api'', ''v3'', ''oauth'', ''token'']} then Some EToken
    else if segs = [''oauth'', ''deauthorize''] then Some EDeauthorize
    else if segs = [''oauth'', ''revoke''] then Some ERevoke else None)"
  by (cases segs rule: list_upto4) (simp_all add: match_method_def public_tree)

lemma other_routes: "method \<notin> {''GET'', ''POST''} \<Longrightarrow> match_method public_mux method segs = None"
  by (simp add: match_method_def public_tree)

lemma any_routes:
  "map_option pt_Handler (match_path (mx_any public_mux) segs) =
   (if prefix [''api'', ''v3''] segs \<and> length segs > 2 then Some EProxy else None)"
  by (cases segs rule: list_upto4) (simp_all add: public_tree)

lemma first_match:
  "map_option f (case a of None \<Rightarrow> (case b of None \<Rightarrow> c | Some p \<Rightarrow> Some p) | Some p \<Rightarrow> Some p) =
   (case map_option f a of None \<Rightarrow> (case map_option f b of None \<Rightarrow> map_option f c | Some h \<Rightarrow> Some h) | Some h \<Rightarrow> Some h)"
  by (cases a; cases b) auto

lemma public_match:
  "map_option pt_Handler (mux_match public_mux method path) = public_table method (path_segs path)"
proof -
  have m: "map_option pt_Handler (if b then x else None) = (if b then map_option pt_Handler x else None)"
    for b and x :: "endpoint pattern option" by simp
  consider "method = ''GET''" | "method = ''POST''" | "method = ''HEAD''" | "method \<notin> {''GET'', ''POST'', ''HEAD''}"
    by blast
  then show ?thesis
    by cases (unfold mux_match_def first_match m, simp_all add: get_routes post_routes other_routes any_routes
        public_table_def del: option.map_comp)
qed

section \<open>Paths and their segments\<close>

lemma path_segs_simps [simp]: "path_segs [] = []" "path_segs ''/'' = [''/'']"
  by (simp_all add: path_segs.simps)

lemma path_segs_Cons:
  "s \<noteq> [] \<Longrightarrow> path_segs (CHR ''/'' # s) =
     path_unescape (takeWhile (\<lambda>c. c \<noteq> CHR ''/'') s) # path_segs (dropWhile (\<lambda>c. c \<noteq> CHR ''/'') s)"
  by (simp add: path_segs.simps [of "CHR ''/'' # s"])

lemma drop_to_slash: "dropWhile (\<lambda>c. c \<noteq> CHR ''/'') s = [] \<or> prefix ''/'' (dropWhile (\<lambda>c. c \<noteq> CHR ''/'') s)"
  by (induction s) auto

lemma count_before_slash: "count_list (takeWhile (\<lambda>c. c \<noteq> d) s) d = 0"
  by (induction s) auto

lemma count_drop_slash: "count_list (dropWhile (\<lambda>c. c \<noteq> d) s) d = count_list s d"
  by (induction s) auto

text \<open>One segment for every slash.\<close>

lemma length_path_segs: "p = [] \<or> prefix ''/'' p \<Longrightarrow> length (path_segs p) = count_list p CHR ''/''"
proof (induction p rule: path_segs.induct)
  case (1 p)
  show ?case
  proof (cases "p = [] \<or> p = ''/''")
    case True
    then show ?thesis by auto
  next
    case False
    then obtain s where p: "p = CHR ''/'' # s" using 1(2) by (auto simp: prefix_def)
    have "length (path_segs (dropWhile (\<lambda>c. c \<noteq> CHR ''/'') (tl p))) =
        count_list (dropWhile (\<lambda>c. c \<noteq> CHR ''/'') (tl p)) CHR ''/''"
      using 1(1) False drop_to_slash by blast
    then show ?thesis
      using False by (auto simp: p path_segs_Cons count_drop_slash)
  qed
qed

text \<open>An appended slash is a last segment of its own.\<close>

lemma path_segs_slashed:
  "prefix ''/'' p \<Longrightarrow> \<not> suffix ''/'' p \<Longrightarrow> path_segs (p @ ''/'') = path_segs p @ [''/'']"
proof (induction p rule: path_segs.induct)
  case (1 p)
  obtain s where p: "p = CHR ''/'' # s" "s \<noteq> []" using 1(2,3) by (auto simp: prefix_def)
  let ?d = "dropWhile (\<lambda>c. c \<noteq> CHR ''/'') s"
  show ?case
  proof (cases "?d = []")
    case True
    then have n: "CHR ''/'' \<notin> set s" by (auto simp: dropWhile_eq_Nil_conv)
    then have t: "takeWhile (\<lambda>c. c \<noteq> CHR ''/'') (s @ ''/'') = s" "dropWhile (\<lambda>c. c \<noteq> CHR ''/'') (s @ ''/'') = ''/''"
      "takeWhile (\<lambda>c. c \<noteq> CHR ''/'') s = s"
      by (auto simp: takeWhile_append dropWhile_append takeWhile_eq_all_conv dropWhile_eq_Nil_conv)
    show ?thesis
      unfolding p(1) append_Cons path_segs_Cons [OF p(2)] path_segs_Cons [of "s @ ''/''", simplified] t True by simp
  next
    case False
    then have d: "prefix ''/'' ?d" using drop_to_slash [of s] by blast
    have s: "s = takeWhile (\<lambda>c. c \<noteq> CHR ''/'') s @ ?d" by simp
    have ns: "\<not> suffix ''/'' ?d"
    proof
      assume "suffix ''/'' ?d"
      then have "suffix ''/'' p" using p(1) s by (metis suffix_ConsI suffix_appendI)
      with 1(3) show False by simp
    qed
    have "path_segs (?d @ ''/'') = path_segs ?d @ [''/'']"
      using 1(1) p d ns by auto
    moreover have "takeWhile (\<lambda>c. c \<noteq> CHR ''/'') (s @ ''/'') = takeWhile (\<lambda>c. c \<noteq> CHR ''/'') s"
      "dropWhile (\<lambda>c. c \<noteq> CHR ''/'') (s @ ''/'') = ?d @ ''/''"
      using False by (auto simp: takeWhile_append dropWhile_append dropWhile_eq_Nil_conv)
    ultimately show ?thesis
      using p by (simp add: path_segs_Cons)
  qed
qed

section \<open>The handler found\<close>

lemma table_slashed: "public_table m (segs @ [''/'']) \<in> {None, Some EProxy}"
  by (simp add: public_table_def)

text \<open>Only the API pattern is a subtree, of two segments.\<close>

definition public_patterns :: "endpoint pattern list" where
  "public_patterns =
     [parse_pattern ''GET /oauth/authorize'' EAuthorize, parse_pattern ''GET /oauth/mobile/authorize'' EMobileAuthorize,
      parse_pattern ''GET /oauth/callback'' ECallback, parse_pattern ''POST /oauth/token'' EToken,
      parse_pattern ''POST /oauth/deauthorize'' EDeauthorize, parse_pattern ''POST /oauth/revoke'' ERevoke,
      parse_pattern ''POST /api/v3/oauth/token'' EToken, parse_pattern ''/api/v3/'' EProxy]"

lemma public_patterns_shape:
  "list_all (\<lambda>p. (pt_Multi p \<longleftrightarrow> pt_Handler p = EProxy) \<and> (pt_Handler p = EProxy \<longrightarrow> length (pt_Segs p) = 2)) public_patterns"
  by code_simp

lemma matched_patterns:
  "match_method public_mux ''GET'' segs = Some p \<Longrightarrow> p \<in> set public_patterns"
  "match_method public_mux ''POST'' segs = Some p \<Longrightarrow> p \<in> set public_patterns"
  "match_path (mx_any public_mux) segs = Some p \<Longrightarrow> p \<in> set public_patterns"
  by (cases segs rule: list_upto4; auto simp: match_method_def public_tree public_patterns_def split: if_splits)+

lemma mux_match_shape:
  assumes "mux_match public_mux m path = Some p"
  shows "(pt_Multi p \<longleftrightarrow> pt_Handler p = EProxy) \<and> (pt_Handler p = EProxy \<longrightarrow> length (pt_Segs p) = 2)"
proof -
  have o: "match_method public_mux m segs = Some q \<Longrightarrow> q \<in> set public_patterns" for segs q
    using matched_patterns(1,2) other_routes by (cases "m = ''GET''"; cases "m = ''POST''") auto
  have "p \<in> set public_patterns"
    using assms matched_patterns(1,3) o
    by (auto simp: mux_match_def split: option.splits if_splits)
  then show ?thesis using public_patterns_shape by (auto simp: list_all_iff)
qed

lemma no_slash_redirect:
  assumes "prefix ''/'' path" "mux_match public_mux (rq_Method r) path \<noteq> None"
  shows "match_or_redirect public_mux r path = (mux_match public_mux (rq_Method r) path, None)"
proof -
  obtain p where p: "mux_match public_mux (rq_Method r) path = Some p" using assms(2) by blast
  have "False" if e: "\<not> exact_match (Some p) path" and s: "\<not> suffix ''/'' path"
    and x: "exact_match (mux_match public_mux (rq_Method r) (path @ ''/'')) (path @ ''/'')"
  proof -
    have px: "pt_Handler p = EProxy" using e mux_match_shape [OF p] by (auto simp: exact_match_def)
    then have "public_table (rq_Method r) (path_segs path) = Some EProxy"
      using public_match [of "rq_Method r" path] p by simp
    then have "length (path_segs path) > 2" by (auto simp: public_table_def split: if_splits)
    then have n: "count_list path CHR ''/'' > 2" using length_path_segs assms(1) by simp
    obtain q where q: "mux_match public_mux (rq_Method r) (path @ ''/'') = Some q"
      using x by (auto simp: exact_match_def split: option.splits)
    have "Some (pt_Handler q) = public_table (rq_Method r) (path_segs path @ [''/''])"
      using public_match [of "rq_Method r" "path @ ''/''"] q path_segs_slashed [OF assms(1) s] by simp
    then have "pt_Handler q = EProxy" using table_slashed [of "rq_Method r" "path_segs path"] by auto
    with x q n mux_match_shape [OF q] show False by (simp add: exact_match_def)
  qed
  then show ?thesis by (auto simp: match_or_redirect_def Let_def p)
qed

lemma clean_rooted: "prefix ''/'' (cleanPath p)"
proof -
  have "prefix ''/'' (path_Clean (CHR ''/'' # s))" for s
    by (simp add: path_Clean_def Let_def)
  then show ?thesis
    by (cases p) (auto simp: cleanPath_def Let_def)
qed

text \<open>A request reaches a handler exactly when its escaped path is clean and in the table.\<close>

lemma found_iff:
  assumes "rq_Method r \<noteq> ''CONNECT''"
  shows "(\<exists>p. findHandler public_mux r = Matched p \<and> pt_Handler p = h) \<longleftrightarrow>
    cleanPath (rq_EscapedPath r) = rq_EscapedPath r \<and>
    public_table (rq_Method r) (path_segs (rq_EscapedPath r)) = Some h"
proof -
  let ?e = "rq_EscapedPath r" and ?m = "mux_match public_mux (rq_Method r)"
  show ?thesis
  proof (cases "cleanPath ?e = ?e")
    case True
    show ?thesis
    proof (cases "?m ?e")
      case None
      then have t: "public_table (rq_Method r) (path_segs ?e) = None"
        using public_match [of "rq_Method r" ?e] by simp
      have "findHandler public_mux r = Matched p \<Longrightarrow> False" for p
        using None assms True
        by (auto simp: findHandler_def Let_def match_or_redirect_def unmatched_def split: prod.splits option.splits if_splits list.splits)
      with t show ?thesis by auto
    next
      case (Some p)
      have "findHandler public_mux r = Matched p"
        using assms True Some no_slash_redirect [of ?e r] clean_rooted [of ?e]
        by (simp add: findHandler_def Let_def)
      with True show ?thesis using public_match [of "rq_Method r" ?e] Some by auto
    qed
  next
    case False
    then have "findHandler public_mux r \<noteq> Matched p" for p
      using assms by (auto simp: findHandler_def Let_def split: prod.splits option.splits)
    with False show ?thesis by blast
  qed
qed

section \<open>What the mux answers itself\<close>

lemma not_informational_mux [simp]: "\<not> informational 307" "\<not> informational 404" "\<not> informational 405"
  by (simp_all add: informational_def)

definition mux_headers :: "string set" where
  "mux_headers = {''Location'', ''Content-Type'', ''Content-Length'', ''X-Content-Type-Options'', ''Allow''}"

lemma mux_headers_names:
  "''Location'' \<in> mux_headers" "''Content-Type'' \<in> mux_headers" "''Content-Length'' \<in> mux_headers"
  "''X-Content-Type-Options'' \<in> mux_headers" "''Allow'' \<in> mux_headers"
  "''Cache-Control'' \<notin> mux_headers" "''Referrer-Policy'' \<notin> mux_headers"
  by (simp_all add: mux_headers_def)

definition mux_sends :: "ResponseWriter \<Rightarrow> ResponseWriter \<Rightarrow> nat \<Rightarrow> bool" where
  "mux_sends rw rw' s \<longleftrightarrow> (\<exists>h. rw_Sent rw' = Some (s, h) \<and> (\<forall>k. k \<notin> mux_headers \<longrightarrow> map_of h k = map_of (rw_Header rw) k))"

lemma mux_sends_redirect:
  assumes "rw_Sent rw = None"
  shows "mux_sends rw (http_Redirect 307 text m p url rw) 307"
proof -
  obtain h where h: "rw_Sent (http_Redirect 307 text m p url rw) = Some (307, h)"
    "\<forall>k. k \<notin> {''Location'', ''Content-Type''} \<longrightarrow> map_of h k = map_of (rw_Header rw) k"
    using any_redirect_sent [OF assms not_informational_mux(1)] by blast
  have "k \<notin> mux_headers \<Longrightarrow> k \<notin> {''Location'', ''Content-Type''}" for k
    using mux_headers_names by auto
  with h show ?thesis unfolding mux_sends_def by blast
qed

lemma mux_sends_error:
  assumes "rw_Sent rw = None" "\<not> informational s"
  shows "mux_sends rw (http_Error msg s rw) s"
proof -
  obtain h where h: "rw_Sent (http_Error msg s rw) = Some (s, h)"
    "\<forall>k. k \<notin> {''Content-Length'', ''X-Content-Type-Options'', ''Content-Type''} \<longrightarrow> map_of h k = map_of (rw_Header rw) k"
    using error_sent [OF assms] by blast
  have "k \<notin> mux_headers \<Longrightarrow> k \<notin> {''Content-Length'', ''X-Content-Type-Options'', ''Content-Type''}" for k
    using mux_headers_names by auto
  with h show ?thesis unfolding mux_sends_def by blast
qed

lemma mux_sends_allow:
  assumes "mux_sends (set_header ''Allow'' v rw) rw' s"
  shows "mux_sends rw rw' s"
proof -
  have "map_of (rw_Header (set_header ''Allow'' v rw)) k = map_of (rw_Header rw) k" if "k \<notin> mux_headers" for k
    using that mux_headers_names(5) by (cases "k = ''Allow''") simp_all
  with assms show ?thesis by (simp add: mux_sends_def)
qed

lemma mux_answer_sent:
  assumes "rw_Sent rw = None" "\<And>p. rt \<noteq> Matched p"
  shows "\<exists>s \<in> {307, 404, 405}. mux_sends rw (mux_answer rt r rw) s"
proof (cases rt)
  case (NotAllowed ms)
  have "mux_sends rw (http_Error ''Method Not Allowed'' 405 (set_header ''Allow'' (comma_join ms) rw)) 405"
    using assms(1) by (intro mux_sends_allow [OF mux_sends_error]) simp_all
  with NotAllowed show ?thesis by (simp add: mux_answer_def)
next
  case (Moved url pat)
  with mux_sends_redirect [OF assms(1)] show ?thesis by (simp add: mux_answer_def)
next
  case Unrouted
  with mux_sends_error [OF assms(1)] show ?thesis by (simp add: mux_answer_def)
qed (use assms(2) in simp)

lemma mux_serve_unmatched:
  assumes "rq_Path r \<noteq> ''*''" "\<And>p. findHandler mx r \<noteq> Matched p"
  shows "mux_serve mx si r w = respond (mux_answer (findHandler mx r) r) w"
  using assms by (cases "findHandler mx r") (auto simp: mux_serve_def)

lemma mux_serve_matched:
  "rq_Path r \<noteq> ''*'' \<Longrightarrow> findHandler mx r = Matched p \<Longrightarrow> mux_serve mx si r w = serve_endpoint si (pt_Handler p) r w"
  by (simp add: mux_serve_def)

section \<open>Requests the proxy answers locally\<close>

text \<open>Every request except those of the API proxy.\<close>

definition is_local :: "Request \<Rightarrow> bool" where
  "is_local r \<longleftrightarrow> \<not> (\<exists>p. findHandler public_mux r = Matched p \<and> pt_Handler p = EProxy)"

lemma local_not_abandoned: "is_local r \<Longrightarrow> \<not> abandons si r"
  by (auto simp: abandons_def is_local_def split: route.splits)

lemma endpoint_hardened:
  assumes "e \<noteq> EProxy" "rw_Sent (w_rw w) = None" "final_replies (si_Env si)"
  shows "\<exists>s hdr. rw_Sent (w_rw (SecurityHeaders (serve_endpoint si e) r w)) = Some (s, hdr) \<and>
    map_of hdr ''Cache-Control'' = Some [''no-store''] \<and> map_of hdr ''Referrer-Policy'' = Some [''no-referrer'']"
  using assms authorize_ep.hardened [OF assms(2,3)] mobile_ep.hardened [OF assms(2,3)] callback_ep.hardened [OF assms(2,3)]
    token_ep.hardened [OF assms(2,3)] deauthorize_ep.hardened [OF assms(2,3)] revoke_ep.hardened [OF assms(2,3)]
  by (cases e) (auto simp: serve_endpoint_def)

lemma endpoint_calls:
  assumes "e \<noteq> EProxy"
  shows "calls_once (holder_Get (si_Holder si)) w (serve_endpoint si e r w)"
  using assms authorize_ep.one_call mobile_ep.one_call callback_ep.one_call token_ep.one_call deauthorize_ep.one_call
    revoke_ep.one_call
  by (cases e) (auto simp: serve_endpoint_def)

lemma security_headers_calls:
  assumes "\<And>w. calls_once cfg w (h r w)"
  shows "calls_once cfg w (SecurityHeaders h r w)"
proof -
  have "calls_once cfg (respond f w) w' = calls_once cfg w w'" for f w' by (simp add: calls_once_def)
  with assms show ?thesis by (metis SecurityHeaders_def)
qed

lemma mux_serve_calls:
  assumes "is_local r"
  shows "calls_once (holder_Get (si_Holder si)) w (mux_serve public_mux si r w)"
proof -
  have "pt_Handler p \<noteq> EProxy" if "findHandler public_mux r = Matched p" for p
    using that assms by (auto simp: is_local_def)
  then show ?thesis
    using endpoint_calls by (auto simp: mux_serve_def split: route.split)
qed

lemma local_calls:
  assumes "is_local r"
  shows "calls_once (holder_Get (si_Holder si)) w (publicHandler si r w)"
proof -
  let ?w = "w\<lparr>w_client_id := Some []\<rparr>"
  have "calls_once (holder_Get (si_Holder si)) v (oauthSurfaceHeaders (mux_serve public_mux si) r v)" for v
    using mux_serve_calls [OF assms] security_headers_calls by (simp add: oauthSurfaceHeaders_def)
  from this [of ?w] show ?thesis
    using local_not_abandoned [OF assms]
    by (simp add: publicHandler_def AccessLog_def Let_def) (simp add: calls_once_def)
qed

lemma public_response:
  "\<not> abandons si r \<Longrightarrow> w_rw (publicHandler si r w) =
     w_rw (oauthSurfaceHeaders (mux_serve public_mux si) r (w\<lparr>w_client_id := Some []\<rparr>))"
  by (simp add: publicHandler_def AccessLog_def Let_def)

lemma oauth_path_not_star: "isOAuthSurface p \<Longrightarrow> p \<noteq> ''*''"
  by (auto simp: isOAuthSurface_def prefix_def)

lemma security_headers_hardened:
  assumes "rw_Sent (w_rw w) = None" "rq_Path r \<noteq> ''*''" "is_local r" "final_replies (si_Env si)"
  shows "\<exists>s hdr. rw_Sent (w_rw (SecurityHeaders (mux_serve public_mux si) r w)) = Some (s, hdr) \<and>
    map_of hdr ''Cache-Control'' = Some [''no-store''] \<and> map_of hdr ''Referrer-Policy'' = Some [''no-referrer'']"
proof (cases "\<exists>p. findHandler public_mux r = Matched p")
  case True
  then obtain p where p: "findHandler public_mux r = Matched p" by blast
  with assms(3) have "pt_Handler p \<noteq> EProxy" by (auto simp: is_local_def)
  from endpoint_hardened [OF this assms(1,4)] show ?thesis
    by (simp add: SecurityHeaders_def mux_serve_matched [OF assms(2) p])
next
  case False
  let ?rw = "set_header HeaderCacheControl CacheControlValue (set_header HeaderReferrerPolicy ReferrerPolicyValue (w_rw w))"
  have "rw_Sent ?rw = None" using assms(1) by simp
  from mux_answer_sent [OF this, of "findHandler public_mux r" r] False obtain s
    where "mux_sends ?rw (mux_answer (findHandler public_mux r) r ?rw) s" by blast
  then obtain h where h: "rw_Sent (mux_answer (findHandler public_mux r) r ?rw) = Some (s, h)"
      "map_of h ''Cache-Control'' = map_of (rw_Header ?rw) ''Cache-Control''"
      "map_of h ''Referrer-Policy'' = map_of (rw_Header ?rw) ''Referrer-Policy''"
    using mux_headers_names(6,7) unfolding mux_sends_def by blast
  have "SecurityHeaders (mux_serve public_mux si) r w =
      respond (\<lambda>rw. mux_answer (findHandler public_mux r) r
        (set_header HeaderCacheControl CacheControlValue (set_header HeaderReferrerPolicy ReferrerPolicyValue rw))) w"
    using False by (simp add: SecurityHeaders_def mux_serve_unmatched [OF assms(2)])
  with h show ?thesis
    by (simp add: HeaderCacheControl_def CacheControlValue_def HeaderReferrerPolicy_def ReferrerPolicyValue_def)
qed

section \<open>What a request leaves in the log\<close>

lemma extends_errorHandler: "extends w w' \<Longrightarrow> extends w (errorHandler gone m p e w')"
  by (simp add: errorHandler_def Let_def)

lemma extends_NewProxy: "extends w (fst (NewProxy env gone base r w))"
  by (simp add: NewProxy_def proxy_reply_def logWriter_def Let_def extends_errorHandler
      split: upstream_result.split option.split)

lemma extends_endpoint: "extends w (serve_endpoint si e r w)"
  using extends_authorize extends_Callback extends_Token extends_Deauthorize extends_Revoke extends_NewProxy
  by (cases e) (simp_all add: serve_endpoint_def Authorize_def MobileAuthorize_def)

lemma extends_mux: "extends w (mux_serve public_mux si r w)"
  using extends_endpoint by (simp add: mux_serve_def split: route.split)

text \<open>The log and the cell after the routes, whatever the response headers were before.\<close>

lemma surface_log:
  "\<exists>evs cid. w_log (oauthSurfaceHeaders (mux_serve public_mux si) r (w\<lparr>w_client_id := Some []\<rparr>)) = w_log w @ evs \<and>
     list_all (\<lambda>e. lg_Msg e \<noteq> ''http request'') evs \<and>
     w_client_id (oauthSurfaceHeaders (mux_serve public_mux si) r (w\<lparr>w_client_id := Some []\<rparr>)) = Some cid"
proof -
  have x: "\<exists>evs cid. w_log (mux_serve public_mux si r v) = w_log v @ evs \<and> list_all (\<lambda>e. lg_Msg e \<noteq> ''http request'') evs \<and>
      w_client_id (mux_serve public_mux si r v) = Some cid" if "w_client_id v = Some []" for v
    using extends_mux [of v si r] that by (auto simp: extends_def appends_log_def keeps_cell_def)
  let ?w = "w\<lparr>w_client_id := Some []\<rparr>"
  show ?thesis
    using x [of ?w] x [of "respond (\<lambda>rw. set_header HeaderCacheControl CacheControlValue
        (set_header HeaderReferrerPolicy ReferrerPolicyValue rw)) ?w"]
    by (simp add: oauthSurfaceHeaders_def SecurityHeaders_def)
qed

end
