(* ===== verification/RoutesProps.thy ===== *)
theory RoutesProps imports
  RoutesLaws
  TokenProps
begin

text \<open>The properties of the public handler as a whole.\<close>

text \<open>
  C28. The routing tree is a table: a request reaches a handler exactly when its escaped path is
  clean and its method and unescaped segments are in the table; otherwise the mux itself answers
  with 307, 404 or 405, calling nobody.
\<close>

theorem public_routes:
  assumes "rq_Method r \<noteq> ''CONNECT''" "rq_Path r \<noteq> ''*''" "rw_Sent (w_rw w) = None"
  shows "((\<exists>p. findHandler public_mux r = Matched p \<and> pt_Handler p = h) \<longleftrightarrow>
      cleanPath (rq_EscapedPath r) = rq_EscapedPath r \<and>
      public_table (rq_Method r) (path_segs (rq_EscapedPath r)) = Some h) \<and>
    ((\<forall>p. findHandler public_mux r \<noteq> Matched p) \<longrightarrow>
      (\<exists>s \<in> {307, 404, 405}. sent_status (w_rw (mux_serve public_mux si r w)) = Some s) \<and>
      w_calls (mux_serve public_mux si r w) = w_calls w)"
proof (intro conjI impI)
  assume "\<forall>p. findHandler public_mux r \<noteq> Matched p"
  then have n: "\<And>p. findHandler public_mux r \<noteq> Matched p" by blast
  from mux_answer_sent [OF assms(3) n, of r]
  show "\<exists>s \<in> {307, 404, 405}. sent_status (w_rw (mux_serve public_mux si r w)) = Some s"
    unfolding mux_serve_unmatched [OF assms(2) n] by (auto simp: mux_sends_def sent_status_def)
  show "w_calls (mux_serve public_mux si r w) = w_calls w"
    unfolding mux_serve_unmatched [OF assms(2) n] by simp
qed (rule found_iff [OF assms(1)])

definition route_request :: "string \<Rightarrow> string \<Rightarrow> string \<Rightarrow> Request" where
  "route_request m path raw = \<lparr>rq_Method = m, rq_Path = path, rq_RawPath = raw, rq_RawQuery = [], rq_Header = [],
     rq_Body = [], rq_BodyClean = True, rq_ContentLength = 0\<rparr>"

definition tiny_site :: Site where
  "tiny_site = \<lparr>si_Env = tiny_env, si_Holder = NewHolder tiny_config, si_Base = tiny_base, si_Gone = False, si_Elapsed = 0\<rparr>"

lemma callback_table:
  "cleanPath (rq_EscapedPath (route_request ''HEAD'' ''/oauth/callback'' [])) =
     rq_EscapedPath (route_request ''HEAD'' ''/oauth/callback'' [])"
  "public_table ''HEAD'' (path_segs (rq_EscapedPath (route_request ''HEAD'' ''/oauth/callback'' []))) = Some ECallback"
  by code_simp+

theorem public_routes_witness:
  "\<exists>p. findHandler public_mux (route_request ''HEAD'' ''/oauth/callback'' []) = Matched p \<and> pt_Handler p = ECallback"
proof -
  have r: "rq_Method (route_request ''HEAD'' ''/oauth/callback'' []) \<noteq> ''CONNECT''"
    "rq_Path (route_request ''HEAD'' ''/oauth/callback'' []) \<noteq> ''*''" "rw_Sent (w_rw new_world) = None"
    by (simp_all add: route_request_def new_world_def new_writer_def)
  have m: "rq_Method (route_request ''HEAD'' ''/oauth/callback'' []) = ''HEAD''" by (simp add: route_request_def)
  show ?thesis
    using public_routes [OF r, of ECallback tiny_site] callback_table unfolding m by blast
qed

text \<open>
  C29. A token exchange on the API path is served locally: a POST whose escaped path is exactly
  /api/v3/oauth/token reaches the token endpoint, and no POST with these segments reaches the API
  proxy. The same path with an encoded slash is another route: it is proxied, although the hardening
  headers take it for the token endpoint.
\<close>

theorem token_path_stays_local:
  "(rq_EscapedPath r = ''/api/v3/oauth/token'' \<and> rq_Method r = ''POST'' \<and> rq_Path r \<noteq> ''*'' \<longrightarrow>
      mux_serve public_mux si r w = Token (si_Env si) (si_Holder si) r w) \<and>
   (rq_Method r = ''POST'' \<and> findHandler public_mux r = Matched p \<and> pt_Handler p = EProxy \<longrightarrow>
      path_segs (rq_EscapedPath r) \<noteq> [''api'', ''v3'', ''oauth'', ''token'']) \<and>
   (\<exists>q. findHandler public_mux (route_request ''POST'' ''/api/v3/oauth/token'' ''/api/v3/oauth%2Ftoken'') = Matched q \<and>
      pt_Handler q = EProxy) \<and> isOAuthSurface ''/api/v3/oauth/token''"
proof (intro conjI impI)
  assume r: "rq_EscapedPath r = ''/api/v3/oauth/token'' \<and> rq_Method r = ''POST'' \<and> rq_Path r \<noteq> ''*''"
  have c: "cleanPath ''/api/v3/oauth/token'' = ''/api/v3/oauth/token''"
    "public_table ''POST'' (path_segs ''/api/v3/oauth/token'') = Some EToken" by code_simp+
  have "rq_Method r \<noteq> ''CONNECT''" using r by simp
  from found_iff [OF this, of EToken] r c obtain p
    where "findHandler public_mux r = Matched p" "pt_Handler p = EToken" by auto
  then show "mux_serve public_mux si r w = Token (si_Env si) (si_Holder si) r w"
    using r by (simp add: mux_serve_matched serve_endpoint_def)
next
  assume r: "rq_Method r = ''POST'' \<and> findHandler public_mux r = Matched p \<and> pt_Handler p = EProxy"
  then have "rq_Method r \<noteq> ''CONNECT''" by simp
  from found_iff [OF this, of EProxy] r have "public_table ''POST'' (path_segs (rq_EscapedPath r)) = Some EProxy" by auto
  then show "path_segs (rq_EscapedPath r) \<noteq> [''api'', ''v3'', ''oauth'', ''token'']"
    by (auto simp: public_table_def)
next
  let ?r = "route_request ''POST'' ''/api/v3/oauth/token'' ''/api/v3/oauth%2Ftoken''"
  have c: "cleanPath (rq_EscapedPath ?r) = rq_EscapedPath ?r"
    "public_table ''POST'' (path_segs (rq_EscapedPath ?r)) = Some EProxy" by code_simp+
  have "rq_Method ?r \<noteq> ''CONNECT''" "rq_Method ?r = ''POST''" by (simp_all add: route_request_def)
  with found_iff [OF this(1), of EProxy] c
  show "\<exists>q. findHandler public_mux ?r = Matched q \<and> pt_Handler q = EProxy" by simp
qed (simp add: isOAuthSurface_def)

theorem token_path_stays_local_witness:
  "mux_serve public_mux tiny_site (route_request ''POST'' ''/api/v3/oauth/token'' []) new_world =
   Token tiny_env (NewHolder tiny_config) (route_request ''POST'' ''/api/v3/oauth/token'' []) new_world"
proof -
  have "rq_EscapedPath (route_request ''POST'' ''/api/v3/oauth/token'' []) = ''/api/v3/oauth/token''" by code_simp
  then show ?thesis
    using token_path_stays_local [of "route_request ''POST'' ''/api/v3/oauth/token'' []" tiny_site new_world]
    by (simp add: route_request_def tiny_site_def)
qed

text \<open>
  C30. Every response of the OAuth surface is kept out of caches and referrers: whatever the request,
  unless the API proxy takes it, exactly one response is sent and its headers say no-store and
  no-referrer.
\<close>

theorem oauth_surface_hardened:
  assumes "isOAuthSurface (rq_Path r)" "is_local r" "rw_Sent (w_rw w) = None" "final_replies (si_Env si)"
  shows "\<exists>s hdr. rw_Sent (w_rw (publicHandler si r w)) = Some (s, hdr) \<and>
    map_of hdr ''Cache-Control'' = Some [''no-store''] \<and> map_of hdr ''Referrer-Policy'' = Some [''no-referrer'']"
proof -
  have "rw_Sent (w_rw (w\<lparr>w_client_id := Some []\<rparr>)) = None" using assms(3) by simp
  from security_headers_hardened [OF this oauth_path_not_star [OF assms(1)] assms(2,4)] show ?thesis
    using assms(1) by (simp add: public_response [OF local_not_abandoned [OF assms(2)]] oauthSurfaceHeaders_def)
qed

lemma tiny_final: "final_replies tiny_env"
  by (simp add: final_replies_def tiny_env_def tiny_reply_def informational_def)

theorem oauth_surface_hardened_witness:
  "\<exists>s hdr. rw_Sent (w_rw (publicHandler tiny_site (route_request ''HEAD'' ''/oauth/callback'' []) new_world)) = Some (s, hdr) \<and>
    map_of hdr ''Cache-Control'' = Some [''no-store'']"
proof -
  let ?r = "route_request ''HEAD'' ''/oauth/callback'' []"
  have m: "rq_Method ?r = ''HEAD''" "rq_Path ?r = ''/oauth/callback''" by (simp_all add: route_request_def)
  have "\<not> (\<exists>p. findHandler public_mux ?r = Matched p \<and> pt_Handler p = EProxy)"
    using found_iff [of ?r EProxy] callback_table by (simp add: m)
  then have l: "is_local ?r" by (simp add: is_local_def)
  have s: "isOAuthSurface (rq_Path ?r)" "rw_Sent (w_rw new_world) = None" "final_replies (si_Env tiny_site)"
    using tiny_final by (simp_all add: m isOAuthSurface_def new_world_def new_writer_def tiny_site_def)
  from oauth_surface_hardened [OF s(1) l s(2,3)] show ?thesis by blast
qed

section \<open>The access record\<close>

lemma pattern_ignores_query: "mux_pattern mx (r\<lparr>rq_RawQuery := q\<rparr>) = mux_pattern mx r"
  by (auto simp: mux_pattern_def findHandler_def match_or_redirect_def rq_EscapedPath_def unmatched_def route_pattern_def Let_def
      split: option.split list.split)

text \<open>
  C31. A request leaves exactly one access record, last in the log, and none when it is abandoned: the
  log is what it was, then what the routes logged, which is no access record, then the record. The
  record has the status the response recorder has seen, the bytes of body this request wrote, the
  client id the endpoint set, and a warning for a server error; logging leaves the response alone.
  The record shows nothing of the query but whether there was one, and its path has at most 259 bytes,
  none of them a control byte.
\<close>

theorem access_record_is_safe:
  "(\<exists>w1 evs cid. w1 = oauthSurfaceHeaders (mux_serve public_mux si) r (w\<lparr>w_client_id := Some []\<rparr>) \<and>
      w_log w1 = w_log w @ evs \<and> list_all (\<lambda>e. lg_Msg e \<noteq> ''http request'') evs \<and> w_client_id w1 = Some cid \<and>
      w_rw (publicHandler si r w) = w_rw w1 \<and>
      w_log (publicHandler si r w) = w_log w @ evs @
        (if abandons si r then []
         else [\<lparr>lg_Level = (if observed_status (w_rw w1) \<ge> 500 then Warn else Info), lg_Msg = ''http request'',
           lg_Attrs = access_attrs (mux_pattern public_mux r) (si_Elapsed si) r (observed_status (w_rw w1))
             (length (rw_Body (w_rw w1)) - length (rw_Body (w_rw w))) (Some cid)\<rparr>])) \<and>
    (rq_RawQuery r \<noteq> [] \<and> q \<noteq> [] \<longrightarrow>
      access_attrs (mux_pattern public_mux (r\<lparr>rq_RawQuery := q\<rparr>)) el (r\<lparr>rq_RawQuery := q\<rparr>) s b c =
      access_attrs (mux_pattern public_mux r) el r s b c) \<and>
    length (safePath r) \<le> 259 \<and> list_all (\<lambda>ch. 32 \<le> byte ch \<and> byte ch \<noteq> 127) (safePath r)"
proof (intro conjI impI)
  let ?w1 = "oauthSurfaceHeaders (mux_serve public_mux si) r (w\<lparr>w_client_id := Some []\<rparr>)"
  obtain evs cid where e: "w_log ?w1 = w_log w @ evs" "list_all (\<lambda>e. lg_Msg e \<noteq> ''http request'') evs"
    "w_client_id ?w1 = Some cid" using surface_log by blast
  have "w_rw (publicHandler si r w) = w_rw ?w1"
    by (simp add: publicHandler_def AccessLog_def Let_def)
  moreover have "w_log (publicHandler si r w) = w_log w @ evs @
        (if abandons si r then []
         else [\<lparr>lg_Level = (if observed_status (w_rw ?w1) \<ge> 500 then Warn else Info), lg_Msg = ''http request'',
           lg_Attrs = access_attrs (mux_pattern public_mux r) (si_Elapsed si) r (observed_status (w_rw ?w1))
             (length (rw_Body (w_rw ?w1)) - length (rw_Body (w_rw w))) (Some cid)\<rparr>])"
    using e(1,3) by (simp add: publicHandler_def AccessLog_def Let_def) (simp add: logmsg_def)
  ultimately show "\<exists>w1 evs cid. w1 = ?w1 \<and> w_log w1 = w_log w @ evs \<and> list_all (\<lambda>e. lg_Msg e \<noteq> ''http request'') evs \<and>
      w_client_id w1 = Some cid \<and> w_rw (publicHandler si r w) = w_rw w1 \<and>
      w_log (publicHandler si r w) = w_log w @ evs @
        (if abandons si r then []
         else [\<lparr>lg_Level = (if observed_status (w_rw w1) \<ge> 500 then Warn else Info), lg_Msg = ''http request'',
           lg_Attrs = access_attrs (mux_pattern public_mux r) (si_Elapsed si) r (observed_status (w_rw w1))
             (length (rw_Body (w_rw w1)) - length (rw_Body (w_rw w))) (Some cid)\<rparr>])"
    using e by blast
next
  assume "rq_RawQuery r \<noteq> [] \<and> q \<noteq> []"
  then show "access_attrs (mux_pattern public_mux (r\<lparr>rq_RawQuery := q\<rparr>)) el (r\<lparr>rq_RawQuery := q\<rparr>) s b c =
      access_attrs (mux_pattern public_mux r) el r s b c"
    by (simp add: pattern_ignores_query access_attrs_def safePath_def)
next
  show "length (safePath r) \<le> 259" using length_safePath [of r] by (simp add: maxLoggedPathLen_def)
  show "list_all (\<lambda>ch. 32 \<le> byte ch \<and> byte ch \<noteq> 127) (safePath r)"
    using safePath_no_control by (auto simp: list_all_iff)
qed

text \<open>The witness: two requests whose queries differ, and a refused one that is logged.\<close>

theorem access_record_is_safe_witness:
  "(\<exists>evs. w_log (publicHandler tiny_site (route_request ''GET'' ''*'' []) new_world) = evs @
      [\<lparr>lg_Level = Info, lg_Msg = ''http request'',
        lg_Attrs = access_attrs [] 0 (route_request ''GET'' ''*'' []) 400 0 (Some [])\<rparr>] \<and>
      list_all (\<lambda>e. lg_Msg e \<noteq> ''http request'') evs) \<and>
   access_attrs (mux_pattern public_mux ((route_request ''GET'' ''/'' [])\<lparr>rq_RawQuery := ''b''\<rparr>)) 0
       ((route_request ''GET'' ''/'' [])\<lparr>rq_RawQuery := ''b''\<rparr>) 200 0 None =
     access_attrs (mux_pattern public_mux ((route_request ''GET'' ''/'' [])\<lparr>rq_RawQuery := ''a''\<rparr>)) 0
       ((route_request ''GET'' ''/'' [])\<lparr>rq_RawQuery := ''a''\<rparr>) 200 0 None"
proof -
  let ?r = "route_request ''GET'' ''*'' []" and ?q = "(route_request ''GET'' ''/'' [])\<lparr>rq_RawQuery := ''a''\<rparr>"
  have a: "\<not> abandons tiny_site ?r" by (simp add: abandons_def route_request_def)
  let ?w1 = "oauthSurfaceHeaders (mux_serve public_mux tiny_site) ?r (new_world\<lparr>w_client_id := Some []\<rparr>)"
  have o: "observed_status (w_rw ?w1) = 400" "rw_Body (w_rw ?w1) = []" "w_client_id ?w1 = Some []"
    by (simp_all add: oauthSurfaceHeaders_def isOAuthSurface_def mux_serve_def route_request_def observed_status_def
        sent_status_def new_world_def new_writer_def)
  have p: "mux_pattern public_mux ?r = []" "si_Elapsed tiny_site = 0"
    by (simp_all add: mux_pattern_def route_request_def tiny_site_def)
  have q: "rq_RawQuery ?q \<noteq> []" "?q\<lparr>rq_RawQuery := ''b''\<rparr> = (route_request ''GET'' ''/'' [])\<lparr>rq_RawQuery := ''b''\<rparr>" by simp_all
  note t = access_record_is_safe [of tiny_site ?r new_world]
  obtain evs where e: "list_all (\<lambda>e. lg_Msg e \<noteq> ''http request'') evs"
    "w_log (publicHandler tiny_site ?r new_world) = w_log new_world @ evs @
      [\<lparr>lg_Level = Info, lg_Msg = ''http request'', lg_Attrs = access_attrs [] 0 ?r 400 0 (Some [])\<rparr>]"
    using t [THEN conjunct1] a by (auto simp: o p)
  have "w_log new_world = []" by (simp add: new_world_def)
  with e access_record_is_safe [of tiny_site ?q new_world "''b''" 0 200 0 None] q show ?thesis by auto
qed

section \<open>Where the proxy calls\<close>

lemma errorHandler_calls [simp]: "w_calls (errorHandler gone m p e w) = w_calls w"
  by (simp add: errorHandler_def Let_def)

lemma proxy_reply_calls [simp]: "w_calls (fst (proxy_reply s h b f w)) = w_calls w"
  by (simp add: proxy_reply_def logWriter_def Let_def split: option.split)

lemma NewProxy_calls:
  "w_calls (fst (NewProxy env gone base r w)) = w_calls w \<or>
   w_calls (fst (NewProxy env gone base r w)) = w_calls w @ [proxy_request base r]"
  by (auto simp: NewProxy_def Let_def split: upstream_result.split)

text \<open>
  C33. No request can choose where the proxy calls: handling it makes at most one call, either a POST
  to the token, deauthorize or revoke path under the configured base URL, or the API proxy's request
  to the host of the base URL it was built with.
\<close>

theorem calls_go_to_strava:
  "\<exists>cs. w_calls (publicHandler si r w) = w_calls w @ cs \<and> length cs \<le> 1 \<and>
    list_all (\<lambda>req. strava_call (holder_Get (si_Holder si)) req \<or>
      (req = proxy_request (si_Base si) r \<and> or_URL req = url_String (proxy_url (si_Base si) r) \<and>
       u_Scheme (proxy_url (si_Base si) r) = u_Scheme (si_Base si) \<and> u_Host (proxy_url (si_Base si) r) = u_Host (si_Base si))) cs"
proof (cases "is_local r")
  case True
  from local_calls [OF this, of si w] obtain cs where
    "w_calls (publicHandler si r w) = w_calls w @ cs" "length cs \<le> 1" "list_all (strava_call (holder_Get (si_Holder si))) cs"
    by (auto simp: calls_once_def)
  then show ?thesis by (intro exI [of _ cs]) (auto simp: list_all_iff)
next
  case False
  then obtain p where p: "findHandler public_mux r = Matched p" "pt_Handler p = EProxy" by (auto simp: is_local_def)
  let ?inner = "oauthSurfaceHeaders (mux_serve public_mux si) r (w\<lparr>w_client_id := Some []\<rparr>)"
  have c: "w_calls (publicHandler si r w) = w_calls ?inner"
    by (simp add: publicHandler_def AccessLog_def Let_def)
  have m: "w_calls (mux_serve public_mux si r v) \<in> {w_calls v, w_calls v @ [proxy_request (si_Base si) r]}" for v
    using p NewProxy_calls [of "si_Env si" "si_Gone si" "si_Base si" r v]
    by (simp add: mux_serve_def serve_endpoint_def)
  have "w_calls ?inner \<in> {w_calls w, w_calls w @ [proxy_request (si_Base si) r]}"
    using m [of "w\<lparr>w_client_id := Some []\<rparr>"]
      m [of "respond (\<lambda>rw. set_header HeaderCacheControl CacheControlValue
        (set_header HeaderReferrerPolicy ReferrerPolicyValue rw)) (w\<lparr>w_client_id := Some []\<rparr>)"]
    by (simp add: oauthSurfaceHeaders_def SecurityHeaders_def)
  then consider "w_calls ?inner = w_calls w" | "w_calls ?inner = w_calls w @ [proxy_request (si_Base si) r]" by blast
  then show ?thesis
  proof cases
    case 1
    with c show ?thesis by (intro exI [of _ "[]"]) simp
  next
    case 2
    with c show ?thesis
      by (intro exI [of _ "[proxy_request (si_Base si) r]"]) (simp add: proxy_request_def proxy_url_def rewriteRequestURL_def
          split: prod.split)
  qed
qed

end
