(* ===== verification/App.thy ===== *)
theory App imports
  Routes
begin

text \<open>
  The process around the handlers: \<open>cmd/strava-auth-proxy/main.go\<close> (start, listeners, the serve loop
  with reload and shutdown) and \<open>healthcheck.go\<close>. Listening and the two servers are given: whether an
  address can be bound, how each \<open>Shutdown\<close> ends, and the events of the serve loop in the order in
  which \<open>select\<close> takes them.
\<close>

section \<open>Start\<close>

definition EnvLogLevel :: string where "EnvLogLevel = ''LOG_LEVEL''"
definition readHeaderTimeout :: duration where "readHeaderTimeout = 10 * second"
definition idleTimeout :: duration where "idleTimeout = 120 * second"
definition shutdownTimeout :: duration where "shutdownTimeout = 20 * second"
definition adminWriteTimeout :: duration where "adminWriteTimeout = 15 * second"

text \<open>\<open>strings.ToUpper\<close> as far as ASCII results go: besides the ASCII letters only the dotless i and
  the long s have an ASCII upper case.\<close>

fun to_upper :: "string \<Rightarrow> string" where
  "to_upper [] = []"
| "to_upper [c] = [upper_byte c]"
| "to_upper (c # d # s) =
     (if c = CHR 0xC4 \<and> d = CHR 0xB1 then CHR ''I'' # to_upper s
      else if c = CHR 0xC5 \<and> d = CHR 0xBF then CHR ''S'' # to_upper s
      else upper_byte c # to_upper (d # s))"

text \<open>\<open>slog.Level.UnmarshalText\<close>: a name with an optional signed offset, added with wrap-around.\<close>

definition wrap_int64 :: "int \<Rightarrow> int" where
  "wrap_int64 i = (i + 2 ^ 63) mod 2 ^ 64 - 2 ^ 63"

definition parse_level :: "string \<Rightarrow> int option" where
  "parse_level s =
     (let name = takeWhile (\<lambda>c. c \<noteq> CHR ''+'' \<and> c \<noteq> CHR ''-'') s;
          off = dropWhile (\<lambda>c. c \<noteq> CHR ''+'' \<and> c \<noteq> CHR ''-'') s;
          base = map_of [(''DEBUG'', Debug), (''INFO'', Info), (''WARN'', Warn), (''ERROR'', Error)] (to_upper name)
      in if off = [] then map_option level_value base
         else (case parse_int64 off of None \<Rightarrow> None | Some n \<Rightarrow> map_option (\<lambda>l. wrap_int64 (level_value l + n)) base))"

definition newLogger :: "string \<Rightarrow> int" where
  "newLogger level =
     (let s = trim_space level
      in if s = [] then level_value Info
         else (case parse_level (to_upper s) of None \<Rightarrow> level_value Info | Some l \<Rightarrow> l))"

definition checkListenerSecurity :: "Config \<Rightarrow> bool" where
  "checkListenerSecurity cfg =
     (if cf_TLSCertFile cfg \<noteq> [] \<and> cf_TLSKeyFile cfg \<noteq> [] then True else cf_DevAllowHTTP cfg)"

definition ringFrom :: "Config \<Rightarrow> Ring" where
  "ringFrom cfg = map (\<lambda>k. \<lparr>KID = sk_KID k, KeyBytes = sk_Key k\<rparr>) (cf_StateKeys cfg)"

definition kids :: "Ring \<Rightarrow> string list" where
  "kids r = map KID r"

datatype app_error =
  PlainHTTPRefused | BadUpstreamURL | UpstreamNotAbsolute | EmptyKeyRing | ListenFailed string | AdminListenFailed string

record app =
  ap_Holder :: Holder
  ap_Base :: URL
  ap_Sockets :: "string list"
  ap_MinTLS :: "(nat \<times> nat) option"
  ap_tlsCert :: string
  ap_tlsKey :: string
  ap_Log :: "LogEvent list"

text \<open>\<open>newApp\<close>: the sockets that are open when it returns, and the application or its error. \<open>can\<close>
  says which addresses can be bound.\<close>

definition newApp :: "(string \<Rightarrow> bool) \<Rightarrow> Holder \<Rightarrow> string list \<times> (app_error, app) result" where
  "newApp can holder =
     (let cfg = holder_Get holder
      in if \<not> checkListenerSecurity cfg then ([], Err PlainHTTPRefused)
         else (case url_Parse (cf_UpstreamBaseURL cfg) of
             None \<Rightarrow> ([], Err BadUpstreamURL)
           | Some base \<Rightarrow>
               if \<not> IsAbs base \<or> u_Host base = [] then ([], Err UpstreamNotAbsolute)
               else let ring = ringFrom cfg
                    in if ring = [] then ([], Err EmptyKeyRing)
                       else if \<not> can (cf_ListenAddr cfg) then ([], Err (ListenFailed (cf_ListenAddr cfg)))
                       else if \<not> can (cf_AdminAddr cfg) then ([], Err (AdminListenFailed (cf_AdminAddr cfg)))
                       else ([cf_ListenAddr cfg, cf_AdminAddr cfg],
                         Ok \<lparr>ap_Holder = holder, ap_Base = base, ap_Sockets = [cf_ListenAddr cfg, cf_AdminAddr cfg],
                             ap_MinTLS = (if cf_TLSCertFile cfg \<noteq> [] \<and> cf_TLSKeyFile cfg \<noteq> [] then Some (1, 2) else None),
                             ap_tlsCert = cf_TLSCertFile cfg, ap_tlsKey = cf_TLSKeyFile cfg,
                             ap_Log = [\<lparr>lg_Level = Info, lg_Msg = ''state key ring loaded'',
                               lg_Attrs = [(''kids'', LStrs (kids ring)), (''signing_kid'', LStr (KID (hd ring)))]\<rparr>]\<rparr>)))"

text \<open>How the public listener serves, and the scheme it logs.\<close>

definition serves_tls :: "app \<Rightarrow> bool" where
  "serves_tls a \<longleftrightarrow> ap_tlsCert a \<noteq> [] \<and> ap_tlsKey a \<noteq> []"

definition logged_scheme :: "app \<Rightarrow> string" where
  "logged_scheme a = (if ap_tlsCert a \<noteq> [] then ''https'' else ''http'')"

section \<open>The serve loop\<close>

text \<open>\<open>http.ErrServerClosed\<close> is the one expected error of a server.\<close>

datatype server_error = ErrServerClosed | ServerFailed string

definition ignoreClosed :: "server_error option \<Rightarrow> server_error option" where
  "ignoreClosed e = (if e = Some ErrServerClosed then None else e)"

text \<open>\<open>shutdown\<close> joins what the two servers report; no error is the empty list.\<close>

definition shutdown :: "string option \<Rightarrow> string option \<Rightarrow> string list" where
  "shutdown public_err admin_err = List.map_filter id [public_err, admin_err]"

text \<open>An event of \<open>select\<close> with what the environment contributes to its handling: the ends of the two
  shutdowns, or the system a reload reads.\<close>

datatype event =
    CtxDone "string option" "string option"
  | SrvErr "server_error option" "string option" "string option"
  | Hup System

datatype phase = Running | Returned "string list"

record server =
  sv_Holder :: Holder
  sv_Phase :: phase
  sv_Log :: "LogEvent list"

definition sv_log :: "Level \<Rightarrow> string \<Rightarrow> (string \<times> log_value) list \<Rightarrow> server \<Rightarrow> server" where
  "sv_log l msg attrs s = s\<lparr>sv_Log := sv_Log s @ [\<lparr>lg_Level = l, lg_Msg = msg, lg_Attrs = attrs\<rparr>]\<rparr>"

definition error_text :: "server_error \<Rightarrow> string" where
  "error_text e = (case e of ErrServerClosed \<Rightarrow> ''http: Server closed'' | ServerFailed t \<Rightarrow> t)"

definition reload_step :: "System \<Rightarrow> server \<Rightarrow> server" where
  "reload_step sys s =
     (case holder_Reload sys (sv_Holder s) of
        (Some e, h) \<Rightarrow> sv_log Error ''config reload failed, keeping previous configuration'' [] (s\<lparr>sv_Holder := h\<rparr>)
      | (None, h) \<Rightarrow>
          sv_log Info ''config reloaded''
            [(''clients'', LInt (int (length (cf_Clients (holder_Get h))))),
             (''kids'', LStrs (kids (ringFrom (holder_Get h)))), (''state_ttl'', LInt (cf_StateTTL (holder_Get h)))]
            (s\<lparr>sv_Holder := h\<rparr>))"

text \<open>One turn of the loop.\<close>

inductive serve_step :: "server \<Rightarrow> event \<Rightarrow> server \<Rightarrow> bool" where
  cancelled: "sv_Phase s = Running \<Longrightarrow>
    serve_step s (CtxDone e1 e2) (sv_log Info ''shutdown requested'' [] s\<lparr>sv_Phase := Returned (shutdown e1 e2)\<rparr>)"
| listener_died: "sv_Phase s = Running \<Longrightarrow> ignoreClosed err = Some e \<Longrightarrow>
    serve_step s (SrvErr err e1 e2) (s\<lparr>sv_Phase := Returned [error_text e]\<rparr>)"
| listener_closed: "sv_Phase s = Running \<Longrightarrow> ignoreClosed err = None \<Longrightarrow> serve_step s (SrvErr err e1 e2) s"
| reload: "sv_Phase s = Running \<Longrightarrow> serve_step s (Hup sys) (reload_step sys s)"

code_pred (modes: i \<Rightarrow> i \<Rightarrow> o \<Rightarrow> bool) serve_step .

inductive_cases serve_stepE: "serve_step s ev s'"
inductive_simps serve_step_done: "serve_step s (CtxDone e1 e2) s'"
inductive_simps serve_step_err: "serve_step s (SrvErr err e1 e2) s'"
inductive_simps serve_step_hup: "serve_step s (Hup sys) s'"

inductive serve_run :: "server \<Rightarrow> event list \<Rightarrow> server \<Rightarrow> bool" where
  run_nil: "serve_run s [] s"
| run_step: "serve_run s evs s' \<Longrightarrow> serve_step s' ev s'' \<Longrightarrow> serve_run s (evs @ [ev]) s''"

definition started :: "app \<Rightarrow> server" where
  "started a = \<lparr>sv_Holder = ap_Holder a, sv_Phase = Running, sv_Log = ap_Log a\<rparr>"

text \<open>\<open>run\<close>, up to the serve loop.\<close>

datatype run_error = ConfigError config_error | AppError app_error

definition run_start :: "(string \<Rightarrow> bool) \<Rightarrow> System \<Rightarrow> (run_error, server) result" where
  "run_start can sys =
     (case Load sys of Err e \<Rightarrow> Err (ConfigError e)
      | Ok cfg \<Rightarrow> (case snd (newApp can (NewHolder cfg)) of Err e \<Rightarrow> Err (AppError e) | Ok a \<Rightarrow> Ok (started a)))"

text \<open>\<open>slogWriter\<close>: server diagnostics, trailing newlines removed.\<close>

definition slogWriter :: "string \<Rightarrow> World \<Rightarrow> World" where
  "slogWriter p w = logmsg Warn ''http server'' [(''msg'', LStr (rev (dropWhile (\<lambda>c. c = CHR 0x0A) (rev p))))] w"

section \<open>healthcheck.go\<close>

definition healthcheckFlag :: string where "healthcheckFlag = ''-healthcheck''"
definition healthcheckTimeout :: duration where "healthcheckTimeout = 3 * second"

text \<open>\<open>net.SplitHostPort\<close> and \<open>net.JoinHostPort\<close>.\<close>

definition SplitHostPort :: "string \<Rightarrow> (string \<times> string) option" where
  "SplitHostPort hp =
     (if CHR '':'' \<notin> set hp then None
      else let host = before_last CHR '':'' hp; port = after_last CHR '':'' hp
           in if hd hp = CHR ''['' then
                (let inner = takeWhile (\<lambda>c. c \<noteq> CHR '']'') (tl hp)
                 in if CHR '']'' \<notin> set hp \<or> length inner + 2 \<noteq> length host then None
                    else if CHR ''['' \<in> set (tl hp) \<or> CHR '']'' \<in> set port then None
                    else Some (inner, port))
              else if CHR '':'' \<in> set host \<or> CHR ''['' \<in> set hp \<or> CHR '']'' \<in> set hp then None
              else Some (host, port))"

definition JoinHostPort :: "string \<Rightarrow> string \<Rightarrow> string" where
  "JoinHostPort h p = (if CHR '':'' \<in> set h then CHR ''['' # h @ '']:'' @ p else h @ CHR '':'' # p)"

text \<open>The URL that is probed; none when the address is malformed.\<close>

definition healthcheck_url :: "System \<Rightarrow> string option" where
  "healthcheck_url sys =
     (let addr = or_default (getenv_trimmed sys EnvAdminAddr) DefaultAdminAddr
      in case SplitHostPort addr of
           None \<Rightarrow> None
         | Some (host, port) \<Rightarrow>
             Some (''http://'' @
               (if host \<in> {[], ''0.0.0.0'', ''::'', ''[::]''} then JoinHostPort ''127.0.0.1'' port else addr) @ ''/healthz''))"

definition healthcheck :: "System \<Rightarrow> (string \<Rightarrow> nat option) \<Rightarrow> string option" where
  "healthcheck sys probe =
     (case healthcheck_url sys of None \<Rightarrow> None
      | Some url \<Rightarrow>
          if url_Parse url = None then None
          else (case probe url of None \<Rightarrow> None
                | Some status \<Rightarrow> if status \<noteq> 200 then None else Some (''ok'' @ [CHR 0x0A])))"

end
