(* ===== verification/Process.thy ===== *)
theory Process imports
  App
begin

text \<open>
  The process as a whole: \<open>main\<close>, \<open>run\<close> and the concurrent part of \<open>serve\<close> in
  \<open>cmd/strava-auth-proxy/main.go\<close>. Two goroutines serve the listeners and report on a channel of two;
  signals cancel the context or, once \<open>serve\<close> has registered its channel, are kept in a channel of one;
  the loop takes what is ready. A hangup that is not registered has its default effect: it kills.
\<close>

section \<open>State\<close>

datatype listener = Public | Admin

text \<open>A goroutine of \<open>serve\<close>: before its log line, serving, about to send what its server returned,
  and returned.\<close>

datatype goroutine = Starting | Serving | Sending "server_error option" | Finished

text \<open>How the process ends: with an exit code, or killed by a signal.\<close>

datatype ending = Exited nat | Killed

record process =
  pr_app :: app
  pr_server :: server
  pr_go :: "listener \<Rightarrow> goroutine"
  pr_srvErr :: "server_error option list"
  pr_ctx :: bool
  pr_notify :: bool
  pr_hup :: bool
  pr_open :: "listener \<Rightarrow> bool"
  pr_closed :: bool
  pr_end :: "ending option"

definition srvErr_capacity :: nat where "srvErr_capacity = 2"

text \<open>Both goroutines are launched; the hangup channel is not registered yet.\<close>

definition start_process :: "app \<Rightarrow> process" where
  "start_process a =
     \<lparr>pr_app = a, pr_server = started a, pr_go = (\<lambda>l. Starting), pr_srvErr = [], pr_ctx = False, pr_notify = False,
      pr_hup = False, pr_open = (\<lambda>l. True), pr_closed = False, pr_end = None\<rparr>"

text \<open>\<open>close\<close>, which \<open>run\<close> defers, does its work once.\<close>

definition app_close :: "process \<Rightarrow> process" where
  "app_close p = (if pr_closed p then p else p\<lparr>pr_closed := True, pr_open := (\<lambda>l. False)\<rparr>)"

text \<open>The line a goroutine logs when it starts; \<open>addr\<close> is the address its listener got.\<close>

definition start_log :: "string \<Rightarrow> listener \<Rightarrow> app \<Rightarrow> server \<Rightarrow> server" where
  "start_log addr l a s =
     (case l of
        Admin \<Rightarrow> sv_log Info ''admin listener started'' [(''addr'', LStr addr)] s
      | Public \<Rightarrow> sv_log Info ''public listener started'' [(''addr'', LStr addr), (''scheme'', LStr (logged_scheme a))] s)"

text \<open>A turn of the loop; when it returns, \<open>serve\<close> unregisters its hangup channel and \<open>run\<close> closes the
  listeners.\<close>

definition after_turn :: "server \<Rightarrow> process \<Rightarrow> process" where
  "after_turn s p =
     (let p1 = p\<lparr>pr_server := s\<rparr> in if sv_Phase s = Running then p1 else app_close (p1\<lparr>pr_notify := False\<rparr>))"

text \<open>The code \<open>main\<close> exits with once the serve loop has returned: an error of \<open>run\<close> is fatal.\<close>

definition exit_status :: "process \<Rightarrow> nat option" where
  "exit_status p = (case sv_Phase (pr_server p) of Running \<Rightarrow> None | Returned errs \<Rightarrow> Some (if errs = [] then 0 else 1))"

section \<open>Steps\<close>

datatype action =
  Sigterm | Sighup | Notify | Start listener string | End listener server_error bool | Send listener | Take event | Leave

text \<open>A server returns \<open>ErrServerClosed\<close> only when it has been shut down. Returning closes its listener,
  except that \<open>ServeTLS\<close> may fail before it serves, when it cannot load the certificate; the flag of
  \<open>End\<close> says whether the listener was closed. A signal that finds the channel of \<open>signal.Notify\<close> full is
  dropped.\<close>

inductive process_step :: "process \<Rightarrow> action \<Rightarrow> process \<Rightarrow> bool" where
  sigterm: "pr_end p = None \<Longrightarrow> process_step p Sigterm (p\<lparr>pr_ctx := True\<rparr>)"
| sighup_kept: "pr_end p = None \<Longrightarrow> pr_notify p \<Longrightarrow> process_step p Sighup (p\<lparr>pr_hup := True\<rparr>)"
| sighup_kills: "pr_end p = None \<Longrightarrow> \<not> pr_notify p \<Longrightarrow> process_step p Sighup (p\<lparr>pr_end := Some Killed\<rparr>)"
| notify: "pr_end p = None \<Longrightarrow> \<not> pr_notify p \<Longrightarrow> sv_Phase (pr_server p) = Running \<Longrightarrow>
    process_step p Notify (p\<lparr>pr_notify := True\<rparr>)"
| start: "pr_end p = None \<Longrightarrow> pr_go p l = Starting \<Longrightarrow>
    process_step p (Start l addr)
      (p\<lparr>pr_go := (pr_go p)(l := Serving), pr_server := start_log addr l (pr_app p) (pr_server p)\<rparr>)"
| server_ends: "pr_end p = None \<Longrightarrow> pr_go p l = Serving \<Longrightarrow>
    e = ErrServerClosed \<longrightarrow> sv_Phase (pr_server p) \<noteq> Running \<Longrightarrow>
    closes \<or> l = Public \<and> serves_tls (pr_app p) \<and> e \<noteq> ErrServerClosed \<Longrightarrow>
    process_step p (End l e closes)
      (p\<lparr>pr_go := (pr_go p)(l := Sending (ignoreClosed (Some e))),
         pr_open := (if closes then (pr_open p)(l := False) else pr_open p)\<rparr>)"
| send: "pr_end p = None \<Longrightarrow> pr_go p l = Sending e \<Longrightarrow> length (pr_srvErr p) < srvErr_capacity \<Longrightarrow>
    process_step p (Send l) (p\<lparr>pr_go := (pr_go p)(l := Finished), pr_srvErr := pr_srvErr p @ [e]\<rparr>)"
| take_ctx: "pr_end p = None \<Longrightarrow> pr_notify p \<Longrightarrow> pr_ctx p \<Longrightarrow> serve_step (pr_server p) (CtxDone e1 e2) s \<Longrightarrow>
    process_step p (Take (CtxDone e1 e2)) (after_turn s p)"
| take_err: "pr_end p = None \<Longrightarrow> pr_notify p \<Longrightarrow> pr_srvErr p = e # rest \<Longrightarrow> serve_step (pr_server p) (SrvErr e e1 e2) s \<Longrightarrow>
    process_step p (Take (SrvErr e e1 e2)) (after_turn s (p\<lparr>pr_srvErr := rest\<rparr>))"
| take_hup: "pr_end p = None \<Longrightarrow> pr_notify p \<Longrightarrow> pr_hup p \<Longrightarrow> serve_step (pr_server p) (Hup sys) s \<Longrightarrow>
    process_step p (Take (Hup sys)) (after_turn s (p\<lparr>pr_hup := False\<rparr>))"
| leave: "pr_end p = None \<Longrightarrow> exit_status p = Some c \<Longrightarrow> process_step p Leave (p\<lparr>pr_end := Some (Exited c)\<rparr>)"

inductive_cases process_stepE: "process_step p act p'"

text \<open>What the loop took, in order.\<close>

fun taken :: "action list \<Rightarrow> event list" where
  "taken [] = []"
| "taken (Take ev # acts) = ev # taken acts"
| "taken (act # acts) = taken acts"

inductive process_run :: "process \<Rightarrow> action list \<Rightarrow> process \<Rightarrow> bool" where
  process_nil: "process_run p [] p"
| process_snoc: "process_run p acts p' \<Longrightarrow> process_step p' act p'' \<Longrightarrow> process_run p (acts @ [act]) p''"

inductive_cases process_snocE: "process_run p (acts @ [act]) p'"

section \<open>main\<close>

text \<open>What \<open>main\<close> comes to before it serves: an exit code with what was printed on the standard output
  and whether an error was reported, or the running process.\<close>

datatype main_result = Exit nat string "LogEvent list" | Serve process

definition fatal :: LogEvent where
  "fatal = \<lparr>lg_Level = Error, lg_Msg = ''fatal'', lg_Attrs = []\<rparr>"

definition main :: "string list \<Rightarrow> (string \<Rightarrow> bool) \<Rightarrow> System \<Rightarrow> (string \<Rightarrow> nat option) \<Rightarrow> main_result" where
  "main args can sys probe =
     (if length args > 1 \<and> args ! 1 = healthcheckFlag then
        (case healthcheck sys probe of None \<Rightarrow> Exit 1 [] [] | Some out \<Rightarrow> Exit 0 out [])
      else case Load sys of
        Err e \<Rightarrow> Exit 1 [] [fatal]
      | Ok cfg \<Rightarrow>
          (case snd (newApp can (NewHolder cfg)) of Err e \<Rightarrow> Exit 1 [] [fatal] | Ok a \<Rightarrow> Serve (start_process a)))"

section \<open>Invariants\<close>

lemma all_listener: "(\<forall>l. P l) \<longleftrightarrow> P Public \<and> P Admin" by (metis listener.exhaust)

lemma ex_listener: "(\<exists>l. P l) \<longleftrightarrow> P Public \<or> P Admin" by (metis listener.exhaust)

definition in_flight :: "goroutine \<Rightarrow> nat" where "in_flight g = (if g = Finished then 0 else 1)"

definition failure_pending :: "process \<Rightarrow> bool" where
  "failure_pending p \<longleftrightarrow> (\<exists>e. Some e \<in> set (pr_srvErr p)) \<or> (\<exists>l e. pr_go p l = Sending (Some e))"

text \<open>The loop may take its next turn, or has yet to start.\<close>

definition running :: "process \<Rightarrow> bool" where
  "running p \<longleftrightarrow> pr_end p = None \<and> sv_Phase (pr_server p) = Running"

definition up :: "process \<Rightarrow> listener \<Rightarrow> bool" where
  "up p l \<longleftrightarrow> pr_open p l \<and> (pr_go p l = Starting \<or> pr_go p l = Serving)"

definition process_inv :: "process \<Rightarrow> bool" where
  "process_inv p \<longleftrightarrow>
     length (pr_srvErr p) + in_flight (pr_go p Public) + in_flight (pr_go p Admin) \<le> srvErr_capacity \<and>
     Some ErrServerClosed \<notin> set (pr_srvErr p) \<and> (\<forall>l. pr_go p l \<noteq> Sending (Some ErrServerClosed)) \<and>
     (sv_Phase (pr_server p) = Running \<longrightarrow> \<not> pr_closed p \<and> None \<notin> set (pr_srvErr p) \<and>
        (\<forall>l. pr_go p l \<noteq> Sending None) \<and> (\<forall>l. up p l \<or> failure_pending p)) \<and>
     (sv_Phase (pr_server p) \<noteq> Running \<longrightarrow> \<not> pr_notify p \<and> (\<forall>l. \<not> pr_open p l)) \<and>
     (sv_Phase (pr_server p) = Returned [] \<longrightarrow> pr_ctx p) \<and>
     (\<forall>c. pr_end p = Some (Exited c) \<longrightarrow> exit_status p = Some c)"

text \<open>The serve loop alone does not see the log lines of the goroutines.\<close>

definition same_loop :: "server \<Rightarrow> server \<Rightarrow> bool" where
  "same_loop s s' \<longleftrightarrow> sv_Holder s = sv_Holder s' \<and> sv_Phase s = sv_Phase s'"

lemma reload_same: "same_loop s s' \<Longrightarrow> same_loop (reload_step sys s) (reload_step sys s')"
  by (auto simp: same_loop_def reload_step_def sv_log_def split: prod.split option.split)

lemma serve_step_same:
  "serve_step s ev t \<Longrightarrow> same_loop s s' \<Longrightarrow> \<exists>t'. serve_step s' ev t' \<and> same_loop t t'"
  by (erule serve_stepE)
    (auto simp: serve_step_done serve_step_err serve_step_hup reload_same, auto simp: same_loop_def sv_log_def)

lemma start_log_same: "same_loop (start_log addr l a s) s"
  by (auto simp: start_log_def same_loop_def sv_log_def split: listener.split)

lemma same_trans: "same_loop s t \<Longrightarrow> same_loop t u \<Longrightarrow> same_loop s u" and same_refl [simp]: "same_loop s s"
  and same_sym: "same_loop s t \<Longrightarrow> same_loop t s"
  by (simp_all add: same_loop_def)

lemma after_turn_server [simp]: "pr_server (after_turn s p) = s"
  by (simp add: after_turn_def app_close_def Let_def)

end
