(* ===== verification/AppProps.thy ===== *)
theory AppProps imports
  App
  ConfigProps
  TokenProps
begin

text \<open>The properties of the process: how it starts, what the serve loop keeps, and when it returns.\<close>

section \<open>Start\<close>

lemma ringFrom_ring_of: "ringFrom cfg = ring_of cfg"
  by (simp add: ringFrom_def ring_of_def)

lemma config_ok_secure: "config_ok cfg \<Longrightarrow> checkListenerSecurity cfg"
  by (auto simp: config_ok_def checkListenerSecurity_def)

lemma config_ok_base: "config_ok cfg \<Longrightarrow> \<exists>base. url_Parse (cf_UpstreamBaseURL cfg) = Some base \<and> IsAbs base \<and> u_Host base \<noteq> []"
  using base_url_ok_web [of "cf_UpstreamBaseURL cfg"] by (auto simp: config_ok_def web_url_def)

lemma config_ok_ring: "config_ok cfg \<Longrightarrow> ringFrom cfg \<noteq> []"
  using ring_of_signable [of cfg] by (auto simp: ringFrom_ring_of signable_def)

text \<open>
  C34. The process never serves plain HTTP without the development opt-in and leaves no socket behind
  when it does not start: a start that fails holds no socket; one that succeeds holds both, with TLS
  1.2 or newer, or under the opt-in; after a successful load only binding an address can fail. The
  scheme it logs is wrong exactly when a certificate is set without a key.
\<close>

theorem start_is_secure:
  assumes "newApp can holder = (socks, res)"
  shows "(case res of
      Inl e \<Rightarrow> socks = [] \<and> (\<not> checkListenerSecurity (holder_Get holder) \<longleftrightarrow> e = PlainHTTPRefused)
    | Inr a \<Rightarrow> socks = ap_Sockets a \<and> length socks = 2 \<and>
        (if serves_tls a then ap_MinTLS a = Some (1, 2) else cf_DevAllowHTTP (holder_Get holder)) \<and>
        ((logged_scheme a = ''https'') \<noteq> serves_tls a \<longleftrightarrow>
          cf_TLSCertFile (holder_Get holder) \<noteq> [] \<and> cf_TLSKeyFile (holder_Get holder) = [])) \<and>
    (config_ok (holder_Get holder) \<longrightarrow>
      is_ok res \<or> res = Inl (ListenFailed (cf_ListenAddr (holder_Get holder))) \<or>
      res = Inl (AdminListenFailed (cf_AdminAddr (holder_Get holder))))"
proof -
  have "config_ok (holder_Get holder) \<longrightarrow> is_ok res \<or> res = Inl (ListenFailed (cf_ListenAddr (holder_Get holder))) \<or>
      res = Inl (AdminListenFailed (cf_AdminAddr (holder_Get holder)))"
  proof
    assume ok: "config_ok (holder_Get holder)"
    obtain base where "url_Parse (cf_UpstreamBaseURL (holder_Get holder)) = Some base" "IsAbs base" "u_Host base \<noteq> []"
      using config_ok_base [OF ok] by blast
    with assms config_ok_secure [OF ok] config_ok_ring [OF ok]
    show "is_ok res \<or> res = Inl (ListenFailed (cf_ListenAddr (holder_Get holder))) \<or>
        res = Inl (AdminListenFailed (cf_AdminAddr (holder_Get holder)))"
      by (auto simp: newApp_def Let_def split: if_splits)
  qed
  moreover have "case res of
      Inl e \<Rightarrow> socks = [] \<and> (\<not> checkListenerSecurity (holder_Get holder) \<longleftrightarrow> e = PlainHTTPRefused)
    | Inr a \<Rightarrow> socks = ap_Sockets a \<and> length socks = 2 \<and>
        (if serves_tls a then ap_MinTLS a = Some (1, 2) else cf_DevAllowHTTP (holder_Get holder)) \<and>
        ((logged_scheme a = ''https'') \<noteq> serves_tls a \<longleftrightarrow>
          cf_TLSCertFile (holder_Get holder) \<noteq> [] \<and> cf_TLSKeyFile (holder_Get holder) = [])"
    using assms
    by (auto simp: newApp_def Let_def checkListenerSecurity_def serves_tls_def logged_scheme_def split: if_splits option.splits)
  ultimately show ?thesis by blast
qed

lemma newApp_starts:
  assumes "config_ok (holder_Get holder)"
  shows "\<exists>socks a. newApp (\<lambda>addr. True) holder = (socks, Inr a)"
  using config_ok_base [OF assms] config_ok_secure [OF assms] config_ok_ring [OF assms]
  by (auto simp: newApp_def Let_def)

theorem start_is_secure_witness:
  "\<exists>socks a. newApp (\<lambda>addr. True) (NewHolder tiny_config) = (socks, Inr a) \<and> socks = ap_Sockets a \<and> length socks = 2 \<and>
     (if serves_tls a then ap_MinTLS a = Some (1, 2) else cf_DevAllowHTTP tiny_config)"
proof -
  have "config_ok (holder_Get (NewHolder tiny_config))" using tiny_config_ok by (simp add: tiny_holder)
  then obtain socks a where n: "newApp (\<lambda>addr. True) (NewHolder tiny_config) = (socks, Inr a)" using newApp_starts by blast
  from start_is_secure [OF n] show ?thesis unfolding tiny_holder n by (intro exI [of _ socks] exI [of _ a]) auto
qed

section \<open>The serve loop\<close>

text \<open>The systems the reloads of a run read, and the configuration they lead to.\<close>

definition reloads :: "event list \<Rightarrow> System list" where
  "reloads evs = List.map_filter (\<lambda>ev. case ev of Hup sys \<Rightarrow> Some sys | _ \<Rightarrow> None) evs"

lemma reloads_simps [simp]:
  "reloads [] = []" "reloads (evs @ [Hup sys]) = reloads evs @ [sys]"
  "reloads (evs @ [CtxDone a b]) = reloads evs" "reloads (evs @ [SrvErr x a b]) = reloads evs"
  by (simp_all add: reloads_def List.map_filter_def)

lemma sv_log_simps [simp]: "sv_Holder (sv_log l m a s) = sv_Holder s" "sv_Phase (sv_log l m a s) = sv_Phase s"
  by (simp_all add: sv_log_def)

lemma reload_step_simps [simp]:
  "sv_Phase (reload_step sys s) = sv_Phase s"
  "holder_Get (sv_Holder (reload_step sys s)) = cfg.swap (holder_Get (sv_Holder s)) sys"
  using holder_Reload_swap [of sys "sv_Holder s"] by (auto simp: reload_step_def split: prod.split option.split)

lemma run_config: "serve_run s evs s' \<Longrightarrow> holder_Get (sv_Holder s') = foldl cfg.swap (holder_Get (sv_Holder s)) (reloads evs)"
  by (induction rule: serve_run.induct) (auto elim!: serve_stepE)

text \<open>
  C35. The serve loop always publishes a valid configuration: after any run from a start with a
  loaded configuration, the published one is valid and is the last that loaded, whatever the events
  were and in whichever order they came.
\<close>

theorem serve_publishes_valid:
  assumes "run_start can sys = Inr s" "serve_run s evs s'"
  shows "config_ok (holder_Get (sv_Holder s')) \<and> registry_ok (cf_Clients (holder_Get (sv_Holder s'))) \<and>
    (\<exists>cfg. Load sys = Inr cfg \<and> holder_Get (sv_Holder s') =
      foldl (\<lambda>c sys. case Load sys of Inl e \<Rightarrow> c | Inr c' \<Rightarrow> c') cfg (reloads evs))"
proof -
  obtain cfg where l: "Load sys = Inr cfg" and h: "holder_Get (sv_Holder s) = cfg"
    using assms(1)
    by (auto simp: run_start_def newApp_def Let_def started_def NewHolder_def holder_Get_def
        split: sum.splits if_splits option.splits)
  have "config_ok cfg \<and> registry_ok (cf_Clients cfg) \<and> int64_ok (cf_StateTTL cfg)" by (rule cfg.load_valid [OF l])
  from cfg.swaps_valid [OF this, of "reloads evs"] l run_config [OF assms(2)] show ?thesis
    unfolding h by (auto simp: cfg.swap_def [abs_def])
qed

lemma demo_start: "\<exists>s. run_start (\<lambda>addr. True) demo_sys = Inr s"
proof -
  have "config_ok (holder_Get (NewHolder demo_config))"
    using cfg.load_valid [OF demo_load] by (simp add: NewHolder_def holder_Get_def)
  from newApp_starts [OF this] show ?thesis by (auto simp: run_start_def demo_load)
qed

text \<open>The witness: a run with a reload that fails and one that succeeds.\<close>

theorem serve_publishes_valid_witness:
  "\<exists>s s'. run_start (\<lambda>addr. True) demo_sys = Inr s \<and> serve_run s [Hup bad_sys, Hup demo_sys] s' \<and>
     config_ok (holder_Get (sv_Holder s')) \<and> holder_Get (sv_Holder s') = demo_config"
proof -
  obtain s where s: "run_start (\<lambda>addr. True) demo_sys = Inr s" using demo_start ..
  then have p: "sv_Phase s = Running"
    by (auto simp: run_start_def started_def split: sum.splits)
  have r1: "serve_run s [Hup bad_sys] (reload_step bad_sys s)" using run_step [OF run_nil reload [OF p]] by simp
  have "sv_Phase (reload_step bad_sys s) = Running" using p by simp
  from run_step [OF r1 reload [OF this]]
  have r2: "serve_run s [Hup bad_sys, Hup demo_sys] (reload_step demo_sys (reload_step bad_sys s))" by simp
  have "reloads [Hup bad_sys, Hup demo_sys] = [bad_sys, demo_sys]" by (simp add: reloads_def List.map_filter_def)
  with serve_publishes_valid [OF s r2] bad_load demo_load
  have "config_ok (holder_Get (sv_Holder (reload_step demo_sys (reload_step bad_sys s))))" "holder_Get (sv_Holder (reload_step demo_sys (reload_step bad_sys s))) = demo_config"
    by (blast, simp)
  then have "config_ok (holder_Get (sv_Holder (reload_step demo_sys (reload_step bad_sys s)))) \<and>
    holder_Get (sv_Holder (reload_step demo_sys (reload_step bad_sys s))) = demo_config" ..
  with s r2 show ?thesis by blast
qed

text \<open>The events that end the loop, and what it then returns.\<close>

definition stops :: "event \<Rightarrow> bool" where
  "stops ev \<longleftrightarrow> (case ev of CtxDone e1 e2 \<Rightarrow> True | SrvErr err e1 e2 \<Rightarrow> ignoreClosed err \<noteq> None | Hup sys \<Rightarrow> False)"

definition outcome_of :: "event \<Rightarrow> string list" where
  "outcome_of ev =
     (case ev of CtxDone e1 e2 \<Rightarrow> shutdown e1 e2
      | SrvErr err e1 e2 \<Rightarrow> (case ignoreClosed err of Some e \<Rightarrow> [error_text e] | None \<Rightarrow> [])
      | Hup sys \<Rightarrow> [])"

lemma step_total: "sv_Phase s = Running \<Longrightarrow> \<exists>s'. serve_step s ev s'"
proof (cases ev)
  case (SrvErr err e1 e2)
  assume "sv_Phase s = Running"
  with SrvErr show ?thesis by (cases "ignoreClosed err") (blast intro: serve_step.intros)+
qed (blast intro: serve_step.intros)+

lemma step_functional: "serve_step s ev s' \<Longrightarrow> serve_step s ev s'' \<Longrightarrow> s' = s''"
  by (cases ev) (auto simp: serve_step_done serve_step_err serve_step_hup)

lemma step_phase:
  "serve_step s ev s' \<Longrightarrow> sv_Phase s = Running \<and> sv_Phase s' = (if stops ev then Returned (outcome_of ev) else Running)"
  by (cases ev) (auto simp: serve_step_done serve_step_err serve_step_hup stops_def outcome_of_def)

lemma run_nonstop:
  "sv_Phase s = Running \<Longrightarrow> list_all (\<lambda>ev. \<not> stops ev) evs \<Longrightarrow> \<exists>s'. serve_run s evs s' \<and> sv_Phase s' = Running"
proof (induction evs rule: rev_induct)
  case Nil
  then show ?case using run_nil by blast
next
  case (snoc ev evs)
  then obtain s' where s': "serve_run s evs s'" "sv_Phase s' = Running" by auto
  obtain s'' where "serve_step s' ev s''" using step_total [OF s'(2)] by blast
  with s' snoc.prems(2) step_phase show ?case using run_step by fastforce
qed

inductive_cases serve_run_snocE: "serve_run s (evs @ [ev]) s'"
inductive_cases serve_run_NilE: "serve_run s [] s'"

lemma run_functional: "serve_run s evs s' \<Longrightarrow> serve_run s evs s'' \<Longrightarrow> s' = s''"
proof (induction evs arbitrary: s' s'' rule: rev_induct)
  case Nil
  then show ?case by (auto elim: serve_run_NilE)
next
  case (snoc ev evs)
  from snoc.prems obtain a b where "serve_run s evs a" "serve_step a ev s'" "serve_run s evs b" "serve_step b ev s''"
    by (auto elim!: serve_run_snocE)
  with snoc.IH step_functional show ?case by blast
qed

text \<open>
  C36. The serve loop returns as soon as it must: whatever reloads and closed listeners come before,
  it keeps running through them; the first cancellation or listener failure ends it, with the errors
  of the two shutdowns or with the listener's own error; and then it takes no further step.
\<close>

theorem serve_returns:
  assumes "sv_Phase s = Running" "list_all (\<lambda>ev. \<not> stops ev) evs" "stops ev"
  shows "\<exists>s'. serve_run s (evs @ [ev]) s' \<and>
    sv_Phase s' = Returned (case ev of CtxDone e1 e2 \<Rightarrow> shutdown e1 e2
      | SrvErr err e1 e2 \<Rightarrow> (case err of Some (ServerFailed t) \<Rightarrow> [t] | _ \<Rightarrow> []) | Hup sys \<Rightarrow> []) \<and>
    (\<forall>ev' s''. \<not> serve_step s' ev' s'') \<and> (\<forall>s''. serve_run s (evs @ [ev]) s'' \<longrightarrow> s'' = s')"
proof -
  obtain s1 where s1: "serve_run s evs s1" "sv_Phase s1 = Running" using run_nonstop assms(1,2) by blast
  obtain s' where s': "serve_step s1 ev s'" using step_total [OF s1(2)] by blast
  have r: "serve_run s (evs @ [ev]) s'" using run_step [OF s1(1) s'] .
  have o: "outcome_of ev = (case ev of CtxDone e1 e2 \<Rightarrow> shutdown e1 e2
      | SrvErr err e1 e2 \<Rightarrow> (case err of Some (ServerFailed t) \<Rightarrow> [t] | _ \<Rightarrow> []) | Hup sys \<Rightarrow> [])"
    by (auto simp: outcome_of_def ignoreClosed_def error_text_def split: event.split option.split server_error.split)
  have p: "sv_Phase s' = Returned (outcome_of ev)" using step_phase [OF s'] assms(3) by simp
  then have "\<not> serve_step s' ev' s''" for ev' s'' using step_phase [of s' ev' s''] by auto
  with r p run_functional [OF _ r] show ?thesis unfolding o by blast
qed

theorem serve_returns_witness:
  "\<exists>s'. serve_run \<lparr>sv_Holder = NewHolder tiny_config, sv_Phase = Running, sv_Log = []\<rparr>
      [SrvErr (Some ErrServerClosed) None None, SrvErr (Some (ServerFailed ''accept'')) None None] s' \<and>
     sv_Phase s' = Returned [''accept'']"
  using serve_returns [of "\<lparr>sv_Holder = NewHolder tiny_config, sv_Phase = Running, sv_Log = []\<rparr>"
      "[SrvErr (Some ErrServerClosed) None None]" "SrvErr (Some (ServerFailed ''accept'')) None None"]
  by (simp add: stops_def ignoreClosed_def) blast

end
