(* ===== verification/ProcessProps.thy ===== *)
theory ProcessProps imports
  Process
  AppProps
begin

text \<open>The properties of the running process, over every interleaving of signals, goroutines and loop.\<close>

lemma inv_start: "process_inv (start_process a)"
  by (simp add: process_inv_def start_process_def started_def in_flight_def srvErr_capacity_def up_def)

lemma server_end_some: "ignoreClosed (Some e) = (if e = ErrServerClosed then None else Some e)"
  by (simp add: ignoreClosed_def)

lemma start_log_phase [simp]: "sv_Phase (start_log addr l a s) = sv_Phase s"
  using start_log_same by (simp add: same_loop_def)

lemma close_facts [simp]:
  "pr_go (app_close p) = pr_go p" "pr_srvErr (app_close p) = pr_srvErr p" "pr_ctx (app_close p) = pr_ctx p"
  "pr_server (app_close p) = pr_server p" "pr_hup (app_close p) = pr_hup p" "pr_end (app_close p) = pr_end p"
  "pr_notify (app_close p) = pr_notify p" "pr_app (app_close p) = pr_app p"
  by (simp_all add: app_close_def)

lemma in_flight_simps [simp]: "in_flight Starting = 1" "in_flight Serving = 1" "in_flight (Sending e) = 1" "in_flight Finished = 0"
  by (simp_all add: in_flight_def)

text \<open>A turn of the loop keeps the invariant if what it took does.\<close>

lemma inv_turn:
  assumes "serve_step (pr_server p) ev s" "pr_server q = pr_server p" "pr_go q = pr_go p" "pr_ctx q = pr_ctx p"
    and "pr_closed q = pr_closed p" "pr_end q = None" "process_inv p" "length (pr_srvErr q) \<le> length (pr_srvErr p)"
    and "set (pr_srvErr q) \<subseteq> set (pr_srvErr p)"
    and "sv_Phase s = Running \<Longrightarrow> pr_srvErr q = pr_srvErr p \<and> pr_open q = pr_open p"
    and "sv_Phase s = Returned [] \<Longrightarrow> pr_ctx p"
  shows "process_inv (after_turn s q)"
proof -
  have r: "sv_Phase (pr_server p) = Running" using assms(1) by (auto elim: serve_stepE)
  have i: "length (pr_srvErr p) + in_flight (pr_go p Public) + in_flight (pr_go p Admin) \<le> srvErr_capacity"
    "\<not> pr_closed p" "None \<notin> set (pr_srvErr p)" "\<forall>l. pr_go p l \<noteq> Sending None" "\<forall>l. up p l \<or> failure_pending p"
    "Some ErrServerClosed \<notin> set (pr_srvErr p)" "\<forall>l. pr_go p l \<noteq> Sending (Some ErrServerClosed)"
    using assms(7) r by (simp_all add: process_inv_def)
  show ?thesis
  proof (cases "sv_Phase s = Running")
    case True
    with assms(10) have "pr_srvErr q = pr_srvErr p" "pr_open q = pr_open p" by simp_all
    with True i assms(2-6) show ?thesis by (simp add: process_inv_def after_turn_def failure_pending_def up_def)
  next
    case False
    with i assms(2-6,8,9,11) show ?thesis by (auto simp: process_inv_def after_turn_def app_close_def)
  qed
qed

lemma inv_step: "process_step p act p' \<Longrightarrow> process_inv p \<Longrightarrow> process_inv p'"
proof (induction rule: process_step.induct)
  case (sigterm p)
  then show ?case by (simp add: process_inv_def failure_pending_def up_def exit_status_def all_listener ex_listener)
next
  case (sighup_kept p)
  then show ?case by (simp add: process_inv_def failure_pending_def up_def exit_status_def all_listener ex_listener)
next
  case (sighup_kills p)
  then show ?case by (simp add: process_inv_def failure_pending_def up_def exit_status_def all_listener ex_listener)
next
  case (notify p)
  then show ?case by (simp add: process_inv_def failure_pending_def up_def exit_status_def all_listener ex_listener)
next
  case (start p l addr)
  then show ?case by (cases l) (auto simp: process_inv_def failure_pending_def up_def all_listener ex_listener)
next
  case (server_ends p l e closes)
  then show ?case
    by (cases l) (auto simp: process_inv_def failure_pending_def up_def server_end_some all_listener ex_listener)
next
  case (send p l e)
  then show ?case by (cases l; cases e) (auto simp: process_inv_def failure_pending_def up_def all_listener ex_listener)
next
  case (take_ctx p e1 e2 s)
  then show ?case by (intro inv_turn [of p _ s]) auto
next
  case (take_err p e rest e1 e2 s)
  from take_err(4) have r: "sv_Phase (pr_server p) = Running" by (auto elim: serve_stepE)
  then have "e \<noteq> None" "e \<noteq> Some ErrServerClosed" using take_err(3,5) by (cases e; auto simp: process_inv_def)+
  then have "ignoreClosed e = e" "e \<noteq> None" by (simp_all add: ignoreClosed_def)
  with take_err(4) have "\<exists>e'. sv_Phase s = Returned [e']" by (auto simp: serve_step_err)
  with take_err show ?case by (intro inv_turn [of p _ s]) auto
next
  case (take_hup p sys s)
  then have "sv_Phase s = Running" by (auto simp: serve_step_hup)
  with take_hup show ?case by (intro inv_turn [of p _ s]) auto
next
  case (leave p c)
  then show ?case by (simp add: process_inv_def failure_pending_def up_def all_listener ex_listener exit_status_def)
qed

lemma inv_run: "process_run p acts p' \<Longrightarrow> process_inv p \<Longrightarrow> process_inv p'"
  by (induction rule: process_run.induct) (auto dest: inv_step)

text \<open>The loop inside the process is the serve loop.\<close>

lemma taken_snoc: "taken (acts @ [act]) = taken acts @ (case act of Take ev \<Rightarrow> [ev] | _ \<Rightarrow> [])"
  by (induction acts rule: taken.induct) (auto split: action.split)

lemma step_simulates:
  "process_step p act p' \<Longrightarrow>
   case act of Take ev \<Rightarrow> serve_step (pr_server p) ev (pr_server p') | _ \<Rightarrow> same_loop (pr_server p') (pr_server p)"
  by (erule process_stepE) (simp_all add: start_log_same)

lemma run_simulates:
  "process_run p acts p' \<Longrightarrow> \<exists>s. serve_run (pr_server p) (taken acts) s \<and> same_loop s (pr_server p')"
proof (induction rule: process_run.induct)
  case (process_nil p)
  show ?case by (rule exI [of _ "pr_server p"]) (simp add: run_nil)
next
  case (process_snoc p acts p' act p'')
  then obtain s where s: "serve_run (pr_server p) (taken acts) s" "same_loop s (pr_server p')" by blast
  show ?case
  proof (cases "\<exists>ev. act = Take ev")
    case True
    then obtain ev where ev: "act = Take ev" by blast
    with step_simulates [OF process_snoc.hyps(2)] have "serve_step (pr_server p') ev (pr_server p'')" by simp
    from serve_step_same [OF this same_sym [OF s(2)]] obtain t where "serve_step s ev t" "same_loop (pr_server p'') t" by blast
    with s(1) ev show ?thesis using run_step same_sym by (fastforce simp: taken_snoc)
  next
    case False
    then have "taken (acts @ [act]) = taken acts" by (simp add: taken_snoc split: action.split)
    moreover have "same_loop (pr_server p'') (pr_server p')"
      using step_simulates [OF process_snoc.hyps(2)] False by (simp split: action.splits)
    ultimately show ?thesis using s same_trans same_sym by metis
  qed
qed

text \<open>A cancelled context was cancelled by a signal; a hangup is seen by a later reload.\<close>

lemma after_turn_flags [simp]: "pr_ctx (after_turn s p) = pr_ctx p" "pr_hup (after_turn s p) = pr_hup p"
  by (simp_all add: after_turn_def Let_def)

lemma run_ctx: "process_run p acts p' \<Longrightarrow> pr_ctx p' \<Longrightarrow> pr_ctx p \<or> Sigterm \<in> set acts"
  by (induction rule: process_run.induct) (auto elim!: process_stepE)

lemma after_turn_end [simp]: "pr_end (after_turn s p) = pr_end p"
  by (simp add: after_turn_def Let_def)

lemma run_hup:
  "process_run p (acts @ Sighup # later) p' \<Longrightarrow>
   pr_hup p' \<or> pr_end p' = Some Killed \<or> (\<exists>sys. Take (Hup sys) \<in> set later)"
proof (induction later arbitrary: p' rule: rev_induct)
  case Nil
  then obtain p1 where "process_step p1 Sighup p'" by (rule process_snocE)
  then show ?case by (rule process_stepE) simp_all
next
  case (snoc act later)
  from snoc.prems have "process_run p ((acts @ Sighup # later) @ [act]) p'" by simp
  then obtain p1 where "process_run p (acts @ Sighup # later) p1" "process_step p1 act p'" by (rule process_snocE)
  note this(2)
  moreover have "pr_hup p1 \<or> pr_end p1 = Some Killed \<or> (\<exists>sys. Take (Hup sys) \<in> set later)" by (rule snoc.IH) fact
  ultimately have "pr_hup p' \<or> pr_end p' = Some Killed \<or> (\<exists>sys. Take (Hup sys) \<in> set later) \<or> (\<exists>sys. act = Take (Hup sys))"
    by (elim process_stepE) auto
  then show ?case by auto
qed

text \<open>While the loop runs, a registered hangup channel stays registered; only a hangup kills.\<close>

lemma loop_phase: "process_step p act p' \<Longrightarrow> sv_Phase (pr_server p') = Running \<Longrightarrow> sv_Phase (pr_server p) = Running"
  by (erule process_stepE) (auto elim: serve_stepE)

lemma after_turn_running [simp]: "sv_Phase s = Running \<Longrightarrow> pr_notify (after_turn s p) = pr_notify p"
  by (simp add: after_turn_def Let_def)

lemma run_notify:
  "process_run p acts p' \<Longrightarrow> Notify \<in> set acts \<Longrightarrow> sv_Phase (pr_server p') = Running \<Longrightarrow> pr_notify p'"
proof (induction rule: process_run.induct)
  case (process_snoc p acts p' act p'')
  have "sv_Phase (pr_server p') = Running" by (rule loop_phase) fact+
  with process_snoc.IH process_snoc.prems have "act = Notify \<or> pr_notify p'" by auto
  with process_snoc.hyps(2) process_snoc.prems(2) show ?case by (elim process_stepE) simp_all
qed simp

lemma run_killed:
  assumes "process_run p acts p'" "pr_end p = None" "pr_end p' = Some Killed"
  shows "\<exists>before. acts = before @ [Sighup] \<and> (Notify \<in> set before \<longrightarrow> sv_Phase (pr_server p') \<noteq> Running)"
  using assms(1)
proof cases
  case process_nil
  with assms(2,3) show ?thesis by simp
next
  case (process_snoc before p1 act)
  with assms(3) have "act = Sighup" "\<not> pr_notify p1" "pr_server p' = pr_server p1" by (auto elim: process_stepE)
  with process_snoc run_notify show ?thesis by auto
qed

text \<open>A failure that is on the way stays so until the loop returns.\<close>

lemma step_pending:
  "process_step p act p' \<Longrightarrow> process_inv p \<Longrightarrow> failure_pending p \<Longrightarrow> sv_Phase (pr_server p') = Running \<Longrightarrow>
   failure_pending p'"
proof (induction rule: process_step.induct)
  case (take_err p e rest e1 e2 s)
  from take_err(4) have "sv_Phase (pr_server p) = Running" by (auto elim: serve_stepE)
  then have "ignoreClosed e \<noteq> None" using take_err(3,5) by (cases e) (auto simp: process_inv_def ignoreClosed_def)
  with take_err(4,7) show ?case by (auto simp: serve_step_err)
next
  case (server_ends p l e closes)
  then show ?case by (cases l) (auto simp: failure_pending_def ex_listener)
next
  case (send p l e)
  then show ?case by (cases l; cases e) (auto simp: failure_pending_def ex_listener)
next
  case (start p l addr)
  then show ?case by (cases l) (auto simp: failure_pending_def ex_listener)
next
  case (take_ctx p e1 e2 s)
  then show ?case by (simp add: serve_step_done sv_log_def)
next
  case (take_hup p sys s)
  then have "sv_Phase s = Running" by simp
  with take_hup show ?case by (simp add: after_turn_def failure_pending_def)
qed (simp_all add: failure_pending_def)

lemma run_pending:
  "process_run p acts p' \<Longrightarrow> process_inv p \<Longrightarrow> failure_pending p \<Longrightarrow> sv_Phase (pr_server p') = Running \<Longrightarrow>
   failure_pending p'"
proof (induction rule: process_run.induct)
  case (process_snoc p acts p' act p'')
  have "sv_Phase (pr_server p') = Running" by (rule loop_phase) fact+
  with process_snoc show ?case using step_pending inv_run by blast
qed simp

section \<open>The ways out\<close>

lemma run_append: "process_run q b r \<Longrightarrow> process_run p a q \<Longrightarrow> process_run p (a @ b) r"
  by (induction rule: process_run.induct) (auto simp flip: append_assoc intro: process_snoc)

lemma process_one: "process_step p act q \<Longrightarrow> process_run p [act] q"
  using process_snoc [OF process_nil] by fastforce

lemma registered:
  assumes "running p"
  obtains a q where "length a \<le> 1" "process_run p a q" "running q" "pr_notify q" "pr_srvErr q = pr_srvErr p"
    "pr_go q = pr_go p" "pr_ctx q = pr_ctx p"
proof (cases "pr_notify p")
  case True
  with that [of "[]" p] assms show ?thesis by (simp add: process_nil)
next
  case False
  have "process_step p Notify (p\<lparr>pr_notify := True\<rparr>)" using assms False by (intro notify) (simp_all add: running_def)
  from that [OF _ process_one [OF this]] assms show ?thesis by (simp add: running_def)
qed

lemma take_and_leave:
  assumes "process_step p (Take ev) q" "pr_end p = None" "exit_status q = Some c"
  shows "\<exists>r. process_run p [Take ev, Leave] r \<and> pr_end r = Some (Exited c)"
proof -
  have "pr_end q = None" using assms(1,2) by (auto elim: process_stepE)
  from leave [OF this assms(3)] have "process_run q [Leave] (q\<lparr>pr_end := Some (Exited c)\<rparr>)" by (rule process_one)
  from run_append [OF this process_one [OF assms(1)]] show ?thesis
    by (intro exI [of _ "q\<lparr>pr_end := Some (Exited c)\<rparr>"]) simp
qed

lemma take_failure:
  assumes "pr_srvErr p = Some e # rest" "e \<noteq> ErrServerClosed" "running p" "pr_notify p"
  shows "\<exists>a r. length a \<le> 2 \<and> process_run p a r \<and> pr_end r = Some (Exited 1)"
proof -
  have r: "pr_end p = None" "sv_Phase (pr_server p) = Running" using assms(3) by (simp_all add: running_def)
  let ?s = "pr_server p\<lparr>sv_Phase := Returned [error_text e]\<rparr>"
  have "serve_step (pr_server p) (SrvErr (Some e) None None) ?s"
    using assms(2) r(2) by (auto simp: serve_step_err ignoreClosed_def)
  from take_and_leave [OF take_err [OF r(1) assms(4,1) this] r(1)]
  obtain q where "process_run p [Take (SrvErr (Some e) None None), Leave] q" "pr_end q = Some (Exited 1)"
    by (auto simp: exit_status_def)
  then show ?thesis by (intro exI conjI) simp_all
qed

text \<open>A failure can end the process in at most four steps of its own.\<close>

lemma failure_ends:
  assumes "process_inv p" "running p" "failure_pending p"
  shows "\<exists>a r. length a \<le> 4 \<and> process_run p a r \<and> pr_end r = Some (Exited 1)"
proof -
  obtain a q where a: "length a \<le> 1" "process_run p a q" "running q" "pr_notify q" "pr_srvErr q = pr_srvErr p" "pr_go q = pr_go p"
    using registered [OF assms(2)] .
  have i: "process_inv q" by (rule inv_run [OF a(2) assms(1)])
  have "\<exists>b r. length b \<le> 3 \<and> process_run q b r \<and> pr_end r = Some (Exited 1)"
  proof (cases "pr_srvErr q")
    case (Cons e rest)
    with i a(3) obtain x where "e = Some x" "x \<noteq> ErrServerClosed" by (cases e) (auto simp: process_inv_def running_def)
    with take_failure [of q x rest] Cons a(3,4) obtain b r where "length b \<le> 2" "process_run q b r" "pr_end r = Some (Exited 1)"
      by blast
    then show ?thesis by (intro exI [of _ b] exI [of _ r]) simp
  next
    case Nil
    with assms(3) a(5,6) obtain l x where l: "pr_go q l = Sending (Some x)" by (auto simp: failure_pending_def)
    let ?q = "q\<lparr>pr_go := (pr_go q)(l := Finished), pr_srvErr := [Some x]\<rparr>"
    have "process_step q (Send l) ?q" using send [OF _ l] Nil a(3) by (simp add: srvErr_capacity_def running_def)
    note s = process_one [OF this]
    have "x \<noteq> ErrServerClosed" using i l by (auto simp: process_inv_def)
    with take_failure [of ?q x "[]"] a(3,4) obtain b r where "length b \<le> 2" "process_run ?q b r" "pr_end r = Some (Exited 1)"
      by (auto simp: running_def)
    with run_append [OF _ s] show ?thesis by (intro exI [of _ "[Send l] @ b"] exI [of _ r]) simp
  qed
  then obtain b r where "length b \<le> 3" "process_run q b r" "pr_end r = Some (Exited 1)" by blast
  with run_append [OF _ a(2)] a(1) show ?thesis by (intro exI [of _ "a @ b"] exI [of _ r]) simp
qed

text \<open>So can a cancellation, with code 0, when both servers shut down without an error.\<close>

lemma cancel_ends:
  assumes "running p" "pr_ctx p"
  shows "\<exists>a r. length a \<le> 3 \<and> process_run p a r \<and> pr_end r = Some (Exited 0)"
proof -
  obtain a q where a: "length a \<le> 1" "process_run p a q" "running q" "pr_notify q" "pr_ctx q = pr_ctx p"
    using registered [OF assms(1)] by metis
  have r: "pr_end q = None" "sv_Phase (pr_server q) = Running" "pr_ctx q" using a assms(2) by (simp_all add: running_def)
  let ?s = "sv_log Info ''shutdown requested'' [] (pr_server q)\<lparr>sv_Phase := Returned []\<rparr>"
  have "serve_step (pr_server q) (CtxDone None None) ?s" using r(2) by (simp add: serve_step_done shutdown_def map_filter_def)
  from take_and_leave [OF take_ctx [OF r(1) a(4) r(3) this] r(1)]
  obtain z where "process_run q [Take (CtxDone None None), Leave] z" "pr_end z = Some (Exited 0)" by (auto simp: exit_status_def)
  with run_append [OF _ a(2)] a(1) show ?thesis
    by (intro exI [of _ "a @ [Take (CtxDone None None), Leave]"] exI [of _ z]) simp
qed

text \<open>
  C38. The running process. Under every interleaving of signals, listener goroutines and loop: what
  the loop does is a run of the serve loop, and a goroutine never blocks on reporting what its server
  returned. While the process runs, each listener is open with its goroutine starting or serving, or a
  failure is on the way to the loop; a failure on the way stays on the way as long as the loop runs and
  can end the process with code 1 in four steps, as a requested shutdown can end it with code 0 in
  three: the loop takes either first. A process that was not asked to stop exits with code 1 if it
  exits, and code 0 means that it was asked to; when the loop has returned no listener is open. A
  hangup kills the process only before the channel is registered or after the loop has returned;
  otherwise it is still pending or a reload came after it.
\<close>

theorem process_lifecycle:
  assumes "main args can sys probe = Serve p" "process_run p acts p'"
  shows "(\<exists>s. serve_run (pr_server p) (taken acts) s \<and> same_loop s (pr_server p')) \<and>
    (\<forall>l e. pr_go p' l = Sending e \<and> pr_end p' = None \<longrightarrow> (\<exists>p''. process_step p' (Send l) p'')) \<and>
    (sv_Phase (pr_server p') = Running \<longrightarrow>
      (\<forall>l. (pr_open p' l \<and> (pr_go p' l = Starting \<or> pr_go p' l = Serving)) \<or> failure_pending p')) \<and>
    (failure_pending p' \<longrightarrow>
      (\<forall>own p''. process_run p' own p'' \<and> sv_Phase (pr_server p'') = Running \<longrightarrow> failure_pending p'') \<and>
      (running p' \<longrightarrow> (\<exists>own p''. length own \<le> 4 \<and> process_run p' own p'' \<and> pr_end p'' = Some (Exited 1)))) \<and>
    (pr_ctx p' \<and> running p' \<longrightarrow> (\<exists>own p''. length own \<le> 3 \<and> process_run p' own p'' \<and> pr_end p'' = Some (Exited 0))) \<and>
    (sv_Phase (pr_server p') \<noteq> Running \<longrightarrow> (\<forall>l. \<not> pr_open p' l)) \<and>
    (\<forall>c. pr_end p' = Some (Exited c) \<longrightarrow> c \<in> {0, 1} \<and> sv_Phase (pr_server p') \<noteq> Running \<and>
      (Sigterm \<notin> set acts \<longrightarrow> c = 1)) \<and>
    (pr_end p' = Some Killed \<longrightarrow>
      (\<exists>before. acts = before @ [Sighup] \<and> (Notify \<in> set before \<longrightarrow> sv_Phase (pr_server p') \<noteq> Running))) \<and>
    (\<forall>before later. acts = before @ Sighup # later \<longrightarrow>
      pr_hup p' \<or> pr_end p' = Some Killed \<or> (\<exists>sys. Take (Hup sys) \<in> set later))"
proof -
  obtain a where p: "p = start_process a"
    using assms(1) by (auto simp: main_def split: if_splits option.splits sum.splits)
  have i: "process_inv p'" using inv_run [OF assms(2)] inv_start p by simp
  have ctx: "pr_ctx p' \<longrightarrow> Sigterm \<in> set acts" using run_ctx [OF assms(2)] by (auto simp: p start_process_def)
  have e: "pr_end p = None" by (simp add: p start_process_def)
  have "\<exists>p''. process_step p' (Send l) p''" if "pr_go p' l = Sending x" "pr_end p' = None" for l x
  proof -
    have "length (pr_srvErr p') < srvErr_capacity" using i that by (cases l) (auto simp: process_inv_def)
    from send [OF that(2,1) this] show ?thesis by blast
  qed
  moreover have "sv_Phase (pr_server p') = Running \<longrightarrow> (\<forall>l. up p' l \<or> failure_pending p')"
    using i by (simp add: process_inv_def)
  moreover have "sv_Phase (pr_server p') \<noteq> Running \<longrightarrow> (\<forall>l. \<not> pr_open p' l)" using i by (simp add: process_inv_def)
  moreover have "c \<in> {0, 1} \<and> sv_Phase (pr_server p') \<noteq> Running \<and> (Sigterm \<notin> set acts \<longrightarrow> c = 1)"
    if "pr_end p' = Some (Exited c)" for c
  proof -
    have x: "exit_status p' = Some c" using i that by (simp add: process_inv_def)
    then have "c = 0 \<longrightarrow> pr_ctx p'" using i by (auto simp: exit_status_def process_inv_def split: phase.splits if_splits)
    with x ctx show ?thesis by (auto simp: exit_status_def split: phase.splits if_splits)
  qed
  moreover note run_simulates [OF assms(2)] run_killed [OF assms(2) e] run_pending [OF _ i] failure_ends [OF i]
    cancel_ends [of p']
  moreover have "\<forall>before later. acts = before @ Sighup # later \<longrightarrow>
      pr_hup p' \<or> pr_end p' = Some Killed \<or> (\<exists>sys. Take (Hup sys) \<in> set later)"
    using run_hup assms(2) by blast
  ultimately show ?thesis unfolding up_def by (intro conjI) blast+
qed

text \<open>The witness: a process that is hung up on, loses its public listener, and has not noticed yet.\<close>

definition unlucky :: "action list" where
  "unlucky = [Start Public ''a'', Notify, Sighup, End Public (ServerFailed ''accept'') True]"

lemma unlucky_run:
  "\<exists>p. process_run (start_process a) unlucky p \<and> pr_go p Public = Sending (Some (ServerFailed ''accept'')) \<and> running p"
proof -
  let ?p1 = "start_process a\<lparr>pr_go := (\<lambda>l. Starting)(Public := Serving),
    pr_server := start_log ''a'' Public a (started a)\<rparr>"
  let ?p2 = "?p1\<lparr>pr_notify := True\<rparr>" let ?p3 = "?p2\<lparr>pr_hup := True\<rparr>"
  let ?p4 = "?p3\<lparr>pr_go := (pr_go ?p3)(Public := Sending (ignoreClosed (Some (ServerFailed ''accept'')))),
    pr_open := (pr_open ?p3)(Public := False)\<rparr>"
  have e: "pr_end (start_process a) = None" by (simp add: start_process_def)
  have "process_step (start_process a) (Start Public ''a'') ?p1"
    using start [OF e, of Public "''a''"] by (simp add: start_process_def)
  note r1 = process_one [OF this]
  have "process_step ?p1 Notify ?p2" by (rule notify) (simp_all add: start_process_def started_def)
  note r2 = run_append [OF process_one [OF this] r1]
  have "process_step ?p2 Sighup ?p3" by (rule sighup_kept) (simp_all add: e)
  note r3 = run_append [OF process_one [OF this] r2]
  have "process_step ?p3 (End Public (ServerFailed ''accept'') True) ?p4"
    using server_ends [of ?p3 Public "ServerFailed ''accept''" True] e by simp
  note r4 = run_append [OF process_one [OF this] r3]
  show ?thesis
    by (rule exI [of _ ?p4]) (use r4 in \<open>simp add: unlucky_def running_def e started_def ignoreClosed_def\<close>)
qed

lemma demo_main: "\<exists>a. main [''proxy''] (\<lambda>addr. True) demo_sys (\<lambda>url. None) = Serve (start_process a)"
proof -
  have "config_ok (holder_Get (NewHolder demo_config))"
    using cfg.load_valid [OF demo_load] by (simp add: NewHolder_def holder_Get_def)
  from newApp_starts [OF this] show ?thesis by (auto simp: main_def demo_load)
qed

theorem process_lifecycle_witness:
  "\<exists>p p'. main [''proxy''] (\<lambda>addr. True) demo_sys (\<lambda>url. None) = Serve p \<and> process_run p unlucky p' \<and>
     (\<exists>p''. process_step p' (Send Public) p'') \<and> pr_hup p' \<and>
     (\<exists>own p''. length own \<le> 4 \<and> process_run p' own p'' \<and> pr_end p'' = Some (Exited 1))"
proof -
  obtain a where m: "main [''proxy''] (\<lambda>addr. True) demo_sys (\<lambda>url. None) = Serve (start_process a)" using demo_main ..
  obtain p where p: "process_run (start_process a) unlucky p" "pr_go p Public = Sending (Some (ServerFailed ''accept''))"
    "running p" using unlucky_run by blast
  note l = process_lifecycle [OF m p(1)]
  have f: "failure_pending p" using p(2) by (auto simp: failure_pending_def)
  have e: "pr_end p = None" using p(3) by (simp add: running_def)
  have "unlucky = [Start Public ''a'', Notify] @ Sighup # [End Public (ServerFailed ''accept'') True]" by (simp add: unlucky_def)
  then have "pr_hup p \<or> pr_end p = Some Killed \<or> (\<exists>sys. Take (Hup sys) \<in> set [End Public (ServerFailed ''accept'') True])"
    using l by blast
  then have h: "pr_hup p" using e by simp
  have "\<exists>p''. process_step p (Send Public) p''" using l p(2) e by blast
  moreover have "\<exists>own p''. length own \<le> 4 \<and> process_run p own p'' \<and> pr_end p'' = Some (Exited 1)" using l f p(3) by blast
  ultimately show ?thesis using m p(1) h by blast
qed

end
