(* ===== verification/FakeStrava.thy ===== *)
theory FakeStrava imports
  Fault
  GoMux
  GoTime
begin

text \<open>
  Package \<open>internal/fakestrava\<close> (\<open>fakestrava.go\<close>, \<open>oauth.go\<close>): the Strava the integration tests run
  the proxy against. Its state is one record behind a mutex; what the code does in one critical
  section is one definition here, and a handler is a function on the state and its response. A map
  whose values are never deleted or iterated, or only deleted by key, is a HOL map.
\<close>

section \<open>State\<close>

definition accessTokenTTL :: int where "accessTokenTTL = 21600"
definition defaultStreamChunks :: nat where "defaultStreamChunks = 3"
definition defaultStreamDelay :: duration where "defaultStreamDelay = 5000000"

record RecordedRequest =
  rr_Method :: string
  rr_Path :: string
  rr_RawQuery :: string
  rr_Header :: Header
  rr_Form :: Values
  rr_Body :: string

record FakeServer =
  fk_realClientID :: string
  fk_realClientSecret :: string
  fk_grantedScope :: string
  fk_authorizeError :: string
  fk_rotateRefresh :: bool
  fk_hang :: duration
  fk_tokenRequests :: nat
  fk_lastAuthHeader :: string
  fk_lastRequestHeaders :: "Header option"
  fk_requests :: "RecordedRequest list"
  fk_athlete :: string
  fk_rateLimitHeaders :: Header
  fk_streamChunks :: nat
  fk_streamDelay :: duration
  fk_seq :: nat
  fk_codes :: "string \<rightharpoonup> bool"
  fk_refreshTokens :: "string \<rightharpoonup> bool"

definition defaultRateLimitHeaders :: Header where
  "defaultRateLimitHeaders =
     [(''X-RateLimit-Limit'', [''600,30000'']), (''X-RateLimit-Usage'', [''314,27536'']),
      (''X-ReadRateLimit-Limit'', [''300,15000'']), (''X-ReadRateLimit-Usage'', [''50,100''])]"

text \<open>The default athlete, line by line.\<close>

definition defaultAthleteJSON :: string where
  \<open>defaultAthleteJSON = join_with (CHR 0x0A)
     [''{'',
      ''  "id": 227615,'',
      ''  "resource_state": 2,'',
      ''  "firstname": "Fake",'',
      ''  "lastname": "Athlete",'',
      ''  "profile_medium": "https://example.invalid/athlete/medium.jpg",'',
      ''  "profile": "https://example.invalid/athlete/large.jpg",'',
      ''  "city": "Nantes",'',
      ''  "state": "Pays de la Loire",'',
      ''  "country": "France",'',
      ''  "sex": "M",'',
      ''  "premium": true,'',
      ''  "summit": true,'',
      ''  "created_at": "2011-03-19T21:59:57Z",'',
      ''  "updated_at": "2026-01-02T10:11:12Z",'',
      ''  "username": "fakeathlete",'',
      ''  "badge_type_id": 4'',
      ''}'']\<close>

text \<open>\<open>New\<close>, without the listener.\<close>

definition fake_New :: "string \<Rightarrow> string \<Rightarrow> FakeServer" where
  "fake_New realClientID realClientSecret =
     \<lparr>fk_realClientID = realClientID, fk_realClientSecret = realClientSecret, fk_grantedScope = [],
      fk_authorizeError = [], fk_rotateRefresh = False, fk_hang = 0, fk_tokenRequests = 0,
      fk_lastAuthHeader = [], fk_lastRequestHeaders = None, fk_requests = [], fk_athlete = defaultAthleteJSON,
      fk_rateLimitHeaders = defaultRateLimitHeaders, fk_streamChunks = defaultStreamChunks,
      fk_streamDelay = defaultStreamDelay, fk_seq = 0, fk_codes = Map.empty, fk_refreshTokens = Map.empty\<rparr>"

section \<open>Knobs and accessors\<close>

definition SetGrantedScope :: "string \<Rightarrow> FakeServer \<Rightarrow> FakeServer" where
  "SetGrantedScope scope s = s\<lparr>fk_grantedScope := scope\<rparr>"

definition SetAuthorizeError :: "string \<Rightarrow> FakeServer \<Rightarrow> FakeServer" where
  "SetAuthorizeError errValue s = s\<lparr>fk_authorizeError := errValue\<rparr>"

definition SetRotateRefresh :: "bool \<Rightarrow> FakeServer \<Rightarrow> FakeServer" where
  "SetRotateRefresh on s = s\<lparr>fk_rotateRefresh := on\<rparr>"

definition SetHang :: "duration \<Rightarrow> FakeServer \<Rightarrow> FakeServer" where
  "SetHang d s = s\<lparr>fk_hang := d\<rparr>"

definition SetAthleteJSON :: "string \<Rightarrow> FakeServer \<Rightarrow> FakeServer" where
  "SetAthleteJSON raw s = (if raw = [] then s\<lparr>fk_athlete := defaultAthleteJSON\<rparr> else s\<lparr>fk_athlete := raw\<rparr>)"

definition SetRateLimitHeaders :: "Header option \<Rightarrow> FakeServer \<Rightarrow> FakeServer" where
  "SetRateLimitHeaders h s =
     (case h of None \<Rightarrow> s\<lparr>fk_rateLimitHeaders := defaultRateLimitHeaders\<rparr>
      | Some h \<Rightarrow> s\<lparr>fk_rateLimitHeaders := h\<rparr>)"

definition SetStream :: "int \<Rightarrow> duration \<Rightarrow> FakeServer \<Rightarrow> FakeServer" where
  "SetStream chunks delay s =
     (let s1 = (if chunks > 0 then s\<lparr>fk_streamChunks := nat chunks\<rparr> else s)
      in if delay \<ge> 0 then s1\<lparr>fk_streamDelay := delay\<rparr> else s1)"

text \<open>The accessors of the tests. The copies they make, so that a caller cannot change what was
  recorded, are values here.\<close>

definition TokenRequests :: "FakeServer \<Rightarrow> nat" where "TokenRequests s = fk_tokenRequests s"
definition LastAuthHeader :: "FakeServer \<Rightarrow> string" where "LastAuthHeader s = fk_lastAuthHeader s"
definition LastRequestHeaders :: "FakeServer \<Rightarrow> Header option" where "LastRequestHeaders s = fk_lastRequestHeaders s"
definition Requests :: "FakeServer \<Rightarrow> RecordedRequest list" where "Requests s = fk_requests s"

definition LastRequest :: "FakeServer \<Rightarrow> RecordedRequest option" where
  "LastRequest s = (if fk_requests s = [] then None else Some (last (fk_requests s)))"

definition RequestsTo :: "string \<Rightarrow> FakeServer \<Rightarrow> RecordedRequest list" where
  "RequestsTo path s = filter (\<lambda>r. rr_Path r = path) (fk_requests s)"

definition fake_Reset :: "FakeServer \<Rightarrow> FakeServer" where
  "fake_Reset s = s\<lparr>fk_requests := [], fk_tokenRequests := 0, fk_lastAuthHeader := [], fk_lastRequestHeaders := None\<rparr>"

section \<open>What a request meets\<close>

text \<open>The parts of an incoming request the handlers of the proxy do not read, the random bytes in the
  order they are drawn, the clock, the compressor behind gzip, and the two ways a stream can end
  early, per chunk.\<close>

record Incoming =
  in_Host :: string
  in_Proto :: string
  in_Rand :: "nat \<Rightarrow> string option"
  in_Now :: instant
  in_Deflate :: "string \<Rightarrow> string"
  in_WriteFails :: "nat \<Rightarrow> bool"
  in_Gone :: "nat \<Rightarrow> bool"

definition randomSuffix :: "string option \<Rightarrow> string" where
  "randomSuffix rnd = (case rnd of None \<Rightarrow> ''x'' | Some b \<Rightarrow> rawurl_encode (take 9 b))"

section \<open>Responses\<close>

text \<open>The result of \<open>json.Marshal\<close>, with the length it has.\<close>

definition fake_writeJSON :: "nat \<Rightarrow> string option \<Rightarrow> ResponseWriter \<Rightarrow> ResponseWriter" where
  "fake_writeJSON status v w =
     (case v of
        None \<Rightarrow> http_Error ''fakestrava: marshal failed'' 500 w
      | Some body \<Rightarrow>
          WriteBody body (WriteHeader status
            (set_header ''Content-Length'' (itoa_int (int (length body)))
              (set_header ''Content-Type'' ''application/json; charset=utf-8'' w))))"

text \<open>The fault envelope has the members of the proxy's own.\<close>

definition fake_writeFault :: "nat \<Rightarrow> string \<Rightarrow> FaultError list \<Rightarrow> ResponseWriter \<Rightarrow> ResponseWriter" where
  "fake_writeFault status message errs w =
     fake_writeJSON status (Some (json_print (fault_tokens \<lparr>ft_Message = message, ft_Errors = errs\<rparr>))) w"

definition fault_error :: "string \<Rightarrow> string \<Rightarrow> string \<Rightarrow> FaultError" where
  "fault_error resource field code = \<lparr>fe_Resource = resource, fe_Field = field, fe_Code = code\<rparr>"

type_synonym fake_state = "FakeServer \<times> ResponseWriter"

definition answer :: "(ResponseWriter \<Rightarrow> ResponseWriter) \<Rightarrow> fake_state \<Rightarrow> fake_state" where
  "answer f sw = (fst sw, f (snd sw))"

abbreviation bad_request :: "string \<Rightarrow> string \<Rightarrow> fake_state \<Rightarrow> fake_state" where
  "bad_request resource field \<equiv>
     answer (fake_writeFault 400 ''Bad Request'' [fault_error resource field ''invalid''])"

section \<open>Recording\<close>

text \<open>\<open>record\<close>: what a failing reader delivered is the body the handler sees.\<close>

definition replayed :: "Request \<Rightarrow> Request" where
  "replayed r = r\<lparr>rq_BodyClean := True\<rparr>"

definition fake_Form :: "Request \<Rightarrow> Values" where
  "fake_Form r = fst (ParseForm (replayed r))"

definition record_request :: "Request \<Rightarrow> FakeServer \<Rightarrow> FakeServer" where
  "record_request r s =
     (let rec = \<lparr>rr_Method = rq_Method r, rr_Path = rq_Path r, rr_RawQuery = rq_RawQuery r,
                 rr_Header = rq_Header r, rr_Form = fake_Form r, rr_Body = rq_Body r\<rparr>;
          s1 = s\<lparr>fk_requests := fk_requests s @ [rec], fk_lastRequestHeaders := Some (rr_Header rec)\<rparr>;
          auth = header_get (rq_Header r) ''Authorization''
      in if auth \<noteq> [] then s1\<lparr>fk_lastAuthHeader := auth\<rparr> else s1)"

definition handleNotFound :: "fake_state \<Rightarrow> fake_state" where
  "handleNotFound = answer (fake_writeFault 404 ''Resource Not Found'' [fault_error ''Resource'' ''path'' ''invalid''])"

section \<open>Authorize\<close>

definition scope_separator :: "char \<Rightarrow> bool" where
  "scope_separator c \<longleftrightarrow> c \<in> {CHR '','', CHR '' '', CHR 0x09, CHR 0x0A}"

definition normalizeScope :: "string \<Rightarrow> string" where
  "normalizeScope requested =
     join_with CHR '','' (filter (\<lambda>f. f \<noteq> [])
       (split_on CHR '','' (map (\<lambda>c. if scope_separator c then CHR '','' else c) requested)))"

text \<open>The critical section of \<open>handleAuthorize\<close> on the success path: a fresh code, registered unused.\<close>

definition mint_code :: "string option \<Rightarrow> FakeServer \<Rightarrow> string \<times> FakeServer" where
  "mint_code rnd s =
     (let s1 = s\<lparr>fk_seq := fk_seq s + 1\<rparr>;
          code = ''fakecode'' @ itoa_int (int (fk_seq s1)) @ randomSuffix rnd
      in (code, s1\<lparr>fk_codes := (fk_codes s1)(code \<mapsto> False)\<rparr>))"

definition granted_scope :: "FakeServer \<Rightarrow> Values \<Rightarrow> string" where
  "granted_scope s q = (if fk_grantedScope s = [] then normalizeScope (values_get q ''scope'') else fk_grantedScope s)"

definition redirect_back :: "Request \<Rightarrow> URL \<Rightarrow> Values \<Rightarrow> ResponseWriter \<Rightarrow> ResponseWriter" where
  "redirect_back r dst out =
     http_Redirect 302 ''Found'' (rq_Method r) (rq_Path r) (url_String (dst\<lparr>u_RawQuery := Encode out\<rparr>))"

definition grant_access :: "Incoming \<Rightarrow> Request \<Rightarrow> URL \<Rightarrow> fake_state \<Rightarrow> fake_state" where
  "grant_access inc r dst sw =
     (let q = rq_Query r;
          out = (case map_of q ''state'' of Some (v # vs) \<Rightarrow> values_set ''state'' v (url_Query dst) | _ \<Rightarrow> url_Query dst);
          authErr = fk_authorizeError (fst sw); granted = granted_scope (fst sw) q
      in if authErr \<noteq> [] then answer (redirect_back r dst (values_set ''error'' authErr out)) sw
         else (case mint_code (in_Rand inc 0) (fst sw) of
           (code, s1) \<Rightarrow>
             let out1 = values_set ''code'' code out;
                 out2 = (if granted \<noteq> [] then values_set ''scope'' granted out1 else out1)
             in answer (redirect_back r dst out2) (s1, snd sw)))"

definition handleAuthorize :: "Incoming \<Rightarrow> Request \<Rightarrow> fake_state \<Rightarrow> fake_state" where
  "handleAuthorize inc r sw =
     (let q = rq_Query r; redirectURI = values_get q ''redirect_uri''
      in if values_get q ''client_id'' \<noteq> fk_realClientID (fst sw) then bad_request ''Application'' ''client_id'' sw
         else if redirectURI = [] then bad_request ''Application'' ''redirect_uri'' sw
         else (case url_Parse redirectURI of
                 None \<Rightarrow> bad_request ''Application'' ''redirect_uri'' sw
               | Some dst \<Rightarrow> grant_access inc r dst sw))"

section \<open>Tokens\<close>

text \<open>\<open>json.Compact\<close> as \<open>Marshal\<close> runs it over a raw message: white space between tokens goes, the
  characters unsafe in HTML are escaped; a text that is not JSON is an error.\<close>

fun compact_text :: "bool \<Rightarrow> string \<Rightarrow> string" where
  "compact_text q [] = []"
| "compact_text False (c # s) =
     (if json_space c then compact_text False s else c # compact_text (c = dquote) s)"
| "compact_text True (c # s) =
     (if c = CHR 0x5C \<and> s \<noteq> [] then c # hd s # compact_text True (tl s)
      else if c = dquote then c # compact_text False s
      else if c \<in> {CHR ''<'', CHR ''>'', CHR ''&''} then u_escape (byte c) @ compact_text True s
      else if c = CHR 0xE2 \<and> take 2 s = [CHR 0x80, CHR 0xA8] then u_escape 0x2028 @ compact_text True (drop 2 s)
      else if c = CHR 0xE2 \<and> take 2 s = [CHR 0x80, CHR 0xA9] then u_escape 0x2029 @ compact_text True (drop 2 s)
      else c # compact_text True s)"

definition marshal_raw :: "string \<Rightarrow> string option" where
  "marshal_raw raw = (if json_parse raw = None then None else Some (compact_text False raw))"

record tokenResponse =
  tk_TokenType :: string
  tk_ExpiresAt :: int
  tk_ExpiresIn :: int
  tk_RefreshToken :: string
  tk_AccessToken :: string
  tk_Athlete :: string

definition token_tokens :: "tokenResponse \<Rightarrow> jtok list" where
  "token_tokens t =
     [LBrace, TStr ''token_type'', Colon, TStr (tk_TokenType t), Comma,
      TStr ''expires_at'', Colon, TNum (itoa_int (tk_ExpiresAt t)), Comma,
      TStr ''expires_in'', Colon, TNum (itoa_int (tk_ExpiresIn t)), Comma,
      TStr ''refresh_token'', Colon, TStr (tk_RefreshToken t), Comma,
      TStr ''access_token'', Colon, TStr (tk_AccessToken t)]"

text \<open>An empty athlete is omitted.\<close>

definition marshal_token :: "tokenResponse \<Rightarrow> string option" where
  "marshal_token t =
     (if tk_Athlete t = [] then Some (json_print (token_tokens t @ [RBrace]))
      else map_option (\<lambda>raw. json_print (token_tokens t @ [Comma, TStr ''athlete'', Colon]) @ raw @ json_print [RBrace])
             (marshal_raw (tk_Athlete t)))"

definition issueTokensLocked :: "string option \<Rightarrow> string option \<Rightarrow> FakeServer \<Rightarrow> string \<times> string \<times> FakeServer" where
  "issueTokensLocked rnd1 rnd2 s =
     (let s1 = s\<lparr>fk_seq := fk_seq s + 1\<rparr>; n = itoa_int (int (fk_seq s1));
          access = ''fakeaccess'' @ n @ randomSuffix rnd1;
          refresh = ''fakerefresh'' @ n @ randomSuffix rnd2
      in (access, refresh, s1\<lparr>fk_refreshTokens := (fk_refreshTokens s1)(refresh \<mapsto> True)\<rparr>))"

definition token_response :: "instant \<Rightarrow> string \<Rightarrow> string \<Rightarrow> string \<Rightarrow> tokenResponse" where
  "token_response now access refresh athlete =
     \<lparr>tk_TokenType = ''Bearer'', tk_ExpiresAt = unix_seconds (now + accessTokenTTL * second),
      tk_ExpiresIn = accessTokenTTL, tk_RefreshToken = refresh, tk_AccessToken = access, tk_Athlete = athlete\<rparr>"

text \<open>The critical section of \<open>exchangeCode\<close>: a known, unused code is spent for a pair of tokens.\<close>

definition redeem :: "string option \<Rightarrow> string option \<Rightarrow> string \<Rightarrow> FakeServer \<Rightarrow> (string \<times> string \<times> FakeServer) option" where
  "redeem rnd1 rnd2 code s =
     (if fk_codes s code \<noteq> Some False then None
      else Some (issueTokensLocked rnd1 rnd2 (s\<lparr>fk_codes := (fk_codes s)(code \<mapsto> True)\<rparr>)))"

definition exchangeCode :: "Incoming \<Rightarrow> string \<Rightarrow> fake_state \<Rightarrow> fake_state" where
  "exchangeCode inc code sw =
     (case redeem (in_Rand inc 0) (in_Rand inc 1) code (fst sw) of
        None \<Rightarrow> bad_request ''AuthorizationCode'' ''code'' sw
      | Some (access, refresh, s1) \<Rightarrow>
          answer (fake_writeJSON 200 (marshal_token (token_response (in_Now inc) access refresh (fk_athlete s1))))
            (s1, snd sw))"

text \<open>The critical section of \<open>refresh\<close>: rotation replaces the presented token, otherwise the new one
  is taken back.\<close>

definition renew :: "string option \<Rightarrow> string option \<Rightarrow> string \<Rightarrow> FakeServer \<Rightarrow> (string \<times> string \<times> FakeServer) option" where
  "renew rnd1 rnd2 presented s =
     (if presented = [] \<or> fk_refreshTokens s presented \<noteq> Some True then None
      else (case issueTokensLocked rnd1 rnd2 s of
        (access, refresh, s1) \<Rightarrow>
          if fk_rotateRefresh s1
          then Some (access, refresh, s1\<lparr>fk_refreshTokens := (fk_refreshTokens s1)(presented := None)\<rparr>)
          else Some (access, presented, s1\<lparr>fk_refreshTokens := (fk_refreshTokens s1)(refresh := None)\<rparr>)))"

definition refresh_grant :: "Incoming \<Rightarrow> string \<Rightarrow> fake_state \<Rightarrow> fake_state" where
  "refresh_grant inc presented sw =
     (case renew (in_Rand inc 0) (in_Rand inc 1) presented (fst sw) of
        None \<Rightarrow> bad_request ''RefreshToken'' ''refresh_token'' sw
      | Some (access, refresh, s1) \<Rightarrow>
          answer (fake_writeJSON 200 (marshal_token (token_response (in_Now inc) access refresh []))) (s1, snd sw))"

definition count_token :: "FakeServer \<Rightarrow> FakeServer" where
  "count_token s = s\<lparr>fk_tokenRequests := fk_tokenRequests s + 1\<rparr>"

definition handleToken :: "Incoming \<Rightarrow> Request \<Rightarrow> fake_state \<Rightarrow> fake_state" where
  "handleToken inc r sw =
     (let sw1 = (count_token (fst sw), snd sw); form = fake_Form r; grant = values_get form ''grant_type''
      in if values_get form ''client_id'' \<noteq> fk_realClientID (fst sw1) then bad_request ''Application'' ''client_id'' sw1
         else if values_get form ''client_secret'' \<noteq> fk_realClientSecret (fst sw1) then
           answer (fake_writeFault 401 ''Authorization Error'' [fault_error ''Application'' [] ''invalid'']) sw1
         else if grant = ''authorization_code'' then exchangeCode inc (values_get form ''code'') sw1
         else if grant = ''refresh_token'' then refresh_grant inc (values_get form ''refresh_token'') sw1
         else bad_request ''Application'' ''grant_type'' sw1)"

section \<open>Deauthorize and revoke\<close>

definition presented_token :: "Request \<Rightarrow> string" where
  "presented_token r =
     (let token = values_get (fake_Form r) ''access_token''; v = header_get (rq_Header r) ''Authorization''
      in if token = [] \<and> prefix ''Bearer '' v then trim_space (drop 7 v) else token)"

definition handleDeauthorize :: "Request \<Rightarrow> fake_state \<Rightarrow> fake_state" where
  "handleDeauthorize r =
     (let token = presented_token r
      in if token = []
         then answer (fake_writeFault 401 ''Authorization Error'' [fault_error ''Athlete'' ''access_token'' ''invalid''])
         else answer (fake_writeJSON 200 (Some (json_print [LBrace, TStr ''access_token'', Colon, TStr token, RBrace]))))"

definition drop_token :: "string \<Rightarrow> FakeServer \<Rightarrow> FakeServer" where
  "drop_token token s = s\<lparr>fk_refreshTokens := (fk_refreshTokens s)(token := None)\<rparr>"

definition handleRevoke :: "Request \<Rightarrow> fake_state \<Rightarrow> fake_state" where
  "handleRevoke r sw =
     (let token = values_get (fake_Form r) ''token''
      in if BasicAuth r \<noteq> Some (fk_realClientID (fst sw), fk_realClientSecret (fst sw))
         then answer (fake_writeFault 401 ''Authorization Error'' []) sw
         else if token = [] then bad_request ''Application'' ''token'' sw
         else answer (WriteHeader 200) (drop_token token (fst sw), snd sw))"

end
