(* ===== verification/FakeApi.thy ===== *)
theory FakeApi imports
  FakeStrava
begin

text \<open>
  The API surface of the fake (\<open>api.go\<close>) and its routing (\<open>New\<close> in \<open>fakestrava.go\<close>): the echo,
  gzip and stream handlers, and a request from the mux to the response.
\<close>

section \<open>Echo\<close>

definition PathGzip :: string where "PathGzip = ''/api/v3/gzip''"
definition PathStream :: string where "PathStream = ''/api/v3/stream''"
definition PathRateLimited :: string where "PathRateLimited = ''/api/v3/ratelimited''"
definition PathUnauthorized :: string where "PathUnauthorized = ''/api/v3/unauthorized''"

record Echo =
  ec_Method :: string
  ec_Path :: string
  ec_RawQuery :: string
  ec_Host :: string
  ec_Proto :: string
  ec_Headers :: Header
  ec_Form :: Values
  ec_Body :: string

definition newEcho :: "Incoming \<Rightarrow> Request \<Rightarrow> Echo" where
  "newEcho inc r =
     \<lparr>ec_Method = rq_Method r, ec_Path = rq_Path r, ec_RawQuery = rq_RawQuery r, ec_Host = in_Host inc,
      ec_Proto = in_Proto inc, ec_Headers = rq_Header r, ec_Form = fake_Form r, ec_Body = rq_Body r\<rparr>"

text \<open>\<open>json.Marshal\<close> of a map of string lists: the keys in the order of their bytes.\<close>

definition list_tokens :: "string list \<Rightarrow> jtok list" where
  "list_tokens vs = LBrack # comma_tokens (map (\<lambda>v. [TStr v]) vs) @ [RBrack]"

definition map_tokens :: "(string \<times> string list) list \<Rightarrow> jtok list" where
  "map_tokens m =
     LBrace # comma_tokens (map (\<lambda>(k, vs). TStr k # Colon # list_tokens vs) (sort_key fst m)) @ [RBrace]"

definition echo_tokens :: "Echo \<Rightarrow> jtok list" where
  "echo_tokens e =
     [LBrace, TStr ''method'', Colon, TStr (ec_Method e), Comma, TStr ''path'', Colon, TStr (ec_Path e), Comma,
      TStr ''raw_query'', Colon, TStr (ec_RawQuery e), Comma, TStr ''host'', Colon, TStr (ec_Host e), Comma,
      TStr ''proto'', Colon, TStr (ec_Proto e), Comma, TStr ''headers'', Colon] @ map_tokens (ec_Headers e) @
     [Comma, TStr ''form'', Colon] @ map_tokens (ec_Form e) @
     [Comma, TStr ''body'', Colon, TStr (ec_Body e), RBrace]"

definition marshal_echo :: "Echo \<Rightarrow> string option" where
  "marshal_echo e = Some (json_print (echo_tokens e))"

section \<open>Gzip\<close>

text \<open>\<open>hash/crc32\<close> with the IEEE polynomial, bit by bit, and the frame of RFC 1952 that \<open>gzip.Writer\<close>
  puts around the compressed data: no name, no time, the unknown operating system.\<close>

definition crc_bit :: "32 word \<Rightarrow> 32 word" where
  "crc_bit c = (if bit c 0 then xor (drop_bit 1 c) 0xEDB88320 else drop_bit 1 c)"

definition crc_byte :: "32 word \<Rightarrow> char \<Rightarrow> 32 word" where
  "crc_byte c b = (crc_bit ^^ 8) (xor c (word_of_nat (byte b)))"

definition crc32 :: "string \<Rightarrow> 32 word" where
  "crc32 s = not (foldl crc_byte (not 0) s)"

definition le32 :: "32 word \<Rightarrow> string" where
  "le32 w = map (\<lambda>i. chr (unat (drop_bit (8 * i) w) mod 256)) [0, 1, 2, 3]"

definition gzip_frame :: "(string \<Rightarrow> string) \<Rightarrow> string \<Rightarrow> string" where
  "gzip_frame deflate s =
     [CHR 0x1F, CHR 0x8B, CHR 0x08, CHR 0x00, CHR 0x00, CHR 0x00, CHR 0x00, CHR 0x00, CHR 0x00, CHR 0xFF] @
     deflate s @ le32 (crc32 s) @ le32 (word_of_nat (length s))"

definition writeGzip :: "Incoming \<Rightarrow> Request \<Rightarrow> fake_state \<Rightarrow> fake_state" where
  "writeGzip inc r =
     (case marshal_echo (newEcho inc r) of
        None \<Rightarrow> answer (http_Error ''fakestrava: marshal failed'' 500)
      | Some body \<Rightarrow>
          let buf = gzip_frame (in_Deflate inc) body
          in answer (\<lambda>w. WriteBody buf (WriteHeader 200
               (set_header ''Content-Length'' (itoa_int (int (length buf)))
                 (set_header ''Content-Encoding'' ''gzip''
                   (set_header ''Content-Type'' ''application/json; charset=utf-8'' w))))))"

section \<open>Stream\<close>

definition chunk_text :: "nat \<Rightarrow> string" where
  "chunk_text i = ''{'' @ [dquote] @ ''chunk'' @ [dquote] @ '':'' @ itoa_int (int i) @ ''}'' @ [CHR 0x0A]"

text \<open>The loop from chunk \<open>i\<close> on, with \<open>n\<close> chunks left: it ends when a write fails, or when the caller
  is gone during the pause, of which there is none after the last chunk.\<close>

fun stream_from :: "Incoming \<Rightarrow> duration \<Rightarrow> nat \<Rightarrow> nat \<Rightarrow> ResponseWriter \<Rightarrow> ResponseWriter" where
  "stream_from inc delay i 0 w = w"
| "stream_from inc delay i (Suc n) w =
     (if in_WriteFails inc i then w
      else if delay > 0 \<and> n > 0 \<and> in_Gone inc i then WriteBody (chunk_text i) w
      else stream_from inc delay (Suc i) n (WriteBody (chunk_text i) w))"

definition writeStream :: "Incoming \<Rightarrow> fake_state \<Rightarrow> fake_state" where
  "writeStream inc sw =
     answer (\<lambda>w. stream_from inc (fk_streamDelay (fst sw)) 0 (fk_streamChunks (fst sw))
       (WriteHeader 200 (set_header ''Content-Type'' ''application/json; charset=utf-8'' w))) sw"

section \<open>The API handler\<close>

text \<open>The configured names are written as they are spelled.\<close>

definition writeRateLimitHeaders :: "fake_state \<Rightarrow> fake_state" where
  "writeRateLimitHeaders sw =
     answer (\<lambda>w. foldl (\<lambda>w (k, vs). w\<lparr>rw_Header := map_put k vs (rw_Header w)\<rparr>) w (fk_rateLimitHeaders (fst sw))) sw"

definition handleAPI :: "Incoming \<Rightarrow> Request \<Rightarrow> fake_state \<Rightarrow> fake_state" where
  "handleAPI inc r sw =
     (let sw1 = writeRateLimitHeaders sw; path = rq_Path r
      in if path = PathGzip then writeGzip inc r sw1
         else if path = PathStream then writeStream inc sw1
         else if path = PathRateLimited then
           answer (fake_writeFault 429 ''Rate Limit Exceeded'' [fault_error ''Application'' ''rate limit'' ''exceeded'']) sw1
         else if path = PathUnauthorized then
           answer (fake_writeFault 401 ''Authorization Error'' [fault_error ''Athlete'' ''access_token'' ''invalid'']) sw1
         else answer (fake_writeJSON 200 (marshal_echo (newEcho inc r))) sw1)"

section \<open>Routing\<close>

datatype fake_endpoint = FAuthorize | FToken | FDeauthorize | FRevoke | FApi | FNotFound

definition fake_mux :: "fake_endpoint mux" where
  "fake_mux =
     fold (\<lambda>(s, h). mux_handle s h)
       [(''GET /oauth/authorize'', FAuthorize), (''GET /oauth/mobile/authorize'', FAuthorize),
        (''POST /api/v3/oauth/token'', FToken), (''POST /oauth/token'', FToken),
        (''POST /oauth/deauthorize'', FDeauthorize), (''POST /oauth/revoke'', FRevoke),
        (''/api/v3/'', FApi), (''/'', FNotFound)] new_mux"

definition fake_handler :: "Incoming \<Rightarrow> fake_endpoint \<Rightarrow> Request \<Rightarrow> fake_state \<Rightarrow> fake_state" where
  "fake_handler inc e r =
     (case e of
        FAuthorize \<Rightarrow> handleAuthorize inc r
      | FToken \<Rightarrow> handleToken inc r
      | FDeauthorize \<Rightarrow> handleDeauthorize r
      | FRevoke \<Rightarrow> handleRevoke r
      | FApi \<Rightarrow> handleAPI inc r
      | FNotFound \<Rightarrow> handleNotFound)"

text \<open>\<open>record\<close> around a handler; the pause a test asks for changes nothing.\<close>

definition record_handler :: "(Request \<Rightarrow> fake_state \<Rightarrow> fake_state) \<Rightarrow> Request \<Rightarrow> fake_state \<Rightarrow> fake_state" where
  "record_handler next r sw = next (replayed r) (record_request r (fst sw), snd sw)"

definition fake_serve :: "Incoming \<Rightarrow> Request \<Rightarrow> fake_state \<Rightarrow> fake_state" where
  "fake_serve inc r sw =
     (if rq_Path r = ''*'' then answer (WriteHeader 400 \<circ> set_header ''Connection'' ''close'') sw
      else (case findHandler fake_mux r of
              Matched p \<Rightarrow> record_handler (fake_handler inc (pt_Handler p)) r sw
            | rt \<Rightarrow> answer (mux_answer rt r) sw))"

end
