(* ===== verification/FakeLaws.thy ===== *)
theory FakeLaws imports
  FakeApi
begin

text \<open>
  Laws of the fake as a state machine. Its handlers run concurrently and change what is shared only in
  critical sections, so the machine steps from section to section, in any interleaving; the label of
  a step says which code or token was issued, spent or dropped.
\<close>

section \<open>The machine\<close>

datatype fake_event =
    Mint string
  | Redeem string string
  | Renew string string
  | Drop string
  | Quiet

text \<open>\<open>crypto/rand.Read\<close> fills its buffer. Everything else the fake does leaves codes and tokens alone.\<close>

inductive fake_step :: "FakeServer \<Rightarrow> fake_event \<Rightarrow> FakeServer \<Rightarrow> bool" where
  mint: "length b = 9 \<Longrightarrow> mint_code (Some b) s = (code, s') \<Longrightarrow> fake_step s (Mint code) s'"
| redeem: "length b1 = 9 \<Longrightarrow> length b2 = 9 \<Longrightarrow> redeem (Some b1) (Some b2) code s = Some (access, refresh, s') \<Longrightarrow>
    fake_step s (Redeem code refresh) s'"
| renew: "length b1 = 9 \<Longrightarrow> length b2 = 9 \<Longrightarrow> renew (Some b1) (Some b2) t s = Some (access, refresh, s') \<Longrightarrow>
    fake_step s (Renew t refresh) s'"
| drop: "fake_step s (Drop t) (drop_token t s)"
| quiet: "fk_seq s' = fk_seq s \<Longrightarrow> fk_codes s' = fk_codes s \<Longrightarrow> fk_refreshTokens s' = fk_refreshTokens s \<Longrightarrow>
    fake_step s Quiet s'"

inductive_cases fake_stepE: "fake_step s e s'"
inductive_cases mintE: "fake_step s (Mint c) s'"
inductive_cases redeemE: "fake_step s (Redeem c t) s'"
inductive_cases renewE: "fake_step s (Renew t u) s'"
inductive_simps drop_step: "fake_step s (Drop t) s'"
inductive_simps quiet_step: "fake_step s Quiet s'"

inductive fake_run :: "FakeServer \<Rightarrow> fake_event list \<Rightarrow> FakeServer \<Rightarrow> bool" where
  start: "fake_run s [] s"
| step: "fake_run s evs s' \<Longrightarrow> fake_step s' e s'' \<Longrightarrow> fake_run s (evs @ [e]) s''"

lemma run_trans: "fake_run s' evs' s'' \<Longrightarrow> fake_run s evs s' \<Longrightarrow> fake_run s (evs @ evs') s''"
proof (induction rule: fake_run.induct)
  case (step s evs' s' e s'')
  then show ?case using fake_run.step [of _ "evs @ evs'"] by simp
qed simp

lemma run_one: "fake_step s e s' \<Longrightarrow> fake_run s [e] s'"
  using fake_run.step [OF fake_run.start] by simp

section \<open>Names\<close>

text \<open>A code or token: a fixed word, the sequence number, and twelve characters.\<close>

definition numbered :: "string \<Rightarrow> nat \<Rightarrow> string \<Rightarrow> bool" where
  "numbered p n x \<longleftrightarrow> (\<exists>b. length b = 9 \<and> x = p @ itoa_int (int n) @ rawurl_encode b)"

lemma suffix_12: "length b = 9 \<Longrightarrow> length (rawurl_encode b) = 12"
  by (simp add: length_rawurl)

lemma itoa_int_inj: "itoa_int (int n) = itoa_int (int m) \<Longrightarrow> n = m"
proof -
  assume "itoa_int (int n) = itoa_int (int m)"
  then have "digits_value (itoa (int n)) = digits_value (itoa (int m))" by (simp add: itoa_int_def)
  then show "n = m" by (simp only: digits_value_itoa of_nat_0_le_iff of_nat_eq_iff)
qed

lemma numbered_unique: "numbered p n x \<Longrightarrow> numbered p m x \<Longrightarrow> n = m"
proof -
  assume "numbered p n x" "numbered p m x"
  then obtain b c where "x = p @ itoa_int (int n) @ rawurl_encode b" "x = p @ itoa_int (int m) @ rawurl_encode c"
    and l: "length b = 9" "length c = 9"
    unfolding numbered_def by blast
  then have "itoa_int (int n) @ rawurl_encode b = itoa_int (int m) @ rawurl_encode c" by simp
  then have "itoa_int (int n) = itoa_int (int m)"
    using suffix_12 [OF l(1)] suffix_12 [OF l(2)] by (metis append_eq_append_conv)
  then show "n = m" by (rule itoa_int_inj)
qed

abbreviation code_no :: "nat \<Rightarrow> string \<Rightarrow> bool" where "code_no \<equiv> numbered ''fakecode''"
abbreviation token_no :: "nat \<Rightarrow> string \<Rightarrow> bool" where "token_no \<equiv> numbered ''fakerefresh''"

lemma numbered_suffix: "length b = 9 \<Longrightarrow> numbered p n (p @ itoa_int (int n) @ randomSuffix (Some b))"
  by (auto simp: numbered_def randomSuffix_def)

text \<open>What each step does, in terms of the numbers.\<close>

lemma mint_code_effect:
  "length b = 9 \<Longrightarrow> \<exists>c. code_no (Suc (fk_seq s)) c \<and>
     mint_code (Some b) s = (c, s\<lparr>fk_seq := Suc (fk_seq s), fk_codes := (fk_codes s)(c \<mapsto> False)\<rparr>)"
  using numbered_suffix [of b "''fakecode''" "Suc (fk_seq s)"]
  by (intro exI conjI) (assumption, simp add: mint_code_def Let_def del: of_nat_Suc)

lemma issue_effect:
  "length b2 = 9 \<Longrightarrow> \<exists>a t. token_no (Suc (fk_seq s)) t \<and>
     issueTokensLocked r1 (Some b2) s =
       (a, t, s\<lparr>fk_seq := Suc (fk_seq s), fk_refreshTokens := (fk_refreshTokens s)(t \<mapsto> True)\<rparr>)"
  using numbered_suffix [of b2 "''fakerefresh''" "Suc (fk_seq s)"]
  by (intro exI conjI) (assumption, simp add: issueTokensLocked_def Let_def del: of_nat_Suc)

lemma mint_effect:
  assumes "fake_step s (Mint c) s'"
  shows "code_no (Suc (fk_seq s)) c" "fk_seq s' = Suc (fk_seq s)" "fk_codes s' = (fk_codes s)(c \<mapsto> False)"
    "fk_refreshTokens s' = fk_refreshTokens s"
proof -
  obtain b where b: "length b = 9" "mint_code (Some b) s = (c, s')" using assms by (rule mintE)
  with mint_code_effect [OF b(1), of s]
  show "code_no (Suc (fk_seq s)) c" "fk_seq s' = Suc (fk_seq s)" "fk_codes s' = (fk_codes s)(c \<mapsto> False)"
    "fk_refreshTokens s' = fk_refreshTokens s" by auto
qed

lemma redeem_effect:
  assumes "fake_step s (Redeem c t) s'"
  shows "fk_codes s c = Some False" "token_no (Suc (fk_seq s)) t" "fk_seq s' = Suc (fk_seq s)"
    "fk_codes s' = (fk_codes s)(c \<mapsto> True)" "fk_refreshTokens s' = (fk_refreshTokens s)(t \<mapsto> True)"
proof -
  obtain b1 b2 a where b: "length b2 = 9" "redeem (Some b1) (Some b2) c s = Some (a, t, s')"
    using assms by (rule redeemE)
  then show "fk_codes s c = Some False" by (simp add: redeem_def split: if_splits)
  from b(2) have "issueTokensLocked (Some b1) (Some b2) (s\<lparr>fk_codes := (fk_codes s)(c \<mapsto> True)\<rparr>) = (a, t, s')"
    by (simp add: redeem_def split: if_splits)
  with issue_effect [OF b(1), of "s\<lparr>fk_codes := (fk_codes s)(c \<mapsto> True)\<rparr>" "Some b1"]
  show "token_no (Suc (fk_seq s)) t" "fk_seq s' = Suc (fk_seq s)"
    "fk_codes s' = (fk_codes s)(c \<mapsto> True)" "fk_refreshTokens s' = (fk_refreshTokens s)(t \<mapsto> True)" by auto
qed

lemma renew_effect:
  assumes "fake_step s (Renew t u) s'"
  shows "fk_refreshTokens s t = Some True" "fk_seq s' = Suc (fk_seq s)" "fk_codes s' = fk_codes s"
    "\<exists>new. token_no (Suc (fk_seq s)) new \<and>
      (if fk_rotateRefresh s then u = new \<and> fk_refreshTokens s' = (fk_refreshTokens s)(new \<mapsto> True, t := None)
       else u = t \<and> fk_refreshTokens s' = (fk_refreshTokens s)(new := None))"
proof -
  obtain b1 b2 a where b: "length b2 = 9" "renew (Some b1) (Some b2) t s = Some (a, u, s')"
    using assms by (rule renewE)
  then show "fk_refreshTokens s t = Some True" by (simp add: renew_def split: if_splits)
  obtain a' new where n: "token_no (Suc (fk_seq s)) new" "issueTokensLocked (Some b1) (Some b2) s =
      (a', new, s\<lparr>fk_seq := Suc (fk_seq s), fk_refreshTokens := (fk_refreshTokens s)(new \<mapsto> True)\<rparr>)"
    using issue_effect [OF b(1)] by blast
  with b(2) show "fk_seq s' = Suc (fk_seq s)" "fk_codes s' = fk_codes s"
    by (auto simp: renew_def split: if_splits)
  from b(2) n show "\<exists>new. token_no (Suc (fk_seq s)) new \<and>
      (if fk_rotateRefresh s then u = new \<and> fk_refreshTokens s' = (fk_refreshTokens s)(new \<mapsto> True, t := None)
       else u = t \<and> fk_refreshTokens s' = (fk_refreshTokens s)(new := None))"
    by (intro exI [of _ new]) (auto simp: renew_def split: if_splits)
qed

section \<open>Handlers are runs\<close>

definition drawn :: "Incoming \<Rightarrow> bool" where
  "drawn inc \<longleftrightarrow> (\<forall>i. \<exists>b. in_Rand inc i = Some b \<and> length b = 9)"

lemma answer_simps [simp]: "fst (answer f sw) = fst sw" "snd (answer f sw) = f (snd sw)"
  by (simp_all add: answer_def)

lemma quiet_simps [simp]:
  "fk_seq (record_request r s) = fk_seq s" "fk_codes (record_request r s) = fk_codes s"
  "fk_refreshTokens (record_request r s) = fk_refreshTokens s" "fk_rotateRefresh (record_request r s) = fk_rotateRefresh s"
  "fk_seq (count_token s) = fk_seq s" "fk_codes (count_token s) = fk_codes s"
  "fk_refreshTokens (count_token s) = fk_refreshTokens s"
  by (simp_all add: record_request_def count_token_def Let_def)

lemma grant_access_run: "drawn inc \<Longrightarrow> \<exists>evs. fake_run (fst sw) evs (fst (grant_access inc r dst sw))"
proof -
  assume "drawn inc"
  then obtain b where b: "in_Rand inc 0 = Some b" "length b = 9" by (auto simp: drawn_def)
  obtain c s1 where m: "mint_code (Some b) (fst sw) = (c, s1)" by fastforce
  then have "fst (grant_access inc r dst sw) \<in> {fst sw, s1}"
    by (simp add: grant_access_def b(1) Let_def)
  then consider "fst (grant_access inc r dst sw) = fst sw" | "fst (grant_access inc r dst sw) = s1" by blast
  then show ?thesis
  proof cases
    case 1
    then show ?thesis using fake_run.start by metis
  next
    case 2
    then show ?thesis using run_one [OF fake_step.mint [OF b(2) m]] by blast
  qed
qed

lemma exchangeCode_run: "drawn inc \<Longrightarrow> \<exists>evs. fake_run (fst sw) evs (fst (exchangeCode inc c sw))"
proof -
  assume "drawn inc"
  then obtain b1 b2 where b: "in_Rand inc 0 = Some b1" "length b1 = 9" "in_Rand inc 1 = Some b2" "length b2 = 9"
    unfolding drawn_def by metis
  show ?thesis
  proof (cases "redeem (Some b1) (Some b2) c (fst sw)")
    case None
    then have "fst (exchangeCode inc c sw) = fst sw"
      by (simp add: exchangeCode_def b del: One_nat_def)
    then show ?thesis using fake_run.start by metis
  next
    case (Some x)
    obtain a t s1 where x: "x = (a, t, s1)" by (cases x) auto
    with Some have "fst (exchangeCode inc c sw) = s1"
      by (simp add: exchangeCode_def b del: One_nat_def)
    then show ?thesis
      using run_one [OF fake_step.redeem [OF b(2,4) Some [unfolded x]]] by blast
  qed
qed

lemma refresh_grant_run: "drawn inc \<Longrightarrow> \<exists>evs. fake_run (fst sw) evs (fst (refresh_grant inc t sw))"
proof -
  assume "drawn inc"
  then obtain b1 b2 where b: "in_Rand inc 0 = Some b1" "length b1 = 9" "in_Rand inc 1 = Some b2" "length b2 = 9"
    unfolding drawn_def by metis
  show ?thesis
  proof (cases "renew (Some b1) (Some b2) t (fst sw)")
    case None
    then have "fst (refresh_grant inc t sw) = fst sw"
      by (simp add: refresh_grant_def b del: One_nat_def)
    then show ?thesis using fake_run.start by metis
  next
    case (Some x)
    obtain a u s1 where x: "x = (a, u, s1)" by (cases x) auto
    with Some have "fst (refresh_grant inc t sw) = s1"
      by (simp add: refresh_grant_def b del: One_nat_def)
    then show ?thesis
      using run_one [OF fake_step.renew [OF b(2,4) Some [unfolded x]]] by blast
  qed
qed

lemma quiet_run:
  "fk_seq s' = fk_seq s \<Longrightarrow> fk_codes s' = fk_codes s \<Longrightarrow> fk_refreshTokens s' = fk_refreshTokens s \<Longrightarrow>
   \<exists>evs. fake_run s evs s'"
  using run_one [OF fake_step.quiet] by blast

lemma run_after: "fake_run s evs s' \<Longrightarrow> \<exists>evs'. fake_run s' evs' s'' \<Longrightarrow> \<exists>evs''. fake_run s evs'' s''"
  using run_trans by blast

lemma handleAuthorize_run: "drawn inc \<Longrightarrow> \<exists>evs. fake_run (fst sw) evs (fst (handleAuthorize inc r sw))"
  using grant_access_run [of inc sw r] quiet_run [of "fst sw" "fst sw"]
  by (auto simp: handleAuthorize_def Let_def split: option.split)

lemma handleToken_run: "drawn inc \<Longrightarrow> \<exists>evs. fake_run (fst sw) evs (fst (handleToken inc r sw))"
proof -
  assume d: "drawn inc"
  let ?s = "count_token (fst sw)"
  have q: "\<exists>evs. fake_run (fst sw) evs ?s" by (rule quiet_run) simp_all
  have e: "\<exists>evs. fake_run (fst sw) evs (fst (exchangeCode inc c (?s, snd sw)))"
    and f: "\<exists>evs. fake_run (fst sw) evs (fst (refresh_grant inc t (?s, snd sw)))" for c t
    using q run_after exchangeCode_run [OF d, of "(?s, snd sw)"] refresh_grant_run [OF d, of "(?s, snd sw)"]
    by (metis fst_conv)+
  show ?thesis
    using q e f by (simp add: handleToken_def Let_def)
qed

lemma handleDeauthorize_state [simp]: "fst (handleDeauthorize r sw) = fst sw"
  by (simp add: handleDeauthorize_def Let_def)

lemma handleRevoke_run: "\<exists>evs. fake_run (fst sw) evs (fst (handleRevoke r sw))"
  using run_one [OF fake_step.drop] quiet_run [of "fst sw" "fst sw"]
  by (auto simp: handleRevoke_def Let_def)

lemma handleAPI_state [simp]: "fst (handleAPI inc r sw) = fst sw"
  by (simp add: handleAPI_def writeRateLimitHeaders_def writeGzip_def writeStream_def marshal_echo_def Let_def)

text \<open>A request, whatever it asks for, is a sequence of sections.\<close>

lemma fake_serve_run: "drawn inc \<Longrightarrow> \<exists>evs. fake_run (fst sw) evs (fst (fake_serve inc r sw))"
proof -
  assume d: "drawn inc"
  let ?s = "record_request r (fst sw)"
  have q: "\<exists>evs. fake_run (fst sw) evs ?s" by (rule quiet_run) simp_all
  have e: "\<exists>evs. fake_run (fst sw') evs (fst (fake_handler inc e r' sw'))" for e r' sw'
    using handleAuthorize_run [OF d] handleToken_run [OF d] handleRevoke_run quiet_run [of "fst sw'" "fst sw'"]
    by (cases e) (simp_all add: fake_handler_def handleNotFound_def)
  have "\<exists>evs. fake_run (fst sw) evs (fst (record_handler (fake_handler inc e) r sw))" for e
    using run_after [of "fst sw" _ ?s] q e [of "(?s, snd sw)"] unfolding record_handler_def by (metis fst_conv)
  then show ?thesis
    using quiet_run [of "fst sw" "fst sw"] by (simp add: fake_serve_def split: route.split)
qed

text \<open>What the tests count on: every request that meets a handler is recorded once, and the token
  counter counts those that meet the token endpoint, whatever their outcome.\<close>

definition accounts :: "FakeServer \<Rightarrow> nat \<times> string \<times> Header option \<times> RecordedRequest list" where
  "accounts s = (TokenRequests s, LastAuthHeader s, LastRequestHeaders s, Requests s)"

lemmas accounts_defs = accounts_def TokenRequests_def LastAuthHeader_def LastRequestHeaders_def Requests_def

lemma section_accounts:
  "accounts (snd (mint_code rnd s)) = accounts s"
  "redeem r1 r2 c s = Some (a, t, s') \<Longrightarrow> accounts s' = accounts s"
  "renew r1 r2 t s = Some (a, u, s') \<Longrightarrow> accounts s' = accounts s"
  "accounts (drop_token t s) = accounts s"
  by (auto simp: accounts_defs mint_code_def redeem_def renew_def drop_token_def issueTokensLocked_def Let_def
      split: if_splits)

lemma handler_accounts:
  "accounts (fst (fake_handler inc e r sw)) =
     (if e = FToken then accounts (count_token (fst sw)) else accounts (fst sw))"
proof -
  have g: "accounts (fst (grant_access inc r dst sw)) = accounts (fst sw)" for dst sw
    using section_accounts(1) [of "in_Rand inc 0" "fst sw"]
    by (simp add: grant_access_def Let_def case_prod_beta)
  have x: "accounts (fst (exchangeCode inc c sw)) = accounts (fst sw)" for c sw
    using section_accounts(2) [of "in_Rand inc 0" "in_Rand inc 1" c "fst sw"]
    by (auto simp: exchangeCode_def split: option.split)
  have f: "accounts (fst (refresh_grant inc c sw)) = accounts (fst sw)" for c sw
    using section_accounts(3) [of "in_Rand inc 0" "in_Rand inc 1" c "fst sw"]
    by (auto simp: refresh_grant_def split: option.split)
  show ?thesis
    by (cases e) (auto simp: fake_handler_def handleAuthorize_def handleToken_def handleRevoke_def handleNotFound_def
        g x f section_accounts(4) Let_def split: option.split)
qed

lemma fake_accounts:
  assumes "rq_Path r \<noteq> ''*''" "findHandler fake_mux r = Matched p" "s' = fst (fake_serve inc r (s, w))"
  shows "TokenRequests s' = TokenRequests s + (if pt_Handler p = FToken then 1 else 0)"
    "\<exists>rec. Requests s' = Requests s @ [rec] \<and> LastRequest s' = Some rec \<and> rr_Method rec = rq_Method r \<and>
       rr_Path rec = rq_Path r \<and> rr_RawQuery rec = rq_RawQuery r \<and> rr_Header rec = rq_Header r \<and> rr_Body rec = rq_Body r"
    "LastRequestHeaders s' = Some (rq_Header r)"
    "LastAuthHeader s' = (if header_get (rq_Header r) ''Authorization'' = [] then LastAuthHeader s
       else header_get (rq_Header r) ''Authorization'')"
proof -
  have "accounts s' = (if pt_Handler p = FToken then accounts (count_token (record_request r s)) else accounts (record_request r s))"
    using handler_accounts [of inc "pt_Handler p" "replayed r"] assms by (simp add: fake_serve_def record_handler_def)
  then show "TokenRequests s' = TokenRequests s + (if pt_Handler p = FToken then 1 else 0)"
    "LastRequestHeaders s' = Some (rq_Header r)"
    "LastAuthHeader s' = (if header_get (rq_Header r) ''Authorization'' = [] then LastAuthHeader s
       else header_get (rq_Header r) ''Authorization'')"
    "\<exists>rec. Requests s' = Requests s @ [rec] \<and> LastRequest s' = Some rec \<and> rr_Method rec = rq_Method r \<and>
       rr_Path rec = rq_Path r \<and> rr_RawQuery rec = rq_RawQuery r \<and> rr_Header rec = rq_Header r \<and> rr_Body rec = rq_Body r"
    by (auto simp: accounts_defs LastRequest_def record_request_def count_token_def Let_def split: if_splits)
qed

section \<open>Invariants\<close>

text \<open>Every known code and token carries a number already used.\<close>

definition numbers_used :: "FakeServer \<Rightarrow> bool" where
  "numbers_used s \<longleftrightarrow>
     (\<forall>c. fk_codes s c \<noteq> None \<longrightarrow> (\<exists>n. n \<le> fk_seq s \<and> code_no n c)) \<and>
     (\<forall>t. fk_refreshTokens s t \<noteq> None \<longrightarrow> (\<exists>n. n \<le> fk_seq s \<and> token_no n t))"

lemma fresh_code: "numbers_used s \<Longrightarrow> code_no (Suc (fk_seq s)) c \<Longrightarrow> fk_codes s c = None"
  unfolding numbers_used_def using numbered_unique Suc_n_not_le_n by metis

lemma fresh_token: "numbers_used s \<Longrightarrow> token_no (Suc (fk_seq s)) t \<Longrightarrow> fk_refreshTokens s t = None"
  unfolding numbers_used_def using numbered_unique Suc_n_not_le_n by metis

lemma numbers_used_step:
  assumes "fake_step s e s'" "numbers_used s"
  shows "numbers_used s'"
proof (cases e)
  case (Mint c)
  with mint_effect [of s c s'] assms show ?thesis by (auto simp: numbers_used_def) (metis le_SucI le_refl)+
next
  case (Redeem c t)
  with redeem_effect [of s c t s'] assms show ?thesis
    unfolding numbers_used_def by (auto split: if_splits) (metis le_SucI le_refl option.distinct(1))+
next
  case (Renew t u)
  note m = renew_effect [OF assms(1) [unfolded Renew]]
  from m(4) obtain new where n: "token_no (Suc (fk_seq s)) new"
    and i: "if fk_rotateRefresh s then u = new \<and> fk_refreshTokens s' = (fk_refreshTokens s)(new \<mapsto> True, t := None)
       else u = t \<and> fk_refreshTokens s' = (fk_refreshTokens s)(new := None)" by blast
  from i have r: "x = new \<or> fk_refreshTokens s x \<noteq> None" if "fk_refreshTokens s' x \<noteq> None" for x
    using that by (cases "fk_rotateRefresh s") (auto split: if_splits)
  show ?thesis
    unfolding numbers_used_def m(2,3)
    using assms(2) n r unfolding numbers_used_def by (metis le_SucI le_refl)
next
  case (Drop t)
  with assms show ?thesis by (auto simp: numbers_used_def drop_step drop_token_def)
next
  case Quiet
  with assms show ?thesis by (auto simp: numbers_used_def quiet_step)
qed

lemma numbers_used_run: "fake_run s evs s' \<Longrightarrow> numbers_used s \<Longrightarrow> numbers_used s'"
  by (induction rule: fake_run.induct) (auto dest: numbers_used_step)

lemma numbers_used_New: "numbers_used (fake_New cid secret)"
  by (simp add: numbers_used_def fake_New_def)

section \<open>Codes\<close>

definition spends :: "string \<Rightarrow> fake_event \<Rightarrow> bool" where
  "spends c e \<longleftrightarrow> (\<exists>t. e = Redeem c t)"

lemma spends_simps [simp]:
  "spends c (Redeem d t) \<longleftrightarrow> c = d" "\<not> spends c (Mint d)" "\<not> spends c (Renew t u)" "\<not> spends c (Drop t)"
  "\<not> spends c Quiet"
  by (auto simp: spends_def)

text \<open>The store of codes, as the trace determines it: unknown, unused or used.\<close>

definition code_state :: "fake_event list \<Rightarrow> string \<Rightarrow> bool option" where
  "code_state evs c =
     (if filter (spends c) evs \<noteq> [] then Some True else if Mint c \<in> set evs then Some False else None)"

lemma codes_by_trace:
  "fake_run s evs s' \<Longrightarrow> s = fake_New cid secret \<Longrightarrow>
   fk_codes s' = code_state evs \<and> (\<forall>c. length (filter (spends c) evs) \<le> 1)"
proof (induction rule: fake_run.induct)
  case (start s)
  then show ?case by (auto simp: fake_New_def code_state_def)
next
  case (step s evs s' e s'')
  then have IH: "fk_codes s' = code_state evs" "\<And>c. length (filter (spends c) evs) \<le> 1" by simp_all
  have u: "numbers_used s'" using numbers_used_run [OF step(1)] numbers_used_New step(4) by simp
  show ?case
  proof (cases e)
    case (Mint c)
    note m = mint_effect [OF step(2) [unfolded Mint]]
    have "code_state evs c = None" using fresh_code [OF u m(1)] IH(1) by simp
    then have "filter (spends c) evs = []" by (auto simp: code_state_def split: if_splits)
    with IH m(3) show ?thesis by (auto simp: Mint code_state_def)
  next
    case (Redeem c t)
    note m = redeem_effect [OF step(2) [unfolded Redeem]]
    have "code_state evs c = Some False" using m(1) IH(1) by simp
    then have f: "filter (spends c) evs = []" by (auto simp: code_state_def split: if_splits)
    then have "length (filter (spends d) (evs @ [e])) \<le> 1" for d
      using IH(2) [of d] by (cases "c = d") (auto simp: Redeem)
    with IH(1) m(4) show ?thesis by (auto simp: Redeem code_state_def)
  next
    case (Renew t u)
    with IH renew_effect(3) [OF step(2) [unfolded Renew]] show ?thesis by (auto simp: code_state_def)
  next
    case (Drop t)
    with IH step(2) show ?thesis by (auto simp: code_state_def drop_step drop_token_def)
  next
    case Quiet
    with IH step(2) show ?thesis by (auto simp: code_state_def quiet_step)
  qed
qed

lemma run_split: "fake_run s evs s' \<Longrightarrow> evs = a @ b \<Longrightarrow> \<exists>m. fake_run s a m \<and> fake_run m b s'"
proof (induction arbitrary: b rule: fake_run.induct)
  case (start s)
  then show ?case using fake_run.start by fastforce
next
  case (step s evs s' e s'')
  show ?case
  proof (cases b rule: rev_cases)
    case Nil
    with step fake_run.step [OF step(1,2)] fake_run.start show ?thesis by fastforce
  next
    case (snoc b' x)
    with step(3) [of b'] step(4) obtain m where "fake_run s a m" "fake_run m b' s'" "x = e" by auto
    with snoc step(2) fake_run.step show ?thesis by metis
  qed
qed

lemma run_ConsE:
  assumes "fake_run s (e # evs) s'"
  obtains m where "fake_step s e m" "fake_run m evs s'"
proof -
  obtain m where "fake_run s [e] m" "fake_run m evs s'" using run_split [OF assms, of "[e]" evs] by auto
  moreover from \<open>fake_run s [e] m\<close> have "fake_step s e m"
  proof cases
    case (step evs' s1 e')
    then have "evs' = []" "e' = e" by auto
    from step(2) [unfolded this] have "s1 = s" by cases auto
    with step show ?thesis by simp
  qed
  ultimately show ?thesis using that by blast
qed

section \<open>Refresh tokens\<close>

definition issues :: "string \<Rightarrow> fake_event \<Rightarrow> bool" where
  "issues t e \<longleftrightarrow> (case e of Redeem c u \<Rightarrow> u = t | Renew v u \<Rightarrow> u = t | _ \<Rightarrow> False)"

definition kills :: "string \<Rightarrow> fake_event \<Rightarrow> bool" where
  "kills t e \<longleftrightarrow> (case e of Drop u \<Rightarrow> u = t | Renew v u \<Rightarrow> v = t \<and> u \<noteq> t | _ \<Rightarrow> False)"

text \<open>The fate of one token over a trace.\<close>

definition alive :: "string \<Rightarrow> fake_event list \<Rightarrow> bool" where
  "alive t evs = foldl (\<lambda>v e. if issues t e then True else if kills t e then False else v) False evs"

lemma alive_snoc: "alive t (evs @ [e]) \<longleftrightarrow> issues t e \<or> \<not> kills t e \<and> alive t evs"
  by (simp add: alive_def)

lemma tokens_by_trace:
  "fake_run s evs s' \<Longrightarrow> s = fake_New cid secret \<Longrightarrow>
   fk_refreshTokens s' = (\<lambda>t. if alive t evs then Some True else None)"
proof (induction rule: fake_run.induct)
  case (start s)
  then show ?case by (auto simp: fake_New_def alive_def)
next
  case (step s evs s' e s'')
  then have IH: "fk_refreshTokens s' = (\<lambda>t. if alive t evs then Some True else None)" by simp
  have u: "numbers_used s'" using numbers_used_run [OF step(1)] numbers_used_New step(4) by simp
  show ?case
  proof (cases e)
    case (Mint c)
    with IH mint_effect(4) [OF step(2) [unfolded Mint]] show ?thesis
      by (auto simp: alive_snoc issues_def kills_def)
  next
    case (Redeem c t)
    with IH redeem_effect(5) [OF step(2) [unfolded Redeem]] show ?thesis
      by (auto simp: alive_snoc issues_def kills_def)
  next
    case (Renew t v)
    note m = renew_effect [OF step(2) [unfolded Renew]]
    from m(4) obtain new where n: "token_no (Suc (fk_seq s')) new"
      and i: "if fk_rotateRefresh s' then v = new \<and> fk_refreshTokens s'' = (fk_refreshTokens s')(new \<mapsto> True, t := None)
         else v = t \<and> fk_refreshTokens s'' = (fk_refreshTokens s')(new := None)" by blast
    have f: "fk_refreshTokens s' new = None" using fresh_token [OF u n] .
    then have d: "\<not> alive new evs" "new \<noteq> t" using m(1) IH by (auto split: if_splits)
    have a: "alive t evs" using m(1) IH by (simp split: if_splits)
    show ?thesis
      using i d a IH by (cases "fk_rotateRefresh s'") (auto simp: Renew alive_snoc issues_def kills_def)
  next
    case (Drop t)
    with IH step(2) show ?thesis by (auto simp: alive_snoc issues_def kills_def drop_step drop_token_def)
  next
    case Quiet
    with IH step(2) show ?thesis by (auto simp: alive_snoc issues_def kills_def quiet_step)
  qed
qed

text \<open>An issued token that is gone stays gone: numbers are never used again.\<close>

definition was_issued :: "FakeServer \<Rightarrow> string \<Rightarrow> bool" where
  "was_issued s t \<longleftrightarrow> (\<exists>n. n \<le> fk_seq s \<and> token_no n t)"

lemma seq_step: "fake_step s e s' \<Longrightarrow> fk_seq s \<le> fk_seq s'"
  using mint_effect(2) redeem_effect(3) renew_effect(2)
  by (cases e) (fastforce simp: drop_step drop_token_def quiet_step)+

lemma was_issued_step: "fake_step s e s' \<Longrightarrow> was_issued s t \<Longrightarrow> was_issued s' t"
  unfolding was_issued_def using seq_step order_trans by blast

lemma issued_number: "fake_run s evs s' \<Longrightarrow> s = fake_New cid secret \<Longrightarrow> list_ex (issues t) evs \<Longrightarrow> was_issued s' t"
proof (induction rule: fake_run.induct)
  case (step s evs s' e s'')
  then consider "list_ex (issues t) evs" | "issues t e" by auto
  then show ?case
  proof cases
    case 1
    with step was_issued_step show ?thesis by blast
  next
    case 2
    then consider c where "e = Redeem c t" | v where "e = Renew v t"
      by (auto simp: issues_def split: fake_event.splits)
    then show ?thesis
    proof cases
      case 1
      with redeem_effect(2,3) [of s' c t s''] step(2) show ?thesis unfolding was_issued_def by auto
    next
      case 2
      note m = renew_effect [OF step(2) [unfolded 2]]
      have n: "numbers_used s'" using numbers_used_run [OF step(1)] numbers_used_New step(4) by simp
      then have "was_issued s' v" using m(1) by (auto simp: numbers_used_def was_issued_def)
      with m was_issued_step [OF step(2)] show ?thesis
        unfolding was_issued_def by (metis le_refl)
    qed
  qed
qed simp

lemma dead_step:
  assumes "fake_step s e s'" "was_issued s t" "fk_refreshTokens s t = None"
  shows "fk_refreshTokens s' t = None"
proof (cases e)
  case (Mint c)
  with mint_effect [of s c s'] assms show ?thesis by auto
next
  case (Redeem c u)
  note m = redeem_effect [OF assms(1) [unfolded Redeem]]
  have "u \<noteq> t" using m(2) assms(2) numbered_unique Suc_n_not_le_n unfolding was_issued_def by metis
  with m(5) assms(3) show ?thesis by simp
next
  case (Renew v u)
  note m = renew_effect [OF assms(1) [unfolded Renew]]
  from m(4) obtain new where n: "token_no (Suc (fk_seq s)) new"
      and i: "fk_refreshTokens s' \<in> {(fk_refreshTokens s)(new \<mapsto> True, v := None), (fk_refreshTokens s)(new := None)}"
    by (auto split: if_splits)
  have "new \<noteq> t" using n assms(2) numbered_unique Suc_n_not_le_n unfolding was_issued_def by metis
  with i assms(3) show ?thesis by auto
next
  case (Drop u)
  with assms show ?thesis by (auto simp: drop_step drop_token_def)
next
  case Quiet
  with assms show ?thesis by (auto simp: quiet_step)
qed

lemma dead_run:
  "fake_run s evs s' \<Longrightarrow> was_issued s t \<Longrightarrow> fk_refreshTokens s t = None \<Longrightarrow>
   was_issued s' t \<and> fk_refreshTokens s' t = None"
  by (induction rule: fake_run.induct) (auto dest: dead_step was_issued_step)

end
