(* ===== verification/FakeProps.thy ===== *)
theory FakeProps imports
  FakeLaws
begin

text \<open>The properties of the fake Strava: its codes and refresh tokens over whole traces.\<close>

section \<open>Answers\<close>

definition athlete_ok :: "FakeServer \<Rightarrow> bool" where
  "athlete_ok s \<longleftrightarrow> fk_athlete s = [] \<or> marshal_raw (fk_athlete s) \<noteq> None"

lemma issue_athlete [simp]:
  "issueTokensLocked r1 r2 s = (a, t, s') \<Longrightarrow> fk_athlete s' = fk_athlete s"
  by (auto simp: issueTokensLocked_def Let_def)

lemma section_athlete:
  "redeem r1 r2 c s = Some (a, t, s') \<Longrightarrow> fk_athlete s' = fk_athlete s"
  "renew r1 r2 t s = Some (a, u, s') \<Longrightarrow> fk_athlete s' = fk_athlete s"
  "fk_athlete (snd (mint_code r s)) = fk_athlete s"
  by (auto simp: redeem_def renew_def mint_code_def Let_def split: if_splits prod.splits dest!: issue_athlete)

lemma token_json_ok: "athlete_ok s \<Longrightarrow> marshal_token (token_response now a t (fk_athlete s)) \<noteq> None"
  by (auto simp: athlete_ok_def marshal_token_def token_response_def)

lemma writeJSON_status: "rw_Sent w = None \<Longrightarrow> \<not> informational st \<Longrightarrow> v \<noteq> None \<Longrightarrow>
    sent_status (fake_writeJSON st v w) = Some st"
  by (auto simp: fake_writeJSON_def sent_status_def)

lemma writeFault_status: "rw_Sent w = None \<Longrightarrow> \<not> informational st \<Longrightarrow>
    sent_status (fake_writeFault st m es w) = Some st"
  by (simp add: fake_writeFault_def writeJSON_status)

lemma plain_statuses [simp]: "\<not> informational 200" "\<not> informational 400"
  by (simp_all add: informational_def)

lemma exchange_status:
  assumes "athlete_ok s" "rw_Sent w = None"
  shows "sent_status (snd (exchangeCode inc c (s, w))) = Some (if fk_codes s c = Some False then 200 else 400)"
proof (cases "fk_codes s c = Some False")
  case True
  let ?s = "s\<lparr>fk_codes := (fk_codes s)(c \<mapsto> True)\<rparr>"
  obtain a t s1 where i: "issueTokensLocked (in_Rand inc 0) (in_Rand inc (Suc 0)) ?s = (a, t, s1)"
    by (metis surj_pair)
  have "fk_athlete s1 = fk_athlete s" using issue_athlete [OF i] by simp
  with True i writeJSON_status [OF assms(2) _ token_json_ok [OF assms(1)]] show ?thesis
    by (simp add: exchangeCode_def redeem_def)
next
  case False
  with assms show ?thesis by (simp add: exchangeCode_def redeem_def writeFault_status)
qed

lemma refresh_status:
  assumes "rw_Sent w = None" "t \<noteq> []"
  shows "sent_status (snd (refresh_grant inc t (s, w))) = Some (if fk_refreshTokens s t = Some True then 200 else 400)"
proof (cases "fk_refreshTokens s t = Some True")
  case True
  obtain a u s1 where i: "issueTokensLocked (in_Rand inc 0) (in_Rand inc (Suc 0)) s = (a, u, s1)"
    by (metis surj_pair)
  have "marshal_token (token_response now x y []) \<noteq> None" for now x y
    by (simp add: marshal_token_def token_response_def)
  with True i assms show ?thesis
    by (cases "fk_rotateRefresh s1") (simp_all add: refresh_grant_def renew_def writeJSON_status)
next
  case False
  with assms show ?thesis by (simp add: refresh_grant_def renew_def writeFault_status)
qed

section \<open>A concrete trace\<close>

text \<open>One login and one refresh with rotation.\<close>

definition nine :: "string option" where "nine = Some (replicate 9 (CHR 0x00))"

definition trace_0 :: FakeServer where "trace_0 = SetAthleteJSON ''{}'' (SetRotateRefresh True (fake_New ''42'' ''real''))"
definition trace_1 :: "string \<times> FakeServer" where "trace_1 = mint_code nine trace_0"
definition trace_2 :: "(string \<times> string \<times> FakeServer) option" where
  "trace_2 = redeem nine nine (fst trace_1) (snd trace_1)"

definition trace_code :: string where "trace_code = ''fakecode1AAAAAAAAAAAA''"
definition trace_token :: string where "trace_token = ''fakerefresh2AAAAAAAAAAAA''"
definition trace_next :: string where "trace_next = ''fakerefresh3AAAAAAAAAAAA''"

definition demo_trace :: "fake_event list" where
  "demo_trace = [Quiet, Mint trace_code, Redeem trace_code trace_token, Renew trace_token trace_next]"

lemma demo_run: "\<exists>s. fake_run (fake_New ''42'' ''real'') demo_trace s \<and> fk_athlete s = ''{}''"
proof -
  have q: "fake_step (fake_New ''42'' ''real'') Quiet trace_0"
    by (simp add: quiet_step trace_0_def SetRotateRefresh_def SetAthleteJSON_def)
  have b: "length (replicate 9 (CHR 0x00)) = 9" by simp
  have c: "fst trace_1 = trace_code" by code_simp
  have m: "fake_step trace_0 (Mint trace_code) (snd trace_1)"
    by (rule fake_step.mint [OF b]) (simp add: c [symmetric] trace_1_def nine_def)
  have d: "map_option (\<lambda>x. fst (snd x)) trace_2 = Some trace_token" by code_simp
  then obtain a2 s2 where t2: "trace_2 = Some (a2, trace_token, s2)" by auto
  have r: "fake_step (snd trace_1) (Redeem trace_code trace_token) s2"
    by (rule fake_step.redeem [OF b b]) (use t2 in \<open>simp add: trace_2_def nine_def c\<close>)
  have "map_option (\<lambda>x. fst (snd x)) (Option.bind trace_2 (\<lambda>x. renew nine nine trace_token (snd (snd x)))) = Some trace_next"
    by code_simp
  then obtain a3 s3 where t3: "renew nine nine trace_token s2 = Some (a3, trace_next, s3)"
    by (auto simp: t2)
  have n: "fake_step s2 (Renew trace_token trace_next) s3"
    by (rule fake_step.renew [OF b b]) (use t3 in \<open>simp add: nine_def\<close>)
  have "fake_run (fake_New ''42'' ''real'') ((([] @ [Quiet]) @ [Mint trace_code]) @ [Redeem trace_code trace_token]
      @ [Renew trace_token trace_next]) s3"
    using fake_run.step [OF fake_run.step [OF fake_run.step [OF fake_run.step [OF fake_run.start q] m] r] n] by simp
  moreover have "fk_athlete s3 = ''{}''"
    using section_athlete(1) [OF t2 [unfolded trace_2_def]] section_athlete(2) [OF t3]
    by (simp add: trace_1_def section_athlete(3) trace_0_def SetAthleteJSON_def)
  ultimately show ?thesis by (auto simp: demo_trace_def)
qed

section \<open>Properties\<close>

text \<open>
  C39. Codes of the fake Strava are single-use under every interleaving of its critical sections: a
  code is redeemed at most once, and only after it was minted; the exchange answers 200 for exactly the
  codes that were minted and not yet redeemed, and 400 for every other.
\<close>

theorem codes_single_use:
  assumes "fake_run (fake_New cid secret) evs s" "athlete_ok s" "rw_Sent w = None"
  shows "(\<forall>c. length (filter (spends c) evs) \<le> 1) \<and>
    (\<forall>pre c t post. evs = pre @ Redeem c t # post \<longrightarrow> Mint c \<in> set pre) \<and>
    (\<forall>c. sent_status (snd (exchangeCode inc c (s, w))) =
      Some (if Mint c \<in> set evs \<and> filter (spends c) evs = [] then 200 else 400))"
proof (intro conjI allI impI)
  note t = codes_by_trace [OF assms(1) refl]
  show "length (filter (spends c) evs) \<le> 1" for c using t by blast
  show "sent_status (snd (exchangeCode inc c (s, w))) =
      Some (if Mint c \<in> set evs \<and> filter (spends c) evs = [] then 200 else 400)" for c
    using exchange_status [OF assms(2,3), of inc c] t by (auto simp: code_state_def)
  show "Mint c \<in> set pre" if "evs = pre @ Redeem c t # post" for pre c t post
  proof -
    from run_split [OF assms(1) that] obtain m
      where m: "fake_run (fake_New cid secret) pre m" "fake_run m (Redeem c t # post) s" by blast
    obtain m' where "fake_step m (Redeem c t) m'" using m(2) by (rule run_ConsE)
    then have "code_state pre c = Some False"
      using redeem_effect(1) codes_by_trace [OF m(1) refl] by metis
    then show ?thesis by (simp add: code_state_def split: if_splits)
  qed
qed

theorem codes_single_use_witness:
  "\<exists>s. fake_run (fake_New ''42'' ''real'') demo_trace s \<and>
     (\<forall>inc. sent_status (snd (exchangeCode inc trace_code (s, new_writer))) = Some 400)"
proof -
  obtain s where s: "fake_run (fake_New ''42'' ''real'') demo_trace s" "fk_athlete s = ''{}''"
    using demo_run by blast
  have "marshal_raw ''{}'' \<noteq> None" by code_simp
  then have a: "athlete_ok s" by (simp add: athlete_ok_def s(2))
  have w: "rw_Sent new_writer = None" by (simp add: new_writer_def)
  have "filter (spends trace_code) demo_trace \<noteq> []" by (simp add: demo_trace_def)
  with codes_single_use [OF s(1) a w] s(1) show ?thesis by auto
qed

text \<open>
  C40. Refresh tokens over a trace: a token is accepted exactly when it was issued and neither revoked
  nor rotated away since; and one that was issued and then revoked or rotated away is never accepted
  again, whatever follows.
\<close>

theorem refresh_tokens_by_trace:
  assumes "fake_run (fake_New cid secret) evs s" "rw_Sent w = None"
  shows "(\<forall>t. t \<noteq> [] \<longrightarrow> sent_status (snd (refresh_grant inc t (s, w))) = Some (if alive t evs then 200 else 400)) \<and>
    (\<forall>pre e post t. evs = pre @ e # post \<longrightarrow> list_ex (issues t) pre \<longrightarrow> kills t e \<longrightarrow> \<not> alive t evs)"
proof (intro conjI allI impI)
  note a = tokens_by_trace [OF assms(1) refl]
  show "sent_status (snd (refresh_grant inc t (s, w))) = Some (if alive t evs then 200 else 400)" if "t \<noteq> []" for t
    using refresh_status [OF assms(2) that, of inc s] a by simp
  show "\<not> alive t evs" if e: "evs = pre @ e # post" and i: "list_ex (issues t) pre" and k: "kills t e" for pre e post t
  proof -
    have "evs = (pre @ [e]) @ post" using e by simp
    from run_split [OF assms(1) this] obtain m
      where m: "fake_run (fake_New cid secret) (pre @ [e]) m" "fake_run m post s" by blast
    have "was_issued m t" using issued_number [OF m(1) refl] i by simp
    moreover have "\<not> issues t e" using k by (auto simp: kills_def issues_def split: fake_event.splits)
    then have "fk_refreshTokens m t = None" using tokens_by_trace [OF m(1) refl] k by (simp add: alive_snoc)
    ultimately have "fk_refreshTokens s t = None" using dead_run [OF m(2)] by blast
    with a show ?thesis by (auto split: if_splits)
  qed
qed

theorem refresh_tokens_by_trace_witness: "\<not> alive trace_token demo_trace \<and> alive trace_next demo_trace"
proof -
  obtain s where s: "fake_run (fake_New ''42'' ''real'') demo_trace s" using demo_run by blast
  have w: "rw_Sent new_writer = None" by (simp add: new_writer_def)
  have t: "trace_next \<noteq> trace_token" by code_simp
  have "\<not> alive trace_token demo_trace"
    using conjunct2 [OF refresh_tokens_by_trace [OF s w]] t
    by (elim allE [of _ "[Quiet, Mint trace_code, Redeem trace_code trace_token]"] allE [of _ "Renew trace_token trace_next"]
        allE [of _ "[]"] allE [of _ trace_token])
      (simp add: demo_trace_def issues_def kills_def)
  moreover have "alive trace_next demo_trace" by code_simp
  ultimately show ?thesis by simp
qed

end
