(* ===== verification/PlainUrl.thy ===== *)
theory PlainUrl imports
  UrlLaws
begin

text \<open>
  Base URLs of the ordinary form: a scheme and a host, perhaps a port. For these, parsing, joining a
  path and rendering are concatenation of text.
\<close>

definition plain_host :: "string \<Rightarrow> bool" where
  "plain_host host \<longleftrightarrow> host \<noteq> [] \<and> list_all (\<lambda>c. is_alnum c \<or> c \<in> set ''.-:'') host \<and>
     valid_optional_port (dropWhile (\<lambda>c. c \<noteq> CHR '':'') host)"

definition plain_base :: "string \<Rightarrow> bool" where
  "plain_base raw \<longleftrightarrow>
     prefix ''http://'' raw \<and> plain_host (drop 7 raw) \<or> prefix ''https://'' raw \<and> plain_host (drop 8 raw)"

definition plain_path :: "string \<Rightarrow> bool" where
  "plain_path p \<longleftrightarrow> (p = [] \<or> prefix ''/'' p) \<and> list_all (\<lambda>c. is_alnum c \<or> c = CHR ''/'') p"

definition plain_url :: "string \<Rightarrow> string \<Rightarrow> string \<Rightarrow> URL" where
  "plain_url s host p = empty_url\<lparr>u_Scheme := s, u_Host := host, u_Path := p\<rparr>"

lemma plain_url_fields [simp]:
  "u_Scheme (plain_url s host p) = s" "u_Host (plain_url s host p) = host" "u_Path (plain_url s host p) = p"
  "u_RawPath (plain_url s host p) = []" "u_RawQuery (plain_url s host p) = []" "u_Opaque (plain_url s host p) = []"
  "u_User (plain_url s host p) = None" "u_Fragment (plain_url s host p) = []" "\<not> u_OmitHost (plain_url s host p)"
  by (simp_all add: plain_url_def empty_url_def)

lemma plain_baseE:
  assumes "plain_base raw"
  obtains s host where "s \<in> {''http'', ''https''}" "plain_host host" "raw = s @ ''://'' @ host"
proof -
  consider "prefix ''http://'' raw" "plain_host (drop 7 raw)" | "prefix ''https://'' raw" "plain_host (drop 8 raw)"
    using assms by (auto simp: plain_base_def)
  then show ?thesis
  proof cases
    case 1
    with that [of "''http''" "drop 7 raw"] show ?thesis by (auto simp: prefix_def)
  next
    case 2
    with that [of "''https''" "drop 8 raw"] show ?thesis by (auto simp: prefix_def)
  qed
qed

section \<open>Bytes\<close>

lemma alnum_char: "is_alnum c \<Longrightarrow> url_byte c \<and> \<not> should_escape c mode \<and> c \<notin> set ''/%@[+#? ''"
  using url_byte_alnum by (auto simp: should_escape_def) (simp_all add: byte_class)

lemma plain_chars:
  assumes "is_alnum c \<or> c \<in> set ''.-:''"
  shows "url_byte c \<and> \<not> should_escape c EncodeHost \<and> c \<notin> set ''/%@[+#? ''"
proof (cases "is_alnum c")
  case False
  with assms have "c \<in> set ''.-:''" by simp
  then show ?thesis by (auto simp: url_byte_def should_escape_def host_extra_def)
qed (rule alnum_char)

lemma plain_path_chars:
  assumes "is_alnum c \<or> c = CHR ''/''"
  shows "url_byte c \<and> \<not> should_escape c EncodePath \<and> c \<notin> set ''%+#? ''"
proof (cases "is_alnum c")
  case True
  then show ?thesis using alnum_char [of c EncodePath] by auto
next
  case False
  with assms have "c = CHR ''/''" by simp
  then show ?thesis by (simp add: url_byte_def should_escape_def url_reserved_def)
qed

lemma unescape_plain:
  "list_all (\<lambda>c. c \<noteq> CHR ''%'' \<and> c \<noteq> CHR ''+'' \<and> \<not> should_escape c mode) s \<Longrightarrow> url_unescape mode s = Some s"
  by (induction s) (auto simp: raw_refused_def)

lemma escape_plain: "list_all (\<lambda>c. c \<noteq> CHR '' '' \<and> \<not> should_escape c mode) s \<Longrightarrow> url_escape mode s = s"
  by (induction s) (auto simp: url_escape_def escape_char_def)

lemma host_text:
  assumes "plain_host host"
  shows "list_all url_byte host" "url_unescape EncodeHost host = Some host" "url_escape EncodeHost host = host"
    "CHR ''/'' \<notin> set host" "parseAuthority host = Some (None, host)"
proof -
  have c: "url_byte c \<and> \<not> should_escape c EncodeHost \<and> c \<notin> set ''/%@[+#? ''" if "c \<in> set host" for c
    using assms that plain_chars by (auto simp: plain_host_def list_all_iff)
  then show u: "list_all url_byte host" "CHR ''/'' \<notin> set host" by (auto simp: list_all_iff)
  show e: "url_unescape EncodeHost host = Some host" using c by (intro unescape_plain) (auto simp: list_all_iff)
  show "url_escape EncodeHost host = host"
    using c by (intro escape_plain) (auto simp: list_all_iff)
  have "CHR ''@'' \<notin> set host" "CHR ''['' \<notin> set host" using c by auto
  then show "parseAuthority host = Some (None, host)"
    using assms e by (simp add: parseAuthority_def parse_host_def plain_host_def)
qed

lemma path_text:
  assumes "plain_path p"
  shows "list_all url_byte p" "url_escape EncodePath p = p"
    "setPath p u = Some (u\<lparr>u_Path := p, u_RawPath := []\<rparr>)"
proof -
  have c: "url_byte c \<and> \<not> should_escape c EncodePath \<and> c \<notin> set ''%+#? ''" if "c \<in> set p" for c
    using assms that plain_path_chars by (auto simp: plain_path_def list_all_iff)
  then show "list_all url_byte p" by (auto simp: list_all_iff)
  show e: "url_escape EncodePath p = p"
    using c by (intro escape_plain) (auto simp: list_all_iff)
  have "url_unescape EncodePath p = Some p" using c by (intro unescape_plain) (auto simp: list_all_iff)
  with e show "setPath p u = Some (u\<lparr>u_Path := p, u_RawPath := []\<rparr>)" by (simp add: setPath_def)
qed

section \<open>Parsing and rendering\<close>

lemma scheme_split:
  assumes "s \<in> {''http'', ''https''}"
  shows "getScheme (s @ CHR '':'' # rest) = Some (s, rest)" "to_lower s = s"
proof -
  have "list_all is_lower ''https''" "list_all is_lower ''http''" by code_simp+
  then have l: "list_all is_lower s" using assms by auto
  then have b: "list_all scheme_byte s" by (rule list.pred_mono_strong) (simp add: scheme_byte_def is_alnum_def)
  have "\<not> scheme_byte CHR '':''" by (simp add: scheme_byte_def byte_class)
  with b have "takeWhile scheme_byte (s @ CHR '':'' # rest) = s" "dropWhile scheme_byte (s @ CHR '':'' # rest) = CHR '':'' # rest"
    by (simp_all add: list_all_iff takeWhile_append dropWhile_append)
  moreover have "s \<noteq> []" "is_lower (hd s)" using assms l by auto
  ultimately show "getScheme (s @ CHR '':'' # rest) = Some (s, rest)" by (simp add: getScheme_def Let_def)
  show "to_lower s = s" using assms by (auto simp: to_lower_def lower_byte_def byte_class)
qed

lemma cut_slash:
  "d \<notin> set a \<Longrightarrow> takeWhile (\<lambda>c. c \<noteq> d) a = a" "d \<notin> set a \<Longrightarrow> dropWhile (\<lambda>c. c \<noteq> d) a = []"
  "d \<notin> set a \<Longrightarrow> takeWhile (\<lambda>c. c \<noteq> d) (a @ d # b) = a" "d \<notin> set a \<Longrightarrow> dropWhile (\<lambda>c. c \<noteq> d) (a @ d # b) = d # b"
  by (induction a) auto

lemma plain_rest:
  assumes "plain_host host" "plain_path p" "u_Scheme u \<noteq> []"
  shows "parse_rest (''//'' @ host @ p) u = Some (u\<lparr>u_User := None, u_Host := host, u_Path := p, u_RawPath := []\<rparr>)"
proof -
  have "takeWhile (\<lambda>c. c \<noteq> CHR ''/'') (host @ p) = host" "dropWhile (\<lambda>c. c \<noteq> CHR ''/'') (host @ p) = p"
    using cut_slash [of "CHR ''/''" host] host_text(4) [OF assms(1)] assms(2) by (cases p; auto simp: plain_path_def)+
  then show ?thesis
    using assms(3) host_text(5) [OF assms(1)] path_text(3) [OF assms(2)] by (simp add: parse_rest_def Let_def)
qed

text \<open>The bytes of an encoded form.\<close>

definition form_byte :: "char \<Rightarrow> bool" where
  "form_byte c \<longleftrightarrow> query_byte c \<or> c = CHR ''='' \<or> c = CHR ''&''"

lemma form_bytes_Encode: "list_all form_byte (Encode m)"
  using encode_bytes [of _ m] by (auto simp: list_all_iff form_byte_def)

lemma form_bytes:
  assumes "list_all form_byte t"
  shows "CHR ''#'' \<notin> set t" "CHR ''?'' \<notin> set t" "list_all (\<lambda>c. \<not> ctl_byte c) t"
proof -
  have u: "form_byte c \<Longrightarrow> c \<noteq> CHR ''#'' \<and> c \<noteq> CHR ''?'' \<and> \<not> ctl_byte c" for c
    by (cases "is_alnum c") (auto simp: form_byte_def query_byte_def ctl_byte_def byte_class)
  from assms u show "CHR ''#'' \<notin> set t" "CHR ''?'' \<notin> set t" unfolding list_all_iff by blast+
  from assms u show "list_all (\<lambda>c. \<not> ctl_byte c) t" unfolding list_all_iff by blast
qed

lemma suffix_member: "suffix [c] t \<Longrightarrow> c \<in> set t"
  by (auto simp: suffix_def)

lemma text_bytes:
  assumes "list_all url_byte t"
  shows "CHR ''#'' \<notin> set t" "CHR ''?'' \<notin> set t" "list_all (\<lambda>c. \<not> ctl_byte c) t"
proof -
  have u: "url_byte c \<Longrightarrow> c \<noteq> CHR ''#'' \<and> c \<noteq> CHR ''?'' \<and> \<not> ctl_byte c" for c by (simp add: url_byte_def ctl_byte_def)
  from assms u show "CHR ''#'' \<notin> set t" "CHR ''?'' \<notin> set t" unfolding list_all_iff by blast+
  from assms u show "list_all (\<lambda>c. \<not> ctl_byte c) t" unfolding list_all_iff by blast
qed

lemma plain_parse:
  assumes "s \<in> {''http'', ''https''}" "plain_host host" "plain_path p"
  shows "url_Parse (s @ ''://'' @ host @ p) = Some (plain_url s host p)"
    "list_all form_byte q \<Longrightarrow> q \<noteq> [] \<Longrightarrow>
      url_Parse (s @ ''://'' @ host @ p @ CHR ''?'' # q) = Some ((plain_url s host p)\<lparr>u_RawQuery := q\<rparr>)"
proof -
  let ?t = "''//'' @ host @ p" and ?raw = "s @ ''://'' @ host @ p"
  have "list_all url_byte s" "list_all url_byte ''://''" using assms(1) by (auto simp: url_byte_def)
  then have b: "list_all url_byte ?raw" using host_text(1) [OF assms(2)] path_text(1) [OF assms(3)] by simp
  have n: "CHR ''#'' \<notin> set ?raw" "CHR ''?'' \<notin> set ?raw" "list_all (\<lambda>c. \<not> ctl_byte c) ?raw"
    using text_bytes [OF b] .
  have star: "s @ CHR '':'' # x \<noteq> ''*''" for x using assms(1) by auto
  have g: "getScheme (s @ CHR '':'' # x) = Some (s, x)" for x by (rule scheme_split(1) [OF assms(1)])
  have u: "parse_rest ?t (empty_url\<lparr>u_Scheme := s, u_RawQuery := x\<rparr>) = Some ((plain_url s host p)\<lparr>u_RawQuery := x\<rparr>)" for x
    using plain_rest [OF assms(2,3), of "empty_url\<lparr>u_Scheme := s, u_RawQuery := x\<rparr>"] assms(1)
    by (auto simp: plain_url_def empty_url_def)
  have q0: "CHR ''?'' \<notin> set ?t" using n(2) by simp
  have s0: "\<not> suffix ''?'' ?t" using q0 by (rule contrapos_nn) (rule suffix_member)
  have r: "parse_no_fragment ?raw = Some (plain_url s host p)"
    using n(3) star [of ?t] g [of ?t] s0 scheme_split(2) [OF assms(1)] u [of "[]"] q0
    by (simp add: parse_no_fragment_def Let_def cut_absent) 
  show "url_Parse ?raw = Some (plain_url s host p)"
    using n(1) r by (simp add: url_Parse_def cut_absent)
  assume q: "list_all form_byte q" "q \<noteq> []"
  let ?tq = "?t @ CHR ''?'' # q" and ?rq = "?raw @ CHR ''?'' # q"
  have qb: "CHR ''#'' \<notin> set q" "CHR ''?'' \<notin> set q" "list_all (\<lambda>c. \<not> ctl_byte c) q"
    using form_bytes [OF q(1)] .
  have sq: "\<not> suffix ''?'' ?tq" using q(2) qb(2) by (auto simp: suffix_def append_eq_append_conv2 append_eq_Cons_conv Cons_eq_append_conv)
  have "parse_no_fragment ?rq = Some ((plain_url s host p)\<lparr>u_RawQuery := q\<rparr>)"
    using n(3) qb(3) star [of ?tq] g [of ?tq] sq scheme_split(2) [OF assms(1)] u [of q] cut_append [OF q0, of q]
    by (simp add: parse_no_fragment_def Let_def ctl_byte_def)
  then show "url_Parse (s @ ''://'' @ host @ p @ CHR ''?'' # q) = Some ((plain_url s host p)\<lparr>u_RawQuery := q\<rparr>)"
    using n(1) qb(1) by (simp add: url_Parse_def cut_absent)
qed

lemma plain_rendered:
  assumes "s \<in> {''http'', ''https''}" "plain_host host" "plain_path (CHR ''/'' # p)"
  shows "url_base_string (plain_url s host (CHR ''/'' # p)) = s @ ''://'' @ host @ CHR ''/'' # p"
    "p \<noteq> [] \<Longrightarrow> hd p \<noteq> CHR ''/'' \<Longrightarrow> url_base_string (plain_url s host p) = s @ ''://'' @ host @ CHR ''/'' # p"
proof -
  have h: "host \<noteq> []" "url_escape EncodeHost host = host" "s \<noteq> []"
    using assms(1,2) host_text(3) by (auto simp: plain_host_def)
  have e: "url_escape EncodePath (CHR ''/'' # p) = CHR ''/'' # p" by (rule path_text(2) [OF assms(3)])
  have "list_all (\<lambda>c. c \<noteq> CHR '' '' \<and> \<not> should_escape c EncodePath) p"
    using assms(3) plain_path_chars by (auto simp: plain_path_def list_all_iff)
  then have e': "url_escape EncodePath p = p" by (rule escape_plain)
  have star: "p \<noteq> ''*''" using assms(3) by (auto simp: plain_path_def byte_class)
  show "url_base_string (plain_url s host (CHR ''/'' # p)) = s @ ''://'' @ host @ CHR ''/'' # p"
    using h by (simp add: url_base_string_def authority_string_def EscapedPath_def e Let_def)
  show "url_base_string (plain_url s host p) = s @ ''://'' @ host @ CHR ''/'' # p" if "p \<noteq> []" "hd p \<noteq> CHR ''/''"
    using h that star by (simp add: url_base_string_def authority_string_def EscapedPath_def e' Let_def)
qed

text \<open>Joining Strava's authorize path to a base URL yields a path without its slash, which is rendered with it.\<close>

lemma plain_join: "JoinPath (plain_url s host []) ''/oauth/authorize'' = plain_url s host ''oauth/authorize''"
proof -
  have p: "drop 1 (path_Join ''/'' ''/oauth/authorize'') = ''oauth/authorize''" "\<not> suffix ''/'' ''/oauth/authorize''"
    by code_simp+
  have t: "url_unescape EncodePath ''oauth/authorize'' = Some ''oauth/authorize''"
    "url_escape EncodePath ''oauth/authorize'' = ''oauth/authorize''" by code_simp+
  have "EscapedPath (plain_url s host []) = []" by (simp add: EscapedPath_def url_escape_def)
  with p t show ?thesis by (simp add: JoinPath_def Let_def setPath_def) (simp add: plain_url_def empty_url_def)
qed

lemma plain_authorize:
  assumes "plain_base raw" "url_Parse raw = Some u"
  shows "url_base_string (JoinPath u ''/oauth/authorize'') = raw @ ''/oauth/authorize''"
proof -
  obtain s host where b: "s \<in> {''http'', ''https''}" "plain_host host" "raw = s @ ''://'' @ host"
    using plain_baseE [OF assms(1)] .
  have "plain_path []" by (simp add: plain_path_def)
  from plain_parse(1) [OF b(1,2) this] assms(2) have u: "u = plain_url s host []" by (simp add: b(3))
  have "plain_path (CHR ''/'' # ''oauth/authorize'')" by code_simp
  from plain_rendered(2) [OF b(1,2) this] show ?thesis by (simp add: u plain_join b(3))
qed

text \<open>An address below a base URL.\<close>

lemma plain_below:
  assumes "plain_base raw" "plain_path (CHR ''/'' # p)"
  obtains s host where "s \<in> {''http'', ''https''}" "plain_host host" "url_Parse raw = Some (plain_url s host [])"
    "url_Parse (raw @ CHR ''/'' # p) = Some (plain_url s host (CHR ''/'' # p))"
    "url_base_string (plain_url s host (CHR ''/'' # p)) = raw @ CHR ''/'' # p"
    "\<And>q. list_all form_byte q \<Longrightarrow> q \<noteq> [] \<Longrightarrow>
       url_Parse (raw @ CHR ''/'' # p @ CHR ''?'' # q) = Some ((plain_url s host (CHR ''/'' # p))\<lparr>u_RawQuery := q\<rparr>)"
proof -
  obtain s host where b: "s \<in> {''http'', ''https''}" "plain_host host" "raw = s @ ''://'' @ host"
    using plain_baseE [OF assms(1)] .
  have e: "plain_path []" by (simp add: plain_path_def)
  show ?thesis
    by (rule that [OF b(1,2)])
      (use plain_parse(1) [OF b(1,2) e] plain_parse [OF b(1,2) assms(2)] plain_rendered(1) [OF b(1,2) assms(2)]
        in \<open>simp_all add: b(3)\<close>)
qed

end
