(* ===== verification/Login.thy ===== *)
theory Login imports
  FakeProps
  CallbackProps
  TokenProps
  RoutesLaws
  PlainUrl
begin

text \<open>
  One login through the proxy and the fake Strava: how the requests of a flow are made from the
  responses before them, and what each leg of the flow does.
\<close>

section \<open>Between the parties\<close>

text \<open>A browser follows a redirect: it connects to the scheme and host of the Location and asks there for
  its path and query. The result is where it connects to, and its request.\<close>

definition browser_get :: "Header \<Rightarrow> string \<Rightarrow> string \<Rightarrow> string \<Rightarrow> Request" where
  "browser_get h path raw q =
     \<lparr>rq_Method = ''GET'', rq_Path = path, rq_RawPath = raw, rq_RawQuery = q,
      rq_Header = h, rq_Body = [], rq_BodyClean = True, rq_ContentLength = 0\<rparr>"

definition follow :: "Header \<Rightarrow> string \<Rightarrow> ((string \<times> string) \<times> Request) option" where
  "follow h loc =
     map_option (\<lambda>u. ((u_Scheme u, u_Host u),
       browser_get h (if u_Path u = [] then ''/'' else u_Path u) (u_RawPath u) (u_RawQuery u))) (url_Parse loc)"

text \<open>The scheme and host of a base URL.\<close>

definition origin :: "string \<Rightarrow> (string \<times> string) option" where
  "origin base = map_option (\<lambda>u. (u_Scheme u, u_Host u)) (url_Parse base)"

definition location :: "ResponseWriter \<Rightarrow> string option" where
  "location rw =
     (case rw_Sent rw of
        Some (s, h) \<Rightarrow> if s = 302 then (case map_of h ''Location'' of Some [l] \<Rightarrow> Some l | _ \<Rightarrow> None) else None
      | None \<Rightarrow> None)"

text \<open>An upstream call as its server sees it, and the response as the caller does: the client reads
  header names in canonical form.\<close>

definition received :: "OutRequest \<Rightarrow> Request" where
  "received req =
     (let u = (case url_Parse (or_URL req) of None \<Rightarrow> empty_url | Some u \<Rightarrow> u)
      in \<lparr>rq_Method = or_Method req, rq_Path = u_Path u, rq_RawPath = u_RawPath u, rq_RawQuery = u_RawQuery u,
          rq_Header = or_Header req, rq_Body = or_Body req, rq_BodyClean = or_BodyClean req,
          rq_ContentLength = or_ContentLength req\<rparr>)"

definition reply_of :: "ResponseWriter \<Rightarrow> upstream_result" where
  "reply_of rw =
     (case rw_Sent rw of
        Some (s, h) \<Rightarrow> Reply s (map (\<lambda>(k, vs). (canonical_key k, vs)) h) (rw_Body rw) None
      | None \<Rightarrow> Reply 200 (map (\<lambda>(k, vs). (canonical_key k, vs)) (rw_Header rw)) (rw_Body rw) None)"

text \<open>The proxy in front of the fake in state \<open>s\<close>.\<close>

definition upstream_is :: "Incoming \<Rightarrow> FakeServer \<Rightarrow> Env \<Rightarrow> Env" where
  "upstream_is inc s env = env\<lparr>e_Upstream := (\<lambda>req. reply_of (snd (fake_serve inc (received req) (s, new_writer))))\<rparr>"

lemma follow_below:
  assumes "plain_base base" "plain_path (CHR ''/'' # p)" "Encode m \<noteq> []"
  shows "\<exists>site. origin base = Some site \<and>
    follow h (base @ CHR ''/'' # p @ CHR ''?'' # Encode m) = Some (site, browser_get h (CHR ''/'' # p) [] (Encode m))"
proof -
  obtain s host where "url_Parse base = Some (plain_url s host [])"
    "\<And>q. list_all form_byte q \<Longrightarrow> q \<noteq> [] \<Longrightarrow>
       url_Parse (base @ CHR ''/'' # p @ CHR ''?'' # q) = Some ((plain_url s host (CHR ''/'' # p))\<lparr>u_RawQuery := q\<rparr>)"
    using plain_below [OF assms(1,2)] by metis
  with assms(3) form_bytes_Encode [of m] show ?thesis by (simp add: follow_def origin_def)
qed

lemma query_get:
  assumes "wf_values m" "value_count m \<le> 10000"
  shows "map_of (rq_Query (browser_get h p raw (Encode m))) k = map_of m k"
proof -
  have "rq_Query (browser_get h p raw (Encode m)) = sort_key fst m"
    using parse_encode [OF assms(1)] assms(2) by (simp add: rq_Query_def browser_get_def max_query_params_def)
  then show ?thesis using assms(1) by (simp add: wf_values_def)
qed

text \<open>The length of an encoded form is bounded by the lengths of its members.\<close>

definition encoded_bound :: "Values \<Rightarrow> nat" where
  "encoded_bound m = sum_list (map (\<lambda>(k, vs). sum_list (map (\<lambda>v. 3 * length k + 3 * length v + 2) vs)) m)"

lemma length_QueryEscape: "length (QueryEscape s) \<le> 3 * length s"
  by (induction s) (auto simp: url_escape_Cons escape_char_def percent_def)

lemma length_join_with: "length (join_with c xs) \<le> sum_list (map (\<lambda>x. length x + 1) xs)"
  by (induction c xs rule: join_with.induct) auto

lemma length_Encode: "length (Encode m) \<le> encoded_bound m"
proof -
  have p: "length (encode_pair (k, v)) + 1 \<le> 3 * length k + 3 * length v + 2" for v k
    using length_QueryEscape [of k] length_QueryEscape [of v] by (simp add: encode_pair_def)
  have "sum_list (map (\<lambda>x. length (encode_pair x) + 1) (concat (map (\<lambda>(k, vs). map (Pair k) vs) ms))) \<le> encoded_bound ms"
    for ms :: Values
  proof (induction ms)
    case (Cons a ms)
    obtain k vs where a: "a = (k, vs)" by (cases a)
    have "sum_list (map (\<lambda>x. length (encode_pair x) + 1) (map (Pair k) vs)) \<le>
        sum_list (map (\<lambda>v. 3 * length k + 3 * length v + 2) vs)"
    proof (induction vs)
      case (Cons v vs)
      with p [of k v] show ?case by simp
    qed simp
    with Cons show ?case by (simp add: a encoded_bound_def)
  qed (simp add: encoded_bound_def)
  moreover have "encoded_bound (sort_key fst m) = encoded_bound m"
    unfolding encoded_bound_def by (metis (no_types, lifting) mset_map mset_sort sum_mset_sum_list)
  ultimately have "sum_list (map (\<lambda>x. length (encode_pair x) + 1) (encode_pairs m)) \<le> encoded_bound m"
    by (metis encode_pairs_def)
  with length_join_with [of "CHR ''&''" "map encode_pair (encode_pairs m)"] show ?thesis
    by (simp add: Encode_def comp_def)
qed

section \<open>At Strava\<close>

lemma same_route:
  "findHandler mx r' = Matched p \<Longrightarrow> rq_Method r = rq_Method r' \<Longrightarrow> rq_Path r = rq_Path r' \<Longrightarrow>
   rq_RawPath r = rq_RawPath r' \<Longrightarrow> findHandler mx r = Matched p"
  by (auto simp: findHandler_def match_or_redirect_def rq_EscapedPath_def Let_def split: if_splits option.splits)

lemma fake_routes:
  "findHandler fake_mux (browser_get h ''/oauth/authorize'' [] q) = Matched (parse_pattern ''GET /oauth/authorize'' FAuthorize)"
  "rq_Method r = ''POST'' \<Longrightarrow> rq_Path r = ''/api/v3/oauth/token'' \<Longrightarrow> rq_RawPath r = [] \<Longrightarrow>
     findHandler fake_mux r = Matched (parse_pattern ''POST /api/v3/oauth/token'' FToken)"
proof -
  have g: "findHandler fake_mux (browser_get [] ''/oauth/authorize'' [] []) =
      Matched (parse_pattern ''GET /oauth/authorize'' FAuthorize)" by code_simp
  have p: "findHandler fake_mux (post_request [] []\<lparr>rq_Path := ''/api/v3/oauth/token''\<rparr>) =
      Matched (parse_pattern ''POST /api/v3/oauth/token'' FToken)" by code_simp
  show "findHandler fake_mux (browser_get h ''/oauth/authorize'' [] q) = Matched (parse_pattern ''GET /oauth/authorize'' FAuthorize)"
    by (rule same_route [OF g]) (simp_all add: browser_get_def)
  show "findHandler fake_mux r = Matched (parse_pattern ''POST /api/v3/oauth/token'' FToken)"
    if "rq_Method r = ''POST''" "rq_Path r = ''/api/v3/oauth/token''" "rq_RawPath r = []"
    by (rule same_route [OF p]) (simp_all add: that post_request_def)
qed

lemma location_redirect:
  assumes "web_url u"
  shows "location (http_Redirect 302 ''Found'' m p (url_String (u\<lparr>u_RawQuery := Encode q\<rparr>)) new_writer) =
    Some (url_String (u\<lparr>u_RawQuery := Encode q\<rparr>))"
  using redirect_sent [of new_writer m p "url_String (u\<lparr>u_RawQuery := Encode q\<rparr>)"] location_web [OF assms]
  by (auto simp: RedirectFound_def location_def new_writer_def)

lemma mint_facts:
  "fst (mint_code rnd (record_request r s)) = fst (mint_code rnd s)"
  "fk_codes (snd (mint_code rnd s)) (fst (mint_code rnd s)) = Some False"
  "fk_realClientID (snd (mint_code rnd s)) = fk_realClientID s"
  "fk_realClientSecret (snd (mint_code rnd s)) = fk_realClientSecret s"
  by (simp_all add: mint_code_def Let_def)

lemma record_facts [simp]:
  "fk_realClientID (record_request r s) = fk_realClientID s"
  "fk_realClientSecret (record_request r s) = fk_realClientSecret s" "fk_athlete (record_request r s) = fk_athlete s"
  "fk_authorizeError (record_request r s) = fk_authorizeError s" "fk_grantedScope (record_request r s) = fk_grantedScope s"
  by (simp_all add: record_request_def Let_def)

text \<open>The consent step grants a fresh code and sends it back with the state.\<close>

definition consent_out :: "FakeServer \<Rightarrow> Values \<Rightarrow> string \<Rightarrow> string \<Rightarrow> Values" where
  "consent_out s q tok code =
     (let out = values_set ''code'' code (values_set ''state'' tok [])
      in if granted_scope s q \<noteq> [] then values_set ''scope'' (granted_scope s q) out else out)"

lemma consent_out_facts:
  "wf_values (consent_out s q tok code)" "value_count (consent_out s q tok code) \<le> 3"
  "map_of (consent_out s q tok code) ''state'' = Some [tok]" "map_of (consent_out s q tok code) ''code'' = Some [code]"
  "map_of (consent_out s q tok code) ''error'' = None"
  by (simp_all add: consent_out_def Let_def)
    (simp add: values_set_def value_count_def)

lemma fake_grants:
  assumes "r = browser_get h ''/oauth/authorize'' [] query" "map_of (rq_Query r) ''client_id'' = Some [fk_realClientID s]"
    and "map_of (rq_Query r) ''redirect_uri'' = Some [uri]" "map_of (rq_Query r) ''state'' = Some [tok]"
    and "url_Parse uri = Some dst" "web_url dst" "u_RawQuery dst = []" "fk_authorizeError s = []"
  shows "fst (fake_serve inc r (s, new_writer)) = snd (mint_code (in_Rand inc 0) (record_request r s))"
    "location (snd (fake_serve inc r (s, new_writer))) =
      Some (url_base_string dst @ CHR ''?'' # Encode (consent_out s (rq_Query r) tok (fst (mint_code (in_Rand inc 0) s))))"
proof -
  let ?s = "record_request r s"
  have e: "uri \<noteq> []"
  proof
    assume "uri = []"
    then have "url_Parse [] = Some dst" using assms(5) by simp
    moreover have "map_option u_Scheme (url_Parse []) \<in> {None, Some []}" by code_simp
    ultimately show False using assms(6) by (auto simp: web_url_def)
  qed
  have q: "rq_Query (replayed r) = rq_Query r" by (simp add: replayed_def rq_Query_def)
  have g: "granted_scope ?s (rq_Query r) = granted_scope s (rq_Query r)" by (simp add: granted_scope_def)
  have d: "url_Query dst = []" using assms(7) by (simp add: url_Query_def ParseQuery_def max_query_params_def)
  have "fake_serve inc r (s, new_writer) = handleAuthorize inc (replayed r) (?s, new_writer)"
    using fake_routes(1) [of h query]
    by (simp add: assms(1) fake_serve_def record_handler_def fake_handler_def pattern_handler) (simp add: browser_get_def)
  also have "\<dots> = grant_access inc (replayed r) dst (?s, new_writer)"
    using assms(2,3,5) e by (simp add: handleAuthorize_def q values_get_def)
  also have "\<dots> = (snd (mint_code (in_Rand inc 0) ?s), redirect_back (replayed r) dst
      (consent_out s (rq_Query r) tok (fst (mint_code (in_Rand inc 0) ?s))) new_writer)"
    using assms(4,8) by (simp add: grant_access_def q d g consent_out_def answer_def case_prod_beta Let_def)
  finally have f: "fake_serve inc r (s, new_writer) = (snd (mint_code (in_Rand inc 0) ?s), redirect_back (replayed r) dst
      (consent_out s (rq_Query r) tok (fst (mint_code (in_Rand inc 0) s))) new_writer)"
    by (simp add: mint_facts(1))
  then show "fst (fake_serve inc r (s, new_writer)) = snd (mint_code (in_Rand inc 0) ?s)" by simp
  have "Encode (consent_out s (rq_Query r) tok (fst (mint_code (in_Rand inc 0) s))) \<noteq> []"
    by (rule Encode_not_Nil [OF value_count_pos]) (rule consent_out_facts(3))
  then show "location (snd (fake_serve inc r (s, new_writer))) =
      Some (url_base_string dst @ CHR ''?'' # Encode (consent_out s (rq_Query r) tok (fst (mint_code (in_Rand inc 0) s))))"
    using url_String_query [of dst "Encode (consent_out s (rq_Query r) tok (fst (mint_code (in_Rand inc 0) s)))"] assms(6)
    unfolding f redirect_back_def snd_conv location_redirect [OF assms(6)] by (simp add: web_url_def)
qed

text \<open>The token step spends the code.\<close>

lemma issue_update:
  "issueTokensLocked r1 r2 s = (a, t, s') \<Longrightarrow>
   s' = s\<lparr>fk_seq := fk_seq s + 1, fk_refreshTokens := (fk_refreshTokens s)(t \<mapsto> True)\<rparr>"
  unfolding issueTokensLocked_def Let_def prod.inject by (elim conjE, hypsubst) (simp (no_asm))

lemma exchange_spends:
  assumes "fk_codes s c = Some False" "athlete_ok s"
  obtains access refresh body s1 where
    "exchangeCode inc c (s, w) = (s1, fake_writeJSON 200 (Some body) w)"
    "marshal_token (token_response (in_Now inc) access refresh (fk_athlete s)) = Some body"
    "fk_codes s1 c = Some True" "fk_refreshTokens s1 refresh = Some True"
proof -
  let ?s = "s\<lparr>fk_codes := (fk_codes s)(c \<mapsto> True)\<rparr>"
  obtain a t s1 where i: "issueTokensLocked (in_Rand inc 0) (in_Rand inc (Suc 0)) ?s = (a, t, s1)"
    by (metis surj_pair)
  from issue_update [OF i] have f: "fk_athlete s1 = fk_athlete s" "fk_codes s1 c = Some True"
      "fk_refreshTokens s1 t = Some True" by simp_all
  obtain body where b: "marshal_token (token_response (in_Now inc) a t (fk_athlete s)) = Some body"
    using token_json_ok [OF assms(2)] by blast
  have "exchangeCode inc c (s, w) = (s1, fake_writeJSON 200 (Some body) w)"
    using assms(1) i b f(1) by (simp add: exchangeCode_def redeem_def answer_def)
  from that [OF this b f(2,3)] show ?thesis .
qed

text \<open>The request of the exchange as the fake reads it.\<close>

definition grant_params :: "string \<Rightarrow> Values" where
  "grant_params code = [(''code'', [code]), (''grant_type'', [''authorization_code''])]"

lemma exchange_form:
  assumes "url_Parse url = Some u" "u_RawQuery u = []" "wf_values out" "value_count out \<le> 100"
    and "length (Encode (token_params cfg out)) \<le> max_form_size"
  shows "fake_Form (received (exchange_request url cfg out)) = sort_key fst (token_params cfg out)"
proof -
  let ?m = "token_params cfg out"
  have "value_count ?m \<le> value_count out + 2"
    using value_count_set [of "''client_id''" "cf_StravaClientID cfg" out]
      value_count_set [of "''client_secret''" "Reveal (cf_StravaClientSecret cfg)" "values_set ''client_id'' (cf_StravaClientID cfg) out"]
    by (simp add: token_params_def)
  with assms(3,4) have m: "wf_values ?m" "value_count ?m \<le> max_query_params" by (simp_all add: max_query_params_def)
  show ?thesis
    using assms parse_encode [OF m]
    by (simp add: fake_Form_def replayed_def received_def exchange_request_def ParseForm_def parse_post_form_def
        contentTypeForm_def form_media_type ParseQuery_def [of "[]"] max_query_params_def)
qed

lemma exchange_lookup:
  assumes "wf_values out"
  shows "values_get (sort_key fst (token_params cfg out)) ''client_id'' = cf_StravaClientID cfg"
    "values_get (sort_key fst (token_params cfg out)) ''client_secret'' = Reveal (cf_StravaClientSecret cfg)"
    "k \<notin> {''client_id'', ''client_secret''} \<Longrightarrow> values_get (sort_key fst (token_params cfg out)) k = values_get out k"
proof -
  have "map_of (sort_key fst (token_params cfg out)) k = map_of (token_params cfg out) k" for k
    using wf_token_params [OF assms, of cfg] by (simp add: wf_values_def)
  then show "values_get (sort_key fst (token_params cfg out)) ''client_id'' = cf_StravaClientID cfg"
    "values_get (sort_key fst (token_params cfg out)) ''client_secret'' = Reveal (cf_StravaClientSecret cfg)"
    "k \<notin> {''client_id'', ''client_secret''} \<Longrightarrow> values_get (sort_key fst (token_params cfg out)) k = values_get out k"
    by (simp_all add: values_get_def token_params_lookup)
qed

text \<open>A token request of the proxy at the fake.\<close>

definition token_grant :: "Incoming \<Rightarrow> Values \<Rightarrow> fake_state \<Rightarrow> fake_state" where
  "token_grant inc out sw =
     (let grant = values_get out ''grant_type''
      in if grant = ''authorization_code'' then exchangeCode inc (values_get out ''code'') sw
         else if grant = ''refresh_token'' then refresh_grant inc (values_get out ''refresh_token'') sw
         else bad_request ''Application'' ''grant_type'' sw)"

lemma count_facts [simp]:
  "fk_realClientID (count_token s) = fk_realClientID s" "fk_realClientSecret (count_token s) = fk_realClientSecret s"
  "fk_athlete (count_token s) = fk_athlete s"
  by (simp_all add: count_token_def)

lemma token_counted:
  assumes "url_Parse url = Some u" "u_Path u = ''/api/v3/oauth/token''" "u_RawPath u = []"
  shows "TokenRequests (fst (fake_serve inc (received (exchange_request url cfg out)) (s, w))) = TokenRequests s + 1"
proof -
  let ?r = "received (exchange_request url cfg out)"
  have r: "rq_Method ?r = ''POST''" "rq_Path ?r = ''/api/v3/oauth/token''" "rq_RawPath ?r = []"
    using assms by (simp_all add: received_def exchange_request_def)
  have "rq_Path ?r \<noteq> ''*''" by (simp add: r(2))
  from fake_accounts(1) [OF this fake_routes(2) [OF r] refl] show ?thesis by (simp add: pattern_handler)
qed

lemma fake_token:
  assumes "url_Parse url = Some u" "u_Path u = ''/api/v3/oauth/token''" "u_RawPath u = []" "u_RawQuery u = []"
    and "wf_values out" "value_count out \<le> 100" "length (Encode (token_params cfg out)) \<le> max_form_size"
    and "fk_realClientID s = cf_StravaClientID cfg" "fk_realClientSecret s = Reveal (cf_StravaClientSecret cfg)"
  shows "fake_serve inc (received (exchange_request url cfg out)) (s, w) =
    token_grant inc out (count_token (record_request (received (exchange_request url cfg out)) s), w)"
proof -
  let ?r = "received (exchange_request url cfg out)"
  have r: "rq_Method ?r = ''POST''" "rq_Path ?r = ''/api/v3/oauth/token''" "rq_RawPath ?r = []"
    using assms(1-3) by (simp_all add: received_def exchange_request_def)
  have f: "fake_Form (replayed ?r) = sort_key fst (token_params cfg out)"
    using exchange_form [OF assms(1,4-7)] by (simp add: fake_Form_def replayed_def)
  have "fake_serve inc ?r (s, w) = handleToken inc (replayed ?r) (record_request ?r s, w)"
    using fake_routes(2) [OF r] r(2) by (simp add: fake_serve_def record_handler_def fake_handler_def)
  then show ?thesis
    using assms(8,9) by (simp add: handleToken_def token_grant_def Let_def f exchange_lookup [OF assms(5)])
qed

lemma fake_exchanges:
  assumes "url_Parse url = Some u" "u_Path u = ''/api/v3/oauth/token''" "u_RawPath u = []" "u_RawQuery u = []"
    and "length (Encode (token_params cfg (grant_params code))) \<le> max_form_size"
    and "fk_realClientID s = cf_StravaClientID cfg" "fk_realClientSecret s = Reveal (cf_StravaClientSecret cfg)"
    and "fk_codes s code = Some False" "athlete_ok s"
  obtains access refresh body s1 where
    "fake_serve inc (received (exchange_request url cfg (grant_params code))) (s, w) = (s1, fake_writeJSON 200 (Some body) w)"
    "marshal_token (token_response (in_Now inc) access refresh (fk_athlete s)) = Some body"
    "fk_codes s1 code = Some True" "fk_refreshTokens s1 refresh = Some True"
proof -
  let ?r = "received (exchange_request url cfg (grant_params code))"
  let ?s = "count_token (record_request ?r s)"
  have "wf_values (grant_params code)" "value_count (grant_params code) \<le> 100"
    by (simp_all add: grant_params_def wf_values_def value_count_def)
  from fake_token [OF assms(1-4) this assms(5-7), of inc w]
  have e: "fake_serve inc ?r (s, w) = exchangeCode inc code (?s, w)"
    by (simp add: token_grant_def grant_params_def values_get_def)
  have c: "fk_codes ?s code = Some False" "athlete_ok ?s"
    using assms(8,9) by (simp_all add: athlete_ok_def)
  obtain access refresh body s1 where x: "exchangeCode inc code (?s, w) = (s1, fake_writeJSON 200 (Some body) w)"
    "marshal_token (token_response (in_Now inc) access refresh (fk_athlete ?s)) = Some body"
    "fk_codes s1 code = Some True" "fk_refreshTokens s1 refresh = Some True"
    by (rule exchange_spends [OF c])
  have "fk_athlete ?s = fk_athlete s" by simp
  from that [OF e [unfolded x(1)] x(2) [unfolded this] x(3,4)] show ?thesis .
qed

section \<open>Back at the proxy\<close>

text \<open>A request that the public mux hands to an OAuth endpoint, and what the endpoint finds when the access
  log and the hardening headers have had their turn.\<close>

definition routed :: "Request \<Rightarrow> endpoint \<Rightarrow> bool" where
  "routed r e \<longleftrightarrow> rq_Path r \<noteq> ''*'' \<and>
     (case findHandler public_mux r of Matched p \<Rightarrow> pt_Handler p = e | _ \<Rightarrow> False)"

definition front :: "Request \<Rightarrow> World \<Rightarrow> World" where
  "front r w =
     (if isOAuthSurface (rq_Path r)
      then respond (\<lambda>rw. set_header HeaderCacheControl CacheControlValue
             (set_header HeaderReferrerPolicy ReferrerPolicyValue rw)) (w\<lparr>w_client_id := Some []\<rparr>)
      else w\<lparr>w_client_id := Some []\<rparr>)"

lemma front_facts [simp]:
  "unsent (front r w) = unsent w" "rw_Sent (w_rw (front r w)) = rw_Sent (w_rw w)"
  "rw_Body (w_rw (front r w)) = rw_Body (w_rw w)" "w_calls (front r w) = w_calls w"
  by (simp_all add: front_def unsent_def HeaderCacheControl_def HeaderReferrerPolicy_def)

lemma public_routed:
  assumes "routed r e" "e \<noteq> EProxy"
  shows "w_rw (publicHandler si r w) = w_rw (serve_endpoint si e r (front r w))"
    "w_calls (publicHandler si r w) = w_calls (serve_endpoint si e r (front r w))"
proof -
  obtain p where p: "findHandler public_mux r = Matched p" "pt_Handler p = e" "rq_Path r \<noteq> ''*''"
    using assms(1) by (auto simp: routed_def split: route.splits)
  then have "\<not> abandons si r" using assms(2) by (simp add: abandons_def)
  moreover have "oauthSurfaceHeaders (mux_serve public_mux si) r (w\<lparr>w_client_id := Some []\<rparr>) = serve_endpoint si e r (front r w)"
    using p by (simp add: oauthSurfaceHeaders_def SecurityHeaders_def mux_serve_matched front_def)
  ultimately show "w_rw (publicHandler si r w) = w_rw (serve_endpoint si e r (front r w))"
    "w_calls (publicHandler si r w) = w_calls (serve_endpoint si e r (front r w))"
    by (simp_all add: publicHandler_def AccessLog_def Let_def)
qed

lemma redirects_routed:
  "routed r e \<Longrightarrow> e \<noteq> EProxy \<Longrightarrow>
   redirects_to (publicHandler si r w) loc = redirects_to (serve_endpoint si e r (front r w)) loc"
  by (simp add: redirects_to_def public_routed)

lemma callback_routed: "routed (browser_get h ''/oauth/callback'' [] q) ECallback"
proof -
  have g: "findHandler public_mux (browser_get [] ''/oauth/callback'' [] []) =
      Matched (parse_pattern ''GET /oauth/callback'' ECallback)" by code_simp
  have "findHandler public_mux (browser_get h ''/oauth/callback'' [] q) =
      Matched (parse_pattern ''GET /oauth/callback'' ECallback)"
    by (rule same_route [OF g]) (simp_all add: browser_get_def)
  then show ?thesis by (simp add: routed_def browser_get_def)
qed

lemma reply_of_json:
  "rw_Sent w = None \<Longrightarrow> rw_Body w = [] \<Longrightarrow> \<exists>h. reply_of (fake_writeJSON 200 (Some body) w) = Reply 200 h body None"
  by (simp add: reply_of_def fake_writeJSON_def)

text \<open>A callback with a code, for an admitted state, hands the client a wrapped code.\<close>

lemma callback_wraps:
  assumes "config_ok (holder_Get holder)" "signable (handler_ring env (holder_Get holder))" "unsent w"
    and "open_state env (holder_Get holder) r = Ok st" "callback_admits (holder_Get holder) r st"
    and "map_of (rq_Query r) ''error'' = None" "map_of (rq_Query r) ''code'' = Some [code]" "code \<noteq> []"
  shows "\<exists>wrapped dst. url_Parse (st_RU st) = Some dst \<and> web_url dst \<and>
    Seal (e_Flate env) (handler_ring env (holder_Get holder)) DomainCode marshal_code
      \<lparr>cp_CID = st_CID st, cp_SC = code, cp_IAT = unix_seconds (e_Now env 1)\<rparr> = Ok wrapped \<and>
    redirects_to (Callback env holder r w) (url_base_string dst @ CHR ''?'' # Encode (code_out r dst st wrapped))"
proof -
  have u: "unsent (SetClientID (st_CID st) w)" using assms(3) by simp
  have p: "snd (firstParam (rq_Query r) ''error'') = False" "fst (firstParam (rq_Query r) ''code'') = code"
    using assms(6,7) by (simp_all add: firstParam_def)
  from callback_admitted_redirects [OF assms(1,2) u assms(5)]
  show ?thesis
    unfolding Callback_opened [OF assms(4)] p if_False if_P [OF assms(8)]
    by (elim exE conjE) (intro exI conjI, assumption+)
qed

text \<open>The exchange at the proxy, for the client the code was sealed for.\<close>

definition client_params :: "Client \<Rightarrow> string \<Rightarrow> string \<Rightarrow> Values" where
  "client_params client secret wrapped =
     [(''client_id'', [cl_ID client]), (''client_secret'', [secret]), (''code'', [wrapped]),
      (''grant_type'', [''authorization_code''])]"

lemma exchange_forwarded:
  assumes "ParseForm r = (client_params client secret wrapped, True)"
    and "config_Client (holder_Get holder) (cl_ID client) = Some client" "VerifySecret client secret"
    and "Open (e_Flate env) (handler_ring env (holder_Get holder)) DomainCode wrapped unmarshal_code
      (cf_StateTTL (holder_Get holder)) (e_Now env 0) = Inr cp" "cp_CID cp = cl_ID client"
    and "strava_target (holder_Get holder) pathToken = Some url"
  shows "Token env holder r w =
    (let req = exchange_request url (holder_Get holder) (grant_params (cp_SC cp));
         res = relay env req ''token'' (SetClientID (cl_ID client) w)
     in inc_exchanges (metrics_key grantAuthorizationCode (exchange_outcome (fst res))) (snd res))"
proof -
  let ?form = "client_params client secret wrapped"
  have g: "values_get ?form ''client_id'' = cl_ID client" "values_get ?form ''client_secret'' = secret"
    "values_get ?form ''code'' = wrapped" "values_get ?form ''grant_type'' = grantAuthorizationCode"
    by (simp_all add: client_params_def values_get_def grantAuthorizationCode_def)
  have c: "token_client (holder_Get holder) ?form client" using assms(2,3) by (simp add: token_client_def g)
  have "filter (\<lambda>kv. \<not> tokenOwnedParams (fst kv)) ?form = grant_params wrapped"
    by (simp add: client_params_def grant_params_def tokenOwnedParams_def)
  moreover have "values_set ''code'' sc (grant_params wrapped) = grant_params sc" for sc
    by (simp add: grant_params_def values_set_def)
  ultimately have "exchange_params env (holder_Get holder) client ?form = Some (grant_params (cp_SC cp))"
    using assms(4,5) by (simp add: exchange_params_def g)
  from Token_forwarded [OF assms(1) c this, of w] token_upstream_call [OF assms(6)]
  show ?thesis by (simp add: g Let_def)
qed

end
