(* ===== verification/Session.thy ===== *)
theory Session imports
  Login
begin

text \<open>
  What follows a login, through the proxy and the fake Strava: a client renews its tokens and revokes
  one.
\<close>

section \<open>Renewing\<close>

text \<open>The form of a refresh and what the proxy sends for it.\<close>

definition refresh_form :: "Client \<Rightarrow> string \<Rightarrow> string \<Rightarrow> Values" where
  "refresh_form client secret token =
     [(''client_id'', [cl_ID client]), (''client_secret'', [secret]), (''grant_type'', [''refresh_token'']),
      (''refresh_token'', [token])]"

definition refresh_params :: "string \<Rightarrow> Values" where
  "refresh_params token = [(''grant_type'', [''refresh_token'']), (''refresh_token'', [token])]"

lemma refresh_params_facts:
  "wf_values (refresh_params token)" "value_count (refresh_params token) \<le> 100"
  "token_grant inc (refresh_params token) sw = refresh_grant inc token sw"
  by (simp_all add: refresh_params_def wf_values_def value_count_def token_grant_def values_get_def)

lemma refresh_forwarded:
  assumes "ParseForm r = (refresh_form client secret token, True)"
    and "config_Client (holder_Get holder) (cl_ID client) = Some client" "VerifySecret client secret"
    and "strava_target (holder_Get holder) pathToken = Some url"
  shows "Token env holder r w =
    (let req = exchange_request url (holder_Get holder) (refresh_params token);
         res = relay env req ''token'' (SetClientID (cl_ID client) w)
     in inc_exchanges (metrics_key grantRefreshToken (exchange_outcome (fst res))) (snd res))"
proof -
  let ?form = "refresh_form client secret token"
  have g: "values_get ?form ''client_id'' = cl_ID client" "values_get ?form ''client_secret'' = secret"
    "values_get ?form ''grant_type'' = grantRefreshToken" "grantRefreshToken \<noteq> grantAuthorizationCode"
    by (simp_all add: refresh_form_def values_get_def grantRefreshToken_def grantAuthorizationCode_def)
  have c: "token_client (holder_Get holder) ?form client" using assms(2,3) by (simp add: token_client_def g)
  have "filter (\<lambda>kv. \<not> tokenOwnedParams (fst kv)) ?form = refresh_params token"
    by (simp add: refresh_form_def refresh_params_def tokenOwnedParams_def)
  then have "exchange_params env (holder_Get holder) client ?form = Some (refresh_params token)"
    using g(4) by (simp add: exchange_params_def g(3))
  from Token_forwarded [OF assms(1) c this, of w] token_upstream_call [OF assms(4)]
  show ?thesis by (simp add: g(3) Let_def)
qed

lemma reply_status: "sent_status rw = Some s \<Longrightarrow> \<exists>h. reply_of rw = Reply s h (rw_Body rw) None"
  by (auto simp: sent_status_def reply_of_def)

text \<open>A renewal through the proxy is answered as Strava answers it.\<close>

lemma renewal_relayed:
  assumes "ParseForm r = (refresh_form client secret token, True)" "token \<noteq> []"
    and "config_Client (holder_Get holder) (cl_ID client) = Some client" "VerifySecret client secret"
    and "strava_target (holder_Get holder) pathToken = Some url"
    and "url_Parse url = Some u" "u_Path u = ''/api/v3/oauth/token''" "u_RawPath u = []" "u_RawQuery u = []"
    and "length (Encode (token_params (holder_Get holder) (refresh_params token))) \<le> max_form_size"
    and "fk_realClientID s = cf_StravaClientID (holder_Get holder)"
    and "fk_realClientSecret s = Reveal (cf_StravaClientSecret (holder_Get holder))"
    and "rw_Sent (w_rw w) = None" "rw_Body (w_rw w) = []"
  shows "sent_status (w_rw (Token (upstream_is inc s env) holder r w)) =
      Some (if fk_refreshTokens s token = Some True then 200 else 400)"
proof -
  let ?req = "exchange_request url (holder_Get holder) (refresh_params token)"
  let ?s = "count_token (record_request (received ?req) s)" and ?e = "upstream_is inc s env"
  let ?c = "if fk_refreshTokens s token = Some True then 200 else 400 :: nat"
  have n: "rw_Sent new_writer = None" by (simp add: new_writer_def)
  have k: "fk_refreshTokens ?s = fk_refreshTokens s" by (simp add: count_token_def record_request_def Let_def)
  have "fake_serve inc (received ?req) (s, new_writer) = refresh_grant inc token (?s, new_writer)"
    using fake_token [OF assms(6-9) refresh_params_facts(1,2) assms(10-12)] by (simp add: refresh_params_facts)
  then have "sent_status (snd (fake_serve inc (received ?req) (s, new_writer))) = Some ?c"
    using refresh_status [OF n assms(2), of inc ?s] by (simp add: k)
  from reply_status [OF this] obtain h b where "e_Upstream ?e ?req = Reply ?c h b None" by (auto simp: upstream_is_def)
  from relay_reply [OF this, of "SetClientID (cl_ID client) w" "''token''"] assms(13,14)
  have "sent_status (w_rw (snd (relay ?e ?req ''token'' (SetClientID (cl_ID client) w)))) = Some ?c"
    by (simp add: sent_status_def informational_def)
  then show ?thesis
    using refresh_forwarded [OF assms(1,3-5), of ?e w] by (simp add: Let_def)
qed

section \<open>Revoking\<close>

lemma revoke_route:
  "rq_Method r = ''POST'' \<Longrightarrow> rq_Path r = ''/oauth/revoke'' \<Longrightarrow> rq_RawPath r = [] \<Longrightarrow>
   findHandler fake_mux r = Matched (parse_pattern ''POST /oauth/revoke'' FRevoke)"
proof -
  have p: "findHandler fake_mux (post_request [] []\<lparr>rq_Path := ''/oauth/revoke''\<rparr>) =
      Matched (parse_pattern ''POST /oauth/revoke'' FRevoke)" by code_simp
  show ?thesis if "rq_Method r = ''POST''" "rq_Path r = ''/oauth/revoke''" "rq_RawPath r = []"
    by (rule same_route [OF p]) (simp_all add: that post_request_def)
qed

text \<open>The request the proxy makes of a client's revocation.\<close>

definition revoke_request :: "Config \<Rightarrow> URL \<Rightarrow> Request \<Rightarrow> OutRequest option" where
  "revoke_request cfg target r =
     map_option (\<lambda>req. req\<lparr>or_Header := header_set ''Authorization''
         (basicAuthHeader (cf_StravaClientID cfg) (Reveal (cf_StravaClientSecret cfg))) (or_Header req)\<rparr>)
       (passthrough_request target r)"

lemma Revoke_sends:
  assumes "revoke_client (holder_Get holder) r client" "upstreamURL (holder_Get holder) pathRevoke = Some target"
    and "revoke_request (holder_Get holder) target r = Some req"
  shows "Revoke env holder r w = snd (relay env req ''revoke'' (SetClientID (cl_ID client) w))"
  using assms(3) by (auto simp: Revoke_accepted [OF assms(1)] revoke_upstream_def assms(2) revoke_request_def Let_def)

lemma revoke_received:
  assumes "url_Parse (url_String (target\<lparr>u_RawQuery := []\<rparr>)) = Some u"
    and "u_Path u = ''/oauth/revoke''" "u_RawPath u = []" "u_RawQuery u = []"
    and "rq_Method r = ''POST''" "rq_RawQuery r = []" "CHR '':'' \<notin> set (cf_StravaClientID cfg)"
  obtains req where "revoke_request cfg target r = Some req"
    "rq_Method (received req) = ''POST''" "rq_Path (received req) = ''/oauth/revoke''" "rq_RawPath (received req) = []"
    "BasicAuth (received req) = Some (cf_StravaClientID cfg, Reveal (cf_StravaClientSecret cfg))"
    "fake_Form (received req) = fake_Form r"
    "header_get (rq_Header (received req)) ''Authorization'' =
       basicAuthHeader (cf_StravaClientID cfg) (Reveal (cf_StravaClientSecret cfg))"
proof -
  obtain q where q: "passthrough_request target r = Some q"
    using assms(1,6) by (auto simp: passthrough_request_def new_request_def)
  note p = passthrough_request_Some [OF q]
  let ?req = "q\<lparr>or_Header := header_set ''Authorization''
    (basicAuthHeader (cf_StravaClientID cfg) (Reveal (cf_StravaClientSecret cfg))) (or_Header q)\<rparr>"
  have h: "header_get (rq_Header (received ?req)) ''Authorization'' =
      ''Basic '' @ std_encode (cf_StravaClientID cfg @ CHR '':'' # Reveal (cf_StravaClientSecret cfg))"
    by (simp add: received_def basicAuthHeader_def values_get_def Let_def)
  have c: "header_get (rq_Header (received ?req)) ''Content-Type'' = header_get (rq_Header r) ''Content-Type''"
    by (simp add: received_def values_get_def [of _ "''Content-Type''"] p(6) passthroughHeaders_def Let_def
        split: option.split list.split)
  have "fake_Form (received ?req) = fake_Form r"
    using assms(1,4-6) c
    by (simp add: fake_Form_def replayed_def ParseForm_def parse_post_form_def received_def p Let_def)
  then show ?thesis
    using that [of ?req] basic_auth_header [OF h assms(7)] h assms(1-3,6)
    by (simp add: revoke_request_def q received_def p basicAuthHeader_def Let_def)
qed

text \<open>A client's revocation takes the token away.\<close>

lemma revocation_relayed:
  assumes "revoke_client (holder_Get holder) r client" "upstreamURL (holder_Get holder) pathRevoke = Some target"
    and "url_Parse (url_String (target\<lparr>u_RawQuery := []\<rparr>)) = Some u"
    and "u_Path u = ''/oauth/revoke''" "u_RawPath u = []" "u_RawQuery u = []"
    and "rq_Method r = ''POST''" "rq_RawQuery r = []" "CHR '':'' \<notin> set (cf_StravaClientID (holder_Get holder))"
    and "values_get (fake_Form r) ''token'' = token" "token \<noteq> []"
    and "fk_realClientID s = cf_StravaClientID (holder_Get holder)"
    and "fk_realClientSecret s = Reveal (cf_StravaClientSecret (holder_Get holder))"
    and "rw_Sent (w_rw w) = None" "rw_Body (w_rw w) = []"
  obtains req where "w_calls (Revoke (upstream_is inc s env) holder r w) = w_calls w @ [req]"
    "sent_status (w_rw (Revoke (upstream_is inc s env) holder r w)) = Some 200"
    "fst (fake_serve inc (received req) (s, new_writer)) = drop_token token (record_request (received req) s)"
    "LastAuthHeader (fst (fake_serve inc (received req) (s, new_writer))) =
       basicAuthHeader (cf_StravaClientID (holder_Get holder)) (Reveal (cf_StravaClientSecret (holder_Get holder)))"
proof -
  let ?e = "upstream_is inc s env"
  obtain req where q: "revoke_request (holder_Get holder) target r = Some req"
    and r: "rq_Method (received req) = ''POST''" "rq_Path (received req) = ''/oauth/revoke''" "rq_RawPath (received req) = []"
    and b: "BasicAuth (received req) = Some (cf_StravaClientID (holder_Get holder), Reveal (cf_StravaClientSecret (holder_Get holder)))"
    and f: "fake_Form (received req) = fake_Form r"
    and h: "header_get (rq_Header (received req)) ''Authorization'' =
      basicAuthHeader (cf_StravaClientID (holder_Get holder)) (Reveal (cf_StravaClientSecret (holder_Get holder)))"
    by (rule revoke_received [OF assms(3-9)])
  have b': "BasicAuth (replayed (received req)) = BasicAuth (received req)" by (simp add: BasicAuth_def replayed_def)
  have f': "fake_Form (replayed (received req)) = fake_Form r" using f by (simp add: fake_Form_def replayed_def)
  have s: "fake_serve inc (received req) (s, new_writer) =
      (drop_token token (record_request (received req) s), WriteHeader 200 new_writer)"
    using revoke_route [OF r] r(2) assms(10-13)
    by (simp add: fake_serve_def record_handler_def fake_handler_def handleRevoke_def f' b b' answer_def Let_def)
  then obtain h where "e_Upstream ?e req = Reply 200 h [] None"
    by (auto simp: upstream_is_def reply_of_def new_writer_def informational_def)
  from relay_reply [OF this, of "SetClientID (cl_ID client) w" "''revoke''"] assms(14,15)
  have "sent_status (w_rw (Revoke ?e holder r w)) = Some 200"
    by (simp add: Revoke_sends [OF assms(1,2) q] sent_status_def informational_def)
  moreover have "w_calls (Revoke ?e holder r w) = w_calls w @ [req]"
    by (simp add: Revoke_sends [OF assms(1,2) q] relay_calls)
  moreover have "rq_Path (received req) \<noteq> ''*''" by (simp add: r(2))
  from fake_accounts(4) [OF this revoke_route [OF r] refl, of inc s new_writer]
  have "LastAuthHeader (fst (fake_serve inc (received req) (s, new_writer))) =
      basicAuthHeader (cf_StravaClientID (holder_Get holder)) (Reveal (cf_StravaClientSecret (holder_Get holder)))"
    unfolding h by (simp add: basicAuthHeader_def)
  ultimately show ?thesis using that s by simp
qed

end
