(* ===== verification/LoginProps.thy ===== *)
theory LoginProps imports
  Login
  RoutesProps
begin

text \<open>The property of the whole flow: a login through the proxy completes.\<close>

section \<open>The legs of the flow\<close>

definition fresh_at :: "duration \<Rightarrow> instant \<Rightarrow> instant \<Rightarrow> bool" where
  "fresh_at ttl t t' \<longleftrightarrow> int64_ok (unix_seconds t) \<and> iat_window (time_unix (unix_seconds t)) ttl t' = Inr ()"

lemma env_at [simp]:
  "handler_ring (env\<lparr>e_Now := t\<rparr>) cfg = handler_ring env cfg" "handler_ring (upstream_is inc s env) cfg = handler_ring env cfg"
  "e_Flate (upstream_is inc s env) = e_Flate env" "e_Now (upstream_is inc s env) = e_Now env"
  by (simp_all add: handler_ring_def upstream_is_def)

lemma count_authorize_params: "value_count (authorize_params cfg q tok) \<le> value_count q + 3"
  using value_count_filter [of "\<lambda>kv. \<not> authorizeOwnedParams (fst kv)" q]
    value_count_set [of "''client_id''" "cf_StravaClientID cfg" "filter (\<lambda>kv. \<not> authorizeOwnedParams (fst kv)) q"]
    value_count_set [of "''redirect_uri''" "CallbackURL cfg"
      "values_set ''client_id'' (cf_StravaClientID cfg) (filter (\<lambda>kv. \<not> authorizeOwnedParams (fst kv)) q)"]
    value_count_set [of "''state''" tok "values_set ''redirect_uri'' (CallbackURL cfg)
      (values_set ''client_id'' (cf_StravaClientID cfg) (filter (\<lambda>kv. \<not> authorizeOwnedParams (fst kv)) q))"]
  by (simp add: authorize_params_def)

lemma count_code_out: "value_count (code_out r dst st wrapped) \<le> value_count (url_Query dst) + 3"
proof -
  have c: "value_count (copy_params q [k] out) \<le> value_count out + 1" for q k out
    using value_count_set [of k "fst (firstParam q k)" out] by (simp add: copy_params_def case_prod_beta)
  show ?thesis
    using value_count_set [of "''code''" wrapped "url_Query dst"]
      c [of "rq_Query r" "''scope''" "values_set ''code'' wrapped (url_Query dst)"]
      value_count_set [of "''state''" "st_ST st" "copy_params (rq_Query r) [''scope''] (values_set ''code'' wrapped (url_Query dst))"]
    by (simp add: code_out_def with_state_def)
qed

text \<open>A minted code is ASCII, so it travels through the JSON of the payload unchanged.\<close>

lemma code_ascii: "valid_utf8 (fst (mint_code rnd s))" "fst (mint_code rnd s) \<noteq> []"
proof -
  have r: "list_all (\<lambda>c. byte c < 128) (randomSuffix rnd)"
  proof (cases rnd)
    case None
    then show ?thesis by (simp add: randomSuffix_def)
  next
    case (Some b)
    have "list_all rawurl_alphabet (rawurl_encode (take 9 b))" by (rule rawurl.enc_alphabet)
    then have "list_all (\<lambda>c. byte c < 128) (rawurl_encode (take 9 b))"
      by (rule list.pred_mono_strong) (auto simp: b64_alphabet_def byte_class)
    then show ?thesis by (simp add: Some randomSuffix_def)
  qed
  have "list_all is_digit (itoa_int (int n))" for n
    using itoa_digits [of "int n"] by (simp add: itoa_int_def)
  then have "list_all (\<lambda>c. byte c < 128) (itoa_int (int n))" for n
    by (rule list.pred_mono_strong) (simp add: is_digit_byte)
  with r show "valid_utf8 (fst (mint_code rnd s))"
    by (intro valid_utf8_ascii) (simp add: mint_code_def Let_def del: of_nat_Suc of_nat_add)
  show "fst (mint_code rnd s) \<noteq> []" by (simp add: mint_code_def Let_def)
qed

lemma admitted_client:
  assumes "config_ok cfg" "authorize_admits cfg r client"
  shows "config_Client cfg (cl_ID client) = Some client"
proof -
  have c: "config_Client cfg (fst (firstParam (rq_Query r) ''client_id'')) = Some client"
    using assms(2) by (simp add: authorize_admits_def)
  then have "client_ok (fst (firstParam (rq_Query r) ''client_id''), client)"
    using assms(1) registry_lookup by (auto simp: config_ok_def config_Client_def)
  with c show ?thesis by (simp add: client_ok_def)
qed

text \<open>What a reload has to keep for logins that are under way: the new ring still knows the key that
  signed, and signs itself.\<close>

definition keeps_key :: "Ring \<Rightarrow> Ring \<Rightarrow> bool" where
  "keeps_key r r' \<longleftrightarrow> signable r' \<and> ring_key r' (KID (hd r)) = Some (KeyBytes (hd r))"

lemma keeps_key_refl: "signable r \<Longrightarrow> keeps_key r r"
  by (simp add: keeps_key_def ring_key_hd)

text \<open>The callback opens the state that the authorize endpoint sealed, and admits the client as it is
  registered now.\<close>

lemma callback_accepts:
  assumes "flate_lossless (e_Flate env)" "keeps_key (handler_ring env cfg) (handler_ring env cfg')"
    and "config_Client cfg' (cl_ID client) = Some client'" "st_RU st \<in> set (cl_RedirectURIs client')"
    and "cl_RequireNonceCookie client' \<longrightarrow> cl_RequireNonceCookie client"
    and "st = state_payload_for (env\<lparr>e_Now := t1\<rparr>) r client (nonce_for client rnd)"
    and "state_fits st" "clean_state st = st" "fresh_at (cf_StateTTL cfg') (t1 0) (t2 0)"
    and "Seal (e_Flate env) (handler_ring env cfg) DomainState marshal_state st = Ok tok"
    and "map_of (rq_Query rc) ''state'' = Some [tok]" "rnd \<noteq> []"
    and "cl_RequireNonceCookie client' \<longrightarrow> read_cookie (rq_Header rc) NonceCookieName = Some (rawurl_encode (take 32 rnd))"
  shows "open_state (env\<lparr>e_Now := t2\<rparr>) cfg' rc = Ok st" "callback_admits cfg' rc st"
proof -
  have iat: "st_IAT st = unix_seconds (t1 0)" using assms(6) by (simp add: state_payload_for_def)
  have i: "int64_ok (st_IAT st)" and w: "iat_window (time_unix (st_IAT st)) (cf_StateTTL cfg') (t2 0) = Ok ()"
    using assms(9) by (simp_all add: fresh_at_def iat)
  have k: "ring_key (handler_ring env cfg') (KID (hd (handler_ring env cfg))) = Some (KeyBytes (hd (handler_ring env cfg)))"
    using assms(2) by (simp add: keeps_key_def)
  have "Open (e_Flate env) (handler_ring env cfg') DomainState tok unmarshal_state (cf_StateTTL cfg') (t2 0) = Ok st"
    using state_round [OF assms(1) i assms(7,10) k, of "cf_StateTTL cfg'" "t2 0"] w assms(8) by simp
  then show "open_state (env\<lparr>e_Now := t2\<rparr>) cfg' rc = Ok st"
    using assms(11) by (simp add: firstParam_def)
  have "nonce_matches st rc" if "cl_RequireNonceCookie client'"
  proof -
    have "length (rawurl_encode (take 32 rnd)) > 0"
      using assms(12) by (cases rnd) (simp_all add: length_rawurl)
    then have "rawurl_encode (take 32 rnd) \<noteq> []" by (rule length_greater_0_conv [THEN iffD1])
    with that assms(5,6,13) show ?thesis by (simp add: nonce_matches_def state_payload_for_def)
  qed
  then show "callback_admits cfg' rc st"
    using assms(3,4,6) by (simp add: callback_admits_def state_payload_for_def)
qed

text \<open>The exchange at the proxy, answered by the fake that minted the code.\<close>

lemma exchange_url: "or_URL (exchange_request url cfg out) = url"
  by (simp add: exchange_request_def)

lemma exchange_completes:
  assumes "config_ok (holder_Get holder)" "ParseForm r = (client_params client secret wrapped, True)"
    and "config_Client (holder_Get holder) (cl_ID client) = Some client" "VerifySecret client secret"
    and "Open (e_Flate env) (handler_ring env (holder_Get holder)) DomainCode wrapped unmarshal_code
      (cf_StateTTL (holder_Get holder)) (e_Now env 0) = Inr cp" "cp_CID cp = cl_ID client" "cp_SC cp = code"
    and "strava_target (holder_Get holder) pathToken = Some url"
    and "url_Parse url = Some u" "u_Path u = ''/api/v3/oauth/token''" "u_RawPath u = []" "u_RawQuery u = []"
    and "length (Encode (token_params (holder_Get holder) (grant_params code))) \<le> max_form_size"
    and "fk_realClientID s = cf_StravaClientID (holder_Get holder)"
    and "fk_realClientSecret s = Reveal (cf_StravaClientSecret (holder_Get holder))"
    and "fk_codes s code = Some False" "athlete_ok s" "rw_Sent (w_rw w) = None" "rw_Body (w_rw w) = []"
  shows "\<exists>req access refresh body. w_calls (Token (upstream_is inc s env) holder r w) = w_calls w @ [req] \<and>
    sent_status (w_rw (Token (upstream_is inc s env) holder r w)) = Some 200 \<and>
    rw_Body (w_rw (Token (upstream_is inc s env) holder r w)) = body \<and>
    marshal_token (token_response (in_Now inc) access refresh (fk_athlete s)) = Some body \<and>
    fk_codes (fst (fake_serve inc (received req) (s, new_writer))) code = Some True \<and>
    fk_refreshTokens (fst (fake_serve inc (received req) (s, new_writer))) refresh = Some True \<and>
    TokenRequests (fst (fake_serve inc (received req) (s, new_writer))) = TokenRequests s + 1 \<and> or_URL req = url"
proof -
  let ?req = "exchange_request url (holder_Get holder) (grant_params code)"
  let ?env = "upstream_is inc s env"
  obtain access refresh body s1 where f:
    "fake_serve inc (received ?req) (s, new_writer) = (s1, fake_writeJSON 200 (Some body) new_writer)"
    "marshal_token (token_response (in_Now inc) access refresh (fk_athlete s)) = Some body"
    "fk_codes s1 code = Some True" "fk_refreshTokens s1 refresh = Some True"
    by (rule fake_exchanges [OF assms(9-17)])
  have n: "rw_Sent new_writer = None" "rw_Body new_writer = []" by (simp_all add: new_writer_def)
  obtain h where "e_Upstream ?env ?req = Reply 200 h body None"
    using reply_of_json [OF n, of body] f(1) by (auto simp: upstream_is_def)
  from relay_reply [OF this, of "SetClientID (cl_ID client) w" "''token''"] assms(18,19)
  have r: "sent_status (w_rw (snd (relay ?env ?req ''token'' (SetClientID (cl_ID client) w)))) = Some 200"
    "rw_Body (w_rw (snd (relay ?env ?req ''token'' (SetClientID (cl_ID client) w)))) = body"
    by (simp_all add: sent_status_def)
  have t: "Token ?env holder r w =
    inc_exchanges (metrics_key grantAuthorizationCode (exchange_outcome (fst (relay ?env ?req ''token'' (SetClientID (cl_ID client) w)))))
      (snd (relay ?env ?req ''token'' (SetClientID (cl_ID client) w)))"
    using exchange_forwarded [OF assms(2-4), of ?env cp url w] assms(5-8) by (simp add: Let_def)
  show ?thesis
    by (rule exI [of _ ?req], rule exI [of _ access], rule exI [of _ refresh], rule exI [of _ body])
      (use token_counted [OF assms(9-11), of inc "holder_Get holder" "grant_params code" s new_writer]
        in \<open>simp add: t r f relay_calls exchange_url\<close>)
qed

text \<open>The proxy's callback is a plain web address, its token call reaches Strava's token path, and
  Strava knows the proxy's application and grants.\<close>

definition deployed :: "Config \<Rightarrow> FakeServer \<Rightarrow> bool" where
  "deployed cfg s \<longleftrightarrow>
     (case url_Parse (CallbackURL cfg) of None \<Rightarrow> False | Some cb \<Rightarrow> web_url cb \<and> u_RawQuery cb = []) \<and>
     (case Option.bind (strava_target cfg pathToken) url_Parse of None \<Rightarrow> False
      | Some u \<Rightarrow> u_Path u = ''/api/v3/oauth/token'' \<and> u_RawPath u = [] \<and> u_RawQuery u = []) \<and>
     fk_realClientID s = cf_StravaClientID cfg \<and> fk_realClientSecret s = Reveal (cf_StravaClientSecret cfg) \<and>
     fk_authorizeError s = [] \<and> athlete_ok s"

text \<open>The same through the public handler, after the consent step has minted the code.\<close>

lemma minted_exchange:
  assumes "routed r EToken" "config_ok (holder_Get holder)" "ParseForm r = (client_params client secret wrapped, True)"
    and "config_Client (holder_Get holder) (cl_ID client) = Some client" "VerifySecret client secret"
    and "Open (e_Flate env) (handler_ring env (holder_Get holder)) DomainCode wrapped unmarshal_code
      (cf_StateTTL (holder_Get holder)) (e_Now env 0) = Inr cp" "cp_CID cp = cl_ID client" "cp_SC cp = code"
    and "deployed (holder_Get holder) s" "code = fst (mint_code rnd s)"
    and "s2 = snd (mint_code rnd (record_request r2 s))"
    and "length (Encode (token_params (holder_Get holder) (grant_params code))) \<le> max_form_size"
    and "rw_Sent (w_rw w) = None" "rw_Body (w_rw w) = []"
  shows "\<exists>w4 req access refresh body.
    w4 = publicHandler (si\<lparr>si_Env := upstream_is inc s2 env, si_Holder := holder\<rparr>) r w \<and>
    w_calls w4 = w_calls w @ [req] \<and> strava_target (holder_Get holder) ''/api/v3/oauth/token'' = Some (or_URL req) \<and>
    sent_status (w_rw w4) = Some 200 \<and> rw_Body (w_rw w4) = body \<and>
    marshal_token (token_response (in_Now inc) access refresh (fk_athlete s)) = Some body \<and>
    fk_codes (fst (fake_serve inc (received req) (s2, new_writer))) code = Some True \<and>
    fk_refreshTokens (fst (fake_serve inc (received req) (s2, new_writer))) refresh = Some True \<and>
    TokenRequests (fst (fake_serve inc (received req) (s2, new_writer))) = TokenRequests s + 1"
proof -
  let ?cfg = "holder_Get holder"
  obtain url u where tg: "strava_target ?cfg pathToken = Some url" "url_Parse url = Some u"
    "u_Path u = ''/api/v3/oauth/token''" "u_RawPath u = []" "u_RawQuery u = []"
    using assms(9) by (auto simp: deployed_def Option.bind_eq_Some_conv split: option.splits)
  have s2f: "fk_realClientID s2 = cf_StravaClientID ?cfg" "fk_realClientSecret s2 = Reveal (cf_StravaClientSecret ?cfg)"
    "fk_codes s2 code = Some False" "athlete_ok s2" "fk_athlete s2 = fk_athlete s"
    using assms(9) mint_facts(2) [of rnd "record_request r2 s"]
    unfolding assms(10,11) mint_facts
    by (simp_all add: deployed_def mint_facts athlete_ok_def section_athlete(3))
  have s2c: "TokenRequests s2 = TokenRequests s"
    unfolding assms(11) by (simp add: TokenRequests_def mint_code_def record_request_def Let_def)
  have f: "rw_Sent (w_rw (front r w)) = None" "rw_Body (w_rw (front r w)) = []" using assms(13,14) by simp_all
  show ?thesis
    using exchange_completes [OF assms(2-8) tg assms(12) s2f(1-4) f, of inc] s2f(5) s2c
      tg(1) public_routed [OF assms(1)]
    by (auto simp: serve_endpoint_def pathToken_def)
qed

section \<open>The flow\<close>

text \<open>The addresses of a deployment: both base URLs are a scheme and a host.\<close>

definition plain_addresses :: "Config \<Rightarrow> bool" where
  "plain_addresses cfg \<longleftrightarrow> plain_base (cf_PublicURL cfg) \<and> plain_base (cf_UpstreamBaseURL cfg)"

lemma oauth_paths: "plain_path (CHR ''/'' # ''oauth/authorize'')" "plain_path (CHR ''/'' # ''oauth/callback'')"
  by code_simp+

text \<open>The first two legs: from the client's link to Strava's answer.\<close>

lemma login_to_consent:
  assumes "config_ok (holder_Get holder)" "signable (handler_ring env (holder_Get holder))" "deployed (holder_Get holder) s"
    and "plain_addresses (holder_Get holder)"
    and "e_Rand env = Some rnd" "authorize_admits (holder_Get holder) r1 client" "unsent w1"
    and "value_count (rq_Query r1) + 3 \<le> 10000"
  obtains tok q1 site r2 out where
    "redirects_to (Authorize env holder r1 w1) (cf_UpstreamBaseURL (holder_Get holder) @ ''/oauth/authorize?'' @ q1)"
    "follow [] (cf_UpstreamBaseURL (holder_Get holder) @ ''/oauth/authorize?'' @ q1) = Some (site, r2)"
    "origin (cf_UpstreamBaseURL (holder_Get holder)) = Some site"
    "Seal (e_Flate env) (handler_ring env (holder_Get holder)) DomainState marshal_state
       (state_payload_for env r1 client (nonce_for client rnd)) = Ok tok"
    "fst (fake_serve inc r2 (s, new_writer)) = snd (mint_code (in_Rand inc 0) (record_request r2 s))"
    "location (snd (fake_serve inc r2 (s, new_writer))) =
       Some (cf_PublicURL (holder_Get holder) @ ''/oauth/callback?'' @ Encode out)"
    "wf_values out" "value_count out \<le> 10000" "map_of out ''state'' = Some [tok]"
    "map_of out ''code'' = Some [fst (mint_code (in_Rand inc 0) s)]" "map_of out ''error'' = None"
proof -
  let ?cfg = "holder_Get holder"
  have pub: "plain_base (cf_PublicURL ?cfg)" and up: "plain_base (cf_UpstreamBaseURL ?cfg)"
    using assms(4) by (simp_all add: plain_addresses_def)
  obtain tok base where t: "Seal (e_Flate env) (handler_ring env ?cfg) DomainState marshal_state
      (state_payload_for env r1 client (nonce_for client rnd)) = Ok tok"
      "url_Parse (cf_UpstreamBaseURL ?cfg) = Some base"
    and a: "redirects_to (Authorize env holder r1 w1)
      (url_base_string (JoinPath base pathAuthorize) @ CHR ''?'' # Encode (authorize_params ?cfg (rq_Query r1) tok))"
    using authorize_sends [OF assms(1,2,5,7,6), of pathAuthorize] unfolding Authorize_def by blast
  let ?out = "authorize_params ?cfg (rq_Query r1) tok"
  let ?r = "browser_get [] ''/oauth/authorize'' [] (Encode ?out)"
  have b: "url_base_string (JoinPath base pathAuthorize) @ CHR ''?'' # Encode ?out =
      cf_UpstreamBaseURL ?cfg @ ''/oauth/authorize?'' @ Encode ?out"
    using plain_authorize [OF up t(2)] by (simp add: pathAuthorize_def)
  have st: "map_of ?out ''state'' = Some [tok]" by (rule authorize_params_lookup(3))
  obtain site where f: "origin (cf_UpstreamBaseURL ?cfg) = Some site"
    "follow [] (cf_UpstreamBaseURL ?cfg @ ''/oauth/authorize?'' @ Encode ?out) = Some (site, ?r)"
    using follow_below [OF up oauth_paths(1) Encode_not_Nil [OF value_count_pos [OF st]], of "[]"] by auto
  have "wf_values ?out" by (simp add: authorize_params_wf rq_Query_def)
  moreover have "value_count ?out \<le> 10000"
    using count_authorize_params [of ?cfg "rq_Query r1" tok] assms(8) by simp
  ultimately have q: "map_of (rq_Query ?r) k = map_of ?out k" for k by (rule query_get)
  obtain s0 host where cb: "url_Parse (CallbackURL ?cfg) = Some (plain_url s0 host ''/oauth/callback'')"
    "s0 \<in> {''http'', ''https''}"
    and cs: "url_base_string (plain_url s0 host ''/oauth/callback'') = cf_PublicURL ?cfg @ ''/oauth/callback''"
    using plain_below [OF pub oauth_paths(2)] unfolding CallbackURL_def by metis
  have w: "web_url (plain_url s0 host ''/oauth/callback'')" "u_RawQuery (plain_url s0 host ''/oauth/callback'') = []"
    using cb(2) by (simp_all add: web_url_def)
  have i: "map_of (rq_Query ?r) ''client_id'' = Some [fk_realClientID s]"
    using assms(3) by (simp add: q authorize_params_lookup deployed_def)
  have ru: "map_of (rq_Query ?r) ''redirect_uri'' = Some [CallbackURL ?cfg]" and st': "map_of (rq_Query ?r) ''state'' = Some [tok]"
    by (simp_all add: q authorize_params_lookup)
  have e: "fk_authorizeError s = []" using assms(3) by (simp add: deployed_def)
  note g = fake_grants [OF refl i ru st' cb(1) w e, of inc]
  note c = consent_out_facts [of s "rq_Query ?r" tok "fst (mint_code (in_Rand inc 0) s)"]
  have "value_count (consent_out s (rq_Query ?r) tok (fst (mint_code (in_Rand inc 0) s))) \<le> 10000"
    using c(2) by simp
  moreover have "location (snd (fake_serve inc ?r (s, new_writer))) = Some (cf_PublicURL ?cfg @ ''/oauth/callback?'' @
      Encode (consent_out s (rq_Query ?r) tok (fst (mint_code (in_Rand inc 0) s))))"
    using g(2) by (simp add: cs)
  ultimately show ?thesis using that [OF a [unfolded b] f(2,1) t(1) g(1) _ c(1) _ c(3-5)] by blast
qed

text \<open>All three redirects: the client receives its own state, and a code that opens to the one Strava
  minted. The configuration may be another one at every request.\<close>

lemma login_to_client:
  assumes "config_ok (holder_Get h1)" "config_ok (holder_Get h2)" "flate_lossless (e_Flate env)"
    and "signable (handler_ring env (holder_Get h1))"
    and "keeps_key (handler_ring env (holder_Get h1)) (handler_ring env (holder_Get h2))"
    and "keeps_key (handler_ring env (holder_Get h2)) (handler_ring env (holder_Get h3))"
    and "deployed (holder_Get h1) s" "plain_addresses (holder_Get h1)"
    and "e_Rand env = Some rnd" "rnd \<noteq> []" "authorize_admits (holder_Get h1) r1 client"
    and "st = state_payload_for (env\<lparr>e_Now := t1\<rparr>) r1 client (nonce_for client rnd)" "state_fits st" "clean_state st = st"
    and "code = fst (mint_code (in_Rand inc1 0) s)" "code_fits \<lparr>cp_CID = cl_ID client, cp_SC = code, cp_IAT = 0\<rparr>"
    and "value_count (rq_Query r1) + 3 \<le> 10000" "url_Parse (st_RU st) = Some dst" "value_count (url_Query dst) + 3 \<le> 10000"
    and "fresh_at (cf_StateTTL (holder_Get h2)) (t1 0) (t2 0)" "fresh_at (cf_StateTTL (holder_Get h3)) (t2 1) (t3 0)"
    and "config_Client (holder_Get h2) (cl_ID client) = Some client2" "st_RU st \<in> set (cl_RedirectURIs client2)"
    and "cl_RequireNonceCookie client2 \<longrightarrow> cl_RequireNonceCookie client"
    and "cl_RequireNonceCookie client2 \<longrightarrow> read_cookie cookies NonceCookieName = Some (rawurl_encode (take 32 rnd))"
    and "unsent w1"
  obtains q1 site1 r2 q2 site2 r3 out wrapped where
    "redirects_to (Authorize (env\<lparr>e_Now := t1\<rparr>) h1 r1 w1) (cf_UpstreamBaseURL (holder_Get h1) @ ''/oauth/authorize?'' @ q1)"
    "follow [] (cf_UpstreamBaseURL (holder_Get h1) @ ''/oauth/authorize?'' @ q1) = Some (site1, r2)"
    "origin (cf_UpstreamBaseURL (holder_Get h1)) = Some site1"
    "fst (fake_serve inc1 r2 (s, new_writer)) = snd (mint_code (in_Rand inc1 0) (record_request r2 s))"
    "location (snd (fake_serve inc1 r2 (s, new_writer))) = Some (cf_PublicURL (holder_Get h1) @ ''/oauth/callback?'' @ q2)"
    "follow cookies (cf_PublicURL (holder_Get h1) @ ''/oauth/callback?'' @ q2) = Some (site2, r3)"
    "origin (cf_PublicURL (holder_Get h1)) = Some site2" "routed r3 ECallback"
    "\<forall>w2. unsent w2 \<longrightarrow>
       redirects_to (Callback (env\<lparr>e_Now := t2\<rparr>) h2 r3 w2) (url_base_string dst @ CHR ''?'' # Encode out)"
    "ParseQuery (Encode out) = (sort_key fst out, True)" "map_of out ''code'' = Some [wrapped]"
    "st_HasST st \<longrightarrow> map_of out ''state'' = Some [st_ST st]"
    "\<forall>k. k \<notin> {''code'', ''scope'', ''state''} \<longrightarrow> map_of out k = map_of (url_Query dst) k"
    "Open (e_Flate env) (handler_ring env (holder_Get h3)) DomainCode wrapped unmarshal_code
       (cf_StateTTL (holder_Get h3)) (t3 0) = Inr \<lparr>cp_CID = cl_ID client, cp_SC = code, cp_IAT = unix_seconds (t2 1)\<rparr>"
proof -
  let ?c1 = "holder_Get h1" and ?c2 = "holder_Get h2" and ?c3 = "holder_Get h3"
  let ?e1 = "env\<lparr>e_Now := t1\<rparr>" and ?e2 = "env\<lparr>e_Now := t2\<rparr>"
  have e1: "signable (handler_ring ?e1 ?c1)" "e_Rand ?e1 = Some rnd" and e2: "signable (handler_ring ?e2 ?c2)"
    using assms(4,5,9) by (simp_all add: keeps_key_def)
  obtain tok q1 site1 r2 out1 where
        l1: "redirects_to (Authorize ?e1 h1 r1 w1) (cf_UpstreamBaseURL ?c1 @ ''/oauth/authorize?'' @ q1)"
    and f1: "follow [] (cf_UpstreamBaseURL ?c1 @ ''/oauth/authorize?'' @ q1) = Some (site1, r2)"
      "origin (cf_UpstreamBaseURL ?c1) = Some site1"
    and tok: "Seal (e_Flate ?e1) (handler_ring ?e1 ?c1) DomainState marshal_state
       (state_payload_for ?e1 r1 client (nonce_for client rnd)) = Ok tok"
    and s2: "fst (fake_serve inc1 r2 (s, new_writer)) = snd (mint_code (in_Rand inc1 0) (record_request r2 s))"
    and l2: "location (snd (fake_serve inc1 r2 (s, new_writer))) = Some (cf_PublicURL ?c1 @ ''/oauth/callback?'' @ Encode out1)"
    and wf: "wf_values out1" "value_count out1 \<le> 10000"
    and out1: "map_of out1 ''state'' = Some [tok]" "map_of out1 ''code'' = Some [code]" "map_of out1 ''error'' = None"
    by (rule login_to_consent [OF assms(1) e1(1) assms(7,8) e1(2) assms(11,26,17), where inc = inc1, folded assms(15)])
  let ?r3 = "browser_get cookies ''/oauth/callback'' [] (Encode out1)"
  have "plain_base (cf_PublicURL ?c1)" using assms(8) by (simp add: plain_addresses_def)
  from follow_below [OF this oauth_paths(2) Encode_not_Nil [OF value_count_pos [OF out1(1)]], of cookies]
  obtain site2 where f2: "follow cookies (cf_PublicURL ?c1 @ ''/oauth/callback?'' @ Encode out1) = Some (site2, ?r3)"
    "origin (cf_PublicURL ?c1) = Some site2" by auto
  have q: "map_of (rq_Query ?r3) k = map_of out1 k" for k by (rule query_get [OF wf])
  have h: "rq_Header ?r3 = cookies" by (simp add: browser_get_def)
  have tok': "Seal (e_Flate env) (handler_ring env ?c1) DomainState marshal_state st = Ok tok"
    and ck: "cl_RequireNonceCookie client2 \<longrightarrow>
      read_cookie (rq_Header ?r3) NonceCookieName = Some (rawurl_encode (take 32 rnd))"
    and t: "map_of (rq_Query ?r3) ''state'' = Some [tok]" "map_of (rq_Query ?r3) ''error'' = None"
      "map_of (rq_Query ?r3) ''code'' = Some [code]"
    using tok assms(12,25) by (simp_all add: h q out1)
  note adm = callback_accepts [where ?t1.0 = t1 and ?t2.0 = t2, OF assms(3,5,22,23,24,12,13,14,20) tok' t(1) assms(10) ck]
  have cid: "st_CID st = cl_ID client" using assms(12) by (simp add: state_payload_for_def)
  have ne: "code \<noteq> []" "valid_utf8 code" using code_ascii assms(15) by simp_all
  let ?cp = "\<lparr>cp_CID = cl_ID client, cp_SC = code, cp_IAT = unix_seconds (t2 1)\<rparr>"
  have cw: "\<exists>wrapped. Seal (e_Flate env) (handler_ring env ?c2) DomainCode marshal_code ?cp = Ok wrapped \<and>
      redirects_to (Callback ?e2 h2 ?r3 w) (url_base_string dst @ CHR ''?'' # Encode (code_out ?r3 dst st wrapped))"
    if "unsent w" for w
    using callback_wraps [OF assms(2) e2 that adm t(2,3) ne(1)] assms(18) by (auto simp: cid)
  then obtain wrapped where wr: "Seal (e_Flate env) (handler_ring env ?c2) DomainCode marshal_code ?cp = Ok wrapped"
    using new_world_unsent(1) by blast
  with cw have l3: "\<forall>w. unsent w \<longrightarrow>
      redirects_to (Callback ?e2 h2 ?r3 w) (url_base_string dst @ CHR ''?'' # Encode (code_out ?r3 dst st wrapped))"
    by fastforce
  let ?out = "code_out ?r3 dst st wrapped"
  have "value_count ?out \<le> max_query_params"
    using count_code_out [of ?r3 dst st wrapped] assms(19) by (simp add: max_query_params_def)
  note ret = parse_encode [OF wf_outs(2) this]
  have "st_CID (clean_state st) = st_CID st" by (simp only: assms(14))
  then have cl: "clean_code ?cp = ?cp" using ne(2) by (simp add: clean_code_def clean_state_def cid)
  have k: "ring_key (handler_ring env ?c3) (KID (hd (handler_ring env ?c2))) = Some (KeyBytes (hd (handler_ring env ?c2)))"
    using assms(6) by (simp add: keeps_key_def)
  have op: "Open (e_Flate env) (handler_ring env ?c3) DomainCode wrapped unmarshal_code (cf_StateTTL ?c3) (t3 0) = Inr ?cp"
    using code_round [OF assms(3) _ _ wr k, of "cf_StateTTL ?c3" "t3 0"] assms(16,21) cl
    by (simp add: fresh_at_def code_fits_def)
  have look: "map_of ?out ''code'' = Some [wrapped]" "st_HasST st \<longrightarrow> map_of ?out ''state'' = Some [st_ST st]"
    "\<forall>k. k \<notin> {''code'', ''scope'', ''state''} \<longrightarrow> map_of ?out k = map_of (url_Query dst) k"
    by (simp_all add: code_out_lookup)
  show ?thesis
    by (rule that [OF l1 f1 s2 l2 f2 callback_routed l3 ret look op])
qed

text \<open>
  C1. A login through the proxy completes, also when the configuration is reloaded and the signing key
  rotated between its requests. An admitted request that is routed to the authorize endpoint is
  redirected to Strava's authorize path at the configured host. The browser that goes where the
  Location says reaches there the consent step, is sent to the proxy's callback address, and there the
  proxy's own routes redirect it to the client's redirect URI, with its other parameters, the client's
  own state and a wrapped code, as long as the client, its redirect URI and the signing key are still
  configured. The client that posts this code with its secret to either token route gets a 200 with the
  tokens Strava issued for the real code, through one call to Strava's token address, which spends that
  code; Strava has then counted one token request.
\<close>

theorem login_completes:
  assumes "config_ok (holder_Get h1)" "config_ok (holder_Get h2)" "config_ok (holder_Get h3)"
    and "flate_lossless (e_Flate env)" "signable (handler_ring env (holder_Get h1))"
    and "keeps_key (handler_ring env (holder_Get h1)) (handler_ring env (holder_Get h2))"
    and "keeps_key (handler_ring env (holder_Get h2)) (handler_ring env (holder_Get h3))"
    and "deployed (holder_Get h1) s" "deployed (holder_Get h3) s" "plain_addresses (holder_Get h1)"
    and "e_Rand env = Some rnd" "rnd \<noteq> []" "routed r1 EAuthorize" "authorize_admits (holder_Get h1) r1 client"
    and "st = state_payload_for (env\<lparr>e_Now := t1\<rparr>) r1 client (nonce_for client rnd)" "state_fits st" "clean_state st = st"
    and "code = fst (mint_code (in_Rand inc1 0) s)" "code_fits \<lparr>cp_CID = cl_ID client, cp_SC = code, cp_IAT = 0\<rparr>"
    and "length (Encode (token_params (holder_Get h3) (grant_params code))) \<le> max_form_size"
    and "value_count (rq_Query r1) + 3 \<le> 10000" "url_Parse (st_RU st) = Some dst" "value_count (url_Query dst) + 3 \<le> 10000"
    and "fresh_at (cf_StateTTL (holder_Get h2)) (t1 0) (t2 0)" "fresh_at (cf_StateTTL (holder_Get h3)) (t2 1) (t3 0)"
    and "config_Client (holder_Get h2) (cl_ID client) = Some client2" "st_RU st \<in> set (cl_RedirectURIs client2)"
    and "cl_RequireNonceCookie client2 \<longrightarrow> cl_RequireNonceCookie client"
    and "cl_RequireNonceCookie client2 \<longrightarrow> read_cookie cookies NonceCookieName = Some (rawurl_encode (take 32 rnd))"
    and "config_Client (holder_Get h3) (cl_ID client3) = Some client3" "cl_ID client3 = cl_ID client" "VerifySecret client3 secret"
    and "unsent w1" "unsent w2" "rw_Sent (w_rw w3) = None" "rw_Body (w_rw w3) = []"
  shows "\<exists>loc1 site1 r2 s2 loc2 site2 r3 loc3 out wrapped.
    redirects_to (publicHandler (si\<lparr>si_Env := env\<lparr>e_Now := t1\<rparr>, si_Holder := h1\<rparr>) r1 w1) loc1 \<and>
    prefix (cf_UpstreamBaseURL (holder_Get h1) @ ''/oauth/authorize?'') loc1 \<and>
    follow [] loc1 = Some (site1, r2) \<and> origin (cf_UpstreamBaseURL (holder_Get h1)) = Some site1 \<and>
    s2 = fst (fake_serve inc1 r2 (s, new_writer)) \<and>
    location (snd (fake_serve inc1 r2 (s, new_writer))) = Some loc2 \<and>
    prefix (cf_PublicURL (holder_Get h1) @ ''/oauth/callback?'') loc2 \<and>
    follow cookies loc2 = Some (site2, r3) \<and> origin (cf_PublicURL (holder_Get h1)) = Some site2 \<and>
    redirects_to (publicHandler (si\<lparr>si_Env := env\<lparr>e_Now := t2\<rparr>, si_Holder := h2\<rparr>) r3 w2) loc3 \<and>
    loc3 = url_base_string dst @ CHR ''?'' # Encode out \<and> ParseQuery (Encode out) = (sort_key fst out, True) \<and>
    map_of out ''code'' = Some [wrapped] \<and> (st_HasST st \<longrightarrow> map_of out ''state'' = Some [st_ST st]) \<and>
    (\<forall>k. k \<notin> {''code'', ''scope'', ''state''} \<longrightarrow> map_of out k = map_of (url_Query dst) k) \<and>
    (\<forall>r4. routed r4 EToken \<and> ParseForm r4 = (client_params client3 secret wrapped, True) \<longrightarrow>
      (\<exists>w4 req access refresh body.
        w4 = publicHandler (si\<lparr>si_Env := upstream_is inc2 s2 (env\<lparr>e_Now := t3\<rparr>), si_Holder := h3\<rparr>) r4 w3 \<and>
        w_calls w4 = w_calls w3 @ [req] \<and> strava_target (holder_Get h3) ''/api/v3/oauth/token'' = Some (or_URL req) \<and>
        sent_status (w_rw w4) = Some 200 \<and> rw_Body (w_rw w4) = body \<and>
        marshal_token (token_response (in_Now inc2) access refresh (fk_athlete s)) = Some body \<and>
        fk_codes (fst (fake_serve inc2 (received req) (s2, new_writer))) code = Some True \<and>
        fk_refreshTokens (fst (fake_serve inc2 (received req) (s2, new_writer))) refresh = Some True \<and>
        TokenRequests (fst (fake_serve inc2 (received req) (s2, new_writer))) = TokenRequests s + 1))"
proof -
  let ?cfg = "holder_Get h3" and ?e3 = "env\<lparr>e_Now := t3\<rparr>"
  obtain q1 site1 r2 q2 site2 r3 out wrapped where
        l1: "redirects_to (Authorize (env\<lparr>e_Now := t1\<rparr>) h1 r1 (front r1 w1)) (cf_UpstreamBaseURL (holder_Get h1) @ ''/oauth/authorize?'' @ q1)"
    and f1: "follow [] (cf_UpstreamBaseURL (holder_Get h1) @ ''/oauth/authorize?'' @ q1) = Some (site1, r2)"
      "origin (cf_UpstreamBaseURL (holder_Get h1)) = Some site1"
    and s2: "fst (fake_serve inc1 r2 (s, new_writer)) = snd (mint_code (in_Rand inc1 0) (record_request r2 s))"
    and l2: "location (snd (fake_serve inc1 r2 (s, new_writer))) = Some (cf_PublicURL (holder_Get h1) @ ''/oauth/callback?'' @ q2)"
    and f2: "follow cookies (cf_PublicURL (holder_Get h1) @ ''/oauth/callback?'' @ q2) = Some (site2, r3)"
      "origin (cf_PublicURL (holder_Get h1)) = Some site2"
    and r3: "routed r3 ECallback"
    and l3: "\<forall>w2. unsent w2 \<longrightarrow>
       redirects_to (Callback (env\<lparr>e_Now := t2\<rparr>) h2 r3 w2) (url_base_string dst @ CHR ''?'' # Encode out)"
    and q: "ParseQuery (Encode out) = (sort_key fst out, True)" "map_of out ''code'' = Some [wrapped]"
      "st_HasST st \<longrightarrow> map_of out ''state'' = Some [st_ST st]"
      "\<forall>k. k \<notin> {''code'', ''scope'', ''state''} \<longrightarrow> map_of out k = map_of (url_Query dst) k"
    and op: "Open (e_Flate env) (handler_ring env ?cfg) DomainCode wrapped unmarshal_code (cf_StateTTL ?cfg) (t3 0) =
      Inr \<lparr>cp_CID = cl_ID client, cp_SC = code, cp_IAT = unix_seconds (t2 1)\<rparr>"
    by (rule login_to_client [where ?t1.0 = t1 and ?t2.0 = t2 and ?t3.0 = t3 and ?w1.0 = "front r1 w1", unfolded front_facts,
          OF assms(1,2,4-8,10-12,14-19,21-29,33)])
  let ?s2 = "fst (fake_serve inc1 r2 (s, new_writer))"
  let ?cp = "\<lparr>cp_CID = cl_ID client, cp_SC = code, cp_IAT = unix_seconds (t2 1)\<rparr>"
  let ?si1 = "si\<lparr>si_Env := env\<lparr>e_Now := t1\<rparr>, si_Holder := h1\<rparr>" and ?si2 = "si\<lparr>si_Env := env\<lparr>e_Now := t2\<rparr>, si_Holder := h2\<rparr>"
  have p1: "redirects_to (publicHandler ?si1 r1 w1) (cf_UpstreamBaseURL (holder_Get h1) @ ''/oauth/authorize?'' @ q1)"
    using l1 redirects_routed [OF assms(13)] by (simp add: serve_endpoint_def)
  have p2: "redirects_to (publicHandler ?si2 r3 w2) (url_base_string dst @ CHR ''?'' # Encode out)"
    using l3 assms(34) redirects_routed [OF r3] by (simp add: serve_endpoint_def)
  have op3: "Open (e_Flate ?e3) (handler_ring ?e3 ?cfg) DomainCode wrapped unmarshal_code (cf_StateTTL ?cfg) (e_Now ?e3 0) =
      Inr ?cp" using op by simp
  have cid: "cp_CID ?cp = cl_ID client3" "cp_SC ?cp = code" using assms(31) by simp_all
  have x: "\<exists>w4 req access refresh body.
        w4 = publicHandler (si\<lparr>si_Env := upstream_is inc2 ?s2 ?e3, si_Holder := h3\<rparr>) r4 w3 \<and>
        w_calls w4 = w_calls w3 @ [req] \<and> strava_target ?cfg ''/api/v3/oauth/token'' = Some (or_URL req) \<and>
        sent_status (w_rw w4) = Some 200 \<and> rw_Body (w_rw w4) = body \<and>
        marshal_token (token_response (in_Now inc2) access refresh (fk_athlete s)) = Some body \<and>
        fk_codes (fst (fake_serve inc2 (received req) (?s2, new_writer))) code = Some True \<and>
        fk_refreshTokens (fst (fake_serve inc2 (received req) (?s2, new_writer))) refresh = Some True \<and>
        TokenRequests (fst (fake_serve inc2 (received req) (?s2, new_writer))) = TokenRequests s + 1"
    if "routed r4 EToken" "ParseForm r4 = (client_params client3 secret wrapped, True)" for r4
    by (rule minted_exchange [OF that(1) assms(3) that(2) assms(30,32) op3 cid assms(9,18) s2 assms(20,35,36)])
  have a: "prefix (b @ ''/oauth/authorize?'') (b @ ''/oauth/authorize?'' @ q1)"
    "prefix (b @ ''/oauth/callback?'') (b @ ''/oauth/callback?'' @ q2)" for b by (simp_all add: prefix_def)
  show ?thesis
    by (intro exI conjI, rule p1, rule a(1), rule f1(1), rule f1(2), rule refl, rule l2, rule a(2), rule f2(1), rule f2(2),
        rule p2, rule refl, rule q(1), rule q(2), rule q(3), rule q(4)) (use x in blast)
qed

text \<open>The witness: a client that asks for a nonce, a minute's login, a fake that has seen nothing yet.\<close>

definition flow_fake :: FakeServer where "flow_fake = SetAthleteJSON ''{}'' (fake_New ''42'' ''real'')"

definition flow_incoming :: Incoming where
  "flow_incoming = \<lparr>in_Host = ''s.example'', in_Proto = ''HTTP/1.1'', in_Rand = (\<lambda>i. nine), in_Now = 1020 * second,
     in_Deflate = stored_deflate, in_WriteFails = (\<lambda>i. False), in_Gone = (\<lambda>i. False)\<rparr>"

definition flow_nonce :: string where "flow_nonce = rawurl_encode (take 32 (replicate 32 (CHR 0x01)))"

definition flow_cookies :: Header where
  "flow_cookies = [(''Cookie'', [''__Host-sap_nonce='' @ flow_nonce])]"

definition flow_state :: StatePayload where
  "flow_state = \<lparr>st_CID = ''7'', st_RU = ''https://a.example/cb?x=1'', st_ST = ''xyz'', st_HasST = True,
     st_IAT = 1000, st_Nonce = flow_nonce\<rparr>"

definition clock_at :: "int \<Rightarrow> nat \<Rightarrow> instant" where "clock_at s n = s * second"

definition query_post :: "string \<Rightarrow> Request" where
  "query_post q = (post_request [] form_header)\<lparr>rq_Path := ''/oauth/token'', rq_RawQuery := q\<rparr>"

definition flow_authorize :: Request where
  "flow_authorize = tiny_authorize\<lparr>rq_Path := ''/oauth/authorize''\<rparr>"

lemma flow_query [simp]: "rq_Query flow_authorize = rq_Query tiny_authorize"
  by (simp add: flow_authorize_def rq_Query_def)

lemma flow_routed: "routed flow_authorize EAuthorize" "routed (query_post q) EToken"
proof -
  have a: "findHandler public_mux (browser_get [] ''/oauth/authorize'' [] []) =
      Matched (parse_pattern ''GET /oauth/authorize'' EAuthorize)" by code_simp
  have t: "findHandler public_mux (post_request [] []\<lparr>rq_Path := ''/oauth/token''\<rparr>) =
      Matched (parse_pattern ''POST /oauth/token'' EToken)" by code_simp
  have "findHandler public_mux flow_authorize = Matched (parse_pattern ''GET /oauth/authorize'' EAuthorize)"
    by (rule same_route [OF a]) (simp_all add: flow_authorize_def tiny_authorize_def get_request_def browser_get_def)
  moreover have "findHandler public_mux (query_post q) = Matched (parse_pattern ''POST /oauth/token'' EToken)"
    by (rule same_route [OF t]) (simp_all add: query_post_def post_request_def)
  ultimately show "routed flow_authorize EAuthorize" "routed (query_post q) EToken"
    by (simp_all add: routed_def flow_authorize_def query_post_def)
qed

lemma flow_admits: "authorize_admits tiny_config flow_authorize tiny_client"
  using tiny_admits by (simp add: authorize_admits_def)

lemma flow_addresses: "plain_addresses tiny_config"
proof -
  have "plain_base ''https://p.example''" "plain_base ''https://s.example''" by code_simp+
  then show ?thesis by (simp add: plain_addresses_def tiny_config_def)
qed

lemma flow_payload: "flow_state = state_payload_for (tiny_env\<lparr>e_Now := clock_at 1000\<rparr>) flow_authorize tiny_client
    (nonce_for tiny_client (replicate 32 (CHR 0x01)))"
  by (simp add: flow_state_def state_payload_for_def tiny_authorize_query firstParam_def tiny_client_def clock_at_def
      unix_seconds_def flow_nonce_def)

lemma flow_nonce_ascii: "valid_utf8 flow_nonce"
proof -
  have "list_all rawurl_alphabet flow_nonce" unfolding flow_nonce_def by (rule rawurl.enc_alphabet)
  then have "list_all (\<lambda>c. byte c < 128) flow_nonce"
    by (rule list.pred_mono_strong) (auto simp: b64_alphabet_def byte_class)
  then show ?thesis by (rule valid_utf8_ascii)
qed

lemma flow_state_ok: "state_fits flow_state" "clean_state flow_state = flow_state"
proof -
  have "length flow_nonce = 43" by (simp add: flow_nonce_def length_rawurl)
  then show "state_fits flow_state" by (simp add: flow_state_def state_fits_def maxPayloadBytes_def)
  show "clean_state flow_state = flow_state"
    by (simp add: flow_state_def clean_state_def flow_nonce_ascii valid_utf8_ascii)
qed

lemma flow_code: "fst (mint_code nine flow_fake) = trace_code"
  by code_simp

lemma flow_body: "length (Encode (token_params tiny_config (grant_params trace_code))) \<le> max_form_size"
proof -
  have "encoded_bound (token_params tiny_config (grant_params trace_code)) < 1000"
    by (simp add: encoded_bound_def token_params_def values_set_def grant_params_def trace_code_def tiny_config_def)
  with length_Encode [of "token_params tiny_config (grant_params trace_code)"] show ?thesis by (simp add: max_form_size_def)
qed

lemma flow_fresh:
  "fresh_at (cf_StateTTL tiny_config) (clock_at 1000 0) (clock_at 1010 0)"
  "fresh_at (cf_StateTTL tiny_config) (clock_at 1010 1) (clock_at 1020 0)"
  by (simp_all add: fresh_at_def clock_at_def unix_seconds_def iat_window_Ok time_unix_exact unix_to_internal_def
      time_sub_exact maxClockSkew_def tiny_config_def)

lemma flow_deployed: "deployed tiny_config flow_fake"
proof -
  have cb: "map_option (\<lambda>u. web_url u \<and> u_RawQuery u = []) (url_Parse (CallbackURL tiny_config)) = Some True"
  proof -
    have "map_option (\<lambda>u. web_url u \<and> u_RawQuery u = []) (url_Parse ''https://p.example/oauth/callback'') = Some True"
      by code_simp
    moreover have "CallbackURL tiny_config = ''https://p.example/oauth/callback''" by (simp add: CallbackURL_def tiny_config_def)
    ultimately show ?thesis by simp
  qed
  have "marshal_raw ''{}'' \<noteq> None" by code_simp
  then have "athlete_ok flow_fake" by (simp add: athlete_ok_def flow_fake_def SetAthleteJSON_def)
  then show ?thesis
    using cb unfolding deployed_def tiny_token_target Option.bind.bind_lunit tiny_token_parse
    by (auto simp: tiny_base_def empty_url_def flow_fake_def SetAthleteJSON_def fake_New_def tiny_config_def split: option.splits)
qed

lemma flow_cookie: "read_cookie flow_cookies NonceCookieName = Some (rawurl_encode (take 32 (replicate 32 (CHR 0x01))))"
  by code_simp

lemma flow_counts: "value_count (rq_Query tiny_authorize) = 4"
    "map_option (\<lambda>u. value_count (url_Query u)) (url_Parse ''https://a.example/cb?x=1'') = Some 1"
  by (simp add: tiny_authorize_query value_count_def, code_simp)

lemma flow_form: "ParseForm (query_post (Encode (client_params tiny_client ''pw'' wrapped))) =
    (client_params tiny_client ''pw'' wrapped, True)"
proof -
  let ?f = "client_params tiny_client ''pw'' wrapped"
  have "ParseQuery (Encode ?f) = (sort_key fst ?f, True)"
    by (rule parse_encode) (simp_all add: client_params_def wf_values_def value_count_def max_query_params_def)
  moreover have "sort_key fst ?f = ?f" by (simp add: client_params_def)
  ultimately show ?thesis
    by (simp add: ParseForm_def parse_post_form_def query_post_def post_request_def form_header_def form_media_type
        values_get_def ParseQuery_def [of "[]"] max_query_params_def) (simp add: client_params_def)
qed

text \<open>Before the callback the configuration is reloaded with a new key in front.\<close>

definition rotated_config :: Config where
  "rotated_config = tiny_config\<lparr>cf_StateKeys := \<lparr>sk_KID = ''k2'', sk_Key = replicate 32 (CHR 0x5D)\<rparr> # cf_StateKeys tiny_config\<rparr>"

lemma rotated_fields [simp]:
  "cf_StravaClientID rotated_config = cf_StravaClientID tiny_config" "cf_StravaClientSecret rotated_config = cf_StravaClientSecret tiny_config"
  "cf_PublicURL rotated_config = cf_PublicURL tiny_config" "cf_UpstreamBaseURL rotated_config = cf_UpstreamBaseURL tiny_config"
  "cf_StateTTL rotated_config = cf_StateTTL tiny_config" "cf_Clients rotated_config = cf_Clients tiny_config"
  "cf_DevAllowHTTP rotated_config = cf_DevAllowHTTP tiny_config"
  by (simp_all add: rotated_config_def)

lemma rotated_ok: "config_ok rotated_config"
  using tiny_config_ok
  by (simp add: config_ok_def) (simp add: rotated_config_def tiny_config_def keys_ok_def key_ok_def validKID_def kid_byte_def byte_class)

lemma rotated_deployed: "deployed rotated_config flow_fake"
  using flow_deployed by (simp add: deployed_def strava_target_def upstreamURL_def CallbackURL_def)

lemma rotated_keys:
  "keeps_key (handler_ring tiny_env tiny_config) (handler_ring tiny_env rotated_config)"
  "keeps_key (handler_ring tiny_env rotated_config) (handler_ring tiny_env rotated_config)"
proof -
  have "signable (handler_ring tiny_env rotated_config)"
    by (simp add: handler_ring_def tiny_env_def ring_of_def rotated_config_def signable_def)
  then show "keeps_key (handler_ring tiny_env rotated_config) (handler_ring tiny_env rotated_config)" by (rule keeps_key_refl)
  then show "keeps_key (handler_ring tiny_env tiny_config) (handler_ring tiny_env rotated_config)"
    by (simp add: keeps_key_def) (simp add: handler_ring_def tiny_env_def ring_of_def rotated_config_def ring_key_def tiny_config_def)
qed

theorem login_completes_witness:
  "\<exists>loc1 r2 r3 loc3 r4.
    redirects_to (publicHandler (tiny_site\<lparr>si_Env := tiny_env\<lparr>e_Now := clock_at 1000\<rparr>, si_Holder := NewHolder tiny_config\<rparr>)
      flow_authorize new_world) loc1 \<and>
    prefix ''https://s.example/oauth/authorize?'' loc1 \<and> follow [] loc1 = Some ((''https'', ''s.example''), r2) \<and>
    redirects_to (publicHandler (tiny_site\<lparr>si_Env := tiny_env\<lparr>e_Now := clock_at 1010\<rparr>, si_Holder := NewHolder rotated_config\<rparr>)
      r3 new_world) loc3 \<and>
    prefix ''https://a.example/cb?'' loc3 \<and>
    sent_status (w_rw (publicHandler (tiny_site\<lparr>si_Env := upstream_is flow_incoming
        (fst (fake_serve flow_incoming r2 (flow_fake, new_writer))) (tiny_env\<lparr>e_Now := clock_at 1020\<rparr>),
        si_Holder := NewHolder rotated_config\<rparr>) r4 new_world)) = Some 200"
proof -
  obtain dst where d: "url_Parse (st_RU flow_state) = Some dst" "value_count (url_Query dst) + 3 \<le> 10000"
    using flow_counts(2) by (auto simp: flow_state_def)
  have l: "flate_lossless (e_Flate tiny_env)" and r: "e_Rand tiny_env = Some (replicate 32 (CHR 0x01))"
    and n: "replicate 32 (CHR 0x01) \<noteq> []" and q: "value_count (rq_Query flow_authorize) + 3 \<le> 10000"
    and v: "VerifySecret tiny_client ''pw''" and w: "rw_Sent (w_rw new_world) = None" "rw_Body (w_rw new_world) = []"
    and c: "trace_code = fst (mint_code (in_Rand flow_incoming 0) flow_fake)"
    and f: "code_fits \<lparr>cp_CID = cl_ID tiny_client, cp_SC = trace_code, cp_IAT = 0\<rparr>"
    and cl: "config_Client rotated_config (cl_ID tiny_client) = Some tiny_client"
    and ru: "st_RU flow_state \<in> set (cl_RedirectURIs tiny_client)"
    by (simp_all add: tiny_env_def stored_lossless flow_counts tiny_client_def VerifySecret_def new_world_def new_writer_def
        flow_incoming_def flow_code code_fits_def trace_code_def maxPayloadBytes_def config_Client_def tiny_config_def
        flow_state_def)
  have b: "length (Encode (token_params rotated_config (grant_params trace_code))) \<le> max_form_size"
    using flow_body by (simp add: token_params_def)
  have fr: "fresh_at (cf_StateTTL rotated_config) (clock_at 1000 0) (clock_at 1010 0)"
    "fresh_at (cf_StateTTL rotated_config) (clock_at 1010 1) (clock_at 1020 0)" using flow_fresh by simp_all
  have h: "holder_Get (NewHolder x) = x" for x by (simp add: NewHolder_def holder_Get_def)
  have i: "cl_RequireNonceCookie tiny_client \<longrightarrow> cl_RequireNonceCookie tiny_client" by simp
  from login_completes [of "NewHolder tiny_config" "NewHolder rotated_config" "NewHolder rotated_config", unfolded h,
      where ?t1.0 = "clock_at 1000" and ?t2.0 = "clock_at 1010" and ?t3.0 = "clock_at 1020" and si = tiny_site and
        ?inc2.0 = flow_incoming and cookies = flow_cookies,
      OF tiny_config_ok rotated_ok rotated_ok l tiny_ring rotated_keys flow_deployed rotated_deployed flow_addresses r n
        flow_routed(1) flow_admits flow_payload flow_state_ok c f b q d fr cl ru i impI [OF flow_cookie] cl refl v
        new_world_unsent(1) new_world_unsent(1) w]
  obtain loc1 site1 r2 s2 loc2 site2 r3 loc3 out wrapped where o:
    "redirects_to (publicHandler (tiny_site\<lparr>si_Env := tiny_env\<lparr>e_Now := clock_at 1000\<rparr>, si_Holder := NewHolder tiny_config\<rparr>)
      flow_authorize new_world) loc1"
    "prefix (cf_UpstreamBaseURL tiny_config @ ''/oauth/authorize?'') loc1" "follow [] loc1 = Some (site1, r2)"
    "origin (cf_UpstreamBaseURL tiny_config) = Some site1" "s2 = fst (fake_serve flow_incoming r2 (flow_fake, new_writer))"
    "redirects_to (publicHandler (tiny_site\<lparr>si_Env := tiny_env\<lparr>e_Now := clock_at 1010\<rparr>, si_Holder := NewHolder rotated_config\<rparr>)
      r3 new_world) loc3" "loc3 = url_base_string dst @ CHR ''?'' # Encode out"
    "\<forall>r4. routed r4 EToken \<and> ParseForm r4 = (client_params tiny_client ''pw'' wrapped, True) \<longrightarrow>
      (\<exists>w4. w4 = publicHandler (tiny_site\<lparr>si_Env := upstream_is flow_incoming s2 (tiny_env\<lparr>e_Now := clock_at 1020\<rparr>),
          si_Holder := NewHolder rotated_config\<rparr>) r4 new_world \<and> sent_status (w_rw w4) = Some 200)"
    by (elim exE conjE) (rule that, assumption+, blast)
  have "map_option (\<lambda>u. (u_Scheme u, u_Host u)) (url_Parse ''https://s.example'') = Some (''https'', ''s.example'')" by code_simp
  then have s1: "site1 = (''https'', ''s.example'')" using o(4) by (auto simp: origin_def tiny_config_def)
  have "map_option url_base_string (url_Parse ''https://a.example/cb?x=1'') = Some ''https://a.example/cb''"
    by (simp only: tiny_parse) code_simp
  then have l3: "loc3 = ''https://a.example/cb?'' @ Encode out" using d(1) o(7) by (simp add: flow_state_def)
  from o(8) [rule_format, OF conjI [OF flow_routed(2) flow_form [of wrapped]]] have
    "sent_status (w_rw (publicHandler (tiny_site\<lparr>si_Env := upstream_is flow_incoming s2 (tiny_env\<lparr>e_Now := clock_at 1020\<rparr>),
          si_Holder := NewHolder rotated_config\<rparr>) (query_post (Encode (client_params tiny_client ''pw'' wrapped))) new_world)) =
       Some 200" by blast
  moreover have "prefix ''https://s.example/oauth/authorize?'' loc1" using o(2) by (simp add: tiny_config_def)
  moreover have "prefix ''https://a.example/cb?'' loc3" by (simp add: l3)
  ultimately show ?thesis using o(1,3,6) unfolding o(5) s1 by blast
qed

end
