(* ===== verification/SessionProps.thy ===== *)
theory SessionProps imports
  Session
  LoginProps
begin

text \<open>The property of a session after its login: what a client can do with a refresh token.\<close>

text \<open>The revocation endpoint of Strava is where the proxy looks for it.\<close>

definition revokes_at :: "Config \<Rightarrow> URL \<Rightarrow> bool" where
  "revokes_at cfg target \<longleftrightarrow> upstreamURL cfg pathRevoke = Some target \<and>
     (case url_Parse (url_String (target\<lparr>u_RawQuery := []\<rparr>)) of None \<Rightarrow> False
      | Some u \<Rightarrow> u_Path u = ''/oauth/revoke'' \<and> u_RawPath u = [] \<and> u_RawQuery u = []) \<and>
     CHR '':'' \<notin> set (cf_StravaClientID cfg)"

text \<open>A renewal at a deployed proxy, in whatever environment.\<close>

lemma renewal_status:
  assumes "deployed (holder_Get holder) s" "ParseForm r = (refresh_form client secret token, True)" "token \<noteq> []"
    and "config_Client (holder_Get holder) (cl_ID client) = Some client" "VerifySecret client secret"
    and "length (Encode (token_params (holder_Get holder) (refresh_params token))) \<le> max_form_size"
    and "rw_Sent (w_rw w) = None" "rw_Body (w_rw w) = []"
  shows "sent_status (w_rw (Token (upstream_is inc s env) holder r w)) =
      Some (if fk_refreshTokens s token = Some True then 200 else 400)"
proof -
  obtain url u where tg: "strava_target (holder_Get holder) pathToken = Some url" "url_Parse url = Some u"
    "u_Path u = ''/api/v3/oauth/token''" "u_RawPath u = []" "u_RawQuery u = []"
    using assms(1) by (auto simp: deployed_def Option.bind_eq_Some_conv split: option.splits)
  have "fk_realClientID s = cf_StravaClientID (holder_Get holder)"
    "fk_realClientSecret s = Reveal (cf_StravaClientSecret (holder_Get holder))"
    using assms(1) by (simp_all add: deployed_def)
  from renewal_relayed [OF assms(2-5) tg assms(6) this assms(7,8)] show ?thesis .
qed

text \<open>
  C37. A refresh token through the proxy. A client's renewal is answered 200 as long as Strava's trace
  leaves the token alive, and 400 otherwise; its revocation is answered 200 through one call, which
  Strava sees with the real credentials, and takes this token and no other away; and whatever happens
  at Strava afterwards, no renewal with that token is ever answered 200 again, for this client or
  another.
\<close>

theorem revoked_token_stays_dead:
  assumes "fake_run (fake_New cid real) evs s" "list_ex (issues token) evs" "token \<noteq> []"
    and "deployed (holder_Get holder) s" "revokes_at (holder_Get holder) target"
    and "config_Client (holder_Get holder) (cl_ID client) = Some client" "VerifySecret client secret"
    and "length (Encode (token_params (holder_Get holder) (refresh_params token))) \<le> max_form_size"
    and "revoke_client (holder_Get holder) r client" "rq_Method r = ''POST''" "rq_RawQuery r = []"
    and "values_get (fake_Form r) ''token'' = token" "rw_Sent (w_rw w) = None" "rw_Body (w_rw w) = []"
  shows "(\<forall>r1. ParseForm r1 = (refresh_form client secret token, True) \<longrightarrow>
      sent_status (w_rw (Token (upstream_is inc s env) holder r1 w)) = Some (if alive token evs then 200 else 400)) \<and>
    (\<exists>req s1. w_calls (Revoke (upstream_is inc s env) holder r w) = w_calls w @ [req] \<and>
      sent_status (w_rw (Revoke (upstream_is inc s env) holder r w)) = Some 200 \<and>
      s1 = fst (fake_serve inc (received req) (s, new_writer)) \<and>
      LastAuthHeader s1 = basicAuthHeader (cf_StravaClientID (holder_Get holder)) (Reveal (cf_StravaClientSecret (holder_Get holder))) \<and>
      (\<forall>t. fk_refreshTokens s1 t = (if t = token then None else fk_refreshTokens s t)) \<and>
      (\<forall>evs2 s2 client2 secret2 r2 inc2 env2. fake_run s1 evs2 s2 \<longrightarrow> deployed (holder_Get holder) s2 \<longrightarrow>
        config_Client (holder_Get holder) (cl_ID client2) = Some client2 \<longrightarrow> VerifySecret client2 secret2 \<longrightarrow>
        ParseForm r2 = (refresh_form client2 secret2 token, True) \<longrightarrow>
        sent_status (w_rw (Token (upstream_is inc2 s2 env2) holder r2 w)) = Some 400))"
proof -
  let ?cfg = "holder_Get holder"
  obtain u where ra: "upstreamURL ?cfg pathRevoke = Some target" "url_Parse (url_String (target\<lparr>u_RawQuery := []\<rparr>)) = Some u"
    "u_Path u = ''/oauth/revoke''" "u_RawPath u = []" "u_RawQuery u = []" "CHR '':'' \<notin> set (cf_StravaClientID ?cfg)"
    using assms(5) by (auto simp: revokes_at_def split: option.splits)
  have ids: "fk_realClientID s = cf_StravaClientID ?cfg" "fk_realClientSecret s = Reveal (cf_StravaClientSecret ?cfg)"
    using assms(4) by (simp_all add: deployed_def)
  obtain req where rv: "w_calls (Revoke (upstream_is inc s env) holder r w) = w_calls w @ [req]"
    "sent_status (w_rw (Revoke (upstream_is inc s env) holder r w)) = Some 200"
    and s1: "fst (fake_serve inc (received req) (s, new_writer)) = drop_token token (record_request (received req) s)"
    and au: "LastAuthHeader (fst (fake_serve inc (received req) (s, new_writer))) =
      basicAuthHeader (cf_StravaClientID ?cfg) (Reveal (cf_StravaClientSecret ?cfg))"
    by (rule revocation_relayed [OF assms(9) ra(1-5) assms(10,11) ra(6) assms(12,3) ids assms(13,14)])
  let ?s1 = "drop_token token (record_request (received req) s)"
  have k: "fk_refreshTokens ?s1 t = (if t = token then None else fk_refreshTokens s t)" "fk_seq ?s1 = fk_seq s" for t
    by (simp_all add: drop_token_def record_request_def Let_def)
  have "was_issued s token" by (rule issued_number [OF assms(1) refl assms(2)])
  then have i: "was_issued ?s1 token" by (simp add: was_issued_def k(2))
  have dead: "fk_refreshTokens s2 token = None" if "fake_run ?s1 evs2 s2" for evs2 s2
    using dead_run [OF that i] by (simp add: k(1))
  have "sent_status (w_rw (Token (upstream_is inc s env) holder r1 w)) = Some (if alive token evs then 200 else 400)"
    if "ParseForm r1 = (refresh_form client secret token, True)" for r1
    using renewal_status [OF assms(4) that assms(3,6,7,8,13,14), of inc env] tokens_by_trace [OF assms(1) refl] by simp
  moreover have "sent_status (w_rw (Token (upstream_is inc2 s2 env2) holder r2 w)) = Some 400"
    if "fake_run ?s1 evs2 s2" "deployed ?cfg s2" "config_Client ?cfg (cl_ID client2) = Some client2"
      "VerifySecret client2 secret2" "ParseForm r2 = (refresh_form client2 secret2 token, True)"
    for evs2 s2 client2 secret2 r2 inc2 env2
    using renewal_status [OF that(2,5) assms(3) that(3,4) assms(8,13,14), of inc2 env2] dead [OF that(1)] by simp
  ultimately show ?thesis using rv s1 au k(1) by (intro conjI exI [of _ req] exI [of _ ?s1] allI impI) simp_all
qed

text \<open>The witness: one login at the fake, and the revocation of what it issued.\<close>

definition short_trace :: "fake_event list" where
  "short_trace = [Quiet, Mint trace_code, Redeem trace_code trace_token]"

lemma redeem_keeps:
  "redeem r1 r2 c s = Some (a, t, s') \<Longrightarrow>
   fk_realClientID s' = fk_realClientID s \<and> fk_realClientSecret s' = fk_realClientSecret s \<and>
   fk_authorizeError s' = fk_authorizeError s"
proof -
  assume "redeem r1 r2 c s = Some (a, t, s')"
  then have "issueTokensLocked r1 r2 (s\<lparr>fk_codes := (fk_codes s)(c \<mapsto> True)\<rparr>) = (a, t, s')"
    by (simp add: redeem_def split: if_splits)
  from issue_update [OF this] show ?thesis by simp
qed

lemma short_run: "\<exists>s. fake_run (fake_New ''42'' ''real'') short_trace s \<and> deployed tiny_config s"
proof -
  have q: "fake_step (fake_New ''42'' ''real'') Quiet trace_0"
    by (simp add: quiet_step trace_0_def SetRotateRefresh_def SetAthleteJSON_def)
  have b: "length (replicate 9 (CHR 0x00)) = 9" by simp
  have c: "fst trace_1 = trace_code" by code_simp
  have m: "fake_step trace_0 (Mint trace_code) (snd trace_1)"
    by (rule fake_step.mint [OF b]) (simp add: c [symmetric] trace_1_def nine_def)
  have d: "map_option (\<lambda>x. fst (snd x)) trace_2 = Some trace_token" by code_simp
  then obtain a2 s2 where t2: "trace_2 = Some (a2, trace_token, s2)" by auto
  have r: "fake_step (snd trace_1) (Redeem trace_code trace_token) s2"
    by (rule fake_step.redeem [OF b b]) (use t2 in \<open>simp add: trace_2_def nine_def c\<close>)
  have run: "fake_run (fake_New ''42'' ''real'') short_trace s2"
    using fake_run.step [OF fake_run.step [OF fake_run.step [OF fake_run.start q] m] r] by (simp add: short_trace_def)
  have "fk_realClientID s2 = ''42''" "fk_realClientSecret s2 = ''real''" "fk_authorizeError s2 = []" "fk_athlete s2 = ''{}''"
    using redeem_keeps [OF t2 [unfolded trace_2_def]] section_athlete(1) [OF t2 [unfolded trace_2_def]]
    by (simp_all add: trace_1_def mint_facts section_athlete(3) mint_code_def Let_def)
      (simp_all add: trace_0_def SetRotateRefresh_def SetAthleteJSON_def fake_New_def)
  then have "deployed tiny_config s2"
    using flow_deployed by (simp add: deployed_def athlete_ok_def flow_fake_def SetAthleteJSON_def fake_New_def)
  with run show ?thesis by blast
qed

definition session_revoke :: Request where
  "session_revoke = post_request (''token='' @ trace_token) (form_header @ [(''Authorization'', [''Basic '' @ std_encode ''7:pw''])])"

lemma session_revoke_facts:
  "rq_Method session_revoke = ''POST''" "rq_RawQuery session_revoke = []"
  "values_get (fake_Form session_revoke) ''token'' = trace_token" "revoke_client tiny_config session_revoke tiny_client"
proof -
  show "rq_Method session_revoke = ''POST''" "rq_RawQuery session_revoke = []"
    by (simp_all add: session_revoke_def post_request_def)
  have q: "ParseQuery (''token='' @ trace_token) = ([(''token'', [trace_token])], True)" by code_simp
  have l: "length (''token='' @ trace_token) \<le> max_form_size" by (simp add: trace_token_def max_form_size_def)
  show "values_get (fake_Form session_revoke) ''token'' = trace_token"
    using l unfolding fake_Form_def replayed_def session_revoke_def post_request_def
    by (simp add: ParseForm_def parse_post_form_def form_header_def form_media_type q [unfolded append_Cons append_Nil]
        values_get_def ParseQuery_def [of "[]"] max_query_params_def)
  have "BasicAuth session_revoke = Some (''7'', ''pw'')"
    by (rule basic_auth_header) (simp_all add: session_revoke_def post_request_def form_header_def values_get_def)
  then show "revoke_client tiny_config session_revoke tiny_client"
    by (simp add: revoke_client_def config_Client_def tiny_config_def tiny_client_def VerifySecret_def)
qed

lemma tiny_revokes_at: "revokes_at tiny_config (JoinPath tiny_base pathRevoke)"
proof -
  have "case url_Parse (url_String ((JoinPath tiny_base pathRevoke)\<lparr>u_RawQuery := []\<rparr>)) of None \<Rightarrow> False
      | Some u \<Rightarrow> u_Path u = ''/oauth/revoke'' \<and> u_RawPath u = [] \<and> u_RawQuery u = []" by code_simp
  then show ?thesis unfolding revokes_at_def tiny_upstream by (simp add: tiny_config_def)
qed

lemma session_size: "length (Encode (token_params tiny_config (refresh_params trace_token))) \<le> max_form_size"
proof -
  have "encoded_bound (token_params tiny_config (refresh_params trace_token)) < 1000"
    by (simp add: encoded_bound_def token_params_def values_set_def refresh_params_def trace_token_def tiny_config_def)
  with length_Encode [of "token_params tiny_config (refresh_params trace_token)"] show ?thesis by (simp add: max_form_size_def)
qed

theorem revoked_token_stays_dead_witness:
  "\<exists>s req. fake_run (fake_New ''42'' ''real'') short_trace s \<and>
     w_calls (Revoke (upstream_is flow_incoming s tiny_env) (NewHolder tiny_config) session_revoke new_world) = [req] \<and>
     sent_status (w_rw (Revoke (upstream_is flow_incoming s tiny_env) (NewHolder tiny_config) session_revoke new_world)) = Some 200 \<and>
     fk_refreshTokens (fst (fake_serve flow_incoming (received req) (s, new_writer))) trace_token = None"
proof -
  obtain s where s: "fake_run (fake_New ''42'' ''real'') short_trace s" "deployed tiny_config s" using short_run by blast
  have i: "list_ex (issues trace_token) short_trace" by (simp add: short_trace_def issues_def)
  have n: "trace_token \<noteq> []" "w_calls new_world = []" by (simp_all add: trace_token_def new_world_def)
  have c: "config_Client tiny_config (cl_ID tiny_client) = Some tiny_client" "VerifySecret tiny_client ''pw''"
    by (simp_all add: config_Client_def tiny_config_def tiny_client_def VerifySecret_def)
  note l = session_size
  have w: "rw_Sent (w_rw new_world) = None" "rw_Body (w_rw new_world) = []" by (simp_all add: new_world_def new_writer_def)
  note f = session_revoke_facts
  from revoked_token_stays_dead [of _ _ _ _ _ "NewHolder tiny_config", unfolded tiny_holder, OF s(1) i n(1) s(2) tiny_revokes_at c l
      f(4,1,2,3) w, of flow_incoming tiny_env, THEN conjunct2]
  obtain req s1 where
    "w_calls (Revoke (upstream_is flow_incoming s tiny_env) (NewHolder tiny_config) session_revoke new_world) = [req]"
    "sent_status (w_rw (Revoke (upstream_is flow_incoming s tiny_env) (NewHolder tiny_config) session_revoke new_world)) = Some 200"
    and s1: "s1 = fst (fake_serve flow_incoming (received req) (s, new_writer))"
      "\<forall>t. fk_refreshTokens s1 t = (if t = trace_token then None else fk_refreshTokens s t)"
    unfolding n(2) append_Nil by (elim exE conjE) assumption
  moreover have "fk_refreshTokens s1 trace_token = None" using s1(2) by simp
  ultimately show ?thesis using s(1) unfolding s1(1) by blast
qed

end
