(* ===== verification/Recorder.thy ===== *)
theory Recorder imports
  Httpmid
begin

text \<open>
  The response recorder of \<open>internal/httpmid/mid.go\<close>: the writer behind it, the calls a handler makes
  on a writer, directly or through \<open>http.ResponseController\<close>, and the recorder in front.
\<close>

section \<open>The writer of the server\<close>

text \<open>What the server offers beside the response: whether it can flush and hijack, how much of the
  body has left the buffer, the write deadline, and a function that says which of its outputs fail and
  after how many bytes.\<close>

datatype rw_error = ErrNotSupported | ErrUnsupported | ErrHijacked | ErrConn

record ServerWriter =
  sw_rw :: ResponseWriter
  sw_Flusher :: bool
  sw_Hijacker :: bool
  sw_Hijacked :: bool
  sw_Flushed :: nat
  sw_Deadline :: "int option"
  sw_Fails :: "nat \<Rightarrow> nat option"
  sw_Outputs :: nat

definition server_WriteHeader :: "nat \<Rightarrow> ServerWriter \<Rightarrow> ServerWriter" where
  "server_WriteHeader status s = (if sw_Hijacked s then s else s\<lparr>sw_rw := WriteHeader status (sw_rw s)\<rparr>)"

definition server_Write :: "string \<Rightarrow> ServerWriter \<Rightarrow> nat \<times> rw_error option \<times> ServerWriter" where
  "server_Write b s =
     (if sw_Hijacked s then (0, Some ErrHijacked, s)
      else let (n, e) = (case sw_Fails s (sw_Outputs s) of
                           None \<Rightarrow> (length b, None) | Some k \<Rightarrow> (min k (length b), Some ErrConn))
           in (n, e, s\<lparr>sw_rw := WriteBody (take n b) (sw_rw s), sw_Outputs := sw_Outputs s + 1\<rparr>))"

definition server_Flush :: "ServerWriter \<Rightarrow> rw_error option \<times> ServerWriter" where
  "server_Flush s =
     (if sw_Hijacked s then (None, s)
      else let s1 = s\<lparr>sw_rw := WriteHeader 200 (sw_rw s), sw_Outputs := sw_Outputs s + 1\<rparr>
           in if sw_Fails s (sw_Outputs s) = None then (None, s1\<lparr>sw_Flushed := length (rw_Body (sw_rw s))\<rparr>)
              else (Some ErrConn, s1))"

definition server_Hijack :: "ServerWriter \<Rightarrow> rw_error option \<times> ServerWriter" where
  "server_Hijack s = (if sw_Hijacked s then (Some ErrHijacked, s) else (None, s\<lparr>sw_Hijacked := True\<rparr>))"

section \<open>The recorder\<close>

record recorder =
  rec_w :: ServerWriter
  rec_status :: nat
  rec_bytes :: nat
  rec_wroteHeader :: bool

definition new_recorder :: "ServerWriter \<Rightarrow> recorder" where
  "new_recorder w = \<lparr>rec_w = w, rec_status = 200, rec_bytes = 0, rec_wroteHeader = False\<rparr>"

definition recorder_WriteHeader :: "nat \<Rightarrow> recorder \<Rightarrow> recorder" where
  "recorder_WriteHeader status rec =
     (if 100 \<le> status \<and> status < 200 then rec\<lparr>rec_w := server_WriteHeader status (rec_w rec)\<rparr>
      else let rec1 = (if \<not> rec_wroteHeader rec then rec\<lparr>rec_status := status, rec_wroteHeader := True\<rparr> else rec)
           in rec1\<lparr>rec_w := server_WriteHeader status (rec_w rec1)\<rparr>)"

definition recorder_Write :: "string \<Rightarrow> recorder \<Rightarrow> nat \<times> rw_error option \<times> recorder" where
  "recorder_Write b rec =
     (let rec1 = rec\<lparr>rec_wroteHeader := True\<rparr>;
          (n, err, w) = server_Write b (rec_w rec1)
      in (n, err, rec1\<lparr>rec_w := w, rec_bytes := rec_bytes rec1 + n\<rparr>))"

definition recorder_Unwrap :: "recorder \<Rightarrow> ServerWriter" where
  "recorder_Unwrap rec = rec_w rec"

definition recorder_Flush :: "recorder \<Rightarrow> recorder" where
  "recorder_Flush rec = (if sw_Flusher (rec_w rec) then rec\<lparr>rec_w := snd (server_Flush (rec_w rec))\<rparr> else rec)"

definition recorder_Hijack :: "recorder \<Rightarrow> rw_error option \<times> recorder" where
  "recorder_Hijack rec =
     (if \<not> sw_Hijacker (rec_w rec) then (Some ErrUnsupported, rec)
      else let (err, w) = server_Hijack (rec_w rec) in (err, rec\<lparr>rec_w := w\<rparr>))"

section \<open>A handler at work\<close>

text \<open>Flushing, hijacking and deadlines go through \<open>http.ResponseController\<close>: it prefers a method
  that returns an error, then the plain one, and unwraps a writer that has neither. The recorder has
  a plain \<open>Flush\<close> and a \<open>Hijack\<close> of its own, but sets no deadlines.\<close>

datatype rw_op = OpWriteHeader nat | OpWrite string | OpFlush | OpHijack | OpSetWriteDeadline int

datatype rw_result = Done | Wrote nat "rw_error option" | Flushed "rw_error option" |
  HijackResult "rw_error option" | DeadlineSet

fun server_op :: "ServerWriter \<Rightarrow> rw_op \<Rightarrow> ServerWriter \<times> rw_result" where
  "server_op s (OpWriteHeader status) = (server_WriteHeader status s, Done)"
| "server_op s (OpWrite b) = (case server_Write b s of (n, e, s1) \<Rightarrow> (s1, Wrote n e))"
| "server_op s OpFlush =
     (if sw_Flusher s then case server_Flush s of (e, s1) \<Rightarrow> (s1, Flushed e) else (s, Flushed (Some ErrNotSupported)))"
| "server_op s OpHijack =
     (if sw_Hijacker s then case server_Hijack s of (e, s1) \<Rightarrow> (s1, HijackResult e)
      else (s, HijackResult (Some ErrNotSupported)))"
| "server_op s (OpSetWriteDeadline d) = (s\<lparr>sw_Deadline := Some d\<rparr>, DeadlineSet)"

fun recorder_op :: "recorder \<Rightarrow> rw_op \<Rightarrow> recorder \<times> rw_result" where
  "recorder_op rec (OpWriteHeader status) = (recorder_WriteHeader status rec, Done)"
| "recorder_op rec (OpWrite b) = (case recorder_Write b rec of (n, e, rec1) \<Rightarrow> (rec1, Wrote n e))"
| "recorder_op rec OpFlush = (recorder_Flush rec, Flushed None)"
| "recorder_op rec OpHijack = (case recorder_Hijack rec of (e, rec1) \<Rightarrow> (rec1, HijackResult e))"
| "recorder_op rec (OpSetWriteDeadline d) =
     (case server_op (recorder_Unwrap rec) (OpSetWriteDeadline d) of (w, res) \<Rightarrow> (rec\<lparr>rec_w := w\<rparr>, res))"

text \<open>A handler chooses its next call by the results of those before, or returns; \<open>n\<close> bounds the
  calls that are looked at.\<close>

type_synonym behaviour = "rw_result list \<Rightarrow> rw_op option"

fun drive :: "('s \<Rightarrow> rw_op \<Rightarrow> 's \<times> rw_result) \<Rightarrow> behaviour \<Rightarrow> nat \<Rightarrow> 's \<Rightarrow> (rw_op \<times> rw_result) list \<Rightarrow>
    's \<times> (rw_op \<times> rw_result) list" where
  "drive step h 0 s tr = (s, tr)"
| "drive step h (Suc n) s tr =
     (case h (map snd tr) of
        None \<Rightarrow> (s, tr)
      | Some op \<Rightarrow> (case step s op of (s1, res) \<Rightarrow> drive step h n s1 (tr @ [(op, res)])))"

section \<open>The recorder observes\<close>

text \<open>All a handler can tell: through the recorder a flush never fails, and a hijack that is not
  offered fails with another error.\<close>

fun through :: "rw_result \<Rightarrow> rw_result" where
  "through (Flushed e) = Flushed None"
| "through (HijackResult e) = HijackResult (if e = Some ErrNotSupported then Some ErrUnsupported else e)"
| "through res = res"

lemma recorder_op_server:
  "rec_w (fst (recorder_op rec op)) = fst (server_op (rec_w rec) op)"
  "snd (recorder_op rec op) = through (snd (server_op (rec_w rec) op))"
  by (cases op; simp add: recorder_WriteHeader_def recorder_Write_def recorder_Flush_def recorder_Hijack_def
      recorder_Unwrap_def server_Hijack_def Let_def split: prod.split)+

definition seen :: "(rw_op \<times> rw_result) list \<Rightarrow> (rw_op \<times> rw_result) list" where
  "seen tr = map (map_prod id through) tr"

lemma seen_simps [simp]:
  "seen [] = []" "seen tr @ [(op, through res)] = seen (tr @ [(op, res)])" "map snd (seen tr) = map through (map snd tr)"
  by (simp_all add: seen_def)

lemma recorder_drive:
  "snd (drive recorder_op h n rec (seen tr)) = seen (snd (drive server_op (h \<circ> map through) n (rec_w rec) tr))"
  "rec_w (fst (drive recorder_op h n rec (seen tr))) = fst (drive server_op (h \<circ> map through) n (rec_w rec) tr)"
proof (induction n arbitrary: rec tr)
  case (Suc n)
  {
    case 1 show ?case
      using recorder_op_server [of rec] Suc.IH(1)
      by (auto simp del: map_map split: option.split prod.split) (metis fst_conv snd_conv seen_simps(2))
  next
    case 2 show ?case
      using recorder_op_server [of rec] Suc.IH(2)
      by (auto simp del: map_map split: option.split prod.split) (metis fst_conv snd_conv seen_simps(2))
  }
qed simp_all

text \<open>A trace is a series of steps.\<close>

lemma drive_steps:
  obtains tr' where "snd (drive step h n s tr) = tr @ tr'"
    "fst (drive step h n s tr) = fold (\<lambda>op s. fst (step s op)) (map fst tr') s"
proof -
  have "\<exists>tr'. snd (drive step h n s tr) = tr @ tr' \<and>
    fst (drive step h n s tr) = fold (\<lambda>op s. fst (step s op)) (map fst tr') s"
  proof (induction n arbitrary: s tr)
    case (Suc n)
    show ?case
    proof (cases "h (map snd tr)")
      case (Some op)
      obtain s1 res where r: "step s op = (s1, res)" by (cases "step s op")
      from Suc.IH [of s1 "tr @ [(op, res)]"] obtain tr' where
        "snd (drive step h n s1 (tr @ [(op, res)])) = (tr @ [(op, res)]) @ tr'"
        "fst (drive step h n s1 (tr @ [(op, res)])) = fold (\<lambda>op s. fst (step s op)) (map fst tr') s1" by blast
      then show ?thesis by (intro exI [of _ "(op, res) # tr'"]) (simp add: Some r)
    qed simp
  qed simp
  with that show ?thesis by blast
qed

text \<open>What the recorder has recorded, by the calls made.\<close>

fun recorded_status :: "rw_op list \<Rightarrow> nat" where
  "recorded_status [] = 200"
| "recorded_status (OpWriteHeader status # ops) =
     (if 100 \<le> status \<and> status < 200 then recorded_status ops else status)"
| "recorded_status (OpWrite b # ops) = 200"
| "recorded_status (op # ops) = recorded_status ops"

text \<open>The status the server sends for these calls.\<close>

fun status_sent :: "bool \<Rightarrow> bool \<Rightarrow> rw_op list \<Rightarrow> nat option" where
  "status_sent fl hj [] = None"
| "status_sent fl hj (OpWriteHeader status # ops) =
     (if informational status then status_sent fl hj ops else Some status)"
| "status_sent fl hj (OpWrite b # ops) = Some 200"
| "status_sent fl hj (OpFlush # ops) = (if fl then Some 200 else status_sent fl hj ops)"
| "status_sent fl hj (OpHijack # ops) = (if hj then None else status_sent fl hj ops)"
| "status_sent fl hj (OpSetWriteDeadline d # ops) = status_sent fl hj ops"

text \<open>The recorder after some calls: the bytes it counted are those behind it, and the status is the
  first one it recorded.\<close>

definition run_ops :: "rw_op list \<Rightarrow> recorder \<Rightarrow> recorder" where
  "run_ops ops rec = fold (\<lambda>op s. fst (recorder_op s op)) ops rec"

lemma run_ops_simps [simp]: "run_ops [] rec = rec" "run_ops (op # ops) rec = run_ops ops (fst (recorder_op rec op))"
  by (simp_all add: run_ops_def)

lemma recorder_bytes:
  "rec_bytes rec = length (rw_Body (sw_rw (rec_w rec))) \<Longrightarrow>
   rec_bytes (run_ops ops rec) = length (rw_Body (sw_rw (rec_w (run_ops ops rec))))"
proof (induction ops arbitrary: rec)
  case (Cons op ops)
  have "rec_bytes (fst (recorder_op rec op)) = length (rw_Body (sw_rw (rec_w (fst (recorder_op rec op)))))"
    using Cons.prems
    by (cases op) (auto simp: recorder_WriteHeader_def recorder_Write_def recorder_Flush_def recorder_Hijack_def
        recorder_Unwrap_def server_WriteHeader_def server_Write_def server_Flush_def server_Hijack_def Let_def
        split: prod.split option.split)
  with Cons.IH show ?case by simp
qed simp

lemma status_kept: "rec_wroteHeader rec \<Longrightarrow> rec_status (run_ops ops rec) = rec_status rec"
proof (induction ops arbitrary: rec)
  case (Cons op ops)
  have "rec_wroteHeader (fst (recorder_op rec op)) \<and> rec_status (fst (recorder_op rec op)) = rec_status rec"
    using Cons.prems
    by (cases op) (auto simp: recorder_WriteHeader_def recorder_Write_def recorder_Flush_def recorder_Hijack_def
        recorder_Unwrap_def Let_def split: prod.split)
  with Cons.IH show ?case by simp
qed simp

lemma recorder_status:
  "\<not> rec_wroteHeader rec \<Longrightarrow> rec_status rec = 200 \<Longrightarrow> rec_status (run_ops ops rec) = recorded_status ops"
proof (induction ops arbitrary: rec)
  case (Cons op ops)
  show ?case
  proof (cases "rec_wroteHeader (fst (recorder_op rec op))")
    case True
    then have "rec_status (fst (recorder_op rec op)) = recorded_status (op # ops)"
      using Cons.prems
      by (cases op) (auto simp: recorder_WriteHeader_def recorder_Write_def recorder_Flush_def recorder_Hijack_def
          recorder_Unwrap_def Let_def split: prod.split_asm prod.split if_splits)
    with True show ?thesis by (simp add: status_kept)
  next
    case False
    then have "rec_status (fst (recorder_op rec op)) = 200 \<and> recorded_status (op # ops) = recorded_status ops"
      using Cons.prems
      by (cases op) (auto simp: recorder_WriteHeader_def recorder_Write_def recorder_Flush_def recorder_Hijack_def
          recorder_Unwrap_def Let_def split: prod.split_asm prod.split if_splits)
    with False Cons.IH show ?thesis by simp
  qed
qed simp

text \<open>The server keeps the first status it sends, and sends none once it is hijacked.\<close>

definition serve_ops :: "rw_op list \<Rightarrow> ServerWriter \<Rightarrow> ServerWriter" where
  "serve_ops ops s = fold (\<lambda>op s. fst (server_op s op)) ops s"

lemma serve_ops_simps [simp]: "serve_ops [] s = s" "serve_ops (op # ops) s = serve_ops ops (fst (server_op s op))"
  by (simp_all add: serve_ops_def)

lemmas server_defs = server_WriteHeader_def server_Write_def server_Flush_def server_Hijack_def

lemma rec_w_run: "rec_w (run_ops ops rec) = serve_ops ops (rec_w rec)"
  by (induction ops arbitrary: rec) (simp_all add: recorder_op_server)

lemma server_done:
  "sw_Hijacked s \<or> rw_Sent (sw_rw s) \<noteq> None \<Longrightarrow> rw_Sent (sw_rw (serve_ops ops s)) = rw_Sent (sw_rw s)"
proof (induction ops arbitrary: s)
  case (Cons op ops)
  have "(sw_Hijacked (fst (server_op s op)) \<or> rw_Sent (sw_rw (fst (server_op s op))) \<noteq> None) \<and>
      rw_Sent (sw_rw (fst (server_op s op))) = rw_Sent (sw_rw s)"
    using Cons.prems by (cases op) (auto simp: server_defs Let_def split: prod.split option.split)
  with Cons.IH show ?case unfolding serve_ops_simps by metis
qed simp

lemma server_status:
  "\<not> sw_Hijacked s \<Longrightarrow> rw_Sent (sw_rw s) = None \<Longrightarrow>
   sent_status (sw_rw (serve_ops ops s)) = status_sent (sw_Flusher s) (sw_Hijacker s) ops"
proof (induction ops arbitrary: s)
  case (Cons op ops)
  let ?s = "fst (server_op s op)"
  have c: "sw_Flusher ?s = sw_Flusher s" "sw_Hijacker ?s = sw_Hijacker s"
    by (cases op; auto simp: server_defs Let_def split: prod.split option.split)+
  show ?case
  proof (cases "sw_Hijacked ?s \<or> rw_Sent (sw_rw ?s) \<noteq> None")
    case True
    then have "sent_status (sw_rw ?s) = status_sent (sw_Flusher s) (sw_Hijacker s) (op # ops)"
      using Cons.prems by (cases op) (auto simp: server_defs sent_status_def Let_def informational_def
          split: prod.split option.split if_splits)
    with server_done [OF True, of ops] show ?thesis by (simp add: sent_status_def)
  next
    case False
    then have "status_sent (sw_Flusher s) (sw_Hijacker s) (op # ops) = status_sent (sw_Flusher s) (sw_Hijacker s) ops"
      using Cons.prems
      by (cases op) (auto simp: server_defs Let_def informational_def split: prod.split_asm option.split_asm if_splits)
    moreover from False have "\<not> sw_Hijacked ?s" "rw_Sent (sw_rw ?s) = None" by blast+
    ultimately show ?thesis using Cons.IH [of ?s] c by simp
  qed
qed (simp add: sent_status_def)

text \<open>The two agree when a final status or the body comes before any flush or hijack.\<close>

fun plain_start :: "rw_op list \<Rightarrow> bool" where
  "plain_start [] = True"
| "plain_start (OpWriteHeader status # ops) = (status \<noteq> 101 \<and> (informational status \<longrightarrow> plain_start ops))"
| "plain_start (OpWrite b # ops) = True"
| "plain_start (OpFlush # ops) = False"
| "plain_start (OpHijack # ops) = False"
| "plain_start (OpSetWriteDeadline d # ops) = plain_start ops"

lemma plain_start_agrees:
  "plain_start ops \<Longrightarrow> recorded_status ops = (case status_sent fl hj ops of None \<Rightarrow> 200 | Some s \<Rightarrow> s)"
  by (induction ops rule: plain_start.induct) (auto simp: informational_def)

end
