(* ===== verification/RecorderProps.thy ===== *)
theory RecorderProps imports
  Recorder
begin

text \<open>What the access log may rely on: the recorder changes nothing and sees what is sent.\<close>

text \<open>
  C32. The recorder observes. Whatever a handler does with its writer, flushing and hijacking
  included, behind the recorder the server does the same for the same calls, and the handler sees the
  same results, but for a flush error, which it no longer sees, and the error of a missing hijack. The
  byte count is that of the body, the status the first final one; it is the status sent unless the
  handler answers 101, or flushes or hijacks before it has answered.
\<close>

theorem recorder_observes:
  assumes "\<not> sw_Hijacked w" "rw_Sent (sw_rw w) = None" "rw_Body (sw_rw w) = []"
    and "drive recorder_op h n (new_recorder w) [] = (rec, tr)"
    and "drive server_op (h \<circ> map through) n w [] = (w', tr')"
  shows "rec_w rec = w' \<and> map fst tr = map fst tr' \<and> map snd tr = map through (map snd tr') \<and>
    rec_bytes rec = length (rw_Body (sw_rw w')) \<and>
    rec_status rec = recorded_status (map fst tr) \<and>
    sent_status (sw_rw w') = status_sent (sw_Flusher w) (sw_Hijacker w) (map fst tr) \<and>
    (plain_start (map fst tr) \<longrightarrow> rec_status rec = observed_status (sw_rw w'))"
proof -
  have n: "rec_w (new_recorder w) = w" "rec_bytes (new_recorder w) = length (rw_Body (sw_rw (rec_w (new_recorder w))))"
    "\<not> rec_wroteHeader (new_recorder w)" "rec_status (new_recorder w) = 200"
    using assms(3) by (simp_all add: new_recorder_def)
  have tr: "tr = seen tr'" and w: "rec_w rec = w'"
    using recorder_drive [of h n "new_recorder w" "[]"] assms(4,5) by (simp_all add: n(1))
  obtain tr1 where "tr = tr1" "rec = run_ops (map fst tr1) (new_recorder w)"
    using drive_steps [of recorder_op h n "new_recorder w" "[]"] assms(4) by (auto simp: run_ops_def)
  then have r: "rec = run_ops (map fst tr) (new_recorder w)" by simp
  have s: "w' = serve_ops (map fst tr) w" using rec_w_run [of "map fst tr" "new_recorder w"] w by (simp add: r n(1))
  have st: "rec_status rec = recorded_status (map fst tr)" unfolding r by (rule recorder_status [OF n(3,4)])
  have se: "sent_status (sw_rw w') = status_sent (sw_Flusher w) (sw_Hijacker w) (map fst tr)"
    unfolding s by (rule server_status [OF assms(1,2)])
  have "rec_bytes rec = length (rw_Body (sw_rw w'))" using recorder_bytes [OF n(2)] by (simp add: r flip: w)
  moreover have "map fst tr = map fst tr'" "map snd tr = map through (map snd tr')" by (simp_all add: tr seen_def)
  moreover have "plain_start (map fst tr) \<longrightarrow> rec_status rec = observed_status (sw_rw w')"
    unfolding st observed_status_def se using plain_start_agrees by blast
  ultimately show ?thesis using w st se by blast
qed

text \<open>The witness: a handler that streams, whose second write is cut short and whose last flush fails;
  and one that switches protocols.\<close>

definition flaky_writer :: ServerWriter where
  "flaky_writer = \<lparr>sw_rw = new_writer, sw_Flusher = True, sw_Hijacker = True, sw_Hijacked = False, sw_Flushed = 0,
     sw_Deadline = None, sw_Fails = (\<lambda>i. if i < 2 then None else Some 3), sw_Outputs = 0\<rparr>"

definition in_order :: "rw_op list \<Rightarrow> behaviour" where
  "in_order ops rs = (if length rs < length ops then Some (ops ! length rs) else None)"

definition streaming :: "rw_op list" where
  "streaming = [OpWriteHeader 103, OpSetWriteDeadline 7, OpWriteHeader 404, OpWrite ''abcd'', OpFlush, OpWrite ''efgh'', OpFlush]"

lemma streamed:
  "map_prod (\<lambda>rec. (rec_status rec, rec_bytes rec, sw_Flushed (rec_w rec), rw_Body (sw_rw (rec_w rec)))) (map snd)
     (drive recorder_op (in_order streaming) 9 (new_recorder flaky_writer) []) =
   ((404, 7, 4, ''abcdefg''),
    [Done, DeadlineSet, Done, Wrote 4 None, Flushed None, Wrote 3 (Some ErrConn), Flushed None])"
  "map snd (snd (drive server_op (in_order streaming) 9 flaky_writer [])) =
   [Done, DeadlineSet, Done, Wrote 4 None, Flushed None, Wrote 3 (Some ErrConn), Flushed (Some ErrConn)]"
  by code_simp+

lemma switched:
  "rec_status (fst (drive recorder_op (in_order [OpWriteHeader 101, OpHijack]) 9 (new_recorder flaky_writer) [])) = 200"
  "sent_status (sw_rw (fst (drive server_op (in_order [OpWriteHeader 101, OpHijack]) 9 flaky_writer []))) = Some 101"
  by code_simp+

lemma in_order_through: "in_order ops \<circ> map through = in_order ops"
  by (simp add: in_order_def fun_eq_iff)

lemma streamed_ops:
  "map fst (snd (drive recorder_op (in_order streaming) 9 (new_recorder flaky_writer) [])) = streaming"
  by code_simp

lemma recorder_observes_witness:
  "map snd (snd (drive recorder_op (in_order streaming) 9 (new_recorder flaky_writer) [])) =
     map through (map snd (snd (drive server_op (in_order streaming) 9 flaky_writer []))) \<and>
   rec_bytes (fst (drive recorder_op (in_order streaming) 9 (new_recorder flaky_writer) [])) =
     length (rw_Body (sw_rw (fst (drive server_op (in_order streaming) 9 flaky_writer [])))) \<and>
   rec_status (fst (drive recorder_op (in_order streaming) 9 (new_recorder flaky_writer) [])) = 404 \<and>
   sent_status (sw_rw (fst (drive server_op (in_order streaming) 9 flaky_writer []))) = Some 404"
proof -
  have w: "\<not> sw_Hijacked flaky_writer" "rw_Sent (sw_rw flaky_writer) = None" "rw_Body (sw_rw flaky_writer) = []"
    by (simp_all add: flaky_writer_def new_writer_def)
  note r = recorder_observes [OF w prod.collapse [symmetric] prod.collapse [symmetric], of "in_order streaming" 9,
      unfolded in_order_through]
  have "recorded_status streaming = 404" "status_sent True True streaming = Some 404" by code_simp+
  moreover have "sw_Flusher flaky_writer" "sw_Hijacker flaky_writer" by (simp_all add: flaky_writer_def)
  ultimately show ?thesis using r unfolding streamed_ops by (simp del: drive.simps map_map)
qed

end
