(* ===== verification/Spec2Isabelle.thy ===== *)
theory Spec2Isabelle imports
  SealProps
  FaultProps
  ConfigProps
  AuthorizeProps
  CallbackProps
  TokenProps
  UpstreamProps
  RoutesProps
  ProcessProps
  SessionProps
  RecorderProps
begin

text \<open>
  strava-auth-proxy lets many virtual OAuth clients share one Strava application. It serves Strava's
  OAuth paths itself, swaps the virtual client's credentials for the real ones towards Strava, and
  passes every API request through. It keeps no session: the context of a login travels through
  Strava and back inside sealed tokens. This development models the served program, from the bytes
  of a request to the bytes of the answer, and proves what makes it correct.

  \<^bold>\<open>How the parts interact.\<close> A browser request to \<open>/oauth/authorize\<close> is checked against the
  registry and redirected to Strava with a sealed \<open>state\<close>; Strava sends the browser to
  \<open>/oauth/callback\<close>, which opens the state, checks the client, the redirect URI and the nonce, and
  redirects to the client with a sealed \<open>code\<close>; the client posts that code to \<open>/oauth/token\<close>,
  which opens it, checks that it was sealed for this client, and posts the code inside with the real
  credentials to Strava. All other traffic below \<open>/api/v3/\<close> goes through the reverse proxy. Sealing
  and opening read the key ring of the configuration of the moment, which the serve loop replaces on
  SIGHUP.

  \<^bold>\<open>Conventions.\<close> A Go string is a \<open>char list\<close>, one \<open>char\<close> per byte. Durations are \<open>int\<close>
  nanoseconds with Go's 64-bit bounds written out (\<open>GoTime\<close>), SHA-256 works on \<open>32 word\<close>. A
  fallible function returns an error value or a result. A handler is a function of the
  environment, the configuration, the request and a world (response writer, counters, log, calls
  made), and returns the new world; the order of the writes is the order of the code. The record
  \<open>Env\<close> of theory \<open>Server\<close> holds what a request asks of the outside: the clock, by the number of
  times it was read, the random bytes, the answer to each upstream request, and the compressor. Definitions of a component stand in one theory, its laws in a sibling ending
  in \<open>Laws\<close>, and its properties in a sibling ending in \<open>Props\<close>, where also the concrete inputs of
  the witnesses are.

  \<^bold>\<open>The standard library, as far as the program uses it.\<close>
  \<open>GoStrings\<close> (strings, strconv, unicode), \<open>GoTime\<close> (durations, the clock), \<open>Encoding\<close> (base64, hex),
  \<open>Sha256\<close> (SHA-256, HMAC), \<open>Utf8\<close>, \<open>Json\<close> and \<open>JsonParse\<close> (Marshal, Unmarshal, with Go's nesting
  limit), \<open>Flate\<close> (the interface to the compressor, and an instance that stores blocks), \<open>GoQuery\<close>
  and \<open>GoUrl\<close> (escaping, queries, URLs), \<open>GoHttp\<close> (headers, the response writer, redirects),
  \<open>GoForm\<close> (requests, ParseForm), \<open>GoMux\<close> (ServeMux). The locale \<open>text_codec\<close> of \<open>Encoding\<close> states
  what an encoding of bytes into text promises; base64 in both variants, hex, and query escaping
  are its interpretations.

  \<^bold>\<open>The program.\<close>
  \<^item> \<open>Seal\<close>: \<open>internal/seal/seal.go\<close>. Key ring, payloads, \<open>Seal\<close>, \<open>Open\<close> with the time window. The
    locale \<open>envelope_payload\<close> of \<open>SealLaws\<close> states what a payload type has to provide; the state
    and the code payload are its interpretations. \<open>SealProps\<close>: round trips, also across a key
    rotation, exactly which tokens are accepted, that nothing is looked at before the MAC, domain
    separation unless the payload and MAC of the token itself are a coincidence of HMAC, and the failures.
  \<^item> \<open>Fault\<close>: \<open>internal/fault/fault.go\<close> and \<open>internal/metrics/metrics.go\<close>. \<open>FaultProps\<close>: the bodies byte
    for byte, what a client reads back from them, and that the error page carries no markup.
  \<^item> \<open>Config\<close>: \<open>internal/config/config.go\<close> and \<open>secret.go\<close>. \<open>ConfigLaws\<close> states declaratively what a
    usable configuration is and, in the locale \<open>reloadable\<close>, what a holder of a reloadable value
    promises; \<open>ConfigProps\<close>: validation decides that statement, loading establishes it, reloading
    refines the abstract holder, and what is loaded depends on nothing but the listed variables and the
    files that four of them name.
  \<^item> \<open>Server\<close>: the shared part of \<open>internal/oauth\<close> (\<open>handler.go\<close>); \<open>Authorize\<close>, \<open>Callback\<close>, \<open>Token\<close>:
    \<open>authorize.go\<close>, \<open>callback.go\<close>, \<open>token.go\<close> and \<open>revoke.go\<close>, one definition per handler and per
    step of it. \<open>UrlLaws\<close> is about rendered URLs, \<open>PlainUrl\<close> about base URLs that are a scheme and a host. The properties characterise each endpoint on
    every branch: who is redirected and where to, what is sent to Strava and on whose authority,
    what is counted.
  \<^item> \<open>Endpoints\<close>: the locales \<open>oauth_handler\<close> and \<open>browser_handler\<close>, the contract on which middleware
    and routes rely, with an interpretation on each of the six endpoints.
  \<^item> \<open>Httpmid\<close>: \<open>internal/httpmid/mid.go\<close>, the hardening headers and the access log. \<open>Recorder\<close>: the response
    recorder, driven by a handler that chooses each call by the results of those before;
    \<open>RecorderProps\<close>: it changes nothing the handler can tell, but for flush errors, and its status
    and byte count are exact.
  \<^item> \<open>Upstream\<close>: \<open>internal/upstream/proxy.go\<close> and \<open>transport.go\<close>. \<open>UpstreamProps\<close>: what is sent to the
    API for a request, and what is answered when that fails.
  \<^item> \<open>Routes\<close>: the route registration of \<open>handler.go\<close> and the handler chains of
    \<open>cmd/strava-auth-proxy/main.go\<close>. \<open>RoutesProps\<close>: the routing tree
    equals a table, and what holds of every request whatever its route, its one access record among it.
  \<^item> \<open>App\<close>: the rest of \<open>main.go\<close> and \<open>healthcheck.go\<close>. The serve loop is the step
    relation \<open>serve_step\<close> over the events its select receives; \<open>AppProps\<close> has its invariant, by rule
    induction, and that it returns. \<open>Process\<close> is the process around it: \<open>main\<close> with its exit codes, and
    the step relation \<open>process_step\<close> in which signals, the goroutines of the two listeners, their
    channel and the loop interleave, from the moment both goroutines are launched. A hangup is kept only
    between \<open>signal.Notify\<close> and \<open>signal.Stop\<close>; before and after it kills, as its default effect is.
    \<open>ProcessProps\<close>: no goroutine blocks, a failure stays on its way until the loop returns and can end the
    process, no registered hangup is lost, how the process ends and what is open then.
  \<^item> \<open>FakeStrava\<close> and \<open>FakeApi\<close>: \<open>internal/fakestrava\<close>, the Strava of the integration tests, one
    definition per critical section of its lock. \<open>FakeLaws\<close> is the machine that steps from section
    to section; \<open>FakeProps\<close> says over whole traces which codes and refresh tokens are accepted.
  \<^item> \<open>Login\<close>: the proxy in front of that Strava. A request is made from the response before it: the
    browser parses the Location, connects to its host and asks for its path and query (\<open>follow\<close>); a call of
    the proxy is a request to the fake, its response the reply. The requests to the proxy go through its
    public handler, those to the fake through its mux.
    \<open>LoginProps\<close>: a login, from the authorize request to the tokens, completes, also when the
    configuration is reloaded and the key rotated between its requests, for base URLs that are a scheme and a host, as
    Strava's is (\<open>plain_addresses\<close>).
    \<open>Session\<close> is what follows, the renewal and the revocation of a token; \<open>SessionProps\<close>: a revoked
    token is dead for every client, whatever Strava does next.

  \<^bold>\<open>Termination and bounds.\<close> All definitions are total. Loops over bytes are structural
  recursions or recursions with a measure, the JSON parser runs over the list of its tokens. The
  one loop with fuel is \<open>media_params\<close> of \<open>GoForm\<close>: its fuel is the length of its input, of which
  every round consumes at least the semicolon it starts with. The SHA-256 padding loop and the
  block loop are as long as the message. The serve loop, which need not end, is a relation.

  \<^bold>\<open>Parameters and hypotheses.\<close> The compressor of \<open>compress/flate\<close> is a parameter, of which only
  losslessness is assumed (\<open>flate_lossless\<close>, in \<open>Flate\<close>); an instance that emits stored blocks shows it
  can hold, and the witnesses use it. Strava, the network and the file system are functions in the
  environment, of which nothing is assumed. No property assumes that HMAC is secure: the safety
  properties of the envelope say which tokens verify, or exhibit a collision.

  \<^bold>\<open>Not modelled.\<close>
  \<^item> Texts of errors of the standard library, and so the \<open>error\<close> attribute of log lines that quote
    them; the sentinel an error wraps is modelled. \<open>Duration.String\<close>: a logged TTL is its count of nanoseconds.
    \<open>Duration.Seconds\<close> is a division of integers in \<open>nonceCookie\<close>; the floating-point one the code
    truncates can differ by a second only for a TTL of more than half a year.
  \<^item> The connection switch after a 101 and response trailers in the reverse proxy, so that no handler
    of the model flushes or hijacks before it answers, which is where \<open>recorder_observes\<close> says that
    the recorded status is the one sent; \<open>AccessLog\<close> reads the status and the size off the response.
    HTTP/1.0 specifics; absolute-form request targets; status codes below 100 or above
    999, on which net/http panics.
  \<^item> Guards against a nil logger, holder or configuration, which the program never passes.
  \<^item> Goroutines: the counters are updated atomically and the published configuration is read with one
    atomic load, so a request is one step between events of the serve loop.
  \<^item> Sockets, signals and the two \<open>http.Server\<close> values: which addresses bind, which event the select
    takes next and how a shutdown ends come from the environment; a shutdown is one step of the
    process, which ends with the unregistering of the hangup channel and the closing of the listeners.
    A hangup while the configuration is loaded, before both goroutines exist, kills the process too and
    is not a step of the model. The expvar page is a parameter.
  \<^item> \<open>integration/doc.go\<close>, which has no code.
\<close>

end
